(* ===== verification/Prelude.thy ===== *)
theory Prelude
  imports Complex_Main "HOL-Library.AList" "HOL-Library.Char_ord" "HOL-Library.Word"
begin

text \<open>
  Shared ground of the development: Go values that every component uses.

  \<^item> Errors (\<open>goerr\<close>): an error value is kept as the format string and the arguments that
    built it, with its wrapped cause, so that \<open>errors.Is\<close> and the \<open>apierrors\<close> predicates can be
    computed; the rendered text is left to \<open>fmt\<close>.
  \<^item> Time (\<open>gotime\<close>, \<open>duration\<close>): nanoseconds as \<open>int\<close>; a duration is a 64-bit integer in the
    code, so subtraction of durations wraps (\<open>wrap64\<close>) and \<open>time.Since\<close> saturates (\<open>since\<close>).
  \<^item> Floating point (\<open>f64\<close>): finite values as rationals, infinities and NaN kept apart.
  \<^item> Maps the code ranges over are association lists with distinct keys; the order of the list is
    the (arbitrary) iteration order of the Go map.
\<close>

named_theorems go_defs \<open>definitions a component unfolds when its operations are executed\<close>
named_theorems inv_intros \<open>introduction rules of the invariants\<close>

section \<open>Errors\<close>

datatype api_reason = NotFound | Conflict | AlreadyExists | Forbidden | OtherReason string

text \<open>
  \<open>Errorf f as\<close> is \<open>fmt.Errorf(f, as...)\<close> without a wrapped error, \<open>Wrapf f as e\<close> the same with a
  \<open>%w\<close> for \<open>e\<close>, \<open>ErrVar n\<close> a package-level sentinel, \<open>ApiError\<close> a Kubernetes status error, and
  \<open>Panicked r\<close> a run-time panic unwinding through the callers (it is no error value, but it leaves
  every function on the path at once, as an early return does).
\<close>

datatype goerr =
    Errorf string "string list"
  | Wrapf string "string list" goerr
  | ErrVar string
  | ApiError api_reason string
  | Panicked string

fun err_chain :: "goerr \<Rightarrow> goerr list" where
  "err_chain (Wrapf f as e) = Wrapf f as e # err_chain e"
| "err_chain e = [e]"

definition errors_is :: "goerr \<Rightarrow> string \<Rightarrow> bool" where
  "errors_is e n \<longleftrightarrow> ErrVar n \<in> set (err_chain e)"

fun api_reason_of :: "goerr \<Rightarrow> api_reason option" where
  "api_reason_of (Wrapf f as e) = api_reason_of e"
| "api_reason_of (ApiError r m) = Some r"
| "api_reason_of e = None"

abbreviation "IsNotFound e \<equiv> api_reason_of e = Some NotFound"
abbreviation "IsConflict e \<equiv> api_reason_of e = Some Conflict"

fun panicked :: "goerr \<Rightarrow> bool" where
  "panicked (Panicked r) = True"
| "panicked e = False"

lemma errors_is_simps [simp]:
  "errors_is (Errorf f as) n = False"
  "errors_is (Wrapf f as e) n = errors_is e n"
  "errors_is (ErrVar m) n = (m = n)"
  "errors_is (ApiError r t) n = False"
  "errors_is (Panicked p) n = False"
  by (auto simp: errors_is_def)

section \<open>Time and durations\<close>

type_synonym gotime = int
type_synonym duration = int

definition max_int64 :: int where "max_int64 = 2 ^ 63 - 1"
definition min_int64 :: int where "min_int64 = - (2 ^ 63)"

definition wrap64 :: "int \<Rightarrow> int" where
  "wrap64 x = (x + 2 ^ 63) mod 2 ^ 64 - 2 ^ 63"

definition sat64 :: "int \<Rightarrow> int" where
  "sat64 x = (if x > max_int64 then max_int64 else if x < min_int64 then min_int64 else x)"

definition since :: "gotime \<Rightarrow> gotime \<Rightarrow> duration" where
  "since now t = sat64 (now - t)"

definition in_int64 :: "int \<Rightarrow> bool" where
  "in_int64 x \<longleftrightarrow> min_int64 \<le> x \<and> x \<le> max_int64"

abbreviation "ns_second \<equiv> (1000000000 :: int)"
abbreviation "ns_minute \<equiv> (60 * 1000000000 :: int)"
abbreviation "ns_hour \<equiv> (3600 * 1000000000 :: int)"

lemma wrap64_id [simp]: "in_int64 x \<Longrightarrow> wrap64 x = x"
  by (simp add: wrap64_def in_int64_def min_int64_def max_int64_def)

lemma in_int64_wrap64 [simp]: "in_int64 (wrap64 x)"
proof -
  have "0 \<le> (x + 2 ^ 63) mod 2 ^ 64" "(x + 2 ^ 63) mod 2 ^ 64 < (2 ^ 64 :: int)" by simp_all
  then show ?thesis by (simp add: wrap64_def in_int64_def min_int64_def max_int64_def)
qed

lemma in_int64_sat64 [simp]: "in_int64 (sat64 x)"
  by (auto simp: sat64_def in_int64_def min_int64_def max_int64_def)

lemma sat64_id [simp]: "in_int64 x \<Longrightarrow> sat64 x = x"
  by (auto simp: sat64_def in_int64_def)

lemma since_ge_iff: "0 \<le> d \<Longrightarrow> in_int64 d \<Longrightarrow> d \<le> since now t \<longleftrightarrow> d \<le> now - t"
  by (auto simp: since_def sat64_def in_int64_def min_int64_def max_int64_def)

lemma since_nonneg [simp]: "t \<le> now \<Longrightarrow> 0 \<le> since now t"
  by (auto simp: since_def sat64_def min_int64_def max_int64_def)

section \<open>Floating point\<close>

datatype f64 = Fin rat | PInf | NInf | FNaN

fun f64_lt :: "f64 \<Rightarrow> f64 \<Rightarrow> bool" where
  "f64_lt (Fin a) (Fin b) = (a < b)"
| "f64_lt NInf (Fin b) = True"
| "f64_lt NInf PInf = True"
| "f64_lt (Fin a) PInf = True"
| "f64_lt x y = False"

fun f64_le :: "f64 \<Rightarrow> f64 \<Rightarrow> bool" where
  "f64_le FNaN y = False"
| "f64_le x FNaN = False"
| "f64_le NInf y = True"
| "f64_le x PInf = True"
| "f64_le (Fin a) (Fin b) = (a \<le> b)"
| "f64_le x y = False"

lemma f64_lt_irrefl [simp]: "\<not> f64_lt x x" by (cases x) auto

lemma f64_lt_imp_le: "f64_lt x y \<Longrightarrow> f64_le x y"
  by (cases x; cases y) auto

section \<open>Association lists\<close>

abbreviation adom :: "('k \<times> 'v) list \<Rightarrow> 'k set" where
  "adom m \<equiv> fst ` set m"

definition amap_ok :: "('k \<times> 'v) list \<Rightarrow> bool" where
  "amap_ok m \<longleftrightarrow> distinct (map fst m)"

lemma amap_ok_Nil [simp, inv_intros]: "amap_ok []"
  by (simp add: amap_ok_def)

lemma amap_ok_update [simp, inv_intros]: "amap_ok m \<Longrightarrow> amap_ok (AList.update k v m)"
  by (simp add: amap_ok_def distinct_update)

lemma amap_ok_delete [simp, inv_intros]: "amap_ok m \<Longrightarrow> amap_ok (AList.delete k m)"
  by (simp add: amap_ok_def distinct_delete)

lemma amap_ok_filter [simp, inv_intros]: "amap_ok m \<Longrightarrow> amap_ok (filter P m)"
  by (auto simp: amap_ok_def distinct_map intro: inj_on_subset)

lemma length_update_le: "length (AList.update k v m) \<le> Suc (length m)"
  by (induction m) auto

lemma length_update_new: "k \<notin> adom m \<Longrightarrow> length (AList.update k v m) = Suc (length m)"
  by (induction m) auto

lemma length_update_old: "k \<in> adom m \<Longrightarrow> length (AList.update k v m) = length m"
  by (induction m) auto

lemma map_of_mem_iff: "amap_ok m \<Longrightarrow> map_of m k = Some v \<longleftrightarrow> (k, v) \<in> set m"
  by (simp add: amap_ok_def map_of_eq_Some_iff)

lemma map_of_filter_key:
  "amap_ok m \<Longrightarrow> map_of (filter P m) k =
     (case map_of m k of Some v \<Rightarrow> if P (k, v) then Some v else None | None \<Rightarrow> None)"
  by (induction m) (auto simp: amap_ok_def map_of_eq_None_iff split: option.splits if_splits)

lemma delete_filter: "AList.delete k m = filter (\<lambda>p. fst p \<noteq> k) m"
  by (induction m) auto

section \<open>Lists\<close>

lemma takeWhile_all: "takeWhile P xs = xs \<longleftrightarrow> (\<forall>x\<in>set xs. P x)"
  by (induction xs) auto

lemma filter_fixpoint: "filter P (filter P xs) = filter P xs"
  by simp

lemmas go_splits = option.splits sum.splits prod.splits if_splits

end
