(* ===== verification/GoStrings.thy ===== *)
theory GoStrings
  imports Prelude
begin

text \<open>
  Go strings are byte sequences: a \<open>string\<close> of HOL, one \<open>char\<close> per byte. Ranging over a string and
  the functions of package \<open>strings\<close> that work on runes decode UTF-8 first; \<open>decode_rune\<close> is
  \<open>utf8.DecodeRuneInString\<close> (an ill-formed sequence gives U+FFFD with width 1) and \<open>runes\<close> the
  sequence of runes a \<open>for range\<close> loop sees, each with the bytes it was read from. The lemmas give
  the round trip between \<open>encode_rune\<close> and \<open>runes\<close>, and that the pieces of \<open>runes s\<close> are \<open>s\<close>.
\<close>

type_synonym rune = nat

abbreviation byte :: "char \<Rightarrow> nat" where
  "byte c \<equiv> of_char c"

abbreviation RuneError :: rune where
  "RuneError \<equiv> 65533"

definition cont :: "nat \<Rightarrow> bool" where
  "cont b \<longleftrightarrow> 128 \<le> b \<and> b < 192"

definition second_ok :: "nat \<Rightarrow> nat \<Rightarrow> bool" where
  "second_ok b0 b1 \<longleftrightarrow>
     (if b0 = 224 then 160 else if b0 = 240 then 144 else 128) \<le> b1 \<and>
     b1 \<le> (if b0 = 237 then 159 else if b0 = 244 then 143 else 191)"

fun decode_bytes :: "nat list \<Rightarrow> rune \<times> nat" where
  "decode_bytes [] = (RuneError, 0)"
| "decode_bytes (b0 # bs) =
    (if b0 < 128 then (b0, 1)
     else if b0 < 194 \<or> 244 < b0 then (RuneError, 1)
     else if b0 < 224 then
       (case bs of b1 # _ \<Rightarrow>
           if cont b1 then (b0 mod 32 * 64 + b1 mod 64, 2) else (RuneError, 1)
        | [] \<Rightarrow> (RuneError, 1))
     else if b0 < 240 then
       (case bs of b1 # b2 # _ \<Rightarrow>
           if second_ok b0 b1 \<and> cont b2
           then (b0 mod 16 * 4096 + b1 mod 64 * 64 + b2 mod 64, 3) else (RuneError, 1)
        | _ \<Rightarrow> (RuneError, 1))
     else
       (case bs of b1 # b2 # b3 # _ \<Rightarrow>
           if second_ok b0 b1 \<and> cont b2 \<and> cont b3
           then (b0 mod 8 * 262144 + b1 mod 64 * 4096 + b2 mod 64 * 64 + b3 mod 64, 4)
           else (RuneError, 1)
        | _ \<Rightarrow> (RuneError, 1)))"

definition decode_rune :: "string \<Rightarrow> rune \<times> nat" where
  "decode_rune s = decode_bytes (map of_char (take 4 s))"

definition valid_rune :: "rune \<Rightarrow> bool" where
  "valid_rune r \<longleftrightarrow> r < 55296 \<or> 57344 \<le> r \<and> r \<le> 1114111"

definition encode_bytes :: "rune \<Rightarrow> nat list" where
  "encode_bytes r =
    (if r < 128 then [r]
     else if r < 2048 then [192 + r div 64, 128 + r mod 64]
     else if \<not> valid_rune r then [239, 191, 189]
     else if r < 65536 then [224 + r div 4096, 128 + r div 64 mod 64, 128 + r mod 64]
     else [240 + r div 262144, 128 + r div 4096 mod 64, 128 + r div 64 mod 64, 128 + r mod 64])"

definition encode_rune :: "rune \<Rightarrow> string" where
  "encode_rune r = map char_of (encode_bytes r)"

lemma decode_bytes_width: "bs \<noteq> [] \<Longrightarrow> 0 < snd (decode_bytes bs)"
  by (cases bs) (auto split: list.splits)

lemma decode_bytes_width_le: "snd (decode_bytes bs) \<le> length bs"
  by (cases bs) (auto split: list.splits)

lemma decode_rune_width [simp]: "s \<noteq> [] \<Longrightarrow> 0 < snd (decode_rune s)"
  by (simp add: decode_rune_def decode_bytes_width)

lemma decode_rune_width_0 [simp]: "snd (decode_rune s) = 0 \<longleftrightarrow> s = []"
  by (cases "s = []") (simp_all add: decode_rune_def decode_bytes_width [THEN less_imp_neq, symmetric])

lemma decode_rune_width_le: "snd (decode_rune s) \<le> length s"
  using decode_bytes_width_le [of "map of_char (take 4 s)"] by (simp add: decode_rune_def)

lemma decode_rune_widthD: "(r, w) = decode_rune s \<Longrightarrow> s \<noteq> [] \<Longrightarrow> 0 < w"
  by (metis decode_rune_width snd_conv)

function runes :: "string \<Rightarrow> (rune \<times> string) list" where
  "runes s = (if s = [] then [] else
     (case decode_rune s of (r, w) \<Rightarrow> (r, take w s) # runes (drop w s)))"
  by auto
termination
  by (relation "measure length") (auto dest: decode_rune_widthD)

declare runes.simps [simp del]

lemma runes_Nil [simp]: "runes [] = []"
  by (simp add: runes.simps)

lemma runes_step: "s \<noteq> [] \<Longrightarrow>
    runes s = (fst (decode_rune s), take (snd (decode_rune s)) s) # runes (drop (snd (decode_rune s)) s)"
  by (subst runes.simps) (simp add: case_prod_unfold)

lemma runes_bytes: "concat (map snd (runes s)) = s"
proof (induction s rule: length_induct)
  case (1 s)
  show ?case
  proof (cases "s = []")
    case False
    then have "length (drop (snd (decode_rune s)) s) < length s" by simp
    with 1 False show ?thesis by (simp add: runes_step)
  qed simp
qed

lemma runes_eq_Nil [simp]: "runes s = [] \<longleftrightarrow> s = []"
  by (cases "s = []") (simp_all add: runes_step)

lemma valid_rune_ascii [simp]: "r < 128 \<Longrightarrow> valid_rune r"
  by (simp add: valid_rune_def)

text \<open>ASCII bytes decode to themselves.\<close>

lemma decode_rune_ascii: "byte c < 128 \<Longrightarrow> decode_rune (c # s) = (byte c, 1)"
  by (simp add: decode_rune_def)

lemma runes_ascii_Cons: "byte c < 128 \<Longrightarrow> runes (c # s) = (byte c, [c]) # runes s"
  by (simp add: runes_step decode_rune_ascii)

lemma runes_ascii: "\<forall>c\<in>set s. byte c < 128 \<Longrightarrow> runes s = map (\<lambda>c. (byte c, [c])) s"
  by (induction s) (simp_all add: runes_ascii_Cons)

text \<open>Encoding a rune and decoding it again gives the rune back.\<close>

lemma mod_offset: "x < m \<Longrightarrow> (k * m + x) mod m = (x :: nat)"
  by simp

lemmas utf8_mods = mod_offset [of _ 32 6, simplified] mod_offset [of _ 16 14, simplified]
  mod_offset [of _ 8 30, simplified] mod_offset [of _ 64 2, simplified]

lemma split64: "r = r div 64 * 64 + (r :: nat) mod 64"
  by simp

lemma split4096: "r = r div 4096 * 4096 + r div 64 mod 64 * 64 + (r :: nat) mod 64"
  using split64 [of r] split64 [of "r div 64"] div_mult2_eq [of r 64 64, simplified] by linarith

lemma split262144:
  "r = r div 262144 * 262144 + r div 4096 mod 64 * 4096 + r div 64 mod 64 * 64 + (r :: nat) mod 64"
  using split4096 [of r] split64 [of "r div 4096"] div_mult2_eq [of r 4096 64, simplified] by linarith

lemma decode_encode_bytes2:
  assumes "128 \<le> r" "r < 2048"
  shows "decode_bytes (encode_bytes r @ bs) = (r, 2)"
proof -
  have q: "2 \<le> r div 64" "r div 64 < 32" using assms by auto
  then show ?thesis using assms
    by (simp add: encode_bytes_def cont_def utf8_mods)
qed

lemma decode_encode_bytes3:
  assumes a: "2048 \<le> r" "r < 65536" "valid_rune r"
  shows "decode_bytes (encode_bytes r @ bs) = (r, 3)"
proof -
  define x y z where d: "x = r div 4096" "y = r div 64 mod 64" "z = r mod 64"
  have r: "r = x * 4096 + y * 64 + z" unfolding d by (rule split4096)
  have x: "x < 16" and y: "y < 64" and z: "z < 64" using a d by auto
  have 1: "x = 0 \<Longrightarrow> 32 \<le> y" using a(1) r z by linarith
  have 2: "x = 13 \<Longrightarrow> y < 32" using a(3) r y z unfolding valid_rune_def by linarith
  have e: "encode_bytes r = [224 + x, 128 + y, 128 + z]"
    using a d by (simp add: encode_bytes_def)
  have s: "second_ok (224 + x) (128 + y)" using 1 2 x y by (auto simp: second_ok_def)
  show ?thesis unfolding e using x y z s
    by (simp add: cont_def utf8_mods r)
qed

lemma decode_encode_bytes4:
  assumes a: "65536 \<le> r" "valid_rune r"
  shows "decode_bytes (encode_bytes r @ bs) = (r, 4)"
proof -
  have r1: "r \<le> 1114111" using a by (simp add: valid_rune_def)
  define w x y z where d: "w = r div 262144" "x = r div 4096 mod 64" "y = r div 64 mod 64" "z = r mod 64"
  have r: "r = w * 262144 + x * 4096 + y * 64 + z" unfolding d by (rule split262144)
  have b: "w < 5" "x < 64" "y < 64" "z < 64" using r1 d by auto
  have 1: "w = 0 \<Longrightarrow> 16 \<le> x" using a(1) r b by linarith
  have 2: "w = 4 \<Longrightarrow> x < 16" using r1 r b by linarith
  have e: "encode_bytes r = [240 + w, 128 + x, 128 + y, 128 + z]"
    using a d by (simp add: encode_bytes_def)
  have s: "second_ok (240 + w) (128 + x)" using 1 2 b by (auto simp: second_ok_def)
  have w: "(240 + w) mod 8 = w" using utf8_mods(3) [of w] b by simp
  show ?thesis unfolding e using b s w
    by (simp add: cont_def utf8_mods r)
qed

lemma length_encode_bytes_le: "length (encode_bytes r) \<le> 4" "encode_bytes r \<noteq> []"
  by (auto simp: encode_bytes_def)

lemma encode_bytes_lt: "\<forall>b\<in>set (encode_bytes r). b < 256"
  by (auto simp: encode_bytes_def valid_rune_def)

lemma decode_encode_bytes:
  assumes "valid_rune r"
  shows "decode_bytes (encode_bytes r @ bs) = (r, length (encode_bytes r))"
proof -
  consider "r < 128" | "128 \<le> r" "r < 2048" | "2048 \<le> r" "r < 65536" | "65536 \<le> r" by linarith
  then show ?thesis
  proof cases
    case 1 then show ?thesis by (simp add: encode_bytes_def)
  next
    case 2 then show ?thesis by (simp add: decode_encode_bytes2) (simp add: encode_bytes_def)
  next
    case 3 then show ?thesis using assms by (simp add: decode_encode_bytes3) (simp add: encode_bytes_def)
  next
    case 4 then show ?thesis using assms by (simp add: decode_encode_bytes4) (simp add: encode_bytes_def)
  qed
qed

lemma of_char_encode: "map of_char (encode_rune r) = encode_bytes r"
proof -
  have "map ((of_char :: char \<Rightarrow> nat) \<circ> char_of) (encode_bytes r) = map id (encode_bytes r)"
    using encode_bytes_lt [of r] by (intro map_cong) auto
  then show ?thesis by (simp add: encode_rune_def)
qed

lemma decode_encode_rune:
  assumes "valid_rune r"
  shows "decode_rune (encode_rune r @ s) = (r, length (encode_rune r))"
proof -
  have l: "length (encode_rune r) = length (encode_bytes r)" by (simp add: encode_rune_def)
  have "map of_char (take 4 (encode_rune r @ s)) =
        encode_bytes r @ map of_char (take (4 - length (encode_rune r)) s)"
    using length_encode_bytes_le [of r] l by (simp add: of_char_encode)
  with decode_encode_bytes [OF assms] l show ?thesis by (simp add: decode_rune_def)
qed

lemma runes_encode_append:
  assumes "valid_rune r"
  shows "runes (encode_rune r @ s) = (r, encode_rune r) # runes s"
proof -
  have "encode_rune r \<noteq> []"
    using length_encode_bytes_le(2) [of r] by (simp add: encode_rune_def)
  then show ?thesis by (simp add: runes_step decode_encode_rune [OF assms])
qed

lemma runes_encode_concat:
  "\<forall>r\<in>set rs. valid_rune r \<Longrightarrow>
     runes (concat (map encode_rune rs)) = map (\<lambda>r. (r, encode_rune r)) rs"
  by (induction rs) (simp_all add: runes_encode_append)

lemma second_ok_range: "second_ok b0 b1 \<Longrightarrow> 128 \<le> b1 \<and> b1 < 192"
  by (auto simp: second_ok_def split: if_splits)

lemma decode_bytes_valid: "valid_rune (fst (decode_bytes bs))"
proof (cases bs)
  case (Cons b0 cs)
  have lt: "\<And>n::nat. n mod 64 \<le> 63" by (simp add: less_Suc_eq_le [symmetric])
  have two: "valid_rune (b0 mod 32 * 64 + b1 mod 64)" for b1
    using mod_less_divisor [of 32 b0, simplified] lt [of b1] unfolding valid_rune_def by linarith
  have three: "valid_rune (b0 mod 16 * 4096 + b1 mod 64 * 64 + b2 mod 64)"
    if "224 \<le> b0" "b0 < 240" "second_ok b0 b1" for b1 b2
  proof -
    define x y where "x = b0 - 224" "y = b1 - 128"
    then have x: "b0 = 224 + x" "x < 16" and y: "b1 = 128 + y" "y < 64"
      using that second_ok_range [OF that(3)] by auto
    have "x = 13 \<Longrightarrow> y < 32" using that x y by (simp add: second_ok_def)
    then have "x * 4096 + y * 64 + b2 mod 64 < 55296 \<or> 57344 \<le> x * 4096 + y * 64 + b2 mod 64"
      using x y lt [of b2] by (cases x "13 :: nat" rule: linorder_cases) linarith+
    moreover have "x * 4096 + y * 64 + b2 mod 64 \<le> 1114111" using x y lt [of b2] by linarith
    ultimately show ?thesis using x y by (simp add: utf8_mods valid_rune_def)
  qed
  have four: "valid_rune (b0 mod 8 * 262144 + b1 mod 64 * 4096 + b2 mod 64 * 64 + b3 mod 64)"
    if "240 \<le> b0" "b0 \<le> 244" "second_ok b0 b1" for b1 b2 b3
  proof -
    define x y where "x = b0 - 240" "y = b1 - 128"
    then have x: "b0 = 240 + x" "x \<le> 4" and y: "b1 = 128 + y" "y < 64"
      using that second_ok_range [OF that(3)] by auto
    have w: "b0 mod 8 = x" using utf8_mods(3) [of x] x by simp
    have "x = 4 \<Longrightarrow> y < 16" "x = 0 \<Longrightarrow> 16 \<le> y" using that x y by (simp_all add: second_ok_def)
    then have "57344 \<le> x * 262144 + y * 4096 \<and> x * 262144 + y * 4096 \<le> 4 * 262144 + 15 * 4096"
      using x y by (cases "x = 4"; cases "x = 0") linarith+
    moreover have "b1 mod 64 = y" using y utf8_mods(4) by simp
    ultimately show ?thesis using lt [of b2] lt [of b3] unfolding w valid_rune_def by linarith
  qed
  show ?thesis unfolding Cons using two three four
    by (auto split: list.splits simp: valid_rune_def)
qed (simp add: valid_rune_def)


lemma decode_bytes_multibyte: "128 \<le> b \<Longrightarrow> 128 \<le> fst (decode_bytes (b # bs))"
proof -
  assume b: "128 \<le> b"
  have two: "128 \<le> b mod 32 * 64 + n" if "194 \<le> b" "b < 224" for n
  proof -
    define x where "x = b - 192"
    then have "b = 192 + x" "2 \<le> x" "x < 32" using that by auto
    then show ?thesis by (simp add: utf8_mods)
  qed
  have three: "128 \<le> b mod 16 * 4096 + b1 mod 64 * 64 + n" if "224 \<le> b" "b < 240" "second_ok b b1" for b1 n
  proof -
    define x y where "x = b - 224" "y = b1 - 128"
    then have x: "b = 224 + x" "x < 16" and y: "b1 = 128 + y" "y < 64"
      using that second_ok_range [OF that(3)] by auto
    have "x = 0 \<Longrightarrow> 32 \<le> y" using that x y by (simp add: second_ok_def)
    then show ?thesis using x y by (cases "x = 0") (simp_all add: utf8_mods)
  qed
  have four: "128 \<le> b mod 8 * 262144 + b1 mod 64 * 4096 + n + m" if "240 \<le> b" "b \<le> 244" "second_ok b b1" for b1 n m
  proof -
    define x y where "x = b - 240" "y = b1 - 128"
    then have x: "b = 240 + x" "x \<le> 4" and y: "b1 = 128 + y" "y < 64"
      using that second_ok_range [OF that(3)] by auto
    have w: "b mod 8 = x" using utf8_mods(3) [of x] x by simp
    have "x = 0 \<Longrightarrow> 16 \<le> y" using that x y by (simp add: second_ok_def)
    then show ?thesis unfolding w using x y by (cases "x = 0") (simp_all add: utf8_mods)
  qed
  show ?thesis using b two three four by (auto split: list.splits)
qed

lemma runes_valid: "(r, t) \<in> set (runes s) \<Longrightarrow> valid_rune r"
proof (induction s rule: length_induct)
  case (1 s)
  show ?case
  proof (cases "s = []")
    case False
    then have l: "length (drop (snd (decode_rune s)) s) < length s" by simp
    from 1(2) False consider "r = fst (decode_rune s)" | "(r, t) \<in> set (runes (drop (snd (decode_rune s)) s))"
      by (auto simp: runes_step)
    then show ?thesis
    proof cases
      case 1 then show ?thesis by (simp add: decode_rune_def decode_bytes_valid)
    next
      case 2 then show ?thesis using 1(1) l by blast
    qed
  qed (use 1 in simp)
qed

section \<open>Package strings and unicode\<close>

definition is_control :: "rune \<Rightarrow> bool" where
  "is_control r \<longleftrightarrow> r < 32 \<or> 127 \<le> r \<and> r < 160"

text \<open>
  \<open>strings.Map\<close> with a mapping that drops a rune (\<open>None\<close>, the code's \<open>-1\<close>) or replaces it: every
  rune kept is written in UTF-8 again, so an ill-formed byte comes out as the encoding of U+FFFD.
\<close>

definition strings_map :: "(rune \<Rightarrow> rune option) \<Rightarrow> string \<Rightarrow> string" where
  "strings_map f s = concat (map encode_rune (List.map_filter (f \<circ> fst) (runes s)))"

lemma runes_strings_map:
  assumes "\<And>r r'. valid_rune r \<Longrightarrow> f r = Some r' \<Longrightarrow> valid_rune r'"
  shows "map fst (runes (strings_map f s)) = List.map_filter (f \<circ> fst) (runes s)"
proof -
  have "\<forall>r\<in>set (List.map_filter (f \<circ> fst) (runes s)). valid_rune r"
    by (auto simp: map_filter_def intro: assms dest: runes_valid)
  from runes_encode_concat [OF this] show ?thesis
    by (simp add: strings_map_def comp_def)
qed

fun has_prefix :: "string \<Rightarrow> string \<Rightarrow> bool" where
  "has_prefix s [] = True"
| "has_prefix [] (p # ps) = False"
| "has_prefix (c # s) (p # ps) = (c = p \<and> has_prefix s ps)"

fun str_index :: "string \<Rightarrow> string \<Rightarrow> nat option" where
  "str_index [] p = (if p = [] then Some 0 else None)"
| "str_index (c # s) p = (if has_prefix (c # s) p then Some 0 else map_option Suc (str_index s p))"

definition str_contains :: "string \<Rightarrow> string \<Rightarrow> bool" where
  "str_contains s p \<longleftrightarrow> str_index s p \<noteq> None"

definition trim_left :: "char set \<Rightarrow> string \<Rightarrow> string" where
  "trim_left C s = dropWhile (\<lambda>c. c \<in> C) s"

definition trim_right :: "char set \<Rightarrow> string \<Rightarrow> string" where
  "trim_right C s = rev (dropWhile (\<lambda>c. c \<in> C) (rev s))"

lemma has_prefix_iff: "has_prefix s p \<longleftrightarrow> (\<exists>t. s = p @ t)"
  by (induction s p rule: has_prefix.induct) auto

lemma str_index_Some: "str_index s p = Some i \<Longrightarrow> i + length p \<le> length s \<and> take (length p) (drop i s) = p"
proof (induction s arbitrary: i)
  case (Cons c s)
  show ?case
  proof (cases "has_prefix (c # s) p")
    case True
    with Cons.prems have "i = 0" by simp
    moreover from True obtain t where "c # s = p @ t" by (auto simp: has_prefix_iff)
    ultimately show ?thesis by simp
  next
    case False
    with Cons show ?thesis by auto
  qed
qed (simp split: if_splits)

lemma str_contains_iff: "str_contains s p \<longleftrightarrow> (\<exists>a b. s = a @ p @ b)"
proof (induction s)
  case (Cons c s)
  have "(\<exists>a b. c # s = a @ p @ b) \<longleftrightarrow> (\<exists>t. c # s = p @ t) \<or> (\<exists>a b. s = a @ p @ b)"
    by (metis append_Cons append_Nil list.exhaust_sel list.sel(3) list.discI)
  with Cons show ?case by (simp add: str_contains_def has_prefix_iff)
qed (simp add: str_contains_def)

lemma trim_right_last: "trim_right C s \<noteq> [] \<Longrightarrow> last (trim_right C s) \<notin> C"
  unfolding trim_right_def
  by (metis hd_dropWhile last_rev rev.simps(1))

lemma trim_right_prefix: "\<exists>t. s = trim_right C s @ t"
  unfolding trim_right_def
  by (metis rev_append rev_rev_ident takeWhile_dropWhile_id)

lemma trim_left_hd: "trim_left C s \<noteq> [] \<Longrightarrow> hd (trim_left C s) \<notin> C"
  unfolding trim_left_def using hd_dropWhile by metis

text \<open>
  \<open>strings.ToLower\<close>: the ASCII letters are exact; the case mapping of the other runes is the table
  \<open>unicode.ToLower\<close>, given as the argument \<open>lo\<close>.
\<close>

definition rune_lower :: "(rune \<Rightarrow> rune) \<Rightarrow> rune \<Rightarrow> rune" where
  "rune_lower lo r = (if r < 128 then (if 65 \<le> r \<and> r \<le> 90 then r + 32 else r) else lo r)"

definition to_lower :: "(rune \<Rightarrow> rune) \<Rightarrow> string \<Rightarrow> string" where
  "to_lower lo s = strings_map (\<lambda>r. Some (rune_lower lo r)) s"

text \<open>The dash some messages contain, in UTF-8.\<close>

definition em_dash :: string where
  "em_dash = map char_of [226, 128, 148 :: nat]"

section \<open>Decimal integers\<close>

definition digit :: "nat \<Rightarrow> char" where
  "digit n = char_of (48 + n)"

fun show_nat :: "nat \<Rightarrow> string" where
  "show_nat n = (if n < 10 then [digit n] else show_nat (n div 10) @ [digit (n mod 10)])"

declare show_nat.simps [simp del]

definition show_int :: "int \<Rightarrow> string" where
  "show_int i = (if i < 0 then CHR ''-'' # show_nat (nat (- i)) else show_nat (nat i))"

lemma length_show_nat: "n < 10 ^ Suc k \<Longrightarrow> length (show_nat n) \<le> Suc k"
proof (induction k arbitrary: n)
  case 0 then show ?case by (simp add: show_nat.simps)
next
  case (Suc k)
  then have "n div 10 < 10 ^ Suc k" by (simp add: less_mult_imp_div_less mult.commute)
  with Suc.IH show ?case by (subst show_nat.simps) simp
qed

lemma runes_pieces_nonempty: "(r, t) \<in> set (runes s) \<Longrightarrow> t \<noteq> []"
proof (induction s rule: length_induct)
  case (1 s)
  show ?case
  proof (cases "s = []")
    case False
    then have "length (drop (snd (decode_rune s)) s) < length s" by simp
    with 1 False show ?thesis by (auto simp: runes_step)
  qed (use 1 in simp)
qed

lemma decode_rune_multibyte: "fst (decode_rune (c # s)) < 128 \<Longrightarrow> byte c < 128"
proof (rule ccontr)
  assume a: "fst (decode_rune (c # s)) < 128" "\<not> byte c < 128"
  have "128 \<le> fst (decode_bytes (byte c # map byte (take 3 s)))"
    using a(2) by (intro decode_bytes_multibyte) simp
  with a(1) show False by (simp add: decode_rune_def del: decode_bytes.simps)
qed

text \<open>A rune below 128 is read from the single byte of that value.\<close>

lemma runes_ascii_piece: "(r, t) \<in> set (runes s) \<Longrightarrow> r < 128 \<Longrightarrow> t = [char_of r]"
proof (induction s rule: length_induct)
  case (1 s)
  show ?case
  proof (cases s)
    case (Cons c s')
    then have l: "length (drop (snd (decode_rune s)) s) < length s" by simp
    from 1(2) Cons consider "r = fst (decode_rune s)" "t = take (snd (decode_rune s)) s"
      | "(r, t) \<in> set (runes (drop (snd (decode_rune s)) s))" by (auto simp: runes_step)
    then show ?thesis
    proof cases
      case 1
      then have "byte c < 128" using \<open>r < 128\<close> Cons decode_rune_multibyte by blast
      with 1 Cons show ?thesis by (simp add: decode_rune_ascii)
    next
      case 2 then show ?thesis using 1 l by blast
    qed
  qed (use 1 in simp)
qed

section \<open>Durations as text\<close>

text \<open>\<open>Duration.String\<close>: \<open>frac_text v prec\<close> is the fraction below \<open>10^prec\<close>, trailing zeros cut.\<close>

fun pad_digits :: "nat \<Rightarrow> nat \<Rightarrow> string" where
  "pad_digits 0 v = []"
| "pad_digits (Suc p) v = pad_digits p (v div 10) @ [digit (v mod 10)]"

definition frac_text :: "nat \<Rightarrow> nat \<Rightarrow> string" where
  "frac_text v prec = (let ds = trim_right {CHR ''0''} (pad_digits prec (v mod 10 ^ prec))
     in if ds = [] then [] else CHR ''.'' # ds)"

definition duration_string :: "duration \<Rightarrow> string" where
  "duration_string d =
    (let u = nat \<bar>d\<bar>;
         body = (if u = 0 then ''0s''
           else if u < 1000 then show_nat u @ ''ns''
           else if u < 1000000 then show_nat (u div 1000) @ frac_text u 3 @ [CHR 0xC2, CHR 0xB5, CHR ''s'']
           else if u < 1000000000 then show_nat (u div 1000000) @ frac_text u 6 @ ''ms''
           else (let secs = u div 1000000000; mins = secs div 60; hours = mins div 60
                 in (if hours > 0 then show_nat hours @ ''h'' else []) @
                    (if mins > 0 then show_nat (mins mod 60) @ ''m'' else []) @
                    show_nat (secs mod 60) @ frac_text u 9 @ ''s''))
     in if d < 0 then CHR ''-'' # body else body)"

end
