(* ===== verification/GoJson.thy ===== *)
theory GoJson
  imports GoStrings "HOL-Library.List_Lexorder"
begin

text \<open>
  Dynamic values (\<open>any\<close>) and \<open>json.Marshal\<close>. A float carries the text \<open>strconv\<close> prints for it, and
  \<open>JBad\<close> stands for a value the encoder refuses (a channel, a function, NaN). Object keys are
  written in increasing byte order; strings are escaped as the default HTML-safe encoder does.
\<close>

datatype jv =
    JNull
  | JBool bool
  | JInt int
  | JFloat string
  | JStr string
  | JArr "jv list"
  | JObj "(string \<times> jv) list"
  | JBad string

definition hex_digit :: "nat \<Rightarrow> char" where
  "hex_digit n = (if n < 10 then char_of (48 + n) else char_of (87 + n))"

definition esc_u :: "nat \<Rightarrow> string" where
  "esc_u n = [CHR 0x5C, CHR ''u'', hex_digit (n div 4096 mod 16), hex_digit (n div 256 mod 16),
     hex_digit (n div 16 mod 16), hex_digit (n mod 16)]"

definition esc_rune :: "rune \<times> string \<Rightarrow> string" where
  "esc_rune x = (case x of (r, bs) \<Rightarrow>
     if r = 34 \<or> r = 92 then CHR 0x5C # bs
     else if r = 8 then [CHR 0x5C, CHR ''b'']
     else if r = 12 then [CHR 0x5C, CHR ''f'']
     else if r = 10 then [CHR 0x5C, CHR ''n'']
     else if r = 13 then [CHR 0x5C, CHR ''r'']
     else if r = 9 then [CHR 0x5C, CHR ''t'']
     else if r < 32 \<or> r \<in> {38, 60, 62} then esc_u r
     else if r = RuneError \<and> length bs = 1 then esc_u RuneError
     else if r \<in> {8232, 8233} then esc_u r
     else bs)"

definition json_string :: "string \<Rightarrow> string" where
  "json_string s = CHR 0x22 # concat (map esc_rune (runes s)) @ [CHR 0x22]"

fun commas :: "string list \<Rightarrow> string" where
  "commas [] = []"
| "commas [x] = x"
| "commas (x # y # xs) = x @ '','' @ commas (y # xs)"

fun json_marshal :: "jv \<Rightarrow> string option" where
  "json_marshal JNull = Some ''null''"
| "json_marshal (JBool b) = Some (if b then ''true'' else ''false'')"
| "json_marshal (JInt i) = Some (show_int i)"
| "json_marshal (JFloat t) = Some t"
| "json_marshal (JStr s) = Some (json_string s)"
| "json_marshal (JArr xs) = map_option (\<lambda>ts. ''['' @ commas ts @ '']'') (those (map json_marshal xs))"
| "json_marshal (JObj kvs) =
     map_option (\<lambda>ts. ''{'' @ commas ts @ ''}'')
       (those (map (\<lambda>(k, t). map_option (\<lambda>t. json_string k @ '':'' @ t) t)
          (sort_key fst (map (\<lambda>(k, v). (k, json_marshal v)) kvs))))"
| "json_marshal (JBad t) = None"

lemma length_esc_rune: "bs \<noteq> [] \<Longrightarrow> length (esc_rune (r, bs)) \<le> 6 * length bs"
  by (cases bs) (auto simp: esc_rune_def esc_u_def)

lemma length_json_string: "length (json_string s) \<le> 6 * length s + 2"
proof -
  have "(\<forall>x\<in>set xs. snd x \<noteq> []) \<Longrightarrow>
      length (concat (map esc_rune xs)) \<le> 6 * length (concat (map snd xs))" for xs
    by (induction xs) (auto simp: add_mult_distrib2 intro!: add_mono length_esc_rune)
  from this [of "runes s"] have "length (concat (map esc_rune (runes s))) \<le> 6 * length s"
    by (simp add: runes_bytes) (metis prod.collapse runes_pieces_nonempty)
  then show ?thesis by (simp add: json_string_def)
qed

end
