(* ===== verification/SessionPhase.thy ===== *)
theory SessionPhase
  imports Prelude
begin

text \<open>
  The InvestigationSession resource (\<open>api/apifrontend/v1alpha1/investigationsession_types.go\<close>) and
  its phase machine (\<open>internal/session/statemachine.go\<close>, first half). A phase is a Go string type,
  so an object read from the API server may carry any string. The locale \<open>phase_machine\<close> states
  what a transition table with a set of final states promises; it is interpreted on the table.
\<close>

section \<open>The resource\<close>

type_synonym SessionPhaseT = string

definition SessionPhaseActive :: SessionPhaseT where "SessionPhaseActive = ''Active''"
definition SessionPhaseDisconnected :: SessionPhaseT where "SessionPhaseDisconnected = ''Disconnected''"
definition SessionPhaseCompleted :: SessionPhaseT where "SessionPhaseCompleted = ''Completed''"
definition SessionPhaseCancelled :: SessionPhaseT where "SessionPhaseCancelled = ''Cancelled''"
definition SessionPhaseFailed :: SessionPhaseT where "SessionPhaseFailed = ''Failed''"

lemmas phase_defs = SessionPhaseActive_def SessionPhaseDisconnected_def SessionPhaseCompleted_def
  SessionPhaseCancelled_def SessionPhaseFailed_def

definition SessionJoinModeStart :: string where "SessionJoinModeStart = ''start''"
definition SessionJoinModeTakeover :: string where "SessionJoinModeTakeover = ''takeover''"

definition ConnectionStateConnected :: string where "ConnectionStateConnected = ''Connected''"
definition ConnectionStateDisconnected :: string where "ConnectionStateDisconnected = ''Disconnected''"

record SessionUser =
  su_Username :: string
  su_Groups :: "string list"

record ObjectRef =
  or_Name :: string
  or_Namespace :: string

record InvestigationSessionSpec =
  RemediationRequestRef :: ObjectRef
  A2ATaskID :: string
  UserIdentityOf :: SessionUser
  JoinMode :: string

record InvestigationSessionStatus =
  Phase :: SessionPhaseT
  AIAnalysisRef :: string
  KACorrelationID :: string
  ConnState :: string
  StartedAt :: "gotime option"
  CompletedAt :: "gotime option"
  DisconnectedAt :: "gotime option"
  ReconnectedAt :: "gotime option"
  Message :: string
  Conditions :: "string list"

text \<open>The object metadata the code reads or writes; a nil label map is \<open>None\<close>.\<close>

record OwnerReference =
  ow_APIVersion :: string
  ow_Kind :: string
  ow_Name :: string
  ow_UID :: string

record ObjectMeta =
  om_Name :: string
  om_Namespace :: string
  om_ResourceVersion :: string
  om_Labels :: "(string \<times> string) list option"
  om_OwnerReferences :: "OwnerReference list"

record InvestigationSession =
  Meta :: ObjectMeta
  Spec :: InvestigationSessionSpec
  Status :: InvestigationSessionStatus

text \<open>Go zero values.\<close>

definition zero_meta :: ObjectMeta where
  "zero_meta = \<lparr>om_Name = [], om_Namespace = [], om_ResourceVersion = [], om_Labels = None,
     om_OwnerReferences = []\<rparr>"

definition zero_spec :: InvestigationSessionSpec where
  "zero_spec = \<lparr>RemediationRequestRef = \<lparr>or_Name = [], or_Namespace = []\<rparr>, A2ATaskID = [],
     UserIdentityOf = \<lparr>su_Username = [], su_Groups = []\<rparr>, JoinMode = []\<rparr>"

definition zero_status :: InvestigationSessionStatus where
  "zero_status = \<lparr>Phase = [], AIAnalysisRef = [], KACorrelationID = [], ConnState = [],
     StartedAt = None, CompletedAt = None, DisconnectedAt = None, ReconnectedAt = None,
     Message = [], Conditions = []\<rparr>"

definition zero_session :: InvestigationSession where
  "zero_session = \<lparr>Meta = zero_meta, Spec = zero_spec, Status = zero_status\<rparr>"

section \<open>The phase machine\<close>

definition validTransitions :: "(SessionPhaseT \<times> SessionPhaseT list) list" where
  "validTransitions =
    [(SessionPhaseActive,
       [SessionPhaseCompleted, SessionPhaseCancelled, SessionPhaseFailed, SessionPhaseDisconnected]),
     (SessionPhaseDisconnected,
       [SessionPhaseActive, SessionPhaseCancelled, SessionPhaseFailed])]"

definition terminalPhases :: "(SessionPhaseT \<times> bool) list" where
  "terminalPhases =
    [(SessionPhaseCompleted, True), (SessionPhaseCancelled, True), (SessionPhaseFailed, True)]"

definition ValidateTransition :: "SessionPhaseT \<Rightarrow> SessionPhaseT \<Rightarrow> goerr option" where
  "ValidateTransition from to =
    (case map_of validTransitions from of
       None \<Rightarrow> Some (Errorf ''no transitions from terminal phase %q'' [from])
     | Some allowed \<Rightarrow>
         if list_ex (\<lambda>a. a = to) allowed then None
         else Some (Errorf ''invalid transition %q -> %q'' [from, to]))"

definition IsTerminal :: "SessionPhaseT \<Rightarrow> bool" where
  "IsTerminal phase = (case map_of terminalPhases phase of Some b \<Rightarrow> b | None \<Rightarrow> False)"

definition maxPhaseMessageLen :: nat where "maxPhaseMessageLen = 256"

lemma IsTerminal_iff:
  "IsTerminal p \<longleftrightarrow> p \<in> {SessionPhaseCompleted, SessionPhaseCancelled, SessionPhaseFailed}"
  by (auto simp: IsTerminal_def terminalPhases_def)

lemma ValidateTransition_iff:
  "ValidateTransition from to = None \<longleftrightarrow>
     from = SessionPhaseActive \<and> to \<noteq> SessionPhaseActive \<and>
       (to = SessionPhaseDisconnected \<or> IsTerminal to) \<or>
     from = SessionPhaseDisconnected \<and>
       (to = SessionPhaseActive \<or> to = SessionPhaseCancelled \<or> to = SessionPhaseFailed)"
  by (auto simp: ValidateTransition_def validTransitions_def IsTerminal_iff phase_defs)

lemma ValidateTransition_error:
  "ValidateTransition from to = Some e \<Longrightarrow> \<not> IsConflict e \<and> \<not> panicked e"
  by (auto simp: ValidateTransition_def split: option.splits if_splits)

lemma ValidateTransition_self: "ValidateTransition p p \<noteq> None"
  by (auto simp: ValidateTransition_iff phase_defs IsTerminal_iff)

text \<open>Runs of the machine: the phases a session may pass through.\<close>

inductive phase_step :: "SessionPhaseT \<Rightarrow> SessionPhaseT \<Rightarrow> bool" where
  "ValidateTransition from to = None \<Longrightarrow> phase_step from to"

inductive phase_reach :: "SessionPhaseT \<Rightarrow> SessionPhaseT \<Rightarrow> bool" for p where
  reach_refl: "phase_reach p p"
| reach_step: "phase_reach p q \<Longrightarrow> phase_step q r \<Longrightarrow> phase_reach p r"

inductive_simps phase_step_iff: "phase_step from to"

locale phase_machine =
  fixes step :: "'p \<Rightarrow> 'p \<Rightarrow> bool" and final :: "'p \<Rightarrow> bool" and known :: "'p set"
    and init :: 'p
  assumes final_stuck: "final p \<Longrightarrow> \<not> step p q"
    and step_known: "p \<in> known \<Longrightarrow> step p q \<Longrightarrow> q \<in> known"
    and can_finish: "p \<in> known \<Longrightarrow> \<not> final p \<Longrightarrow> \<exists>q. step p q \<and> final q"
    and init_known: "init \<in> known"
    and irrefl: "\<not> step p p"
begin

lemma known_run: "step\<^sup>*\<^sup>* p q \<Longrightarrow> p \<in> known \<Longrightarrow> q \<in> known"
  by (induction rule: rtranclp_induct) (auto dest: step_known)

lemma final_absorbing: "step\<^sup>*\<^sup>* p q \<Longrightarrow> final p \<Longrightarrow> q = p"
  by (induction rule: rtranclp_induct) (auto dest: final_stuck)

lemma init_run_finishes:
  assumes "step\<^sup>*\<^sup>* init p"
  shows "\<exists>q. step\<^sup>*\<^sup>* p q \<and> final q"
proof (cases "final p")
  case False
  with can_finish [of p] known_run [OF assms init_known] show ?thesis by blast
qed blast

end

definition phases :: "SessionPhaseT set" where
  "phases = {SessionPhaseActive, SessionPhaseDisconnected, SessionPhaseCompleted,
     SessionPhaseCancelled, SessionPhaseFailed}"

interpretation sm: phase_machine phase_step IsTerminal phases SessionPhaseActive
proof
  fix p q
  show "IsTerminal p \<Longrightarrow> \<not> phase_step p q"
    by (auto simp: phase_step_iff ValidateTransition_iff IsTerminal_iff phase_defs)
  show "p \<in> phases \<Longrightarrow> phase_step p q \<Longrightarrow> q \<in> phases"
    by (auto simp: phase_step_iff ValidateTransition_iff IsTerminal_iff phases_def)
  show "p \<in> phases \<Longrightarrow> \<not> IsTerminal p \<Longrightarrow> \<exists>q. phase_step p q \<and> IsTerminal q"
    by (rule exI [of _ SessionPhaseCancelled])
      (auto simp: phase_step_iff ValidateTransition_iff IsTerminal_iff phases_def phase_defs)
  show "SessionPhaseActive \<in> phases" by (simp add: phases_def)
  show "\<not> phase_step p p" by (simp add: phase_step_iff ValidateTransition_self)
qed

lemma phase_reach_rtranclp: "phase_reach p q \<longleftrightarrow> phase_step\<^sup>*\<^sup>* p q"
proof
  show "phase_reach p q \<Longrightarrow> phase_step\<^sup>*\<^sup>* p q"
    by (induction rule: phase_reach.induct) (auto intro: rtranclp.rtrancl_into_rtrancl)
  show "phase_step\<^sup>*\<^sup>* p q \<Longrightarrow> phase_reach p q"
    by (induction rule: rtranclp_induct) (auto intro: phase_reach.intros)
qed

text \<open>
  C37: whatever transitions the table lets a session take from its creation in the Active phase, it is
  always in one of the five known phases, a terminal phase is never left again, and from every
  phase it reaches a terminal one can be reached: no session is stuck in an unfinished phase.
\<close>
theorem session_phase_lifecycle:
  assumes "phase_reach SessionPhaseActive p"
  shows "p \<in> phases \<and> (\<exists>q. phase_reach p q \<and> IsTerminal q) \<and> (IsTerminal p \<longrightarrow> (\<forall>q. phase_reach p q \<longrightarrow> q = p))"
  using assms sm.known_run sm.init_known sm.init_run_finishes sm.final_absorbing
  unfolding phase_reach_rtranclp by blast

theorem session_phase_lifecycle_witness:
  "phase_reach SessionPhaseActive SessionPhaseCancelled \<and>
   Collect (phase_reach SessionPhaseCancelled) = {SessionPhaseCancelled}"
proof -
  have "phase_step SessionPhaseActive SessionPhaseDisconnected" "phase_step SessionPhaseDisconnected SessionPhaseCancelled"
    by (simp_all add: phase_step_iff ValidateTransition_iff phase_defs)
  then have r: "phase_reach SessionPhaseActive SessionPhaseCancelled" by (blast intro: phase_reach.intros)
  from session_phase_lifecycle [OF r] r show ?thesis by (auto simp: IsTerminal_iff intro: reach_refl)
qed

end
