(* ===== verification/SessionEvents.thy ===== *)
theory SessionEvents
  imports GoJson SessionPhase
begin

text \<open>
  ADK session events as far as the repository reads them, the truncation of large tool results
  (\<open>internal/session/trimming.go\<close>) and the re-invocation test (\<open>internal/session/reinvoke.go\<close>).
  A nil pointer is \<open>None\<close>; the code edits the parts of an event in place, the model returns the
  edited event. The lemmas show that a trimmed event never carries an oversized tool result, that
  trimming changes nothing else, and that trimming again changes nothing.
\<close>

record FunctionCall =
  fc_Name :: string
  fc_Args :: "(string \<times> jv) list option"

record FunctionResponse =
  fr_Name :: string
  fr_Response :: "(string \<times> jv) list option"

record Part =
  pt_Text :: string
  pt_FunctionCall :: "FunctionCall option"
  pt_FunctionResponse :: "FunctionResponse option"

record SEvent =
  ae_Author :: string
  ae_Partial :: bool
  ae_Role :: string
  ae_Parts :: "Part option list option"
  ae_StateDelta :: "(string \<times> jv) list option"

definition MaxToolResultBytes :: nat where "MaxToolResultBytes = 4096"
definition TrimSummaryPrefix :: nat where "TrimSummaryPrefix = 128"

definition truncated_response :: "string \<Rightarrow> (string \<times> jv) list" where
  "truncated_response raw =
    (let summary = (if length raw > TrimSummaryPrefix then take TrimSummaryPrefix raw else raw)
     in [(''truncated'', JBool True), (''original_size'', JInt (int (length raw))),
         (''summary'', JStr summary)])"

definition trim_part :: "Part \<Rightarrow> Part" where
  "trim_part part = (case pt_FunctionResponse part of None \<Rightarrow> part | Some fr \<Rightarrow>
    (case fr_Response fr of None \<Rightarrow> part | Some resp \<Rightarrow>
      (case json_marshal (JObj resp) of None \<Rightarrow> part | Some raw \<Rightarrow>
        if length raw \<le> MaxToolResultBytes then part
        else part\<lparr>pt_FunctionResponse := Some (fr\<lparr>fr_Response := Some (truncated_response raw)\<rparr>)\<rparr>)))"

definition trimEventFunctionResponses :: "SEvent option \<Rightarrow> SEvent option" where
  "trimEventFunctionResponses event = (case event of None \<Rightarrow> None | Some ev \<Rightarrow>
     (case ae_Parts ev of None \<Rightarrow> Some ev
      | Some parts \<Rightarrow> Some (ev\<lparr>ae_Parts := Some (map (map_option trim_part) parts)\<rparr>)))"

text \<open>The serialised size of the tool result a part carries, if it carries one that serialises.\<close>

definition response_size :: "Part \<Rightarrow> nat option" where
  "response_size part = (case pt_FunctionResponse part of None \<Rightarrow> None | Some fr \<Rightarrow>
    (case fr_Response fr of None \<Rightarrow> None | Some resp \<Rightarrow> map_option length (json_marshal (JObj resp))))"

definition fits :: "Part \<Rightarrow> bool" where
  "fits p \<longleftrightarrow> (case response_size p of None \<Rightarrow> True | Some n \<Rightarrow> n \<le> MaxToolResultBytes)"

lemma truncated_marshal:
  "json_marshal (JObj (truncated_response raw)) =
     Some (''{'' @ json_string ''original_size'' @ '':'' @ show_int (int (length raw)) @ '','' @
       json_string ''summary'' @ '':'' @
       json_string (if length raw > TrimSummaryPrefix then take TrimSummaryPrefix raw else raw) @
       '','' @ json_string ''truncated'' @ '':true'' @ ''}'')"
  by (simp add: truncated_response_def Let_def)

lemma truncated_size:
  assumes "length raw < 2 ^ 63"
  shows "\<exists>t. json_marshal (JObj (truncated_response raw)) = Some t \<and> length t \<le> MaxToolResultBytes"
proof -
  let ?s = "if length raw > TrimSummaryPrefix then take TrimSummaryPrefix raw else raw"
  have "length ?s \<le> 128" by (simp add: TrimSummaryPrefix_def)
  then have s: "length (json_string ?s) \<le> 770" using length_json_string [of ?s] by linarith
  have n: "length (show_int (int (length raw))) \<le> 20"
    using length_show_nat [of "length raw" 19] assms by (simp add: show_int_def)
  have k: "length (json_string ''original_size'') \<le> 100" "length (json_string ''summary'') \<le> 100"
    "length (json_string ''truncated'') \<le> 100"
    using length_json_string [of "''original_size''"] length_json_string [of "''summary''"]
      length_json_string [of "''truncated''"] by simp_all
  show ?thesis unfolding truncated_marshal using s n k
    by (simp add: MaxToolResultBytes_def del: json_marshal.simps)
qed

lemma trim_part_fits:
  assumes "\<And>n. response_size p = Some n \<Longrightarrow> n < 2 ^ 63"
  shows "fits (trim_part p)"
proof (cases "fits p")
  case True
  then have "trim_part p = p"
    by (auto simp: trim_part_def fits_def response_size_def split: option.splits)
  with True show ?thesis by simp
next
  case False
  then obtain fr resp raw where *: "pt_FunctionResponse p = Some fr" "fr_Response fr = Some resp"
      "json_marshal (JObj resp) = Some raw" "\<not> length raw \<le> MaxToolResultBytes"
    by (auto simp: fits_def response_size_def split: option.splits)
  with assms have "length raw < 2 ^ 63" by (simp add: response_size_def del: json_marshal.simps)
  from truncated_size [OF this] * show ?thesis
    by (auto simp: trim_part_def fits_def response_size_def simp del: json_marshal.simps)
qed

lemma trim_part_fixed: "fits p \<Longrightarrow> trim_part p = p"
  by (auto simp: trim_part_def fits_def response_size_def split: option.splits)

lemma trim_part_rest [simp]:
  "pt_Text (trim_part p) = pt_Text p" "pt_FunctionCall (trim_part p) = pt_FunctionCall p"
  by (simp_all add: trim_part_def split: option.splits)

text \<open>Parts of an event, nil parts left out.\<close>

definition event_parts :: "SEvent \<Rightarrow> Part list" where
  "event_parts ev = (case ae_Parts ev of None \<Rightarrow> [] | Some ps \<Rightarrow> List.map_filter id ps)"

lemma event_parts_trim:
  "trimEventFunctionResponses (Some ev) = Some ev' \<Longrightarrow> event_parts ev' = map trim_part (event_parts ev)"
proof -
  have "List.map_filter id (map (map_option trim_part) ps) = map trim_part (List.map_filter id ps)" for ps
    by (induction ps) (auto simp: map_filter_simps split: option.splits)
  then show "trimEventFunctionResponses (Some ev) = Some ev' \<Longrightarrow> event_parts ev' = map trim_part (event_parts ev)"
    by (auto simp: trimEventFunctionResponses_def event_parts_def split: option.splits)
qed

section \<open>Re-invocation\<close>

definition MaxReinvocations :: int where "MaxReinvocations = 3"

definition ReinvocationMessage :: string where
  "ReinvocationMessage = ''Continue the investigation. If you need more information, use the available tools. If the investigation is complete, summarize your findings.''"

definition hasToolCall :: "SEvent option \<Rightarrow> bool" where
  "hasToolCall event = (case event of None \<Rightarrow> False | Some ev \<Rightarrow>
     (case ae_Parts ev of None \<Rightarrow> False
      | Some parts \<Rightarrow> list_ex (\<lambda>p. case p of None \<Rightarrow> False | Some part \<Rightarrow> pt_FunctionCall part \<noteq> None) parts))"

definition NeedsReinvocation :: "SessionPhaseT \<Rightarrow> SEvent option list \<Rightarrow> int \<Rightarrow> bool" where
  "NeedsReinvocation phase events reinvokeCount =
    (if phase \<noteq> SessionPhaseActive then False
     else if length events = 0 then False
     else if reinvokeCount \<ge> MaxReinvocations then False
     else (let last = events ! (length events - 1) in \<not> hasToolCall last))"

definition SyntheticMessage :: "string \<times> Part option list" where
  "SyntheticMessage = (''user'',
     [Some \<lparr>pt_Text = ReinvocationMessage, pt_FunctionCall = None, pt_FunctionResponse = None\<rparr>])"

text \<open>
  The loop the function is written for: after each turn the caller asks \<open>NeedsReinvocation\<close> and
  counts. \<open>turns\<close> gives the events after each further turn.
\<close>

fun reinvocations :: "SessionPhaseT \<Rightarrow> (nat \<Rightarrow> SEvent option list) \<Rightarrow> nat \<Rightarrow> nat \<Rightarrow> nat" where
  "reinvocations phase turns 0 n = n"
| "reinvocations phase turns (Suc fuel) n =
    (if NeedsReinvocation phase (turns n) (int n) then reinvocations phase turns fuel (Suc n) else n)"

lemma reinvocations_bound:
  "n \<le> 3 \<Longrightarrow> reinvocations phase turns fuel n \<le> 3"
  by (induction phase turns fuel n rule: reinvocations.induct)
    (auto simp: NeedsReinvocation_def MaxReinvocations_def split: if_splits)

text \<open>
  Whatever a tool returned, after \<open>trimEventFunctionResponses\<close> every function response of the
  event either does not serialise or is at most \<open>MaxToolResultBytes\<close> long; texts and function
  calls are untouched; and trimming the result again returns it unchanged.
\<close>

lemma trim_bounded_idempotent:
  assumes "trimEventFunctionResponses (Some ev) = Some ev'"
    and "\<forall>p\<in>set (event_parts ev). \<forall>n. response_size p = Some n \<longrightarrow> n < 2 ^ 63"
  shows "(\<forall>p\<in>set (event_parts ev'). fits p) \<and>
    map pt_Text (event_parts ev') = map pt_Text (event_parts ev) \<and>
    map pt_FunctionCall (event_parts ev') = map pt_FunctionCall (event_parts ev) \<and>
    trimEventFunctionResponses (Some ev') = Some ev'"
proof -
  have p: "event_parts ev' = map trim_part (event_parts ev)" using event_parts_trim [OF assms(1)] .
  with assms(2) have f: "\<forall>p\<in>set (event_parts ev'). fits p" using trim_part_fits by auto
  have "trimEventFunctionResponses (Some ev') = Some ev'"
  proof (cases "ae_Parts ev'")
    case (Some ps)
    have "map (map_option trim_part) ps = ps"
    proof (rule map_idI)
      fix x assume x: "x \<in> set ps"
      show "map_option trim_part x = x"
      proof (cases x)
        case (Some q)
        with x \<open>ae_Parts ev' = Some ps\<close> have "q \<in> set (event_parts ev')"
          by (force simp: event_parts_def map_filter_def)
        with f Some show ?thesis by (simp add: trim_part_fixed)
      qed simp
    qed
    with Some show ?thesis by (simp add: trimEventFunctionResponses_def)
  qed (simp add: trimEventFunctionResponses_def)
  with f p show ?thesis by simp
qed

text \<open>An event whose single part carries a 5000 byte tool result.\<close>

definition big_event :: SEvent where
  "big_event = \<lparr>ae_Author = ''agent'', ae_Partial = False, ae_Role = ''user'', ae_Parts = Some [None,
     Some \<lparr>pt_Text = ''hi'', pt_FunctionCall = None, pt_FunctionResponse = Some
       \<lparr>fr_Name = ''f'', fr_Response = Some [(''out'', JStr (replicate 5000 CHR ''x''))]\<rparr>\<rparr>],
     ae_StateDelta = None\<rparr>"

lemma json_string_replicate: "json_string (replicate n CHR ''x'') = CHR 0x22 # replicate n CHR ''x'' @ [CHR 0x22]"
  by (induction n) (simp_all add: json_string_def runes_ascii_Cons esc_rune_def)

lemma big_event_size:
  "\<exists>raw. json_marshal (JObj [(''out'', JStr (replicate 5000 CHR ''x''))]) = Some raw \<and> length raw = 5010"
  by (simp add: json_string_replicate) (simp add: json_string_def runes_ascii_Cons esc_rune_def)

lemma trim_bounded_idempotent_example:
  "\<exists>ev'. trimEventFunctionResponses (Some big_event) = Some ev' \<and> ev' \<noteq> big_event \<and>
     list_all fits (event_parts ev') \<and> trimEventFunctionResponses (Some ev') = Some ev'"
proof -
  obtain raw where raw: "json_marshal (JObj [(''out'', JStr (replicate 5000 CHR ''x''))]) = Some raw"
    "length raw = 5010" using big_event_size by blast
  define ev' where "ev' = the (trimEventFunctionResponses (Some big_event))"
  have 1: "trimEventFunctionResponses (Some big_event) = Some ev'"
    by (simp add: ev'_def trimEventFunctionResponses_def big_event_def)
  have 2: "\<forall>p\<in>set (event_parts big_event). \<forall>n. response_size p = Some n \<longrightarrow> n < 2 ^ 63"
    using raw by (simp add: event_parts_def big_event_def map_filter_def response_size_def del: json_marshal.simps)
  have 3: "\<not> fits (hd (event_parts big_event))" "event_parts big_event \<noteq> []"
    using raw by (simp_all add: event_parts_def big_event_def map_filter_def response_size_def fits_def
        MaxToolResultBytes_def del: json_marshal.simps)
  note t = trim_bounded_idempotent [OF 1 2]
  have "ev' \<noteq> big_event" using t 3 hd_in_set by metis
  with 1 t show ?thesis by (auto simp: list_all_iff)
qed

end
