(* ===== verification/GoRegexp.thy ===== *)
theory GoRegexp
  imports GoStrings
begin

text \<open>
  Package \<open>regexp\<close>, as far as the code uses it: an expression over runes, a backtracking matcher
  that lists the rests of the subject in the order of preference of Go's leftmost-first semantics
  (greedy repetition first), \<open>MatchString\<close> and \<open>ReplaceAllString\<close> for expressions that do not match
  the empty string. \<open>rest_lang\<close> shows that the matcher decides the language of the expression.
\<close>

type_synonym subject = "(rune \<times> string) list"

datatype re = Cls "rune \<Rightarrow> bool" | Eps | Cat re re | Or re re | Star re

function (sequential) rests :: "re \<Rightarrow> subject \<Rightarrow> subject list" where
  "rests (Cls P) (x # xs) = (if P (fst x) then [xs] else [])"
| "rests (Cls P) [] = []"
| "rests Eps xs = [xs]"
| "rests (Cat r1 r2) xs = concat (map (rests r2) (rests r1 xs))"
| "rests (Or r1 r2) xs = rests r1 xs @ rests r2 xs"
| "rests (Star r) xs =
     concat (map (\<lambda>ys. if length ys < length xs then rests (Star r) ys else []) (rests r xs)) @ [xs]"
  by pat_completeness auto
termination
  by (relation "measures [\<lambda>(r, xs). size r, \<lambda>(r, xs). length xs]") auto

declare rests.simps(6) [simp del]

inductive_set star_lang :: "subject set \<Rightarrow> subject set" for L where
  star_Nil: "[] \<in> star_lang L"
| star_step: "u \<in> L \<Longrightarrow> v \<in> star_lang L \<Longrightarrow> u @ v \<in> star_lang L"

fun lang :: "re \<Rightarrow> subject set" where
  "lang (Cls P) = {[x] | x. P (fst x)}"
| "lang Eps = {[]}"
| "lang (Cat r1 r2) = {u @ v | u v. u \<in> lang r1 \<and> v \<in> lang r2}"
| "lang (Or r1 r2) = lang r1 \<union> lang r2"
| "lang (Star r) = star_lang (lang r)"

lemma star_lang_split:
  "w \<in> star_lang L \<Longrightarrow> w = [] \<or> (\<exists>u v. w = u @ v \<and> u \<in> L \<and> u \<noteq> [] \<and> v \<in> star_lang L)"
proof (induction rule: star_lang.induct)
  case (star_step u v)
  then show ?case by (cases "u = []") (auto intro: star_lang.intros)
qed simp

lemma rests_star:
  assumes IH: "\<And>xs ys. ys \<in> set (rests r xs) \<longleftrightarrow> (\<exists>u. xs = u @ ys \<and> u \<in> lang r)"
  shows "ys \<in> set (rests (Star r) xs) \<longleftrightarrow> (\<exists>u. xs = u @ ys \<and> u \<in> star_lang (lang r))"
proof (induction xs rule: length_induct)
  case (1 xs)
  show ?case
  proof
    assume "ys \<in> set (rests (Star r) xs)"
    then consider "ys = xs" | zs where "zs \<in> set (rests r xs)" "length zs < length xs" "ys \<in> set (rests (Star r) zs)"
      by (subst (asm) rests.simps) (auto split: if_splits)
    then show "\<exists>u. xs = u @ ys \<and> u \<in> star_lang (lang r)"
    proof cases
      case 1 then show ?thesis using star_lang.star_Nil by force
    next
      case 2
      with 1 IH obtain u v where "xs = u @ zs" "u \<in> lang r" "zs = v @ ys" "v \<in> star_lang (lang r)"
        by blast
      then show ?thesis using star_lang.star_step by (metis append.assoc)
    qed
  next
    assume "\<exists>u. xs = u @ ys \<and> u \<in> star_lang (lang r)"
    then obtain u where u: "xs = u @ ys" "u \<in> star_lang (lang r)" by blast
    from star_lang_split [OF u(2)] show "ys \<in> set (rests (Star r) xs)"
    proof
      assume "u = []" then show ?thesis using u by (subst rests.simps) simp
    next
      assume "\<exists>a v. u = a @ v \<and> a \<in> lang r \<and> a \<noteq> [] \<and> v \<in> star_lang (lang r)"
      then obtain a v where a: "u = a @ v" "a \<in> lang r" "a \<noteq> []" "v \<in> star_lang (lang r)" by blast
      then have "v @ ys \<in> set (rests r xs)" "length (v @ ys) < length xs" using IH u by auto
      moreover have "ys \<in> set (rests (Star r) (v @ ys))" using 1 a calculation(2) by blast
      ultimately show ?thesis by (subst rests.simps) (auto intro!: bexI [of _ "v @ ys"])
    qed
  qed
qed

lemma rests_lang: "ys \<in> set (rests r xs) \<longleftrightarrow> (\<exists>u. xs = u @ ys \<and> u \<in> lang r)"
proof (induction r arbitrary: xs ys)
  case (Cls P)
  then show ?case by (cases xs) auto
next
  case (Cat r1 r2)
  show ?case
  proof
    assume "ys \<in> set (rests (Cat r1 r2) xs)"
    then obtain zs where "zs \<in> set (rests r1 xs)" "ys \<in> set (rests r2 zs)" by auto
    then obtain u v where "xs = u @ v @ ys" "u \<in> lang r1" "v \<in> lang r2" by (auto simp: Cat.IH)
    then have "xs = (u @ v) @ ys \<and> u @ v \<in> lang (Cat r1 r2)" by auto
    then show "\<exists>w. xs = w @ ys \<and> w \<in> lang (Cat r1 r2)" by blast
  next
    assume "\<exists>w. xs = w @ ys \<and> w \<in> lang (Cat r1 r2)"
    then obtain u v where "xs = u @ v @ ys" "u \<in> lang r1" "v \<in> lang r2" by auto
    then have "v @ ys \<in> set (rests r1 xs)" "ys \<in> set (rests r2 (v @ ys))"
      by (simp_all add: Cat.IH)
    then show "ys \<in> set (rests (Cat r1 r2) xs)" by auto
  qed
next
  case (Star r)
  then show ?case using rests_star by simp
qed auto

text \<open>Repetition counts, \<open>{0,n}\<close>, \<open>{n,}\<close> and \<open>{n,m}\<close>, and anchored matching.\<close>

fun upto_times :: "nat \<Rightarrow> re \<Rightarrow> re" where
  "upto_times 0 r = Eps"
| "upto_times (Suc n) r = Or (Cat r (upto_times n r)) Eps"

fun times :: "nat \<Rightarrow> re \<Rightarrow> re" where
  "times 0 r = Eps"
| "times (Suc n) r = Cat r (times n r)"

definition at_least :: "nat \<Rightarrow> re \<Rightarrow> re" where
  "at_least n r = Cat (times n r) (Star r)"

definition between :: "nat \<Rightarrow> nat \<Rightarrow> re \<Rightarrow> re" where
  "between n m r = Cat (times n r) (upto_times (m - n) r)"

definition opt :: "re \<Rightarrow> re" where
  "opt r = Or r Eps"

fun literal :: "string \<Rightarrow> re" where
  "literal [] = Eps"
| "literal (c # cs) = Cat (Cls (\<lambda>r. r = byte c)) (literal cs)"

definition match_full :: "re \<Rightarrow> string \<Rightarrow> bool" where
  "match_full r s \<longleftrightarrow> [] \<in> set (rests r (runes s))"

lemma match_full_lang: "match_full r s \<longleftrightarrow> runes s \<in> lang r"
  by (simp add: match_full_def rests_lang)

text \<open>Unanchored search, leftmost first.\<close>

fun match_any :: "re \<Rightarrow> subject \<Rightarrow> bool" where
  "match_any r [] \<longleftrightarrow> rests r [] \<noteq> []"
| "match_any r (x # xs) \<longleftrightarrow> rests r (x # xs) \<noteq> [] \<or> match_any r xs"

definition match_string :: "re \<Rightarrow> string \<Rightarrow> bool" where
  "match_string r s \<longleftrightarrow> match_any r (runes s)"

function replace_runes :: "re \<Rightarrow> string \<Rightarrow> subject \<Rightarrow> string" where
  "replace_runes r t [] = []"
| "replace_runes r t (x # xs) =
    (case rests r (x # xs) of
       ys # _ \<Rightarrow> if length ys < length (x # xs) then t @ replace_runes r t ys
                 else snd x @ replace_runes r t xs
     | [] \<Rightarrow> snd x @ replace_runes r t xs)"
  by pat_completeness auto
termination
  by (relation "measure (\<lambda>(r, t, xs). length xs)") auto

definition replace_all :: "re \<Rightarrow> string \<Rightarrow> string \<Rightarrow> string" where
  "replace_all r t s = replace_runes r t (runes s)"

lemma replace_all_no_match: "\<not> match_string r s \<Longrightarrow> replace_all r t s = s"
proof -
  have "\<not> match_any r xs \<Longrightarrow> replace_runes r t xs = concat (map snd xs)" for xs
    by (induction xs) auto
  then show "\<not> match_string r s \<Longrightarrow> replace_all r t s = s"
    by (simp add: match_string_def replace_all_def runes_bytes)
qed

lemma replace_cls_runes:
  "replace_runes (Cls P) t xs = concat (map (\<lambda>x. if P (fst x) then t else snd x) xs)"
  by (induction xs) auto

lemma replace_all_cls:
  "replace_all (Cls P) t s = concat (map (\<lambda>x. if P (fst x) then t else snd x) (runes s))"
  by (simp add: replace_all_def replace_cls_runes)

text \<open>Languages of the counted classes.\<close>

lemma lang_Cat_cls: "xs \<in> lang (Cat (Cls P) r) \<longleftrightarrow> (\<exists>x ys. xs = x # ys \<and> P (fst x) \<and> ys \<in> lang r)"
proof
  assume "xs \<in> lang (Cat (Cls P) r)"
  then obtain u v where "xs = u @ v" "u \<in> lang (Cls P)" "v \<in> lang r" by (auto simp only: lang.simps)
  then show "\<exists>x ys. xs = x # ys \<and> P (fst x) \<and> ys \<in> lang r" by auto
next
  assume "\<exists>x ys. xs = x # ys \<and> P (fst x) \<and> ys \<in> lang r"
  then obtain x ys where x: "xs = [x] @ ys" "P (fst x)" "ys \<in> lang r" by auto
  then have "[x] \<in> lang (Cls P)" by (cases x) auto
  with x show "xs \<in> lang (Cat (Cls P) r)" by (simp only: lang.simps) blast
qed

lemma lang_upto_cls: "xs \<in> lang (upto_times n (Cls P)) \<longleftrightarrow> length xs \<le> n \<and> (\<forall>x\<in>set xs. P (fst x))"
proof (induction n arbitrary: xs)
  case (Suc n)
  show ?case
    by (cases xs) (auto simp add: lang_Cat_cls Suc simp del: lang.simps(3))
qed auto

lemma lang_star_cls: "xs \<in> star_lang (lang (Cls P)) \<longleftrightarrow> (\<forall>x\<in>set xs. P (fst x))"
proof
  show "xs \<in> star_lang (lang (Cls P)) \<Longrightarrow> \<forall>x\<in>set xs. P (fst x)"
    by (induction rule: star_lang.induct) auto
next
  show "\<forall>x\<in>set xs. P (fst x) \<Longrightarrow> xs \<in> star_lang (lang (Cls P))"
  proof (induction xs)
    case (Cons x xs)
    then have "[x] \<in> lang (Cls P)" "xs \<in> star_lang (lang (Cls P))" by (cases x; auto)+
    from star_lang.star_step [OF this] show ?case by simp
  qed (rule star_lang.star_Nil)
qed

lemma lang_times_cls: "xs \<in> lang (times n (Cls P)) \<longleftrightarrow> length xs = n \<and> (\<forall>x\<in>set xs. P (fst x))"
proof (induction n arbitrary: xs)
  case (Suc n)
  show ?case
    by (cases xs) (auto simp add: lang_Cat_cls Suc simp del: lang.simps(3))
qed auto

section \<open>Character classes\<close>

definition rng :: "char \<Rightarrow> char \<Rightarrow> rune \<Rightarrow> bool" where
  "rng a b r \<longleftrightarrow> byte a \<le> r \<and> r \<le> byte b"

definition is_lower :: "rune \<Rightarrow> bool" where "is_lower = rng CHR ''a'' CHR ''z''"
definition is_upper :: "rune \<Rightarrow> bool" where "is_upper = rng CHR ''A'' CHR ''Z''"
definition is_digit :: "rune \<Rightarrow> bool" where "is_digit = rng CHR ''0'' CHR ''9''"
definition is_alpha :: "rune \<Rightarrow> bool" where "is_alpha r \<longleftrightarrow> is_lower r \<or> is_upper r"
definition is_alnum :: "rune \<Rightarrow> bool" where "is_alnum r \<longleftrightarrow> is_alpha r \<or> is_digit r"
definition one_of :: "string \<Rightarrow> rune \<Rightarrow> bool" where "one_of cs r \<longleftrightarrow> r \<in> byte ` set cs"

lemmas class_defs = rng_def is_lower_def is_upper_def is_digit_def is_alpha_def is_alnum_def one_of_def

lemma is_alnum_ascii: "is_alnum r \<Longrightarrow> r < 128"
  by (auto simp: class_defs)

text \<open>
  A sequence of ASCII runes comes from the bytes of the same values: the rune-level condition and
  the byte-level condition agree.
\<close>

lemma runes_all_ascii:
  "(\<forall>x\<in>set (runes s). fst x < 128) \<longleftrightarrow> (\<forall>c\<in>set s. byte c < 128)"
proof
  show "\<forall>c\<in>set s. byte c < 128 \<Longrightarrow> \<forall>x\<in>set (runes s). fst x < 128"
    by (simp add: runes_ascii)
next
  show "\<forall>x\<in>set (runes s). fst x < 128 \<Longrightarrow> \<forall>c\<in>set s. byte c < 128"
  proof (induction s)
    case (Cons c s)
    then have "byte c < 128"
      by (metis decode_rune_multibyte list.set_intros(1) list.discI runes_step fst_conv)
    with Cons show ?case by (simp add: runes_ascii_Cons)
  qed simp
qed

lemma runes_all_iff:
  assumes "\<And>r. P r \<Longrightarrow> r < 128"
  shows "(\<forall>x\<in>set (runes s). P (fst x)) \<longleftrightarrow> (\<forall>c\<in>set s. P (byte c))"
proof -
  have "(\<forall>x\<in>set (runes s). P (fst x)) \<longleftrightarrow> (\<forall>c\<in>set s. byte c < 128) \<and> (\<forall>x\<in>set (runes s). P (fst x))"
    using assms runes_all_ascii by blast
  also have "\<dots> \<longleftrightarrow> (\<forall>c\<in>set s. P (byte c))" using assms by (auto simp: runes_ascii)
  finally show ?thesis .
qed

lemma runes_length_ascii: "\<forall>c\<in>set s. byte c < 128 \<Longrightarrow> length (runes s) = length s"
  by (simp add: runes_ascii)

end
