(* ===== verification/Security.thy ===== *)
theory Security
  imports GoRegexp
begin

text \<open>
  Packages \<open>internal/security\<close> and \<open>internal/validate\<close>: redaction of audit details and error
  messages, control-character checks of header and claim values, and validation of Kubernetes
  names. The lemmas show what can come out of each function.
\<close>

section \<open>Redaction (internal/security/redact.go)\<close>

definition sensitiveKeys :: "string list" where
  "sensitiveKeys =
    [''password'', ''token'', ''api_key'', ''apikey'', ''secret'',
     ''authorization'', ''bearer'', ''credential'', ''cookie'',
     ''private_key'', ''privatekey'', ''access_key'', ''accesskey'']"

definition is_space :: "rune \<Rightarrow> bool" where
  "is_space r \<longleftrightarrow> r \<in> {9, 10, 12, 13, 32}"

definition fold_letter :: "char \<Rightarrow> re" where
  "fold_letter c = Cls (\<lambda>r. r = byte c \<or> r + 32 = byte c)"

fun fold_literal :: "string \<Rightarrow> re" where
  "fold_literal [] = Eps"
| "fold_literal (c # cs) = Cat (fold_letter c) (fold_literal cs)"

definition urlPattern :: re where
  "urlPattern = Cat (Cls is_alpha) (Cat (Star (Cls (\<lambda>r. is_alnum r \<or> one_of ''+.-'' r)))
     (Cat (literal ''://'') (at_least 1 (Cls (\<lambda>r. \<not> is_space r \<and> r \<noteq> 34 \<and> r \<noteq> 39)))))"

definition pathPattern :: re where
  "pathPattern = at_least 2
     (Cat (literal ''/'') (at_least 1 (Cls (\<lambda>r. is_alnum r \<or> one_of ''._-'' r))))"

definition b64url :: "rune \<Rightarrow> bool" where
  "b64url r \<longleftrightarrow> is_alnum r \<or> one_of ''_-'' r"

definition jwtPattern :: re where
  "jwtPattern = Cat (literal ''eyJ'') (Cat (at_least 20 (Cls b64url)) (Cat (literal ''.'')
     (Cat (at_least 20 (Cls b64url)) (Cat (literal ''.'') (at_least 20 (Cls b64url))))))"

definition bearer_char :: "rune \<Rightarrow> bool" where
  "bearer_char r \<longleftrightarrow> is_alnum r \<or> one_of ''._~+/=-'' r"

definition bearerPattern :: re where
  "bearerPattern = Cat (fold_literal ''bearer'') (Cat (at_least 1 (Cls is_space))
     (at_least 10 (Cls bearer_char)))"

definition base64Secret :: re where
  "base64Secret = Cat (at_least 40 (Cls (\<lambda>r. is_alnum r \<or> one_of ''+/'' r)))
     (between 0 2 (literal ''=''))"

definition redactedValue :: string where "redactedValue = ''[REDACTED]''"
definition jwtRedacted :: string where "jwtRedacted = ''[JWT_REDACTED]''"
definition bearerRedacted :: string where "bearerRedacted = ''[BEARER_REDACTED]''"

definition isSensitiveKey :: "(rune \<Rightarrow> rune) \<Rightarrow> string \<Rightarrow> bool" where
  "isSensitiveKey lo key = (let lower = to_lower lo key in
     list_ex (\<lambda>s. str_contains lower s) sensitiveKeys)"

text \<open>
  The share of blanks is compared with 0.05 in floating point; for strings shorter than \<open>2^50\<close>
  bytes the rounded quotient is below the rounded 0.05 exactly when \<open>20 * n < len\<close>.
\<close>

definition looksLikeSecret :: "string \<Rightarrow> bool" where
  "looksLikeSecret v =
    (if length v < 40 then False
     else (let nonAlnum = length (filter (\<lambda>x. fst x = 32 \<or> fst x = 10 \<or> fst x = 9) (runes v))
           in 20 * nonAlnum < length v))"

definition redactValue :: "string \<Rightarrow> string" where
  "redactValue v =
    (let v1 = (if match_string jwtPattern v then replace_all jwtPattern jwtRedacted v else v);
         v2 = (if match_string bearerPattern v1 then replace_all bearerPattern bearerRedacted v1 else v1)
     in if match_string base64Secret v2 \<and> looksLikeSecret v2 then redactedValue else v2)"

definition RedactMap :: "(rune \<Rightarrow> rune) \<Rightarrow> (string \<times> string) list option \<Rightarrow> (string \<times> string) list option" where
  "RedactMap lo detail = (case detail of None \<Rightarrow> None | Some m \<Rightarrow>
     Some (map (\<lambda>(k, v). (k, if isSensitiveKey lo k then redactedValue else redactValue v)) m))"

definition RedactError :: "string option \<Rightarrow> string" where
  "RedactError err = (case err of None \<Rightarrow> [] | Some msg \<Rightarrow>
    (let msg = replace_all urlPattern ''[URL_REDACTED]'' msg;
         msg = replace_all pathPattern ''[PATH_REDACTED]'' msg;
         msg = replace_all jwtPattern jwtRedacted msg;
         msg = replace_all bearerPattern bearerRedacted msg;
         msg = (case str_index msg (CHR 0x0A # ''goroutine '') of Some idx \<Rightarrow> take idx msg | None \<Rightarrow> msg)
     in if length msg > 256 then take 256 msg @ ''...'' else msg))"

lemma RedactError_length: "length (RedactError err) \<le> 259"
  by (simp add: RedactError_def Let_def split: option.split)

lemma RedactMap_keys: "RedactMap lo (Some m) = Some m' \<Longrightarrow> map fst m' = map fst m"
  by (auto simp: RedactMap_def)

lemma RedactMap_sensitive:
  "RedactMap lo (Some m) = Some m' \<Longrightarrow> (k, v) \<in> set m' \<Longrightarrow> isSensitiveKey lo k \<Longrightarrow> v = redactedValue"
  by (auto simp: RedactMap_def)

section \<open>Control characters (internal/security/sanitize.go)\<close>

definition ErrControlChars :: goerr where
  "ErrControlChars = ErrVar ''security.ErrControlChars''"

definition ValidateHeaderValue :: "string \<Rightarrow> goerr option" where
  "ValidateHeaderValue s =
    (if list_ex (\<lambda>x. fst x \<noteq> 9 \<and> is_control (fst x)) (runes s) then Some ErrControlChars else None)"

definition sanitize_rune :: "rune \<Rightarrow> rune option" where
  "sanitize_rune r = (if r = 9 then Some r else if is_control r then None else Some r)"

definition SanitizeClaimValue :: "string \<Rightarrow> string" where
  "SanitizeClaimValue s = strings_map sanitize_rune s"

lemma map_filter_sanitize:
  "List.map_filter (sanitize_rune \<circ> fst) xs = filter (\<lambda>r. r = 9 \<or> \<not> is_control r) (map fst xs)"
  by (induction xs) (auto simp: map_filter_simps sanitize_rune_def)

lemma runes_SanitizeClaimValue:
  "map fst (runes (SanitizeClaimValue s)) = filter (\<lambda>r. r = 9 \<or> \<not> is_control r) (map fst (runes s))"
  unfolding SanitizeClaimValue_def
  by (subst runes_strings_map) (auto simp: map_filter_sanitize sanitize_rune_def split: if_splits)

lemma SanitizeClaimValue_valid: "ValidateHeaderValue (SanitizeClaimValue s) = None"
proof -
  have "\<forall>r\<in>set (map fst (runes (SanitizeClaimValue s))). r = 9 \<or> \<not> is_control r"
    by (simp add: runes_SanitizeClaimValue)
  then show ?thesis by (auto simp: ValidateHeaderValue_def list_ex_iff)
qed

section \<open>Kubernetes names (internal/validate/k8s.go)\<close>

text \<open>
  The checks of \<open>k8s.io/apimachinery/pkg/util/validation\<close> return the list of complaints and are
  arguments: \<open>dns_label\<close>, \<open>dns_subdomain\<close> and \<open>label_value\<close>.
\<close>

definition kindRE :: re where
  "kindRE = Cat (Cls is_alpha) (Star (Cls is_alnum))"

fun join :: "string \<Rightarrow> string list \<Rightarrow> string" where
  "join sep [] = []"
| "join sep [x] = x"
| "join sep (x # y # xs) = x @ sep @ join sep (y # xs)"

definition validate_Namespace :: "(string \<Rightarrow> string list) \<Rightarrow> string \<Rightarrow> goerr option" where
  "validate_Namespace dns_label ns =
    (if ns = [] then Some (Errorf ''namespace must not be empty'' [])
     else if dns_label ns \<noteq> []
     then Some (Errorf ''invalid namespace %q: %s'' [ns, join ''; '' (dns_label ns)])
     else None)"

definition validate_ResourceName :: "(string \<Rightarrow> string list) \<Rightarrow> string \<Rightarrow> goerr option" where
  "validate_ResourceName dns_subdomain name =
    (if name = [] then Some (Errorf ''resource name must not be empty'' [])
     else if dns_subdomain name \<noteq> []
     then Some (Errorf ''invalid resource name %q: %s'' [name, join ''; '' (dns_subdomain name)])
     else None)"

definition validate_Kind :: "string \<Rightarrow> goerr option" where
  "validate_Kind k =
    (if k = [] then Some (Errorf ''kind must not be empty'' [])
     else if length k > 63 then Some (Errorf ''kind %q exceeds max length 63'' [k])
     else if \<not> match_full kindRE k
     then Some (Errorf ''invalid kind %q: must start with letter and contain only ASCII alphanumeric characters'' [k])
     else None)"

definition validate_LabelValue :: "(string \<Rightarrow> string list) \<Rightarrow> string \<Rightarrow> goerr option" where
  "validate_LabelValue label_value v =
    (if label_value v \<noteq> []
     then Some (Errorf ''invalid label value %q: %s'' [v, join ''; '' (label_value v)])
     else None)"

lemma match_kindRE:
  "match_full kindRE k \<longleftrightarrow> k \<noteq> [] \<and> is_alpha (byte (hd k)) \<and> (\<forall>c\<in>set k. is_alnum (byte c))"
proof -
  have "match_full kindRE k \<longleftrightarrow> (\<exists>x ys. runes k = x # ys \<and> is_alpha (fst x) \<and> (\<forall>y\<in>set ys. is_alnum (fst y)))"
    by (simp only: match_full_lang kindRE_def lang_Cat_cls lang.simps(5) lang_star_cls)
  also have "\<dots> \<longleftrightarrow> runes k \<noteq> [] \<and> is_alpha (fst (hd (runes k))) \<and> (\<forall>x\<in>set (runes k). is_alnum (fst x))"
    by (cases "runes k") (auto simp: is_alnum_def)
  also have "(\<forall>x\<in>set (runes k). is_alnum (fst x)) \<longleftrightarrow> (\<forall>c\<in>set k. is_alnum (byte c))"
    by (rule runes_all_iff) (rule is_alnum_ascii)
  also have "runes k \<noteq> [] \<and> is_alpha (fst (hd (runes k))) \<and> (\<forall>c\<in>set k. is_alnum (byte c)) \<longleftrightarrow>
      k \<noteq> [] \<and> is_alpha (byte (hd k)) \<and> (\<forall>c\<in>set k. is_alnum (byte c))"
    by (cases k) (auto simp: runes_ascii_Cons is_alnum_ascii)
  finally show ?thesis .
qed

end
