(* ===== verification/AuditTrail.thy ===== *)
theory AuditTrail
  imports Security
begin

text \<open>
  Package \<open>internal/audit\<close>: audit events, the logging emitter, and the buffered emitter with its
  background flush loop. The buffered emitter is a step machine: the goroutines that emit and the
  flush loop interleave; \<open>log_emitter\<close> entries stand for what goes to the process log. The
  invariant \<open>emitter_inv\<close> says that no accepted event is lost or reordered on its way through the
  channel and the batch.
\<close>

datatype EventType =
    EventAuthSuccess | EventAuthFailure | EventRateLimitDenied | EventCircuitBreakerTrip
  | EventImpersonation | EventJWTDelegation
  | EventSessionCreated | EventSessionDeleted | EventSessionPhaseChanged
  | EventSessionAutoCancelled | EventSessionRetentionDeleted
  | EventA2ATaskStarted | EventA2ATaskCompleted | EventA2ATaskFailed
  | EventMCPToolInvoked | EventMCPToolDenied | EventMCPToolFailed | EventMCPSessionInit
  | EventSeverityTriageCompleted | EventSeverityTriageFailed
  | EventConfigReloaded | EventConfigRejected
  | EventRBACDenied | EventToolInvoked

type_synonym detail = "(string \<times> string) list option"

record Event =
  ev_Timestamp :: gotime
  ev_Type :: EventType
  ev_RequestID :: string
  ev_UserID :: string
  ev_SourceIP :: string
  ev_Detail :: detail

definition mk_event :: "EventType \<Rightarrow> string \<Rightarrow> string \<Rightarrow> string \<Rightarrow> detail \<Rightarrow> Event" where
  "mk_event ty rid uid ip d =
    \<lparr>ev_Timestamp = 0, ev_Type = ty, ev_RequestID = rid, ev_UserID = uid, ev_SourceIP = ip,
     ev_Detail = d\<rparr>"

lemma mk_event_sel [simp]:
  "ev_Type (mk_event ty rid uid ip d) = ty" "ev_UserID (mk_event ty rid uid ip d) = uid"
  "ev_Detail (mk_event ty rid uid ip d) = d" "ev_SourceIP (mk_event ty rid uid ip d) = ip"
  "ev_RequestID (mk_event ty rid uid ip d) = rid"
  by (simp_all add: mk_event_def)

text \<open>
  \<open>stamp\<close> is the part both emitters share: the time, and the request id of the context \<open>ctx_rid\<close>
  when the caller set none.
\<close>

definition stamp :: "gotime \<Rightarrow> string \<Rightarrow> Event \<Rightarrow> Event" where
  "stamp now ctx_rid ev =
    (let ev = ev\<lparr>ev_Timestamp := now\<rparr>
     in if ev_RequestID ev = [] then ev\<lparr>ev_RequestID := ctx_rid\<rparr> else ev)"

section \<open>LogEmitter\<close>

datatype kv_value = KStr string | KTime gotime | KType EventType

definition LogEmitter_Emit :: "(rune \<Rightarrow> rune) \<Rightarrow> gotime \<Rightarrow> string \<Rightarrow> Event \<Rightarrow> (string \<times> kv_value) list" where
  "LogEmitter_Emit lo now ctx_rid ev0 =
    (let ev = stamp now ctx_rid ev0;
         kv = [(''event_type'', KType (ev_Type ev)), (''timestamp'', KTime (ev_Timestamp ev)),
               (''request_id'', KStr (ev_RequestID ev))];
         kv = (if ev_UserID ev \<noteq> [] then kv @ [(''user_id'', KStr (ev_UserID ev))] else kv);
         kv = (if ev_SourceIP ev \<noteq> [] then kv @ [(''source_ip'', KStr (ev_SourceIP ev))] else kv)
     in kv @ (case RedactMap lo (ev_Detail ev) of None \<Rightarrow> []
              | Some m \<Rightarrow> map (\<lambda>(k, v). (k, KStr v)) m))"

definition EmitFromContext ::
  "(Event \<Rightarrow> 'w \<Rightarrow> 'w) option \<Rightarrow> EventType \<Rightarrow> string \<Rightarrow> string \<Rightarrow> string \<Rightarrow> detail \<Rightarrow> 'w \<Rightarrow> 'w" where
  "EmitFromContext emitter ty ctx_rid userID sourceIP detail w =
    (case emitter of None \<Rightarrow> w
     | Some emit \<Rightarrow> emit (mk_event ty ctx_rid userID sourceIP detail) w)"

section \<open>BufferedEmitter\<close>

record BufferConfig =
  bc_BufferSize :: int
  bc_FlushInterval :: duration
  bc_BatchSize :: int

datatype loop_state = NotStarted | Running | Drained

record Emitter =
  be_cap :: int
  be_flushInterval :: duration
  be_batchSize :: int
  be_writer :: bool
  be_buffer :: "Event list"
  be_batch :: "Event list"
  be_done :: bool
  be_loop :: loop_state
  be_accepted :: "Event list"
  be_overflow :: nat
  be_flushed :: "Event list"
  be_logged :: "Event list"

text \<open>
  The channel is \<open>be_buffer\<close> with capacity \<open>be_cap\<close>; \<open>be_batch\<close> is the local variable of the flush
  loop. The ghost list \<open>be_accepted\<close> holds the events sent on the channel (what the events counter
  counts), \<open>be_flushed\<close> the events of every batch given to \<open>flushBatchBackground\<close>, and
  \<open>be_logged\<close> those logged because the writer failed.
\<close>

definition NewBufferedEmitter :: "BufferConfig \<Rightarrow> bool \<Rightarrow> Emitter" where
  "NewBufferedEmitter cfg has_writer =
    \<lparr>be_cap = (if bc_BufferSize cfg \<le> 0 then 4096 else bc_BufferSize cfg),
     be_flushInterval = (if bc_FlushInterval cfg \<le> 0 then 5 * ns_second else bc_FlushInterval cfg),
     be_batchSize = (if bc_BatchSize cfg \<le> 0 then 100 else bc_BatchSize cfg),
     be_writer = has_writer, be_buffer = [], be_batch = [], be_done = False, be_loop = NotStarted,
     be_accepted = [], be_overflow = 0, be_flushed = [], be_logged = []\<rparr>"

definition Start :: "Emitter \<Rightarrow> Emitter" where
  "Start e = e\<lparr>be_loop := Running\<rparr>"

definition prepare :: "(rune \<Rightarrow> rune) \<Rightarrow> gotime \<Rightarrow> string \<Rightarrow> Event \<Rightarrow> Event" where
  "prepare lo now ctx_rid event =
    (let ev = stamp now ctx_rid event in ev\<lparr>ev_Detail := RedactMap lo (ev_Detail ev)\<rparr>)"

definition send :: "Event \<Rightarrow> Emitter \<Rightarrow> Emitter" where
  "send ev e = e\<lparr>be_buffer := be_buffer e @ [ev], be_accepted := be_accepted e @ [ev]\<rparr>"

definition drop_event :: "Emitter \<Rightarrow> Emitter" where
  "drop_event e = e\<lparr>be_overflow := be_overflow e + 1\<rparr>"

definition has_room :: "Emitter \<Rightarrow> bool" where
  "has_room e \<longleftrightarrow> int (length (be_buffer e)) < be_cap e"

definition Emit :: "(rune \<Rightarrow> rune) \<Rightarrow> gotime \<Rightarrow> string \<Rightarrow> Event \<Rightarrow> Emitter \<Rightarrow> Emitter" where
  "Emit lo now ctx_rid event e =
    (let ev = prepare lo now ctx_rid event in if has_room e then send ev e else drop_event e)"

text \<open>
  \<open>EmitBlocking\<close> waits on the channel and on the context; when both are ready the select takes
  either. A call that has to wait is not yet a step.
\<close>

inductive EmitBlocking :: "(rune \<Rightarrow> rune) \<Rightarrow> gotime \<Rightarrow> string \<Rightarrow> bool \<Rightarrow> Event \<Rightarrow> Emitter \<Rightarrow> Emitter \<Rightarrow> bool"
  for lo now ctx_rid where
  sent: "has_room e \<Longrightarrow> EmitBlocking lo now ctx_rid ctx_done event e (send (prepare lo now ctx_rid event) e)"
| expired: "EmitBlocking lo now ctx_rid True event e (drop_event e)"

text \<open>\<open>write_ok\<close> says whether \<open>WriteAuditEvents\<close> returned nil on the batch.\<close>

definition flushBatch :: "bool \<Rightarrow> Emitter \<Rightarrow> Event list \<Rightarrow> bool" where
  "flushBatch write_ok e batch \<longleftrightarrow> (if \<not> be_writer e \<or> batch = [] then True else write_ok)"

definition flushBatchBackground :: "bool \<Rightarrow> Event list \<Rightarrow> Emitter \<Rightarrow> Emitter" where
  "flushBatchBackground write_ok batch e =
    (let e = e\<lparr>be_flushed := be_flushed e @ batch\<rparr>
     in if flushBatch write_ok e batch then e else e\<lparr>be_logged := be_logged e @ batch\<rparr>)"

definition loop_recv :: "bool \<Rightarrow> Emitter \<Rightarrow> Emitter" where
  "loop_recv write_ok e = (case be_buffer e of [] \<Rightarrow> e | evt # rest \<Rightarrow>
    (let e = e\<lparr>be_buffer := rest, be_batch := be_batch e @ [evt]\<rparr>
     in if int (length (be_batch e)) \<ge> be_batchSize e
        then (flushBatchBackground write_ok (be_batch e) e)\<lparr>be_batch := []\<rparr> else e))"

definition loop_tick :: "bool \<Rightarrow> Emitter \<Rightarrow> Emitter" where
  "loop_tick write_ok e =
    (if be_batch e \<noteq> [] then (flushBatchBackground write_ok (be_batch e) e)\<lparr>be_batch := []\<rparr> else e)"

definition loop_drain :: "bool \<Rightarrow> Emitter \<Rightarrow> Emitter" where
  "loop_drain write_ok e =
    (let batch = be_batch e @ be_buffer e;
         e = e\<lparr>be_batch := batch, be_buffer := []\<rparr>;
         e = (if batch \<noteq> [] then flushBatchBackground write_ok batch e else e)
     in e\<lparr>be_batch := [], be_loop := Drained\<rparr>)"

definition Close_emitter :: "Emitter \<Rightarrow> Emitter" where
  "Close_emitter e = e\<lparr>be_done := True\<rparr>"

text \<open>
  \<open>flushLoop\<close> as steps of its select, interleaved with the emitting goroutines and \<open>Close\<close>. The
  drain of the remaining events is one step: an event sent meanwhile is taken as sent before or
  after it.
\<close>

inductive emitter_step :: "(rune \<Rightarrow> rune) \<Rightarrow> Emitter \<Rightarrow> Emitter \<Rightarrow> bool" for lo where
  es_emit: "emitter_step lo e (Emit lo now rid ev e)"
| es_block: "EmitBlocking lo now rid ctx_done ev e e' \<Longrightarrow> emitter_step lo e e'"
| es_start: "be_loop e = NotStarted \<Longrightarrow> emitter_step lo e (Start e)"
| es_recv: "be_loop e = Running \<Longrightarrow> be_buffer e \<noteq> [] \<Longrightarrow> emitter_step lo e (loop_recv ok e)"
| es_tick: "be_loop e = Running \<Longrightarrow> emitter_step lo e (loop_tick ok e)"
| es_drain: "be_loop e = Running \<Longrightarrow> be_done e \<Longrightarrow> emitter_step lo e (loop_drain ok e)"
| es_close: "\<not> be_done e \<Longrightarrow> emitter_step lo e (Close_emitter e)"

definition emitter_inv :: "Emitter \<Rightarrow> bool" where
  "emitter_inv e \<longleftrightarrow>
     be_accepted e = be_flushed e @ be_batch e @ be_buffer e \<and>
     int (length (be_buffer e)) \<le> be_cap e \<and> 0 < be_batchSize e \<and>
     int (length (be_batch e)) < be_batchSize e \<and>
     set (be_logged e) \<subseteq> set (be_flushed e)"

lemmas emitter_ops = Emit_def send_def drop_event_def Start_def loop_recv_def loop_tick_def
  loop_drain_def Close_emitter_def flushBatchBackground_def

lemma emitter_inv_new: "emitter_inv (NewBufferedEmitter cfg w)"
  by (auto simp: emitter_inv_def NewBufferedEmitter_def)

lemma emitter_inv_send [inv_intros]: "emitter_inv e \<Longrightarrow> has_room e \<Longrightarrow> emitter_inv (send ev e)"
  by (auto simp: emitter_inv_def send_def has_room_def simp flip: append_assoc)

lemma emitter_inv_drop [inv_intros]: "emitter_inv e \<Longrightarrow> emitter_inv (drop_event e)"
  by (auto simp: emitter_inv_def drop_event_def)

lemma emitter_inv_recv [inv_intros]: "emitter_inv e \<Longrightarrow> emitter_inv (loop_recv ok e)"
  by (auto simp: emitter_inv_def loop_recv_def flushBatchBackground_def Let_def split: list.splits)

lemma emitter_inv_tick [inv_intros]: "emitter_inv e \<Longrightarrow> emitter_inv (loop_tick ok e)"
  by (auto simp: emitter_inv_def loop_tick_def flushBatchBackground_def Let_def)

lemma emitter_inv_drain [inv_intros]: "emitter_inv e \<Longrightarrow> emitter_inv (loop_drain ok e)"
  by (auto simp: emitter_inv_def loop_drain_def flushBatchBackground_def Let_def)

lemma emitter_inv_step: "emitter_step lo e e' \<Longrightarrow> emitter_inv e \<Longrightarrow> emitter_inv e'"
proof (induction rule: emitter_step.induct)
  case (es_emit now rid ev e)
  then show ?case by (auto simp: Emit_def Let_def intro: inv_intros)
next
  case (es_block now rid ctx_done ev e e')
  then show ?case by (auto elim!: EmitBlocking.cases intro: inv_intros)
next
  case (es_start e) then show ?case by (simp add: emitter_inv_def Start_def)
next
  case (es_close e) then show ?case by (simp add: emitter_inv_def Close_emitter_def)
qed (auto intro: inv_intros)

lemma emitter_inv_run: "(emitter_step lo)\<^sup>*\<^sup>* e e' \<Longrightarrow> emitter_inv e \<Longrightarrow> emitter_inv e'"
  by (induction rule: rtranclp_induct) (auto intro: emitter_inv_step)


definition sample_config :: BufferConfig where
  "sample_config = \<lparr>bc_BufferSize = 1, bc_FlushInterval = 0, bc_BatchSize = 2\<rparr>"

definition sample_event :: Event where
  "sample_event = mk_event EventAuthSuccess ''r1'' ''alice'' [] None"

definition sample_emitter :: Emitter where
  "sample_emitter = Emit id 7 [] sample_event (Emit id 5 [] sample_event (Start (NewBufferedEmitter sample_config True)))"


end
