(* ===== verification/SessionService.thy ===== *)
theory SessionService
  imports SessionEvents AuditTrail
begin

text \<open>
  \<open>CRDSessionService\<close> (\<open>internal/session/service.go\<close>, \<open>UpdatePhase\<close> of \<open>statemachine.go\<close>): the wrapper
  that keeps an InvestigationSession resource beside every in-memory ADK session.

  Outside code is a parameter: the Kubernetes client (a record of functions on an abstract API
  state \<open>'k\<close>; every call, a read included, may move that state, so other writers are covered), the
  ADK delegate (functions on \<open>'d\<close>), the clock, and \<open>RetryOnConflict\<close>. The service record holds the
  configuration and \<open>crdIndex\<close>; the \<open>world\<close> record holds what the service acts on: the API state,
  the delegate state, the emitted audit events and the gauge. An operation runs to its end before
  the next one; the mutex makes every access to \<open>crdIndex\<close> atomic.
\<close>

section \<open>Outside interfaces\<close>

type_synonym 'k reader =
  "string \<Rightarrow> string \<Rightarrow> InvestigationSession \<Rightarrow> 'k \<Rightarrow> goerr option \<times> InvestigationSession \<times> 'k"

record 'k k8s_client =
  kc_Get :: "'k reader"
  kc_Create :: "InvestigationSession \<Rightarrow> 'k \<Rightarrow> goerr option \<times> InvestigationSession \<times> 'k"
  kc_Update :: "InvestigationSession \<Rightarrow> 'k \<Rightarrow> goerr option \<times> InvestigationSession \<times> 'k"
  kc_StatusUpdate :: "InvestigationSession \<Rightarrow> 'k \<Rightarrow> goerr option \<times> InvestigationSession \<times> 'k"
  kc_Delete :: "InvestigationSession \<Rightarrow> 'k \<Rightarrow> goerr option \<times> 'k"

record CreateConfig =
  cc_OwnerRef :: OwnerReference
  cc_A2ATaskID :: string
  cc_UserIdentity :: SessionUser
  cc_JoinMode :: string
  cc_RemediationRef :: ObjectRef

text \<open>A value of the request state: a (possibly nil) \<open>*CreateConfig\<close>, or a value of another type.\<close>

datatype state_val = SVConfig "CreateConfig option" | SVOther string

record CreateRequest =
  cr_AppName :: string
  cr_UserID :: string
  cr_SessionID :: string
  cr_State :: "(string \<times> state_val) list option"

record GetRequest =
  gr_AppName :: string
  gr_UserID :: string
  gr_SessionID :: string

record ListRequest =
  lr_AppName :: string
  lr_UserID :: string

record ('d, 's) delegate =
  dl_Create :: "CreateRequest \<Rightarrow> 'd \<Rightarrow> (goerr + 's) \<times> 'd"
  dl_Get :: "GetRequest \<Rightarrow> 'd \<Rightarrow> (goerr + 's) \<times> 'd"
  dl_List :: "ListRequest \<Rightarrow> 'd \<Rightarrow> (goerr + 's list) \<times> 'd"
  dl_Delete :: "GetRequest \<Rightarrow> 'd \<Rightarrow> goerr option \<times> 'd"
  dl_AppendEvent :: "'s \<Rightarrow> SEvent option \<Rightarrow> 'd \<Rightarrow> goerr option \<times> 'd"
  dl_ID :: "'s \<Rightarrow> string"

record ('k, 'd, 's) CRDSessionService =
  sv_delegate :: "('d, 's) delegate"
  sv_client :: "'k k8s_client"
  sv_apiReader :: "'k reader option"
  sv_namespace :: string
  sv_auditor :: bool
  sv_sessionsActive :: bool
  sv_now :: "'k \<Rightarrow> gotime"
  sv_crdIndex :: "(string \<times> string) list"

record ('k, 'd) world =
  w_api :: 'k
  w_del :: 'd
  w_audit :: "Event list"
  w_gauge :: "string \<Rightarrow> int"

section \<open>Constants and helpers\<close>

definition LabelUser :: string where "LabelUser = ''apifrontend.kubernaut.ai/user''"
definition LabelRRName :: string where "LabelRRName = ''apifrontend.kubernaut.ai/rr-name''"
definition LabelPhase :: string where "LabelPhase = ''apifrontend.kubernaut.ai/phase''"
definition LabelManagedBy :: string where "LabelManagedBy = ''app.kubernetes.io/managed-by''"
definition StateKeyCreateConfig :: string where "StateKeyCreateConfig = ''temp:af_create_config''"

definition crd_first :: "rune \<Rightarrow> bool" where "crd_first r \<longleftrightarrow> is_lower r \<or> is_digit r"
definition crd_inner :: "rune \<Rightarrow> bool" where "crd_inner r \<longleftrightarrow> crd_first r \<or> r = byte CHR ''-''"

definition validCRDName :: re where
  "validCRDName = Cat (Cls crd_first) (opt (Cat (upto_times 251 (Cls crd_inner)) (Cls crd_first)))"

definition label_char :: "rune \<Rightarrow> bool" where
  "label_char r \<longleftrightarrow> is_alnum r \<or> one_of ''._-'' r"

definition invalidLabelChars :: re where
  "invalidLabelChars = Cls (\<lambda>r. \<not> label_char r)"

definition sanitizeLabelValue :: "string \<Rightarrow> string" where
  "sanitizeLabelValue v =
    (let v = replace_all invalidLabelChars ''_'' v;
         v = (if length v > 63 then take 63 v else v);
         v = trim_left (set ''._-'') v;
         v = trim_right (set ''._-'') v
     in if v = [] then ''unknown'' else v)"

definition NewCRDSessionService ::
  "('d, 's) delegate \<Rightarrow> 'k k8s_client \<Rightarrow> string \<Rightarrow> ('k \<Rightarrow> gotime) \<Rightarrow>
   (('k, 'd, 's) CRDSessionService \<Rightarrow> ('k, 'd, 's) CRDSessionService) list \<Rightarrow> ('k, 'd, 's) CRDSessionService" where
  "NewCRDSessionService d c ns now opts =
    fold (\<lambda>o' s. o' s) opts
      \<lparr>sv_delegate = d, sv_client = c, sv_apiReader = None, sv_namespace = ns, sv_auditor = False,
       sv_sessionsActive = False, sv_now = now, sv_crdIndex = []\<rparr>"

definition WithAuditor :: "bool \<Rightarrow> ('k, 'd, 's) CRDSessionService \<Rightarrow> ('k, 'd, 's) CRDSessionService" where
  "WithAuditor present s = s\<lparr>sv_auditor := present\<rparr>"

definition WithSessionsActive :: "bool \<Rightarrow> ('k, 'd, 's) CRDSessionService \<Rightarrow> ('k, 'd, 's) CRDSessionService" where
  "WithSessionsActive present s = s\<lparr>sv_sessionsActive := present\<rparr>"

definition WithAPIReader :: "'k reader option \<Rightarrow> ('k, 'd, 's) CRDSessionService \<Rightarrow> ('k, 'd, 's) CRDSessionService" where
  "WithAPIReader r s = s\<lparr>sv_apiReader := r\<rparr>"

definition getReader :: "('k, 'd, 's) CRDSessionService \<Rightarrow> 'k reader" where
  "getReader s = (case sv_apiReader s of Some r \<Rightarrow> r | None \<Rightarrow> kc_Get (sv_client s))"

definition emitAudit ::
  "('k, 'd, 's) CRDSessionService \<Rightarrow> EventType \<Rightarrow> string \<Rightarrow> (string \<times> string) list \<Rightarrow> ('k, 'd) world \<Rightarrow> ('k, 'd) world" where
  "emitAudit s ty userID detail w =
    (if sv_auditor s then w\<lparr>w_audit := w_audit w @ [mk_event ty [] userID [] (Some detail)]\<rparr> else w)"

definition incSessionGauge :: "('k, 'd, 's) CRDSessionService \<Rightarrow> string \<Rightarrow> ('k, 'd) world \<Rightarrow> ('k, 'd) world" where
  "incSessionGauge s phase w =
    (if sv_sessionsActive s then w\<lparr>w_gauge := (w_gauge w)(phase := w_gauge w phase + 1)\<rparr> else w)"

definition decSessionGauge :: "('k, 'd, 's) CRDSessionService \<Rightarrow> string \<Rightarrow> ('k, 'd) world \<Rightarrow> ('k, 'd) world" where
  "decSessionGauge s phase w =
    (if sv_sessionsActive s then w\<lparr>w_gauge := (w_gauge w)(phase := w_gauge w phase - 1)\<rparr> else w)"

lemmas effect_defs = emitAudit_def incSessionGauge_def decSessionGauge_def

lemma effect_sel [simp]:
  "w_api (emitAudit s ty u d w) = w_api w" "w_del (emitAudit s ty u d w) = w_del w"
  "w_gauge (emitAudit s ty u d w) = w_gauge w"
  "w_audit (emitAudit s ty u d w) = w_audit w @ (if sv_auditor s then [mk_event ty [] u [] (Some d)] else [])"
  "w_api (incSessionGauge s p w) = w_api w" "w_del (incSessionGauge s p w) = w_del w"
  "w_audit (incSessionGauge s p w) = w_audit w"
  "w_api (decSessionGauge s p w) = w_api w" "w_del (decSessionGauge s p w) = w_del w"
  "w_audit (decSessionGauge s p w) = w_audit w"
  by (simp_all add: effect_defs)

lemma gauge_inc_dec:
  "w_gauge (incSessionGauge s p w) q = w_gauge w q + (if sv_sessionsActive s then of_bool (q = p) else 0)"
  "w_gauge (decSessionGauge s p w) q = w_gauge w q - (if sv_sessionsActive s then of_bool (q = p) else 0)"
  by (simp_all add: effect_defs)

definition crd_name_of :: "('k, 'd, 's) CRDSessionService \<Rightarrow> string \<Rightarrow> string" where
  "crd_name_of s sessionID = (case map_of (sv_crdIndex s) sessionID of Some n \<Rightarrow> n | None \<Rightarrow> sessionID)"

section \<open>UpdatePhase\<close>

text \<open>The status the transition writes.\<close>

definition phase_status ::
  "SessionPhaseT \<Rightarrow> SessionPhaseT \<Rightarrow> string \<Rightarrow> gotime \<Rightarrow> InvestigationSessionStatus \<Rightarrow> InvestigationSessionStatus" where
  "phase_status from to message now st =
    (let st = st\<lparr>Phase := to, Message := message\<rparr>
     in if IsTerminal to then st\<lparr>CompletedAt := Some now\<rparr>
        else if to = SessionPhaseDisconnected
        then st\<lparr>DisconnectedAt := Some now, ConnState := ConnectionStateDisconnected\<rparr>
        else if from = SessionPhaseDisconnected \<and> to = SessionPhaseActive
        then st\<lparr>ReconnectedAt := Some now, ConnState := ConnectionStateConnected\<rparr>
        else st)"

definition set_label :: "string \<Rightarrow> string \<Rightarrow> InvestigationSession \<Rightarrow> InvestigationSession option" where
  "set_label l v crd = (case om_Labels (Meta crd) of None \<Rightarrow> None
     | Some ls \<Rightarrow> Some (crd\<lparr>Meta := (Meta crd)\<lparr>om_Labels := Some (AList.update l v ls)\<rparr>\<rparr>))"

text \<open>One run of the function literal passed to \<open>RetryOnConflict\<close>; it sets the variable \<open>from\<close>.\<close>

definition phase_attempt ::
  "('k, 'd, 's) CRDSessionService \<Rightarrow> string \<Rightarrow> SessionPhaseT \<Rightarrow> string \<Rightarrow>
   SessionPhaseT \<times> 'k \<Rightarrow> goerr option \<times> (SessionPhaseT \<times> 'k)" where
  "phase_attempt s crdName to message st = (case st of (from0, k) \<Rightarrow>
    (case getReader s (sv_namespace s) crdName zero_session k of
       (Some e, crd, k) \<Rightarrow> (Some (Wrapf ''get session for phase update: %w'' [] e), (from0, k))
     | (None, crd, k) \<Rightarrow>
        (let from = Phase (Status crd) in
         case ValidateTransition from to of
           Some e \<Rightarrow> (Some (Wrapf ''phase transition: %w'' [] e), (from, k))
         | None \<Rightarrow>
            (let crd = crd\<lparr>Status := phase_status from to message (sv_now s k) (Status crd)\<rparr> in
             case kc_StatusUpdate (sv_client s) crd k of
               (Some e, crd, k) \<Rightarrow> (Some e, (from, k))
             | (None, crd, k) \<Rightarrow>
                (case getReader s (sv_namespace s) crdName crd k of
                   (Some e, crd, k) \<Rightarrow> (Some (Wrapf ''re-read session for label update: %w'' [] e), (from, k))
                 | (None, crd, k) \<Rightarrow>
                    (case set_label LabelPhase to crd of
                       None \<Rightarrow> (Some (Panicked ''assignment to entry in nil map''), (from, k))
                     | Some crd \<Rightarrow>
                        (case kc_Update (sv_client s) crd k of (e, crd, k) \<Rightarrow> (e, (from, k)))))))))"

definition UpdatePhase ::
  "((SessionPhaseT \<times> 'k \<Rightarrow> goerr option \<times> (SessionPhaseT \<times> 'k)) \<Rightarrow>
     SessionPhaseT \<times> 'k \<Rightarrow> goerr option \<times> (SessionPhaseT \<times> 'k)) \<Rightarrow>
   ('k, 'd, 's) CRDSessionService \<Rightarrow> string \<Rightarrow> SessionPhaseT \<Rightarrow> string \<Rightarrow> string \<Rightarrow> ('k, 'd) world \<Rightarrow>
   goerr option \<times> ('k, 'd, 's) CRDSessionService \<times> ('k, 'd) world" where
  "UpdatePhase RetryOnConflict s sessionID to message userID w =
    (let message = (if length message > maxPhaseMessageLen then take maxPhaseMessageLen message else message);
         crdName = crd_name_of s sessionID
     in case RetryOnConflict (phase_attempt s crdName to message) ([], w_api w) of
          (Some e, (from, k)) \<Rightarrow> (Some e, s, w\<lparr>w_api := k\<rparr>)
        | (None, (from, k)) \<Rightarrow>
            (let w = w\<lparr>w_api := k\<rparr>;
                 w = emitAudit s EventSessionPhaseChanged userID
                       [(''session_id'', sessionID), (''from'', from), (''to'', to)] w;
                 w = incSessionGauge s to (decSessionGauge s from w);
                 s = (if IsTerminal to then s\<lparr>sv_crdIndex := AList.delete sessionID (sv_crdIndex s)\<rparr> else s)
             in (None, s, w)))"

section \<open>Create\<close>

definition request_config :: "CreateRequest \<Rightarrow> goerr + CreateConfig option" where
  "request_config req = (case cr_State req of None \<Rightarrow> Inr None | Some m \<Rightarrow>
     (case map_of m StateKeyCreateConfig of
        None \<Rightarrow> Inr None
      | Some (SVConfig c) \<Rightarrow> Inr c
      | Some (SVOther t) \<Rightarrow> Inl (Errorf ''invalid create config type: %T'' [t])))"

definition new_session_crd :: "string \<Rightarrow> string \<Rightarrow> gotime \<Rightarrow> CreateConfig option \<Rightarrow> InvestigationSession" where
  "new_session_crd ns crdName now cfg =
    (let crd = \<lparr>Meta = zero_meta\<lparr>om_Name := crdName, om_Namespace := ns,
                   om_Labels := Some [(LabelPhase, SessionPhaseActive), (LabelManagedBy, ''kubernaut-apifrontend'')]\<rparr>,
                 Spec = zero_spec,
                 Status = zero_status\<lparr>Phase := SessionPhaseActive, ConnState := ConnectionStateConnected,
                   StartedAt := Some now\<rparr>\<rparr>
     in case cfg of None \<Rightarrow> crd
        | Some c \<Rightarrow>
            crd\<lparr>Meta := (Meta crd)\<lparr>om_OwnerReferences := (if ow_Name (cc_OwnerRef c) \<noteq> [] then [cc_OwnerRef c] else []),
                  om_Labels := Some [(LabelPhase, SessionPhaseActive), (LabelManagedBy, ''kubernaut-apifrontend''),
                    (LabelUser, sanitizeLabelValue (su_Username (cc_UserIdentity c))),
                    (LabelRRName, sanitizeLabelValue (or_Name (cc_RemediationRef c)))]\<rparr>,
                Spec := \<lparr>RemediationRequestRef = cc_RemediationRef c, A2ATaskID = cc_A2ATaskID c,
                  UserIdentityOf = cc_UserIdentity c, JoinMode = cc_JoinMode c\<rparr>\<rparr>)"

definition Create_crd_name :: "gotime \<Rightarrow> CreateRequest \<Rightarrow> string" where
  "Create_crd_name unixnano req =
    (if cr_SessionID req = [] then ''isess-'' @ show_int unixnano else cr_SessionID req)"

definition Create ::
  "('k, 'd, 's) CRDSessionService \<Rightarrow> CreateRequest \<Rightarrow> ('k, 'd) world \<Rightarrow>
   (goerr + 's) \<times> ('k, 'd, 's) CRDSessionService \<times> ('k, 'd) world" where
  "Create s req w = (case request_config req of Inl e \<Rightarrow> (Inl e, s, w) | Inr cfg \<Rightarrow>
    (let now = sv_now s (w_api w); crdName = Create_crd_name now req in
     if \<not> match_full validCRDName crdName
     then (Inl (Errorf ''invalid session ID %q: must be a valid RFC 1123 subdomain'' [crdName]), s, w)
     else (let crd = new_session_crd (sv_namespace s) crdName now cfg; desiredStatus = Status crd in
       case kc_Create (sv_client s) crd (w_api w) of
         (Some e, crd, k) \<Rightarrow> (Inl (Wrapf ''create InvestigationSession CRD: %w'' [] e), s, w\<lparr>w_api := k\<rparr>)
       | (None, crd, k) \<Rightarrow>
          (case kc_StatusUpdate (sv_client s) (crd\<lparr>Status := desiredStatus\<rparr>) k of
             (Some e, crd, k) \<Rightarrow>
               (Inl (Wrapf ''set InvestigationSession initial status: %w'' [] e), s,
                w\<lparr>w_api := snd (kc_Delete (sv_client s) crd k)\<rparr>)
           | (None, crd, k) \<Rightarrow>
              (case dl_Create (sv_delegate s) req (w_del w) of
                 (Inl e, d) \<Rightarrow>
                   (Inl (Wrapf ''delegate create: %w'' [] e), s,
                    w\<lparr>w_api := snd (kc_Delete (sv_client s) crd k), w_del := d\<rparr>)
               | (Inr sess, d) \<Rightarrow>
                   (let w = w\<lparr>w_api := k, w_del := d\<rparr>; sid = dl_ID (sv_delegate s) sess;
                        s' = s\<lparr>sv_crdIndex := AList.update sid crdName (sv_crdIndex s)\<rparr>;
                        w = emitAudit s EventSessionCreated (cr_UserID req)
                              [(''session_id'', sid), (''crd_name'', crdName), (''phase'', SessionPhaseActive)] w
                    in (Inr sess, s', incSessionGauge s SessionPhaseActive w)))))))"

section \<open>Get, List, Delete, AppendEvent, GetSessionPhase, PruneTerminalEntries\<close>

definition Get ::
  "('k, 'd, 's) CRDSessionService \<Rightarrow> GetRequest \<Rightarrow> ('k, 'd) world \<Rightarrow> (goerr + 's) \<times> ('k, 'd) world" where
  "Get s req w = (case dl_Get (sv_delegate s) req (w_del w) of (r, d) \<Rightarrow> (r, w\<lparr>w_del := d\<rparr>))"

definition List_sessions ::
  "('k, 'd, 's) CRDSessionService \<Rightarrow> ListRequest \<Rightarrow> ('k, 'd) world \<Rightarrow> (goerr + 's list) \<times> ('k, 'd) world" where
  "List_sessions s req w = (case dl_List (sv_delegate s) req (w_del w) of (r, d) \<Rightarrow> (r, w\<lparr>w_del := d\<rparr>))"

definition Delete ::
  "('k, 'd, 's) CRDSessionService \<Rightarrow> GetRequest \<Rightarrow> ('k, 'd) world \<Rightarrow>
   goerr option \<times> ('k, 'd, 's) CRDSessionService \<times> ('k, 'd) world" where
  "Delete s req w =
    (let crdName = crd_name_of s (gr_SessionID req) in
     case getReader s (sv_namespace s) crdName zero_session (w_api w) of
       (err, existing, k) \<Rightarrow>
         (let phase = (case err of None \<Rightarrow> Phase (Status existing) | Some _ \<Rightarrow> SessionPhaseActive);
              crd = zero_session\<lparr>Meta := zero_meta\<lparr>om_Name := crdName, om_Namespace := sv_namespace s\<rparr>\<rparr>;
              k = snd (kc_Delete (sv_client s) crd k);
              s' = s\<lparr>sv_crdIndex := AList.delete (gr_SessionID req) (sv_crdIndex s)\<rparr>;
              w = emitAudit s EventSessionDeleted (gr_UserID req)
                    [(''session_id'', gr_SessionID req), (''crd_name'', crdName)] (w\<lparr>w_api := k\<rparr>);
              w = decSessionGauge s phase w
          in case dl_Delete (sv_delegate s) req (w_del w) of (e, d) \<Rightarrow> (e, s', w\<lparr>w_del := d\<rparr>)))"

definition AppendEvent ::
  "('k, 'd, 's) CRDSessionService \<Rightarrow> 's \<Rightarrow> SEvent option \<Rightarrow> ('k, 'd) world \<Rightarrow> goerr option \<times> ('k, 'd) world" where
  "AppendEvent s sess event w =
    (let event = trimEventFunctionResponses event in
     case dl_AppendEvent (sv_delegate s) sess event (w_del w) of
       (Some e, d) \<Rightarrow> (Some e, w\<lparr>w_del := d\<rparr>)
     | (None, d) \<Rightarrow>
        (let w = w\<lparr>w_del := d\<rparr> in
         case map_of (sv_crdIndex s) (dl_ID (sv_delegate s) sess) of
           None \<Rightarrow> (None, w)
         | Some crdName \<Rightarrow>
            (case getReader s (sv_namespace s) crdName zero_session (w_api w) of
               (Some e, crd, k) \<Rightarrow> (None, w\<lparr>w_api := k\<rparr>)
             | (None, crd, k) \<Rightarrow>
                (case kc_StatusUpdate (sv_client s) crd k of (_, _, k) \<Rightarrow> (None, w\<lparr>w_api := k\<rparr>)))))"

definition GetSessionPhase ::
  "('k, 'd, 's) CRDSessionService \<Rightarrow> string \<Rightarrow> ('k, 'd) world \<Rightarrow> (goerr + SessionPhaseT) \<times> ('k, 'd) world" where
  "GetSessionPhase s sessionID w =
    (case getReader s (sv_namespace s) (crd_name_of s sessionID) zero_session (w_api w) of
       (Some e, crd, k) \<Rightarrow> (Inl (Wrapf ''get session phase: %w'' [] e), w\<lparr>w_api := k\<rparr>)
     | (None, crd, k) \<Rightarrow> (Inr (Phase (Status crd)), w\<lparr>w_api := k\<rparr>))"

text \<open>The loop over the snapshot of the index; it reads through the client, not the API reader.\<close>

fun prune_loop ::
  "('k, 'd, 's) CRDSessionService \<Rightarrow> (string \<times> string) list \<Rightarrow> (string \<times> string) list \<Rightarrow> nat \<Rightarrow> 'k \<Rightarrow>
   (string \<times> string) list \<times> nat \<times> 'k" where
  "prune_loop s [] index pruned k = (index, pruned, k)"
| "prune_loop s ((sessionID, crdName) # snapshot) index pruned k =
    (case kc_Get (sv_client s) (sv_namespace s) crdName zero_session k of
       (err, crd, k) \<Rightarrow>
         if err \<noteq> None \<or> IsTerminal (Phase (Status crd))
         then prune_loop s snapshot (AList.delete sessionID index) (pruned + 1) k
         else prune_loop s snapshot index pruned k)"

definition PruneTerminalEntries ::
  "('k, 'd, 's) CRDSessionService \<Rightarrow> ('k, 'd) world \<Rightarrow> nat \<times> ('k, 'd, 's) CRDSessionService \<times> ('k, 'd) world" where
  "PruneTerminalEntries s w =
    (let snapshot = sv_crdIndex s in
     case prune_loop s snapshot (sv_crdIndex s) 0 (w_api w) of
       (index, pruned, k) \<Rightarrow> (pruned, s\<lparr>sv_crdIndex := index\<rparr>, w\<lparr>w_api := k\<rparr>))"

section \<open>Names and label values\<close>

lemma crd_inner_ascii: "crd_inner r \<Longrightarrow> r < 128" "crd_first r \<Longrightarrow> crd_inner r"
  by (auto simp: crd_inner_def crd_first_def class_defs)

lemma lang_validCRDName:
  "xs \<in> lang validCRDName \<longleftrightarrow> xs \<noteq> [] \<and> length xs \<le> 253 \<and> crd_first (fst (hd xs)) \<and>
     crd_first (fst (last xs)) \<and> (\<forall>x\<in>set xs. crd_inner (fst x))"
proof -
  have tail: "ys \<in> lang (Cat (upto_times 251 (Cls crd_inner)) (Cls crd_first)) \<longleftrightarrow>
      ys \<noteq> [] \<and> length ys \<le> 252 \<and> crd_first (fst (last ys)) \<and> (\<forall>y\<in>set ys. crd_inner (fst y))" for ys
  proof
    assume "ys \<in> lang (Cat (upto_times 251 (Cls crd_inner)) (Cls crd_first))"
    then obtain u v where "ys = u @ v" "u \<in> lang (upto_times 251 (Cls crd_inner))" "v \<in> lang (Cls crd_first)"
      by (auto simp only: lang.simps)
    then show "ys \<noteq> [] \<and> length ys \<le> 252 \<and> crd_first (fst (last ys)) \<and> (\<forall>y\<in>set ys. crd_inner (fst y))"
      by (auto simp: lang_upto_cls crd_inner_ascii)
  next
    assume a: "ys \<noteq> [] \<and> length ys \<le> 252 \<and> crd_first (fst (last ys)) \<and> (\<forall>y\<in>set ys. crd_inner (fst y))"
    then have "ys = butlast ys @ [last ys]" "butlast ys \<in> lang (upto_times 251 (Cls crd_inner))"
      by (auto simp: lang_upto_cls dest: in_set_butlastD)
    moreover have "[last ys] \<in> lang (Cls crd_first)" using a by (cases "last ys") auto
    ultimately show "ys \<in> lang (Cat (upto_times 251 (Cls crd_inner)) (Cls crd_first))"
      unfolding lang.simps by blast
  qed
  show ?thesis unfolding validCRDName_def lang_Cat_cls opt_def lang.simps(4) Un_iff tail lang.simps(2)
    by (cases xs) (auto simp: crd_inner_ascii)
qed

lemma match_validCRDName:
  "match_full validCRDName s \<longleftrightarrow> s \<noteq> [] \<and> length s \<le> 253 \<and> crd_first (byte (hd s)) \<and>
     crd_first (byte (last s)) \<and> (\<forall>c\<in>set s. crd_inner (byte c))"
proof (cases "\<forall>c\<in>set s. crd_inner (byte c)")
  case True
  then have r: "runes s = map (\<lambda>c. (byte c, [c])) s" by (auto intro: runes_ascii crd_inner_ascii)
  show ?thesis unfolding match_full_lang lang_validCRDName r
    by (auto simp: hd_map last_map)
next
  case False
  then have "\<not> (\<forall>x\<in>set (runes s). crd_inner (fst x))"
    by (subst runes_all_iff) (auto intro: crd_inner_ascii)
  with False show ?thesis by (auto simp: match_full_lang lang_validCRDName)
qed

lemma label_char_ascii: "label_char r \<Longrightarrow> r < 128"
  by (auto simp: label_char_def class_defs)

lemma replaced_chars:
  "c \<in> set (replace_all invalidLabelChars ''_'' v) \<Longrightarrow> label_char (byte c)"
proof -
  have piece: "(r, t) \<in> set (runes v) \<Longrightarrow> label_char r \<Longrightarrow> c \<in> set t \<Longrightarrow> label_char (byte c)" for r t c
    using runes_ascii_piece [of r t v] label_char_ascii by fastforce
  assume "c \<in> set (replace_all invalidLabelChars ''_'' v)"
  then obtain x where x: "x \<in> set (runes v)" "c \<in> set (if \<not> label_char (fst x) then ''_'' else snd x)"
    unfolding invalidLabelChars_def replace_all_cls set_concat set_map UN_iff by blast
  show ?thesis
  proof (cases "label_char (fst x)")
    case True with x piece [of "fst x" "snd x"] show ?thesis by simp
  next
    case False with x show ?thesis by (simp add: label_char_def class_defs)
  qed
qed

definition valid_label_value :: "string \<Rightarrow> bool" where
  "valid_label_value v \<longleftrightarrow> v \<noteq> [] \<and> length v \<le> 63 \<and> (\<forall>c\<in>set v. label_char (byte c)) \<and>
     is_alnum (byte (hd v)) \<and> is_alnum (byte (last v))"

lemma label_char_not_cut: "label_char (byte c) \<Longrightarrow> c \<notin> set ''._-'' \<Longrightarrow> is_alnum (byte c)"
proof -
  assume a: "label_char (byte c)" "c \<notin> set ''._-''"
  have "byte c \<notin> byte ` set ''._-''"
    using a(2) inj_image_mem_iff [OF inj_of_char, of c "set ''._-''"] by blast
  with a(1) show "is_alnum (byte c)" by (simp only: label_char_def one_of_def) blast
qed

lemma trimmed_label:
  assumes "\<forall>c\<in>set v. label_char (byte c)" "length v \<le> 63"
    and "trim_right (set ''._-'') (trim_left (set ''._-'') v) \<noteq> []"
  shows "valid_label_value (trim_right (set ''._-'') (trim_left (set ''._-'') v))"
proof -
  let ?C = "set ''._-''"
  let ?l = "trim_left ?C v"
  let ?t = "trim_right ?C ?l"
  obtain u where u: "?l = ?t @ u" using trim_right_prefix by blast
  have sub: "set ?l \<subseteq> set v" "length ?l \<le> length v"
    by (auto simp: trim_left_def length_dropWhile_le dest: set_dropWhileD)
  have "set ?t \<subseteq> set ?l" "length ?t \<le> length ?l"
    using arg_cong [OF u, of set] arg_cong [OF u, of length] by auto
  with sub assms(2) have t: "set ?t \<subseteq> set v" "length ?t \<le> 63" by auto
  have "hd ?t = hd ?l" using u assms(3) by (metis hd_append2)
  moreover have "?l \<noteq> []" using u assms(3) by auto
  ultimately have h: "hd ?t \<notin> ?C" using trim_left_hd by metis
  have l: "last ?t \<notin> ?C" using trim_right_last [OF assms(3)] .
  have "label_char (byte (hd ?t))" "label_char (byte (last ?t))"
    using assms(1,3) t(1) hd_in_set last_in_set by blast+
  with h l have "is_alnum (byte (hd ?t))" "is_alnum (byte (last ?t))"
    using label_char_not_cut by blast+
  with assms t show ?thesis by (auto simp: valid_label_value_def)
qed

text \<open>
  C39: whatever the user name or resource name (any bytes, of any length), the label value put on
  the resource is a valid Kubernetes label value: one to 63 characters from \<open>[A-Za-z0-9._-]\<close>,
  starting and ending with an alphanumeric one, so the API server does not refuse the label.
\<close>

theorem sanitizeLabelValue_valid: "valid_label_value (sanitizeLabelValue v)"
proof -
  define v1 where "v1 = replace_all invalidLabelChars ''_'' v"
  define v2 where "v2 = (if length v1 > 63 then take 63 v1 else v1)"
  have v2: "\<forall>c\<in>set v2. label_char (byte c)" "length v2 \<le> 63"
    using replaced_chars by (auto simp: v2_def v1_def dest: in_set_takeD)
  have "valid_label_value ''unknown''" by (simp add: valid_label_value_def label_char_def class_defs)
  with trimmed_label [OF v2] show ?thesis
    by (simp add: sanitizeLabelValue_def Let_def flip: v1_def v2_def)
qed

section \<open>Phase updates\<close>

text \<open>
  \<open>retry.RetryOnConflict\<close> runs the function again while it returns a conflict, a bounded number of
  times, and returns the result of its last run: \<open>retry_law\<close>.
\<close>

fun retry_n :: "nat \<Rightarrow> ('st \<Rightarrow> goerr option \<times> 'st) \<Rightarrow> 'st \<Rightarrow> goerr option \<times> 'st" where
  "retry_n 0 f st = f st"
| "retry_n (Suc n) f st = (case f st of (Some e, st') \<Rightarrow>
     if IsConflict e then retry_n n f st' else (Some e, st') | (None, st') \<Rightarrow> (None, st'))"

definition retry_law :: "(('st \<Rightarrow> goerr option \<times> 'st) \<Rightarrow> 'st \<Rightarrow> goerr option \<times> 'st) \<Rightarrow> bool" where
  "retry_law R \<longleftrightarrow> (\<forall>f st. \<exists>n. R f st = retry_n n f st)"

lemma retry_n_last: "\<exists>st0. retry_n n f st = f st0"
proof (induction n arbitrary: st)
  case (Suc n)
  then show ?case by (auto split: option.splits prod.splits if_splits) metis+
qed auto

lemma retry_law_last: "retry_law R \<Longrightarrow> \<exists>st0. R f st = f st0"
  unfolding retry_law_def using retry_n_last by metis

text \<open>What a successful run of the function literal has done.\<close>

definition committed ::
  "('k, 'd, 's) CRDSessionService \<Rightarrow> SessionPhaseT \<Rightarrow> SessionPhaseT \<Rightarrow> string \<Rightarrow> bool" where
  "committed s from to message \<longleftrightarrow> (\<exists>crd k crd' k'.
     Phase (Status crd) = from \<and>
     kc_StatusUpdate (sv_client s)
       (crd\<lparr>Status := phase_status from to message (sv_now s k) (Status crd)\<rparr>) k = (None, crd', k'))"

lemma phase_attempt_ok:
  assumes "phase_attempt s n to m st = (None, (from, k))"
  shows "ValidateTransition from to = None \<and> committed s from to m"
  using assms unfolding phase_attempt_def committed_def
  by (auto simp: Let_def split: prod.splits option.splits)

lemma gauge_move: "ValidateTransition from to = None \<Longrightarrow> from \<noteq> to"
  using ValidateTransition_self by metis

end
