(* ===== verification/SessionLifecycle.thy ===== *)
theory SessionLifecycle
  imports SessionService
begin

text \<open>
  Lifecycle properties of the session service: creation with rollback, deletion, pruning of the
  index, and a small in-memory API server
  (\<open>mem_api\<close>) on which the properties are exercised.
\<close>

section \<open>A concrete API server\<close>

text \<open>
  Objects by namespace and name, the status subresource split (a status update writes only the
  status, an update everything else, a create drops the status), and a script of errors to answer
  the coming writes with.
\<close>

record mem_api =
  ma_objs :: "((string \<times> string) \<times> InvestigationSession) list"
  ma_script :: "goerr option list"
  ma_time :: gotime

definition obj_key :: "InvestigationSession \<Rightarrow> string \<times> string" where
  "obj_key crd = (om_Namespace (Meta crd), om_Name (Meta crd))"

definition pop_script :: "mem_api \<Rightarrow> goerr option \<times> mem_api" where
  "pop_script k = (case ma_script k of [] \<Rightarrow> (None, k) | e # es \<Rightarrow> (e, k\<lparr>ma_script := es\<rparr>))"

definition mem_Get :: "mem_api reader" where
  "mem_Get ns n into k = (case map_of (ma_objs k) (ns, n) of
     None \<Rightarrow> (Some (ApiError NotFound n), into, k) | Some crd \<Rightarrow> (None, crd, k))"

definition mem_put :: "(InvestigationSession \<Rightarrow> InvestigationSession \<Rightarrow> InvestigationSession) \<Rightarrow>
    InvestigationSession \<Rightarrow> mem_api \<Rightarrow> goerr option \<times> InvestigationSession \<times> mem_api" where
  "mem_put f crd k = (case pop_script k of
     (Some e, k) \<Rightarrow> (Some e, crd, k)
   | (None, k) \<Rightarrow> (case map_of (ma_objs k) (obj_key crd) of
       None \<Rightarrow> (Some (ApiError NotFound (om_Name (Meta crd))), crd, k)
     | Some old \<Rightarrow> (None, f old crd, k\<lparr>ma_objs := AList.update (obj_key crd) (f old crd) (ma_objs k)\<rparr>)))"

definition mem_Create :: "InvestigationSession \<Rightarrow> mem_api \<Rightarrow> goerr option \<times> InvestigationSession \<times> mem_api" where
  "mem_Create crd k = (case pop_script k of
     (Some e, k) \<Rightarrow> (Some e, crd, k)
   | (None, k) \<Rightarrow> (if map_of (ma_objs k) (obj_key crd) \<noteq> None
       then (Some (ApiError AlreadyExists (om_Name (Meta crd))), crd, k)
       else (let crd = crd\<lparr>Status := zero_status\<rparr>
             in (None, crd, k\<lparr>ma_objs := AList.update (obj_key crd) crd (ma_objs k)\<rparr>))))"

definition mem_Delete :: "InvestigationSession \<Rightarrow> mem_api \<Rightarrow> goerr option \<times> mem_api" where
  "mem_Delete crd k = (case pop_script k of
     (Some e, k) \<Rightarrow> (Some e, k)
   | (None, k) \<Rightarrow> (if map_of (ma_objs k) (obj_key crd) = None
       then (Some (ApiError NotFound (om_Name (Meta crd))), k)
       else (None, k\<lparr>ma_objs := AList.delete (obj_key crd) (ma_objs k)\<rparr>)))"

definition mem_client :: "mem_api k8s_client" where
  "mem_client = \<lparr>kc_Get = mem_Get, kc_Create = mem_Create,
     kc_Update = mem_put (\<lambda>old new. new\<lparr>Status := Status old\<rparr>),
     kc_StatusUpdate = mem_put (\<lambda>old new. old\<lparr>Meta := (Meta old)\<lparr>om_Name := om_Name (Meta new),
        om_Namespace := om_Namespace (Meta new)\<rparr>, Status := Status new\<rparr>),
     kc_Delete = mem_Delete\<rparr>"

definition mem_delegate :: "(string list, string) delegate" where
  "mem_delegate = \<lparr>dl_Create = (\<lambda>req d. if cr_SessionID req \<in> set d
       then (Inl (Errorf ''session %s already exists'' [cr_SessionID req]), d)
       else (Inr (cr_SessionID req), cr_SessionID req # d)),
     dl_Get = (\<lambda>req d. (if gr_SessionID req \<in> set d then Inr (gr_SessionID req)
       else Inl (Errorf ''session %s not found'' [gr_SessionID req]), d)),
     dl_List = (\<lambda>req d. (Inr d, d)),
     dl_Delete = (\<lambda>req d. (None, removeAll (gr_SessionID req) d)),
     dl_AppendEvent = (\<lambda>sess ev d. (None, d)), dl_ID = id\<rparr>"

definition mem_service :: "(mem_api, string list, string) CRDSessionService" where
  "mem_service = NewCRDSessionService mem_delegate mem_client ''ns'' ma_time
     [WithAuditor True, WithSessionsActive True]"

definition mem_world :: "goerr option list \<Rightarrow> (mem_api, string list) world" where
  "mem_world script = \<lparr>w_api = \<lparr>ma_objs = [], ma_script = script, ma_time = 42\<rparr>, w_del = [],
     w_audit = [], w_gauge = (\<lambda>_. 0)\<rparr>"

definition create_s1 :: CreateRequest where
  "create_s1 = \<lparr>cr_AppName = ''af'', cr_UserID = ''alice'', cr_SessionID = ''s1'', cr_State = None\<rparr>"

lemmas mem_defs = mem_client_def mem_delegate_def mem_service_def mem_world_def mem_Get_def mem_put_def
  mem_Create_def mem_Delete_def pop_script_def obj_key_def NewCRDSessionService_def WithAuditor_def
  WithSessionsActive_def create_s1_def

text \<open>The service and the world after creating session \<open>s1\<close>, with \<open>script\<close> still to come.\<close>

definition s1_crd :: "SessionPhaseT \<Rightarrow> SessionPhaseT \<Rightarrow> InvestigationSession" where
  "s1_crd label phase = \<lparr>Meta = zero_meta\<lparr>om_Name := ''s1'', om_Namespace := ''ns'',
      om_Labels := Some [(LabelPhase, label), (LabelManagedBy, ''kubernaut-apifrontend'')]\<rparr>,
    Spec = zero_spec,
    Status = zero_status\<lparr>Phase := phase, ConnState := ConnectionStateConnected, StartedAt := Some 42\<rparr>\<rparr>"

definition s1_service :: "(mem_api, string list, string) CRDSessionService" where
  "s1_service = mem_service\<lparr>sv_crdIndex := [(''s1'', ''s1'')]\<rparr>"

definition s1_world :: "goerr option list \<Rightarrow> (mem_api, string list) world" where
  "s1_world script = \<lparr>w_api = \<lparr>ma_objs = [((''ns'', ''s1''), s1_crd SessionPhaseActive SessionPhaseActive)],
       ma_script = script, ma_time = 42\<rparr>,
     w_del = [''s1''],
     w_audit = [mk_event EventSessionCreated [] ''alice'' []
       (Some [(''session_id'', ''s1''), (''crd_name'', ''s1''), (''phase'', SessionPhaseActive)])],
     w_gauge = (\<lambda>_. 0)(SessionPhaseActive := 1)\<rparr>"

lemma s1_name: "match_full validCRDName ''s1''"
  by (simp add: match_validCRDName crd_first_def crd_inner_def class_defs)

lemma create_s1_run:
  "Create mem_service create_s1 (mem_world (None # None # script)) = (Inr ''s1'', s1_service, s1_world script)"
  using s1_name
  by (simp add: Create_def mem_defs s1_service_def s1_world_def request_config_def Create_crd_name_def
      new_session_crd_def s1_crd_def effect_defs zero_meta_def zero_status_def Let_def)

text \<open>A cancellation of \<open>s1\<close>: what it returns and what the API server holds afterwards.\<close>

definition cancel_s1 :: "goerr option list \<Rightarrow>
    goerr option \<times> (mem_api, string list, string) CRDSessionService \<times> (mem_api, string list) world" where
  "cancel_s1 script = UpdatePhase (retry_n 4) s1_service ''s1'' SessionPhaseCancelled ''user cancelled'' ''alice''
     (s1_world script)"

definition stored_phase :: "(mem_api, 'd) world \<Rightarrow> string \<Rightarrow> SessionPhaseT option" where
  "stored_phase w n = map_option (Phase \<circ> Status) (map_of (ma_objs (w_api w)) (''ns'', n))"

lemma cancel_s1_ok: "fst (cancel_s1 []) = None" by code_simp

lemma cancel_s1_label_conflict:
  "fst (cancel_s1 [None, Some (ApiError Conflict [])]) = Some (Wrapf ''phase transition: %w'' []
     (Errorf ''no transitions from terminal phase %q'' [SessionPhaseCancelled]))"
  by code_simp

section \<open>Phase updates\<close>

text \<open>
  C7: when \<open>UpdatePhase\<close> returns nil, the phase it read before its last write has an edge to the
  new phase in the transition table, a status with the new phase was accepted by the API server,
  exactly one audit event records the change (when an auditor is configured), one session moved
  from the old to the new phase in the gauge, and the index entry is gone exactly when the new
  phase is terminal.
\<close>

theorem UpdatePhase_success:
  assumes "retry_law R"
    and "UpdatePhase R s sessionID to message userID w = (None, s', w')"
  shows "\<exists>from. ValidateTransition from to = None \<and>
    committed s from to (take maxPhaseMessageLen message) \<and>
    w_audit w' = w_audit w @ (if sv_auditor s then [mk_event EventSessionPhaseChanged [] userID []
        (Some [(''session_id'', sessionID), (''from'', from), (''to'', to)])] else []) \<and>
    w_gauge w' = (\<lambda>p. w_gauge w p + (if sv_sessionsActive s then of_bool (p = to) - of_bool (p = from) else 0)) \<and>
    sv_crdIndex s' = (if IsTerminal to then AList.delete sessionID (sv_crdIndex s) else sv_crdIndex s) \<and>
    w_del w' = w_del w"
proof -
  define m where "m = (if length message > maxPhaseMessageLen then take maxPhaseMessageLen message else message)"
  have m: "m = take maxPhaseMessageLen message" by (simp add: m_def)
  obtain fr k where R: "R (phase_attempt s (crd_name_of s sessionID) to m) ([], w_api w) = (None, (fr, k))"
    using assms(2) unfolding UpdatePhase_def Let_def m_def by (auto split: prod.splits option.splits)
  obtain st0 where "phase_attempt s (crd_name_of s sessionID) to m st0 = (None, (fr, k))"
    using retry_law_last [OF assms(1)] R by metis
  then have ok: "ValidateTransition fr to = None \<and> committed s fr to m" by (rule phase_attempt_ok)
  then have "fr \<noteq> to" using gauge_move by blast
  with assms(2) R ok show ?thesis
    unfolding UpdatePhase_def Let_def m_def [symmetric]
    by (intro exI [of _ fr]) (auto simp: effect_defs m [symmetric] fun_eq_iff)
qed

text \<open>
  When \<open>UpdatePhase\<close> fails, for whatever reason and whatever the retry loop does, it has left
  no trace outside the API server: no audit event, no gauge movement, the index and the delegate
  as before.
\<close>

lemma UpdatePhase_failure:
  assumes "UpdatePhase R s sessionID to message userID w = (Some e, s', w')"
  shows "s' = s \<and> w_audit w' = w_audit w \<and> w_gauge w' = w_gauge w \<and> w_del w' = w_del w"
  using assms by (auto simp: UpdatePhase_def Let_def split: prod.splits option.splits)

text \<open>
  The status written by a transition: the new phase and message; the completion time exactly
  for a terminal phase; the disconnect time with a disconnected connection for a disconnect; the
  reconnect time with a connected one for a reconnect; every other field as it was.
\<close>

lemma phase_status_fields:
  assumes "ValidateTransition from to = None"
  shows "phase_status from to message now st = st\<lparr>Phase := to, Message := message,
    CompletedAt := (if IsTerminal to then Some now else CompletedAt st),
    DisconnectedAt := (if to = SessionPhaseDisconnected then Some now else DisconnectedAt st),
    ReconnectedAt := (if to = SessionPhaseActive then Some now else ReconnectedAt st),
    ConnState := (if to = SessionPhaseDisconnected then ConnectionStateDisconnected
                  else if to = SessionPhaseActive then ConnectionStateConnected else ConnState st)\<rparr>"
proof -
  consider "IsTerminal to" | "to = SessionPhaseDisconnected"
    | "to = SessionPhaseActive" "from = SessionPhaseDisconnected"
    using assms unfolding ValidateTransition_iff IsTerminal_iff by blast
  then show ?thesis
  proof cases
    case 1
    then have "to \<noteq> SessionPhaseDisconnected" "to \<noteq> SessionPhaseActive"
      by (auto simp: IsTerminal_iff phase_defs)
    with 1 show ?thesis by (simp add: phase_status_def)
  next
    case 2
    then have "\<not> IsTerminal to" "to \<noteq> SessionPhaseActive" by (auto simp: IsTerminal_iff phase_defs)
    with 2 show ?thesis by (simp add: phase_status_def)
  next
    case 3
    then have "\<not> IsTerminal to" "to \<noteq> SessionPhaseDisconnected" by (auto simp: IsTerminal_iff phase_defs)
    with 3 show ?thesis by (simp add: phase_status_def)
  qed
qed

lemma retry_law_n: "retry_law (retry_n n)"
  by (auto simp: retry_law_def)

theorem UpdatePhase_success_witness:
  "\<exists>fr. ValidateTransition fr SessionPhaseCancelled = None \<and>
     length (w_audit (snd (snd (cancel_s1 [])))) = 2 \<and>
     sv_crdIndex (fst (snd (cancel_s1 []))) = [] \<and>
     w_gauge (snd (snd (cancel_s1 []))) SessionPhaseCancelled = 1"
proof -
  have c: "cancel_s1 [] = (None, fst (snd (cancel_s1 [])), snd (snd (cancel_s1 [])))"
    using cancel_s1_ok by (metis prod.collapse)
  from UpdatePhase_success [OF retry_law_n c [unfolded cancel_s1_def [of "[]"]]]
  show ?thesis unfolding cancel_s1_def [symmetric]
    by (auto simp: s1_service_def s1_world_def mem_service_def NewCRDSessionService_def WithAuditor_def
        WithSessionsActive_def IsTerminal_iff ValidateTransition_iff phase_defs)
qed

lemma UpdatePhase_failure_example:
  "fst (cancel_s1 [Some (ApiError Forbidden [])]) \<noteq> None \<and>
   w_audit (snd (snd (cancel_s1 [Some (ApiError Forbidden [])]))) = w_audit (s1_world [])"
proof -
  have f: "fst (cancel_s1 [Some (ApiError Forbidden [])]) = Some (ApiError Forbidden [])" by code_simp
  then have c: "cancel_s1 [Some (ApiError Forbidden [])] = (Some (ApiError Forbidden []),
      fst (snd (cancel_s1 [Some (ApiError Forbidden [])])), snd (snd (cancel_s1 [Some (ApiError Forbidden [])])))"
    by (metis prod.collapse)
  from UpdatePhase_failure [OF c [unfolded cancel_s1_def [of "[Some (ApiError Forbidden [])]"]]] f
  show ?thesis unfolding cancel_s1_def [symmetric] by (simp add: s1_world_def)
qed

lemma phase_status_fields_example:
  "CompletedAt (phase_status SessionPhaseActive SessionPhaseFailed ''m'' 7 zero_status) = Some 7 \<and>
   ConnState (phase_status SessionPhaseActive SessionPhaseFailed ''m'' 7 zero_status) = []"
proof -
  have "ValidateTransition SessionPhaseActive SessionPhaseFailed = None" by code_simp
  from phase_status_fields [OF this, of "''m''" 7 zero_status] show ?thesis
    by (simp add: IsTerminal_iff zero_status_def) (simp add: phase_defs)
qed

text \<open>
  A conflict on the second write of \<open>UpdatePhase\<close> (the label) makes the retry loop start over
  after the status was already committed; the second run then refuses the transition from the new
  phase to itself. The caller gets an error although the API server holds the new phase, the phase
  label stays the old one, and neither audit event nor gauge movement nor index clean-up follows.
\<close>

lemma UpdatePhase_label_conflict:
  "case cancel_s1 [None, Some (ApiError Conflict [])] of (err, s', w') \<Rightarrow>
     err = Some (Wrapf ''phase transition: %w'' []
       (Errorf ''no transitions from terminal phase %q'' [SessionPhaseCancelled])) \<and>
     stored_phase w' ''s1'' = Some SessionPhaseCancelled \<and>
     map_option (om_Labels \<circ> Meta) (map_of (ma_objs (w_api w')) (''ns'', ''s1'')) =
       Some (om_Labels (Meta (s1_crd SessionPhaseActive SessionPhaseActive))) \<and>
     length (w_audit w') = 1 \<and> w_gauge w' SessionPhaseActive = 1 \<and> sv_crdIndex s' = [(''s1'', ''s1'')]"
  by code_simp

section \<open>Creation\<close>

text \<open>
  Documented behaviour of the client the rollback relies on: a write hands back the object of the
  same namespace and name, and after an acknowledged delete a read reports \<open>NotFound\<close>.
\<close>

definition keeps_identity :: "'k k8s_client \<Rightarrow> bool" where
  "keeps_identity c \<longleftrightarrow>
     (\<forall>crd k. obj_key (fst (snd (kc_Create c crd k))) = obj_key crd) \<and>
     (\<forall>crd k. obj_key (fst (snd (kc_StatusUpdate c crd k))) = obj_key crd)"

definition get_not_found :: "'k k8s_client \<Rightarrow> string \<times> string \<Rightarrow> 'k \<Rightarrow> bool" where
  "get_not_found c key k \<longleftrightarrow> (\<forall>into. \<exists>e. fst (kc_Get c (fst key) (snd key) into k) = Some e \<and> IsNotFound e)"

definition delete_removes :: "'k k8s_client \<Rightarrow> bool" where
  "delete_removes c \<longleftrightarrow>
     (\<forall>crd k. fst (kc_Delete c crd k) = None \<longrightarrow> get_not_found c (obj_key crd) (snd (kc_Delete c crd k)))"

lemma obj_key_new [simp]: "obj_key (new_session_crd ns n t cfg) = (ns, n)"
  by (simp add: new_session_crd_def obj_key_def Let_def split: option.split)

lemma obj_key_status [simp]: "obj_key (crd\<lparr>Status := st\<rparr>) = obj_key crd"
  by (simp add: obj_key_def)

lemma Create_ok:
  assumes "Create s req w = (Inr sess, s', w')"
  shows "\<exists>cfg crd k crd'. request_config req = Inr cfg \<and>
    (let n = Create_crd_name (sv_now s (w_api w)) req;
         new = new_session_crd (sv_namespace s) n (sv_now s (w_api w)) cfg;
         sid = dl_ID (sv_delegate s) sess
     in match_full validCRDName n \<and>
        kc_Create (sv_client s) new (w_api w) = (None, crd, k) \<and>
        kc_StatusUpdate (sv_client s) (crd\<lparr>Status := Status new\<rparr>) k = (None, crd', w_api w') \<and>
        map_of (sv_crdIndex s') = (map_of (sv_crdIndex s))(sid \<mapsto> n) \<and>
        w_audit w' = w_audit w @ (if sv_auditor s then [mk_event EventSessionCreated [] (cr_UserID req) []
          (Some [(''session_id'', sid), (''crd_name'', n), (''phase'', SessionPhaseActive)])] else []) \<and>
        w_gauge w' = (\<lambda>p. w_gauge w p + (if sv_sessionsActive s then of_bool (p = SessionPhaseActive) else 0)))"
  using assms unfolding Create_def
  by (auto simp: Let_def effect_defs update_conv' fun_eq_iff split: sum.splits if_splits prod.splits option.splits)

text \<open>
  A successful \<open>Create\<close> has had a resource with a valid name created and its initial status
  accepted, indexes the new session under the id the delegate gave it (and changes no other
  entry), emits exactly one creation event and counts one more active session.
\<close>

lemma Create_success:
  assumes "Create s req w = (Inr sess, s', w')"
  shows "\<exists>cfg crd k crd'. request_config req = Inr cfg \<and>
    (let n = Create_crd_name (sv_now s (w_api w)) req;
         new = new_session_crd (sv_namespace s) n (sv_now s (w_api w)) cfg;
         sid = dl_ID (sv_delegate s) sess
     in match_full validCRDName n \<and>
        kc_Create (sv_client s) new (w_api w) = (None, crd, k) \<and>
        kc_StatusUpdate (sv_client s) (crd\<lparr>Status := Status new\<rparr>) k = (None, crd', w_api w') \<and>
        map_of (sv_crdIndex s') = (map_of (sv_crdIndex s))(sid \<mapsto> n) \<and>
        w_audit w' = w_audit w @ (if sv_auditor s then [mk_event EventSessionCreated [] (cr_UserID req) []
          (Some [(''session_id'', sid), (''crd_name'', n), (''phase'', SessionPhaseActive)])] else []) \<and>
        w_gauge w' = (\<lambda>p. w_gauge w p + (if sv_sessionsActive s then of_bool (p = SessionPhaseActive) else 0)))"
  using assms by (rule Create_ok)

lemma Create_error_cases:
  assumes "Create s req w = (Inl e, s', w')"
  obtains "s' = s" "w_audit w' = w_audit w" "w_gauge w' = w_gauge w" "w_api w' = w_api w"
  | cfg err crd where "s' = s" "w_audit w' = w_audit w" "w_gauge w' = w_gauge w"
      "kc_Create (sv_client s) (new_session_crd (sv_namespace s) (Create_crd_name (sv_now s (w_api w)) req)
         (sv_now s (w_api w)) cfg) (w_api w) = (Some err, crd, w_api w')"
  | cfg crd1 k1 st y crd2 k2 where "s' = s" "w_audit w' = w_audit w" "w_gauge w' = w_gauge w"
      "kc_Create (sv_client s) (new_session_crd (sv_namespace s) (Create_crd_name (sv_now s (w_api w)) req)
         (sv_now s (w_api w)) cfg) (w_api w) = (None, crd1, k1)"
      "kc_StatusUpdate (sv_client s) (crd1\<lparr>Status := st\<rparr>) k1 = (y, crd2, k2)"
      "w_api w' = snd (kc_Delete (sv_client s) crd2 k2)"
proof (cases "request_config req")
  case (Inl x) with assms that(1) show ?thesis by (simp add: Create_def)
next
  case (Inr cfg)
  define n where "n = Create_crd_name (sv_now s (w_api w)) req"
  define new where "new = new_session_crd (sv_namespace s) n (sv_now s (w_api w)) cfg"
  show ?thesis
  proof (cases "match_full validCRDName n")
    case False with assms Inr that(1) show ?thesis by (simp add: Create_def Let_def n_def)
  next
    case True
    obtain x crd1 k1 where c: "kc_Create (sv_client s) new (w_api w) = (x, crd1, k1)" by (metis prod_cases3)
    obtain y crd2 k2 where u: "kc_StatusUpdate (sv_client s) (crd1\<lparr>Status := Status new\<rparr>) k1 = (y, crd2, k2)"
      by (metis prod_cases3)
    obtain r d where d: "dl_Create (sv_delegate s) req (w_del w) = (r, d)" by (metis prod.exhaust)
    note run = assms [unfolded Create_def Inr sum.case Let_def, folded n_def, folded new_def]
    show ?thesis
    proof (cases x)
      case (Some err)
      from run have "s' = s" "w' = w\<lparr>w_api := k1\<rparr>" by (auto simp: c Some True)
      with c Some that(2) [of cfg err crd1] show ?thesis by (simp add: n_def new_def)
    next
      case None
      from run have "s' = s" "w_audit w' = w_audit w" "w_gauge w' = w_gauge w"
        "w_api w' = snd (kc_Delete (sv_client s) crd2 k2)"
        by (cases y; cases r; auto simp: c None u d True effect_defs)+
      with c None u that(3) [of cfg crd1 k1 "Status new" y crd2 k2] show ?thesis
        by (simp add: n_def new_def)
    qed
  qed
qed

text \<open>
  C14: a failed \<open>Create\<close> leaves index, audit trail and gauge alone. Either nothing was created (bad
  request, or the API server refused the resource), or the resource was deleted again as the last
  call to the API server; when that delete is acknowledged, reading the resource reports
  \<open>NotFound\<close>.
\<close>

theorem Create_failure_rolls_back:
  assumes "keeps_identity (sv_client s)" "delete_removes (sv_client s)"
    and "Create s req w = (Inl e, s', w')"
  shows "s' = s \<and> w_audit w' = w_audit w \<and> w_gauge w' = w_gauge w \<and>
    (w_api w' = w_api w \<or>
     (\<exists>cfg err. fst (kc_Create (sv_client s) (new_session_crd (sv_namespace s)
        (Create_crd_name (sv_now s (w_api w)) req) (sv_now s (w_api w)) cfg) (w_api w)) = Some err) \<or>
     (\<exists>crd k err. obj_key crd = (sv_namespace s, Create_crd_name (sv_now s (w_api w)) req) \<and>
        kc_Delete (sv_client s) crd k = (err, w_api w') \<and>
        (err = None \<longrightarrow> get_not_found (sv_client s) (obj_key crd) (w_api w'))))"
proof -
  let ?c = "sv_client s"
  let ?n = "Create_crd_name (sv_now s (w_api w)) req"
  have id: "kc_Create ?c crd k = (x, crd', k') \<Longrightarrow> obj_key crd' = obj_key crd"
    "kc_StatusUpdate ?c crd k = (x, crd', k') \<Longrightarrow> obj_key crd' = obj_key crd" for crd k x crd' k'
    using assms(1) unfolding keeps_identity_def by (metis fst_conv snd_conv)+
  have del: "kc_Delete ?c crd k = (None, k') \<Longrightarrow> get_not_found ?c (obj_key crd) k'" for crd k k'
    using assms(2) unfolding delete_removes_def by (metis fst_conv snd_conv)
  have rolled: "\<exists>crd k err. obj_key crd = (sv_namespace s, ?n) \<and> kc_Delete ?c crd k = (err, k2) \<and>
      (err = None \<longrightarrow> get_not_found ?c (obj_key crd) k2)"
    if "kc_Create ?c (new_session_crd (sv_namespace s) ?n t cfg) k0 = (None, crd1, k1)"
      "kc_StatusUpdate ?c (crd1\<lparr>Status := st\<rparr>) k1 = (y, crd2, k3)" "k2 = snd (kc_Delete ?c crd2 k3)"
    for t cfg k0 crd1 k1 st y crd2 k3 k2
  proof -
    have "obj_key crd2 = (sv_namespace s, ?n)" using id(1) [OF that(1)] id(2) [OF that(2)] by simp
    then show ?thesis using del that(3) by (metis prod.collapse)
  qed
  show ?thesis using assms(3)
  proof (cases rule: Create_error_cases)
    case 2 then show ?thesis by (metis fst_conv)
  next
    case 3 then show ?thesis using rolled by blast
  qed simp
qed

lemma Create_success_example:
  "\<exists>s' w'. Create mem_service create_s1 (mem_world []) = (Inr ''s1'', s', w') \<and>
     map_of (sv_crdIndex s') ''s1'' = Some ''s1'' \<and> length (w_audit w') = 1 \<and>
     w_gauge w' SessionPhaseActive = 1"
proof -
  have "\<exists>s' w'. Create mem_service create_s1 (mem_world []) = (Inr ''s1'', s', w')"
    using s1_name by (simp add: Create_def mem_defs request_config_def Create_crd_name_def
        new_session_crd_def effect_defs zero_meta_def zero_status_def Let_def)
  then obtain s' w' where c: "Create mem_service create_s1 (mem_world []) = (Inr ''s1'', s', w')" by blast
  from Create_success [OF c] show ?thesis unfolding c
    by (auto simp: mem_service_def NewCRDSessionService_def WithAuditor_def WithSessionsActive_def
        mem_world_def mem_delegate_def create_s1_def Create_crd_name_def Let_def)
qed

lemma mem_client_laws: "keeps_identity mem_client" "delete_removes mem_client"
proof -
  show "keeps_identity mem_client"
    unfolding keeps_identity_def mem_client_def mem_Create_def mem_put_def pop_script_def
    by (auto split: list.splits prod.splits option.splits simp: Let_def) (simp_all add: obj_key_def)
  show "delete_removes mem_client"
    unfolding delete_removes_def get_not_found_def mem_client_def mem_Delete_def mem_Get_def pop_script_def
    by (auto split: list.splits prod.splits option.splits if_splits simp: obj_key_def delete_conv')
qed

theorem Create_failure_rolls_back_witness:
  "\<exists>e s' w'. Create mem_service create_s1 (mem_world [None, Some (ApiError Forbidden [])]) = (Inl e, s', w') \<and>
     sv_crdIndex s' = [] \<and> w_audit w' = [] \<and> ma_objs (w_api w') = []"
proof -
  have "\<exists>e s' w'. Create mem_service create_s1 (mem_world [None, Some (ApiError Forbidden [])]) = (Inl e, s', w') \<and>
      ma_objs (w_api w') = []"
    using s1_name by (simp add: Create_def mem_defs request_config_def Create_crd_name_def
        new_session_crd_def effect_defs zero_meta_def zero_status_def Let_def)
  then obtain e s' w' where c: "Create mem_service create_s1 (mem_world [None, Some (ApiError Forbidden [])]) = (Inl e, s', w')"
    and o: "ma_objs (w_api w') = []" by blast
  have "sv_client mem_service = mem_client"
    by (simp add: mem_service_def NewCRDSessionService_def WithAuditor_def WithSessionsActive_def)
  with mem_client_laws have "keeps_identity (sv_client mem_service)" "delete_removes (sv_client mem_service)"
    by simp_all
  from Create_failure_rolls_back [OF this c] have "s' = mem_service" "w_audit w' = []"
    by (auto simp: mem_world_def)
  with c o show ?thesis
    by (simp add: mem_service_def NewCRDSessionService_def WithAuditor_def WithSessionsActive_def)
qed

section \<open>Deletion and pruning\<close>

text \<open>
  \<open>Delete\<close> returns what the delegate's delete returns; whatever the API server answered, the
  session is out of the index, other entries stay, and one deletion event is emitted. The gauge
  goes down by one for the phase read from the resource, or for Active when the read failed.
\<close>

lemma Delete_effects:
  assumes "Delete s req w = (r, s', w')"
  shows "r = fst (dl_Delete (sv_delegate s) req (w_del w)) \<and>
    map_of (sv_crdIndex s') = (map_of (sv_crdIndex s))(gr_SessionID req := None) \<and>
    w_audit w' = w_audit w @ (if sv_auditor s then [mk_event EventSessionDeleted [] (gr_UserID req) []
      (Some [(''session_id'', gr_SessionID req), (''crd_name'', crd_name_of s (gr_SessionID req))])] else []) \<and>
    (case getReader s (sv_namespace s) (crd_name_of s (gr_SessionID req)) zero_session (w_api w) of
       (err, existing, k) \<Rightarrow> w_gauge w' = (\<lambda>p. w_gauge w p - (if sv_sessionsActive s then
          of_bool (p = (if err = None then Phase (Status existing) else SessionPhaseActive)) else 0)))"
  using assms unfolding Delete_def Let_def
  by (auto simp: gauge_inc_dec delete_conv' fun_eq_iff split: prod.splits option.splits)

definition delete_ghost :: "goerr option \<times> (mem_api, string list, string) CRDSessionService \<times> (mem_api, string list) world" where
  "delete_ghost = Delete mem_service \<lparr>gr_AppName = ''af'', gr_UserID = ''bob'', gr_SessionID = ''ghost''\<rparr> (mem_world [])"

text \<open>The witness deletes a session that never existed: the gauge of active sessions becomes -1.\<close>

lemma Delete_effects_example:
  "fst delete_ghost = None \<and> w_gauge (snd (snd delete_ghost)) SessionPhaseActive = - 1 \<and>
   length (w_audit (snd (snd delete_ghost))) = 1"
proof -
  have "delete_ghost = (fst delete_ghost, fst (snd delete_ghost), snd (snd delete_ghost))" by simp
  from Delete_effects [OF this [unfolded delete_ghost_def]] show ?thesis unfolding delete_ghost_def [symmetric]
    by (simp add: mem_defs getReader_def crd_name_of_def)
qed

text \<open>A read of the API server changes nothing there.\<close>

definition read_only :: "'k k8s_client \<Rightarrow> bool" where
  "read_only c \<longleftrightarrow> (\<forall>ns n into k. snd (snd (kc_Get c ns n into k)) = k)"

definition live_entry :: "('k, 'd, 's) CRDSessionService \<Rightarrow> 'k \<Rightarrow> string \<times> string \<Rightarrow> bool" where
  "live_entry s k entry = (case kc_Get (sv_client s) (sv_namespace s) (snd entry) zero_session k of
     (err, crd, _) \<Rightarrow> err = None \<and> \<not> IsTerminal (Phase (Status crd)))"

lemma prune_loop_filter:
  assumes "read_only (sv_client s)"
  shows "prune_loop s snap index n k =
    (filter (\<lambda>x. fst x \<notin> fst ` {e \<in> set snap. \<not> live_entry s k e}) index,
     n + length (filter (\<lambda>e. \<not> live_entry s k e) snap), k)"
proof (induction snap arbitrary: index n)
  case (Cons e snap)
  obtain sid name where e: "e = (sid, name)" by (cases e)
  obtain err crd where g: "kc_Get (sv_client s) (sv_namespace s) name zero_session k = (err, crd, k)"
    using assms unfolding read_only_def by (metis prod.collapse)
  show ?case
  proof (cases "live_entry s k e")
    case True
    then have s: "{x. (x = e \<or> x \<in> set snap) \<and> \<not> live_entry s k x} = {x \<in> set snap. \<not> live_entry s k x}" by auto
    from True show ?thesis using g by (simp add: e [symmetric] s) (simp add: e live_entry_def Cons)
  next
    case False
    then have s: "{x. (x = e \<or> x \<in> set snap) \<and> \<not> live_entry s k x} = insert e {x \<in> set snap. \<not> live_entry s k x}" by auto
    from False have c: "err \<noteq> None \<or> IsTerminal (Phase (Status crd))" using g by (simp add: live_entry_def e)
    have f: "filter (\<lambda>x. fst x \<notin> A) (AList.delete sid index) = filter (\<lambda>x. fst x \<notin> insert sid A) index" for A
      by (simp add: delete_filter conj_commute)
    have "prune_loop s (e # snap) index n k = prune_loop s snap (AList.delete sid index) (n + 1) k"
      using g c by (simp add: e)
    then show ?thesis using False s e by (simp add: Cons f)
  qed
qed simp

text \<open>
  Pruning keeps exactly the index entries whose resource can be read and is not in a terminal
  phase, in an index without duplicate ids; the number returned is the number of entries removed,
  and nothing else changes.
\<close>

lemma PruneTerminalEntries_exact:
  assumes "read_only (sv_client s)" "amap_ok (sv_crdIndex s)"
  shows "PruneTerminalEntries s w =
    (length (sv_crdIndex s) - length (filter (live_entry s (w_api w)) (sv_crdIndex s)),
     s\<lparr>sv_crdIndex := filter (live_entry s (w_api w)) (sv_crdIndex s)\<rparr>, w)"
proof -
  let ?L = "live_entry s (w_api w)"
  have "fst x \<notin> fst ` {e \<in> set (sv_crdIndex s). \<not> ?L e} \<longleftrightarrow> ?L x" if "x \<in> set (sv_crdIndex s)" for x
    using that assms(2) unfolding amap_ok_def distinct_map inj_on_def by auto
  then have "filter (\<lambda>x. fst x \<notin> fst ` {e \<in> set (sv_crdIndex s). \<not> ?L e}) (sv_crdIndex s) =
      filter ?L (sv_crdIndex s)" by (intro filter_cong) auto
  moreover have "length (filter (\<lambda>e. \<not> ?L e) (sv_crdIndex s)) =
      length (sv_crdIndex s) - length (filter ?L (sv_crdIndex s))"
    using sum_length_filter_compl [of ?L "sv_crdIndex s"] by linarith
  ultimately show ?thesis
    unfolding PruneTerminalEntries_def Let_def prune_loop_filter [OF assms(1)] by simp
qed

lemma mem_read_only: "read_only mem_client"
  by (simp add: read_only_def mem_client_def mem_Get_def split: option.splits)

lemma PruneTerminalEntries_exact_example:
  "fst (PruneTerminalEntries (s1_service\<lparr>sv_crdIndex := [(''s1'', ''s1''), (''gone'', ''gone'')]\<rparr>) (s1_world [])) = 1 \<and>
   sv_crdIndex (fst (snd (PruneTerminalEntries (s1_service\<lparr>sv_crdIndex := [(''s1'', ''s1''), (''gone'', ''gone'')]\<rparr>)
     (s1_world [])))) = [(''s1'', ''s1'')]"
proof -
  let ?s = "s1_service\<lparr>sv_crdIndex := [(''s1'', ''s1''), (''gone'', ''gone'')]\<rparr>"
  have "read_only (sv_client ?s)" using mem_read_only by (simp add: s1_service_def mem_service_def
        NewCRDSessionService_def WithAuditor_def WithSessionsActive_def)
  moreover have "amap_ok (sv_crdIndex ?s)" by (simp add: amap_ok_def)
  ultimately show ?thesis using PruneTerminalEntries_exact [of ?s "s1_world []"]
    by (simp add: live_entry_def s1_service_def mem_defs s1_world_def s1_crd_def IsTerminal_iff
        zero_status_def phase_defs)
qed

end
