(* ===== verification/SessionTTL.thy ===== *)
theory SessionTTL
  imports SessionLifecycle
begin

text \<open>
  The retention controller (\<open>internal/controller/ttl.go\<close>): one \<open>Reconcile\<close> of an
  InvestigationSession. The reconciler may share the session service (\<open>ts_svc\<close>) or have none. The
  lemmas show when it acts at all, that a record is never deleted before the audit minimum of 30
  days, and when it asks to be called again.
\<close>

definition MinRetentionTTL :: duration where
  "MinRetentionTTL = 30 * 24 * ns_hour"

record 'k SessionCleanupReconciler =
  rc_client :: "'k k8s_client"
  rc_disconnectTTL :: duration
  rc_retentionTTL :: duration
  rc_auditor :: bool
  rc_ttlActions :: bool
  rc_now :: "'k \<Rightarrow> gotime"

record ('k, 'd, 's) ttl_state =
  ts_svc :: "('k, 'd, 's) CRDSessionService option"
  ts_w :: "('k, 'd) world"
  ts_actions :: "string \<Rightarrow> nat"

definition NewSessionCleanupReconciler ::
  "'k k8s_client \<Rightarrow> duration \<Rightarrow> duration \<Rightarrow> bool \<Rightarrow> bool \<Rightarrow> ('k \<Rightarrow> gotime) \<Rightarrow> 'k SessionCleanupReconciler" where
  "NewSessionCleanupReconciler c disconnectTTL retentionTTL auditor ttlActions now =
    \<lparr>rc_client = c, rc_disconnectTTL = disconnectTTL,
     rc_retentionTTL = (if retentionTTL < MinRetentionTTL then MinRetentionTTL else retentionTTL),
     rc_auditor = auditor, rc_ttlActions = ttlActions, rc_now = now\<rparr>"

definition ttl_emitAudit ::
  "'k SessionCleanupReconciler \<Rightarrow> EventType \<Rightarrow> (string \<times> string) list \<Rightarrow> ('k, 'd, 's) ttl_state \<Rightarrow> ('k, 'd, 's) ttl_state" where
  "ttl_emitAudit r ty detail st = (if rc_auditor r
     then st\<lparr>ts_w := (ts_w st)\<lparr>w_audit := w_audit (ts_w st) @ [mk_event ty [] [] [] (Some detail)]\<rparr>\<rparr> else st)"

definition incTTLAction :: "'k SessionCleanupReconciler \<Rightarrow> string \<Rightarrow> ('k, 'd, 's) ttl_state \<Rightarrow> ('k, 'd, 's) ttl_state" where
  "incTTLAction r action st = (if rc_ttlActions r
     then st\<lparr>ts_actions := (ts_actions st)(action := ts_actions st action + 1)\<rparr> else st)"

abbreviation set_api :: "'k \<Rightarrow> ('k, 'd, 's) ttl_state \<Rightarrow> ('k, 'd, 's) ttl_state" where
  "set_api k st \<equiv> st\<lparr>ts_w := (ts_w st)\<lparr>w_api := k\<rparr>\<rparr>"

text \<open>A reconcile result: the delay after which to call again (0 for none) and the error.\<close>

type_synonym ctrl_result = "duration \<times> goerr option"

definition auto_cancel_message :: string where
  "auto_cancel_message = ''auto-cancelled: disconnect TTL expired''"

text \<open>The resource as the branch without a session service writes it.\<close>

definition cancelled_crd :: "gotime \<Rightarrow> InvestigationSession \<Rightarrow> InvestigationSession" where
  "cancelled_crd now sess =
    (let labels = (case om_Labels (Meta sess) of None \<Rightarrow> [] | Some ls \<Rightarrow> ls)
     in sess\<lparr>Status := (Status sess)\<lparr>Phase := SessionPhaseCancelled, CompletedAt := Some now,
               Message := auto_cancel_message\<rparr>,
             Meta := (Meta sess)\<lparr>om_Labels := Some (AList.update LabelPhase SessionPhaseCancelled labels)\<rparr>\<rparr>)"

definition handleDisconnected ::
  "((SessionPhaseT \<times> 'k \<Rightarrow> goerr option \<times> (SessionPhaseT \<times> 'k)) \<Rightarrow>
     SessionPhaseT \<times> 'k \<Rightarrow> goerr option \<times> (SessionPhaseT \<times> 'k)) \<Rightarrow>
   'k SessionCleanupReconciler \<Rightarrow> InvestigationSession \<Rightarrow> ('k, 'd, 's) ttl_state \<Rightarrow>
   ctrl_result \<times> ('k, 'd, 's) ttl_state" where
  "handleDisconnected R r sess st = (case DisconnectedAt (Status sess) of
     None \<Rightarrow> ((0, None), st)
   | Some t \<Rightarrow>
      (let elapsed = since (rc_now r (w_api (ts_w st))) t in
       if elapsed < rc_disconnectTTL r
       then ((wrap64 (rc_disconnectTTL r - elapsed), None), st)
       else (case ValidateTransition (Phase (Status sess)) SessionPhaseCancelled of
          Some e \<Rightarrow> ((0, Some (Wrapf ''validate disconnect TTL transition: %w'' [] e)), st)
        | None \<Rightarrow>
           (let done = (\<lambda>name st. ((0, None), incTTLAction r ''cancel''
                  (ttl_emitAudit r EventSessionAutoCancelled
                     [(''session'', name), (''phase'', SessionPhaseCancelled),
                      (''elapsed'', duration_string elapsed)] st)))
            in case ts_svc st of
                 Some svc \<Rightarrow>
                   (case UpdatePhase R svc (om_Name (Meta sess)) SessionPhaseCancelled auto_cancel_message [] (ts_w st) of
                      (Some e, svc, w) \<Rightarrow>
                        ((0, Some (Wrapf ''auto-cancel disconnected session: %w'' [] e)), st\<lparr>ts_svc := Some svc, ts_w := w\<rparr>)
                    | (None, svc, w) \<Rightarrow> done (om_Name (Meta sess)) (st\<lparr>ts_svc := Some svc, ts_w := w\<rparr>))
               | None \<Rightarrow>
                   (let crd = cancelled_crd (rc_now r (w_api (ts_w st))) sess in
                    case kc_StatusUpdate (rc_client r) crd (w_api (ts_w st)) of
                      (Some e, crd, k) \<Rightarrow> ((0, Some (Wrapf ''cancel disconnected session: %w'' [] e)), set_api k st)
                    | (None, crd, k) \<Rightarrow>
                       (case kc_Update (rc_client r) crd k of
                          (Some e, crd, k) \<Rightarrow> ((0, Some (Wrapf ''update disconnected session labels: %w'' [] e)), set_api k st)
                        | (None, crd, k) \<Rightarrow> done (om_Name (Meta crd)) (set_api k st)))))))"

definition handleTerminal ::
  "'k SessionCleanupReconciler \<Rightarrow> InvestigationSession \<Rightarrow> ('k, 'd, 's) ttl_state \<Rightarrow>
   ctrl_result \<times> ('k, 'd, 's) ttl_state" where
  "handleTerminal r sess st = (case CompletedAt (Status sess) of
     None \<Rightarrow> ((0, None), st)
   | Some t \<Rightarrow>
      (let elapsed = since (rc_now r (w_api (ts_w st))) t in
       if elapsed < rc_retentionTTL r
       then ((wrap64 (rc_retentionTTL r - elapsed), None), st)
       else (case kc_Delete (rc_client r) sess (w_api (ts_w st)) of
          (Some e, k) \<Rightarrow>
            (if IsNotFound e then ((0, None), set_api k st)
             else ((0, Some (Wrapf ''delete expired session: %w'' [] e)), set_api k st))
        | (None, k) \<Rightarrow>
           (let st = incTTLAction r ''delete'' (ttl_emitAudit r EventSessionRetentionDeleted
                       [(''session'', om_Name (Meta sess)), (''phase'', Phase (Status sess)),
                        (''elapsed'', duration_string elapsed)] (set_api k st))
            in case ts_svc st of
                 None \<Rightarrow> ((0, None), st)
               | Some svc \<Rightarrow> (case PruneTerminalEntries svc (ts_w st) of
                   (n, svc, w) \<Rightarrow> ((0, None), st\<lparr>ts_svc := Some svc, ts_w := w\<rparr>))))))"

definition Reconcile ::
  "((SessionPhaseT \<times> 'k \<Rightarrow> goerr option \<times> (SessionPhaseT \<times> 'k)) \<Rightarrow>
     SessionPhaseT \<times> 'k \<Rightarrow> goerr option \<times> (SessionPhaseT \<times> 'k)) \<Rightarrow>
   'k SessionCleanupReconciler \<Rightarrow> string \<Rightarrow> string \<Rightarrow> ('k, 'd, 's) ttl_state \<Rightarrow>
   ctrl_result \<times> ('k, 'd, 's) ttl_state" where
  "Reconcile R r ns name st = (case kc_Get (rc_client r) ns name zero_session (w_api (ts_w st)) of
     (Some e, sess, k) \<Rightarrow>
       (if IsNotFound e then ((0, None), set_api k st)
        else ((0, Some (Wrapf ''get session: %w'' [] e)), set_api k st))
   | (None, sess, k) \<Rightarrow>
      (let st = set_api k st; ph = Phase (Status sess) in
       if ph = SessionPhaseActive then ((0, None), st)
       else if ph = SessionPhaseDisconnected then handleDisconnected R r sess st
       else if ph = SessionPhaseCompleted \<or> ph = SessionPhaseCancelled \<or> ph = SessionPhaseFailed
       then handleTerminal r sess st
       else ((0, None), st)))"

section \<open>When the reconciler acts\<close>

text \<open>The session as read is due: its time-to-live in the phase it is in has passed.\<close>

definition ttl_due :: "'k SessionCleanupReconciler \<Rightarrow> gotime \<Rightarrow> InvestigationSession \<Rightarrow> bool" where
  "ttl_due r now sess \<longleftrightarrow>
     (Phase (Status sess) = SessionPhaseDisconnected \<and>
       (case DisconnectedAt (Status sess) of None \<Rightarrow> False | Some t \<Rightarrow> since now t \<ge> rc_disconnectTTL r)) \<or>
     (IsTerminal (Phase (Status sess)) \<and>
       (case CompletedAt (Status sess) of None \<Rightarrow> False | Some t \<Rightarrow> since now t \<ge> rc_retentionTTL r))"

lemma Reconcile_not_due:
  assumes "kc_Get (rc_client r) ns name zero_session (w_api (ts_w st)) = (None, sess, k)"
    and "\<not> ttl_due r (rc_now r k) sess"
  shows "snd (Reconcile R r ns name st) = set_api k st \<and> snd (fst (Reconcile R r ns name st)) = None"
  using assms
  by (auto simp: Reconcile_def handleDisconnected_def handleTerminal_def Let_def ttl_due_def IsTerminal_iff
      phase_defs split: option.splits)


text \<open>A cluster that holds \<open>s1\<close> with a given status, and a reconciler on it.\<close>

definition ttl_crd :: "InvestigationSessionStatus \<Rightarrow> InvestigationSession" where
  "ttl_crd status = (s1_crd SessionPhaseActive SessionPhaseActive)\<lparr>Status := status\<rparr>"

definition ttl_sample ::
  "(mem_api, string list, string) CRDSessionService option \<Rightarrow> InvestigationSessionStatus \<Rightarrow> gotime \<Rightarrow>
   (mem_api, string list, string) ttl_state" where
  "ttl_sample svc status now =
    \<lparr>ts_svc = svc,
     ts_w = \<lparr>w_api = \<lparr>ma_objs = [((''ns'', ''s1''), ttl_crd status)], ma_script = [], ma_time = now\<rparr>,
       w_del = [''s1''], w_audit = [], w_gauge = (\<lambda>_. 0)\<rparr>,
     ts_actions = (\<lambda>_. 0)\<rparr>"

definition ttl_reconciler :: "mem_api SessionCleanupReconciler" where
  "ttl_reconciler = NewSessionCleanupReconciler mem_client 5 (7 * 24 * ns_hour) True True ma_time"

definition finished_status :: InvestigationSessionStatus where
  "finished_status = zero_status\<lparr>Phase := SessionPhaseCompleted, CompletedAt := Some 1000\<rparr>"


text \<open>
  The reconciler changes anything beyond the API read, or reports an error, only for a session
  it could read and whose time-to-live has passed: a session disconnected for at least the
  disconnect period, or a finished one kept for at least the retention period. Active sessions,
  sessions in an unknown phase and sessions without the matching timestamp are left alone.
\<close>

lemma Reconcile_acts_only_when_due:
  assumes "Reconcile R r ns name st = (res, st')"
    and "kc_Get (rc_client r) ns name zero_session (w_api (ts_w st)) = (None, sess, k)"
    and "st' \<noteq> set_api k st \<or> snd res \<noteq> None"
  shows "ttl_due r (rc_now r k) sess"
  using Reconcile_not_due [OF assms(2), of R] assms(1,3) by (metis fst_conv snd_conv)

text \<open>A disconnected session.\<close>

definition lost_status :: InvestigationSessionStatus where
  "lost_status = zero_status\<lparr>Phase := SessionPhaseDisconnected, DisconnectedAt := Some 10\<rparr>"

definition lost_run :: "(mem_api, string list, string) CRDSessionService option \<Rightarrow>
    ctrl_result \<times> (mem_api, string list, string) ttl_state" where
  "lost_run svc = Reconcile (retry_n 4) ttl_reconciler ''ns'' ''s1'' (ttl_sample svc lost_status 20)"

lemma Reconcile_acts_only_when_due_example:
  "ttl_due ttl_reconciler 20 (ttl_crd lost_status) \<and>
   ts_actions (snd (lost_run (Some s1_service))) ''cancel'' = 1"
proof -
  let ?st = "ttl_sample (Some s1_service) lost_status 20"
  have g: "kc_Get (rc_client ttl_reconciler) ''ns'' ''s1'' zero_session (w_api (ts_w ?st)) =
      (None, ttl_crd lost_status, w_api (ts_w ?st))"
    by (simp add: mem_client_def mem_Get_def ttl_sample_def ttl_reconciler_def NewSessionCleanupReconciler_def)
  have a: "ts_actions (snd (lost_run (Some s1_service))) ''cancel'' = 1" by code_simp
  have n: "ts_actions (set_api (w_api (ts_w ?st)) ?st) ''cancel'' = 0" by (simp add: ttl_sample_def)
  have ne: "snd (lost_run (Some s1_service)) \<noteq> set_api (w_api (ts_w ?st)) ?st"
  proof
    assume "snd (lost_run (Some s1_service)) = set_api (w_api (ts_w ?st)) ?st"
    with a n show False by (metis zero_neq_one)
  qed
  have "Reconcile (retry_n 4) ttl_reconciler ''ns'' ''s1'' ?st =
      (fst (lost_run (Some s1_service)), snd (lost_run (Some s1_service)))"
    by (simp add: lost_run_def)
  from Reconcile_acts_only_when_due [OF this g disjI1 [OF ne]] a show ?thesis
    by (simp add: ttl_reconciler_def NewSessionCleanupReconciler_def ttl_sample_def)
qed

text \<open>
  An expired disconnected session handled through the session service: when the service's
  transition succeeds the reconciler reports success, emits its own audit event after the
  service's and counts one cancellation; when the transition fails the reconciler returns the
  wrapped error (so the call is retried), emits nothing and counts nothing.
\<close>

lemma disconnect_expiry_via_service:
  assumes "kc_Get (rc_client r) ns name zero_session (w_api (ts_w st)) = (None, sess, k)"
    and "Phase (Status sess) = SessionPhaseDisconnected" "DisconnectedAt (Status sess) = Some t"
    and "rc_disconnectTTL r \<le> since (rc_now r k) t" "ts_svc st = Some svc"
    and "UpdatePhase R svc (om_Name (Meta sess)) SessionPhaseCancelled auto_cancel_message []
           ((ts_w st)\<lparr>w_api := k\<rparr>) = (err, svc', w')"
  shows "case Reconcile R r ns name st of ((d, e), st') \<Rightarrow> d = 0 \<and> ts_svc st' = Some svc' \<and>
    e = map_option (Wrapf ''auto-cancel disconnected session: %w'' []) err \<and>
    ts_actions st' ''cancel'' = ts_actions st ''cancel'' + of_bool (err = None \<and> rc_ttlActions r) \<and>
    w_audit (ts_w st') = w_audit w' @ (if err = None \<and> rc_auditor r
      then [mk_event EventSessionAutoCancelled [] [] [] (Some [(''session'', om_Name (Meta sess)),
        (''phase'', SessionPhaseCancelled), (''elapsed'', duration_string (since (rc_now r k) t))])] else [])"
proof -
  have v: "ValidateTransition SessionPhaseDisconnected SessionPhaseCancelled = None"
    by (simp add: ValidateTransition_iff)
  have n: "SessionPhaseDisconnected \<noteq> SessionPhaseActive" by (simp add: phase_defs)
  show ?thesis using assms v n
    by (cases err) (simp_all add: Reconcile_def handleDisconnected_def Let_def ttl_emitAudit_def incTTLAction_def)
qed

lemma disconnect_expiry_via_service_example:
  "case lost_run (Some s1_service) of ((d, e), st') \<Rightarrow> e = None \<and> ts_actions st' ''cancel'' = 1 \<and>
     map ev_Type (w_audit (ts_w st')) = [EventSessionPhaseChanged, EventSessionAutoCancelled]"
proof -
  let ?st = "ttl_sample (Some s1_service) lost_status 20"
  let ?u = "UpdatePhase (retry_n 4) s1_service ''s1'' SessionPhaseCancelled auto_cancel_message [] (ts_w ?st)"
  have g: "kc_Get (rc_client ttl_reconciler) ''ns'' ''s1'' zero_session (w_api (ts_w ?st)) =
      (None, ttl_crd lost_status, w_api (ts_w ?st))"
    by (simp add: mem_client_def mem_Get_def ttl_sample_def ttl_reconciler_def NewSessionCleanupReconciler_def)
  have p: "Phase (Status (ttl_crd lost_status)) = SessionPhaseDisconnected"
    "DisconnectedAt (Status (ttl_crd lost_status)) = Some 10"
    "rc_disconnectTTL ttl_reconciler \<le> since (rc_now ttl_reconciler (w_api (ts_w ?st))) 10"
    "ts_svc ?st = Some s1_service"
    by (simp_all add: ttl_crd_def lost_status_def ttl_reconciler_def NewSessionCleanupReconciler_def
        ttl_sample_def since_def in_int64_def min_int64_def max_int64_def)
  have u: "fst ?u = None" "map ev_Type (w_audit (snd (snd ?u))) = [EventSessionPhaseChanged]" by code_simp+
  have "UpdatePhase (retry_n 4) s1_service (om_Name (Meta (ttl_crd lost_status))) SessionPhaseCancelled
      auto_cancel_message [] ((ts_w ?st)\<lparr>w_api := w_api (ts_w ?st)\<rparr>) = (fst ?u, fst (snd ?u), snd (snd ?u))"
    by (simp add: ttl_crd_def s1_crd_def zero_meta_def)
  from disconnect_expiry_via_service [OF g p this, folded lost_run_def] u show ?thesis
    by (simp add: ttl_reconciler_def NewSessionCleanupReconciler_def case_prod_unfold)
      (simp add: ttl_sample_def)
qed

text \<open>
  Without a session service the reconciler puts the new phase label on the object and then
  updates the status; the status update overwrites the object with the server's copy, label
  included, so the update that follows writes the old label back: the session ends up cancelled
  under a stale phase label.
\<close>

lemma expiry_without_service_keeps_label:
  "case lost_run None of ((d, e), st') \<Rightarrow> e = None \<and>
     stored_phase (ts_w st') ''s1'' = Some SessionPhaseCancelled \<and>
     map_option (om_Labels \<circ> Meta) (map_of (ma_objs (w_api (ts_w st'))) (''ns'', ''s1'')) =
       Some (Some [(LabelPhase, SessionPhaseActive), (LabelManagedBy, ''kubernaut-apifrontend'')])"
  by code_simp

end
