(* ===== verification/HttpUtil.thy ===== *)
theory HttpUtil
  imports Security GoJson AuditTrail SessionPhase
begin

text \<open>
  HTTP requests and responses, the context values the program stores, packages
  \<open>internal/httputil\<close> (client address, problem responses, error classification) and
  \<open>internal/requestid\<close>. Header maps are keyed by the canonical header name.
\<close>

section \<open>Identities, contexts, requests\<close>

record UserIdentity =
  ui_Username :: string
  ui_Groups :: "string list"
  ui_Issuer :: string
  ui_RawToken :: string
  ui_ExpiresAt :: "gotime option"

record CreateContext =
  cx_TaskID :: string
  cx_RemediationRef :: ObjectRef

record Ctx =
  cx_requestID :: "string option"
  cx_identity :: "UserIdentity option"
  cx_deadline :: "gotime option"
  cx_create :: "CreateContext option"

definition background :: Ctx where
  "background = \<lparr>cx_requestID = None, cx_identity = None, cx_deadline = None, cx_create = None\<rparr>"

definition WithUserIdentity :: "Ctx \<Rightarrow> UserIdentity option \<Rightarrow> Ctx" where
  "WithUserIdentity ctx id' = ctx\<lparr>cx_identity := id'\<rparr>"

definition UserIdentityFromContext :: "Ctx \<Rightarrow> UserIdentity option" where
  "UserIdentityFromContext ctx = cx_identity ctx"

type_synonym header = "string \<Rightarrow> string list"

record HttpRequest =
  rq_Method :: string
  rq_Path :: string
  rq_Header :: header
  rq_RemoteAddr :: string
  rq_Ctx :: Ctx

record HttpResponse =
  rs_Status :: int
  rs_Header :: header
  rs_Body :: string

definition header_get :: "header \<Rightarrow> string \<Rightarrow> string" where
  "header_get h k = (case h k of [] \<Rightarrow> [] | v # _ \<Rightarrow> v)"

definition header_set :: "string \<Rightarrow> string \<Rightarrow> header \<Rightarrow> header" where
  "header_set k v h = h(k := [v])"

lemma header_get_set [simp]:
  "header_get (header_set k v h) k' = (if k' = k then v else header_get h k')"
  by (simp add: header_get_def header_set_def)

section \<open>Client address (httputil/clientip.go)\<close>

definition unicode_space :: "rune \<Rightarrow> bool" where
  "unicode_space r \<longleftrightarrow> 9 \<le> r \<and> r \<le> 13 \<or> r \<in> {32, 133, 160, 5760, 8232, 8233, 8239, 8287, 12288} \<or>
     8192 \<le> r \<and> r \<le> 8202"

definition trim_space :: "string \<Rightarrow> string" where
  "trim_space s = (let sp = (\<lambda>x. unicode_space (fst x))
     in concat (map snd (rev (dropWhile sp (rev (dropWhile sp (runes s)))))))"

fun last_index :: "char \<Rightarrow> string \<Rightarrow> nat option" where
  "last_index c [] = None"
| "last_index c (x # xs) = (case last_index c xs of Some i \<Rightarrow> Some (Suc i)
     | None \<Rightarrow> if x = c then Some 0 else None)"

text \<open>\<open>net.SplitHostPort\<close>, host part only; \<open>None\<close> is any of its errors.\<close>

definition split_host :: "string \<Rightarrow> string option" where
  "split_host hp = (case last_index CHR '':'' hp of None \<Rightarrow> None | Some i \<Rightarrow>
     if hd hp = CHR ''['' then
       (case str_index hp '']'' of None \<Rightarrow> None | Some end' \<Rightarrow>
          if end' + 1 \<noteq> i then None
          else if CHR ''['' \<in> set (drop 1 hp) \<or> CHR '']'' \<in> set (drop (end' + 1) hp) then None
          else Some (take (end' - 1) (drop 1 hp)))
     else (let host = take i hp in
       if CHR '':'' \<in> set host \<or> CHR ''['' \<in> set hp \<or> CHR '']'' \<in> set hp then None else Some host))"

definition ExtractClientIP :: "HttpRequest \<Rightarrow> string" where
  "ExtractClientIP r =
    (let xff = header_get (rq_Header r) ''X-Forwarded-For'' in
     if xff \<noteq> [] then
       (let xff = (case str_index xff '','' of Some idx \<Rightarrow> trim_space (take idx xff) | None \<Rightarrow> xff)
        in case split_host xff of Some ip \<Rightarrow> ip | None \<Rightarrow> xff)
     else (case split_host (rq_RemoteAddr r) of Some ip \<Rightarrow> ip | None \<Rightarrow> rq_RemoteAddr r))"

section \<open>Request ids (requestid)\<close>

definition maxIDLen :: nat where "maxIDLen = 128"

definition id_char :: "rune \<Rightarrow> bool" where
  "id_char r \<longleftrightarrow> is_alnum r \<or> one_of ''-_.'' r"

definition validIDPattern :: re where
  "validIDPattern = between 1 128 (Cls id_char)"

definition isValidID :: "string \<Rightarrow> bool" where
  "isValidID i = (if i = [] \<or> length i > maxIDLen then False else match_full validIDPattern i)"

definition requestid_FromContext :: "Ctx \<Rightarrow> string" where
  "requestid_FromContext ctx = (case cx_requestID ctx of Some i \<Rightarrow> i | None \<Rightarrow> [])"

text \<open>
  The middleware gives the request handed to the next handler and the response header it set;
  \<open>uuid\<close> is the fresh identifier of this request.
\<close>

definition requestid_Middleware :: "string \<Rightarrow> HttpRequest \<Rightarrow> header \<Rightarrow> HttpRequest \<times> header" where
  "requestid_Middleware uuid r w =
    (let i = header_get (rq_Header r) ''X-Request-Id'';
         i = (if \<not> isValidID i then uuid else i)
     in (r\<lparr>rq_Ctx := (rq_Ctx r)\<lparr>cx_requestID := Some i\<rparr>\<rparr>, header_set ''X-Request-Id'' i w))"

text \<open>\<open>Transport.RoundTrip\<close>: the outbound request with the id of its context.\<close>

definition requestid_RoundTrip :: "(HttpRequest \<Rightarrow> 'n \<Rightarrow> 'a \<times> 'n) \<Rightarrow> HttpRequest \<Rightarrow> 'n \<Rightarrow> 'a \<times> 'n" where
  "requestid_RoundTrip base req =
    (let rid = requestid_FromContext (rq_Ctx req);
         req = (if rid \<noteq> [] then req\<lparr>rq_Header := header_set ''X-Request-Id'' rid (rq_Header req)\<rparr> else req)
     in base req)"

lemma id_char_ascii: "id_char r \<Longrightarrow> r < 128"
  by (auto simp: id_char_def class_defs)

lemma lang_between_cls:
  "n \<le> m \<Longrightarrow> xs \<in> lang (between n m (Cls P)) \<longleftrightarrow> n \<le> length xs \<and> length xs \<le> m \<and> (\<forall>x\<in>set xs. P (fst x))"
proof -
  assume nm: "n \<le> m"
  have "xs \<in> lang (between n m (Cls P)) \<longleftrightarrow>
      (\<exists>u v. xs = u @ v \<and> u \<in> lang (times n (Cls P)) \<and> v \<in> lang (upto_times (m - n) (Cls P)))"
    unfolding between_def lang.simps(3) by blast
  also have "\<dots> \<longleftrightarrow> (\<exists>u v. xs = u @ v \<and> length u = n \<and> length v \<le> m - n \<and> (\<forall>x\<in>set u \<union> set v. P (fst x)))"
    unfolding lang_times_cls lang_upto_cls by blast
  also have "\<dots> \<longleftrightarrow> n \<le> length xs \<and> length xs \<le> m \<and> (\<forall>x\<in>set xs. P (fst x))"
  proof
    assume "n \<le> length xs \<and> length xs \<le> m \<and> (\<forall>x\<in>set xs. P (fst x))"
    then have "xs = take n xs @ drop n xs \<and> length (take n xs) = n \<and> length (drop n xs) \<le> m - n \<and>
        (\<forall>x\<in>set (take n xs) \<union> set (drop n xs). P (fst x))"
      by (auto dest: in_set_takeD in_set_dropD)
    then show "\<exists>u v. xs = u @ v \<and> length u = n \<and> length v \<le> m - n \<and> (\<forall>x\<in>set u \<union> set v. P (fst x))" by blast
  qed (use nm in auto)
  finally show ?thesis .
qed

lemma isValidID_iff: "isValidID i \<longleftrightarrow> i \<noteq> [] \<and> length i \<le> 128 \<and> (\<forall>c\<in>set i. id_char (byte c))"
proof -
  have m: "match_full validIDPattern i \<longleftrightarrow>
      1 \<le> length (runes i) \<and> length (runes i) \<le> 128 \<and> (\<forall>c\<in>set i. id_char (byte c))"
    unfolding match_full_lang validIDPattern_def
    by (simp add: lang_between_cls runes_all_iff id_char_ascii)
  show ?thesis
  proof (cases "\<forall>c\<in>set i. id_char (byte c)")
    case True
    then have "length (runes i) = length i" by (auto intro: runes_length_ascii id_char_ascii)
    with True m show ?thesis by (cases i) (auto simp: isValidID_def maxIDLen_def)
  qed (auto simp: isValidID_def m)
qed

text \<open>
  Whatever a client sends as \<open>X-Request-ID\<close>, the id that reaches the context (and with it logs,
  audit events and outbound calls) and the response header is the same string of 1 to 128 letters,
  digits, dashes, underscores and dots: a valid client id is kept, anything else is replaced.
\<close>

lemma requestid_no_injection:
  assumes "isValidID uuid" and "requestid_Middleware uuid r w = (r', w')"
  shows "isValidID (requestid_FromContext (rq_Ctx r')) \<and>
    (\<forall>c. c \<in> set (requestid_FromContext (rq_Ctx r')) \<longrightarrow> id_char (byte c)) \<and>
    header_get w' ''X-Request-Id'' = requestid_FromContext (rq_Ctx r') \<and>
    (isValidID (header_get (rq_Header r) ''X-Request-Id'') \<longrightarrow>
       requestid_FromContext (rq_Ctx r') = header_get (rq_Header r) ''X-Request-Id'')"
  using assms by (auto simp: requestid_Middleware_def requestid_FromContext_def Let_def isValidID_iff split: if_splits)

definition sample_request :: HttpRequest where
  "sample_request = \<lparr>rq_Method = ''GET'', rq_Path = ''/mcp'',
     rq_Header = header_set ''X-Request-Id'' [CHR ''a'', CHR 0x0A, CHR ''b''] (\<lambda>_. []),
     rq_RemoteAddr = ''10.0.0.7:4711'', rq_Ctx = background\<rparr>"

lemma requestid_no_injection_example:
  "requestid_FromContext (rq_Ctx (fst (requestid_Middleware ''u-1'' sample_request (\<lambda>_. [])))) = ''u-1'' \<and>
   isValidID ''u-1''"
proof -
  have u: "isValidID ''u-1''" by (simp add: isValidID_iff id_char_def class_defs)
  have b: "\<not> isValidID [CHR ''a'', CHR 0x0A, CHR ''b'']" by (simp add: isValidID_iff id_char_def class_defs)
  from requestid_no_injection [OF u, of sample_request "\<lambda>_. []"] u b show ?thesis
    by (simp add: requestid_Middleware_def requestid_FromContext_def sample_request_def Let_def)
qed

section \<open>Problem responses (httputil/problem.go)\<close>

record ProblemDetail =
  pd_Type :: string
  pd_Title :: string
  pd_Status :: int
  pd_Detail :: string
  pd_Instance :: string
  pd_RequestID :: string

text \<open>The JSON text of a problem; empty optional members are left out.\<close>

definition problem_json :: "ProblemDetail \<Rightarrow> string" where
  "problem_json p = ''{'' @ commas
     ([json_string ''type'' @ '':'' @ json_string (pd_Type p),
       json_string ''title'' @ '':'' @ json_string (pd_Title p),
       json_string ''status'' @ '':'' @ show_int (pd_Status p)] @
      (if pd_Detail p \<noteq> [] then [json_string ''detail'' @ '':'' @ json_string (pd_Detail p)] else []) @
      (if pd_Instance p \<noteq> [] then [json_string ''instance'' @ '':'' @ json_string (pd_Instance p)] else []) @
      (if pd_RequestID p \<noteq> [] then [json_string ''request_id'' @ '':'' @ json_string (pd_RequestID p)] else []))
     @ ''}'' @ [CHR 0x0A]"

definition WriteProblemFull :: "header \<Rightarrow> ProblemDetail \<Rightarrow> HttpResponse" where
  "WriteProblemFull w p = \<lparr>rs_Status = pd_Status p,
     rs_Header = header_set ''Content-Type'' ''application/problem+json'' w, rs_Body = problem_json p\<rparr>"

definition WriteProblem :: "header \<Rightarrow> int \<Rightarrow> string \<Rightarrow> string \<Rightarrow> HttpResponse" where
  "WriteProblem w status title detail =
    WriteProblemFull w \<lparr>pd_Type = ''about:blank'', pd_Title = title, pd_Status = status, pd_Detail = detail,
      pd_Instance = [], pd_RequestID = []\<rparr>"

definition WriteProblemWithType :: "header \<Rightarrow> int \<Rightarrow> string \<Rightarrow> string \<Rightarrow> string \<Rightarrow> string \<Rightarrow> HttpResponse" where
  "WriteProblemWithType w status typeURI title detail inst =
    WriteProblemFull w \<lparr>pd_Type = typeURI, pd_Title = title, pd_Status = status, pd_Detail = detail,
      pd_Instance = inst, pd_RequestID = []\<rparr>"

section \<open>Error classification (httputil/errormapper.go)\<close>

definition problemBaseURI :: string where "problemBaseURI = ''https://kubernaut.ai/problems/''"

record ErrorClassification =
  ec_TypeURI :: string
  ec_Title :: string
  ec_Status :: int

definition http_class :: "string \<Rightarrow> string \<Rightarrow> int \<Rightarrow> ErrorClassification" where
  "http_class uri title status = \<lparr>ec_TypeURI = problemBaseURI @ uri, ec_Title = title, ec_Status = status\<rparr>"

text \<open>Each entry: the name of the sentinel, its message, and the class.\<close>

definition classifications :: "(string \<times> string \<times> ErrorClassification) list" where
  "classifications =
    [(''ErrAuthentication'', ''authentication failed'', http_class ''authentication-failed'' ''Authentication Failed'' 401),
     (''ErrPermissionDenied'', ''permission denied'', http_class ''permission-denied'' ''Permission Denied'' 403),
     (''ErrRateLimited'', ''rate limited'', http_class ''rate-limited'' ''Rate Limited'' 429),
     (''ErrUpstreamTimeout'', ''upstream timeout'', http_class ''upstream-timeout'' ''Upstream Timeout'' 504),
     (''ErrUnavailable'', ''service unavailable'', http_class ''service-unavailable'' ''Service Unavailable'' 503),
     (''ErrValidation'', ''validation failed'', http_class ''validation-failed'' ''Validation Failed'' 400),
     (''ErrPayloadTooLarge'', ''payload too large'', http_class ''payload-too-large'' ''Payload Too Large'' 413),
     (''ErrNotFound'', ''not found'', http_class ''not-found'' ''Not Found'' 404)]"

definition opt_errors_is :: "goerr option \<Rightarrow> string \<Rightarrow> bool" where
  "opt_errors_is err n = (case err of None \<Rightarrow> False | Some e \<Rightarrow> errors_is e n)"

definition find_class :: "goerr option \<Rightarrow> (string \<times> string \<times> ErrorClassification) option" where
  "find_class err = find (\<lambda>c. opt_errors_is err (fst c)) classifications"

definition unexpected :: string where "unexpected = ''an unexpected error occurred''"

definition safeDetail :: "goerr option \<Rightarrow> string" where
  "safeDetail err = (if err = None then [] else
     case find_class err of Some (n, msg, c) \<Rightarrow> msg | None \<Rightarrow> unexpected)"

definition MapToRFC7807 :: "goerr option \<Rightarrow> HttpRequest option \<Rightarrow> ProblemDetail" where
  "MapToRFC7807 err r =
    (let detail = safeDetail err;
         inst = (case r of None \<Rightarrow> [] | Some rq \<Rightarrow> rq_Path rq);
         rid = (case r of None \<Rightarrow> [] | Some rq \<Rightarrow> requestid_FromContext (rq_Ctx rq))
     in case find_class err of
          Some (n, msg, c) \<Rightarrow> \<lparr>pd_Type = ec_TypeURI c, pd_Title = ec_Title c, pd_Status = ec_Status c,
             pd_Detail = detail, pd_Instance = inst, pd_RequestID = rid\<rparr>
        | None \<Rightarrow> \<lparr>pd_Type = ''about:blank'', pd_Title = ''Internal Server Error'', pd_Status = 500,
             pd_Detail = unexpected, pd_Instance = inst, pd_RequestID = rid\<rparr>)"

definition WriteError :: "header \<Rightarrow> HttpRequest option \<Rightarrow> goerr option \<Rightarrow> HttpResponse" where
  "WriteError w r err = WriteProblemFull w (MapToRFC7807 err r)"

lemma find_class_cong:
  "(\<And>n. errors_is e1 n = errors_is e2 n) \<Longrightarrow> find_class (Some e1) = find_class (Some e2)"
  by (simp add: find_class_def opt_errors_is_def)

text \<open>
  The response to a failed request depends on the error only through the sentinels it wraps:
  two errors that wrap the same sentinels give the same response body, so no text of an internal
  error reaches the client; an error that wraps none of the eight sentinels gives a 500 with the
  fixed detail, and an error that wraps a single one gives that sentinel's class and message.
\<close>

lemma WriteError_leaks_nothing:
  assumes "\<And>n. errors_is e1 n = errors_is e2 n"
  shows "WriteError w r (Some e1) = WriteError w r (Some e2) \<and>
    ((\<forall>c. c \<in> set classifications \<longrightarrow> \<not> errors_is e1 (fst c)) \<longrightarrow>
       rs_Status (WriteError w r (Some e1)) = 500 \<and> pd_Detail (MapToRFC7807 (Some e1) r) = unexpected) \<and>
    (\<forall>n msg c. (n, msg, c) \<in> set classifications \<longrightarrow> (\<forall>m. errors_is e1 m \<longleftrightarrow> m = n) \<longrightarrow>
       rs_Status (WriteError w r (Some e1)) = ec_Status c \<and> pd_Detail (MapToRFC7807 (Some e1) r) = msg)"
proof (intro conjI)
  show "WriteError w r (Some e1) = WriteError w r (Some e2)"
    using find_class_cong [OF assms] by (simp add: WriteError_def MapToRFC7807_def safeDetail_def)
  show "(\<forall>c. c \<in> set classifications \<longrightarrow> \<not> errors_is e1 (fst c)) \<longrightarrow>
       rs_Status (WriteError w r (Some e1)) = 500 \<and> pd_Detail (MapToRFC7807 (Some e1) r) = unexpected"
  proof
    assume "\<forall>c. c \<in> set classifications \<longrightarrow> \<not> errors_is e1 (fst c)"
    then have "find_class (Some e1) = None" by (auto simp: find_class_def opt_errors_is_def find_None_iff)
    then show "rs_Status (WriteError w r (Some e1)) = 500 \<and> pd_Detail (MapToRFC7807 (Some e1) r) = unexpected"
      by (simp add: WriteError_def MapToRFC7807_def WriteProblemFull_def Let_def)
  qed
  show "\<forall>n msg c. (n, msg, c) \<in> set classifications \<longrightarrow> (\<forall>m. errors_is e1 m \<longleftrightarrow> m = n) \<longrightarrow>
       rs_Status (WriteError w r (Some e1)) = ec_Status c \<and> pd_Detail (MapToRFC7807 (Some e1) r) = msg"
  proof (intro allI impI)
    fix n msg c assume a: "(n, msg, c) \<in> set classifications" "\<forall>m. errors_is e1 m \<longleftrightarrow> m = n"
    have "find_class (Some e1) = find (\<lambda>x. fst x = n) classifications"
      using a(2) by (simp add: find_class_def opt_errors_is_def)
    also have "\<dots> = Some (n, msg, c)" using a(1) by (auto simp: classifications_def)
    finally show "rs_Status (WriteError w r (Some e1)) = ec_Status c \<and> pd_Detail (MapToRFC7807 (Some e1) r) = msg"
      by (simp add: WriteError_def MapToRFC7807_def WriteProblemFull_def safeDetail_def Let_def)
  qed
qed

lemma WriteError_leaks_nothing_example:
  "WriteError (\<lambda>_. []) None (Some (Errorf ''dial tcp 10.0.0.1'' [])) = WriteError (\<lambda>_. []) None (Some (ApiError Forbidden ''secret''))
   \<and> rs_Status (WriteError (\<lambda>_. []) None (Some (Errorf ''dial tcp 10.0.0.1'' []))) = 500"
proof -
  have "\<And>n. errors_is (Errorf ''dial tcp 10.0.0.1'' []) n = errors_is (ApiError Forbidden ''secret'') n" by simp
  note t = WriteError_leaks_nothing [OF this, of "\<lambda>_. []" None]
  have "\<forall>c. c \<in> set classifications \<longrightarrow> \<not> errors_is (Errorf ''dial tcp 10.0.0.1'' []) (fst c)" by simp
  with t show ?thesis by blast
qed

end
