(* ===== verification/SessionDecorator.thy ===== *)
theory SessionDecorator
  imports SessionLifecycle HttpUtil
begin

text \<open>
  The \<open>adksession.Service\<close> interface and the decorator of \<open>internal/session/decorator.go\<close> that fills in
  the creation parameters from the request context. The interface is the record
  \<open>session_service\<close>; the locale \<open>session_store\<close> states what a client of it relies on, and is
  interpreted both on the CRD-backed service and on the decorated one.
\<close>

section \<open>The service interface\<close>

record ('st, 's) session_service =
  ss_Create :: "Ctx \<Rightarrow> CreateRequest \<Rightarrow> 'st \<Rightarrow> (goerr + 's) \<times> 'st"
  ss_Get :: "Ctx \<Rightarrow> GetRequest \<Rightarrow> 'st \<Rightarrow> (goerr + 's) \<times> 'st"
  ss_List :: "Ctx \<Rightarrow> ListRequest \<Rightarrow> 'st \<Rightarrow> (goerr + 's list) \<times> 'st"
  ss_Delete :: "Ctx \<Rightarrow> GetRequest \<Rightarrow> 'st \<Rightarrow> goerr option \<times> 'st"
  ss_AppendEvent :: "Ctx \<Rightarrow> 's \<Rightarrow> SEvent option \<Rightarrow> 'st \<Rightarrow> goerr option \<times> 'st"

text \<open>The CRD-backed service as such a service; its methods use the context for cancellation and audit only.\<close>

definition crd_store ::
  "(('k, 'd, 's) CRDSessionService \<times> ('k, 'd) world, 's) session_service" where
  "crd_store = \<lparr>
     ss_Create = (\<lambda>ctx req (s, w). case Create s req w of (r, s', w') \<Rightarrow> (r, (s', w'))),
     ss_Get = (\<lambda>ctx req (s, w). case Get s req w of (r, w') \<Rightarrow> (r, (s, w'))),
     ss_List = (\<lambda>ctx req (s, w). case List_sessions s req w of (r, w') \<Rightarrow> (r, (s, w'))),
     ss_Delete = (\<lambda>ctx req (s, w). case Delete s req w of (r, s', w') \<Rightarrow> (r, (s', w'))),
     ss_AppendEvent = (\<lambda>ctx sess ev (s, w). case AppendEvent s sess ev w of (r, w') \<Rightarrow> (r, (s, w')))\<rparr>"

section \<open>The decorator\<close>

definition WithCreateContext :: "Ctx \<Rightarrow> CreateContext option \<Rightarrow> Ctx" where
  "WithCreateContext ctx sc = ctx\<lparr>cx_create := sc\<rparr>"

definition CreateContextFromContext :: "Ctx \<Rightarrow> CreateContext option" where
  "CreateContextFromContext ctx = cx_create ctx"

definition decorator_config :: "CreateContext \<Rightarrow> UserIdentity \<Rightarrow> CreateConfig" where
  "decorator_config sc identity =
    (let rrRef = (if or_Name (cx_RemediationRef sc) = []
                  then \<lparr>or_Name = ''pending'', or_Namespace = ''kubernaut-system''\<rparr> else cx_RemediationRef sc)
     in \<lparr>cc_OwnerRef = \<lparr>ow_APIVersion = [], ow_Kind = [], ow_Name = [], ow_UID = []\<rparr>,
         cc_A2ATaskID = cx_TaskID sc,
         cc_UserIdentity = \<lparr>su_Username = ui_Username identity, su_Groups = ui_Groups identity\<rparr>,
         cc_JoinMode = SessionJoinModeStart, cc_RemediationRef = rrRef\<rparr>)"

definition ErrNoIdentity :: goerr where
  "ErrNoIdentity = Errorf ''session creation requires authenticated user identity'' []"

definition Decorator_Create ::
  "('st, 's) session_service \<Rightarrow> Ctx \<Rightarrow> CreateRequest \<Rightarrow> 'st \<Rightarrow> (goerr + 's) \<times> 'st" where
  "Decorator_Create inner ctx req st =
    (case CreateContextFromContext ctx of
       None \<Rightarrow> ss_Create inner ctx req st
     | Some sc \<Rightarrow>
        (case UserIdentityFromContext ctx of
           None \<Rightarrow> (Inl ErrNoIdentity, st)
         | Some identity \<Rightarrow>
            (if ui_Username identity = [] then (Inl ErrNoIdentity, st)
             else (let m = (case cr_State req of None \<Rightarrow> [] | Some m \<Rightarrow> m);
                       req = req\<lparr>cr_State := Some (AList.update StateKeyCreateConfig
                         (SVConfig (Some (decorator_config sc identity))) m)\<rparr>
                   in ss_Create inner ctx req st))))"

definition ServiceDecorator :: "('st, 's) session_service \<Rightarrow> ('st, 's) session_service" where
  "ServiceDecorator inner = \<lparr>ss_Create = Decorator_Create inner, ss_Get = ss_Get inner, ss_List = ss_List inner,
     ss_Delete = ss_Delete inner, ss_AppendEvent = ss_AppendEvent inner\<rparr>"

definition NewServiceDecorator :: "('st, 's) session_service option \<Rightarrow> goerr + ('st, 's) session_service" where
  "NewServiceDecorator inner = (case inner of
     None \<Rightarrow> Inl (Panicked ''session.NewServiceDecorator: inner service must not be nil'')
   | Some svc \<Rightarrow> Inr (ServiceDecorator svc))"

section \<open>What a client of the service relies on\<close>

text \<open>
  \<open>tracked\<close> is the bookkeeping a client can observe of the sessions: a failed create leaves it as it
  was, a delete forgets at most the session it names, and nothing else changes it.
\<close>

locale session_store =
  fixes svc :: "('st, 's) session_service"
    and tracked :: "'st \<Rightarrow> string \<Rightarrow> string option"
  assumes create_fail: "ss_Create svc ctx req st = (Inl e, st') \<Longrightarrow> tracked st' = tracked st"
    and get_keeps: "ss_Get svc ctx req' st = (r, st') \<Longrightarrow> tracked st' = tracked st"
    and list_keeps: "ss_List svc ctx lreq st = (rl, st') \<Longrightarrow> tracked st' = tracked st"
    and append_keeps: "ss_AppendEvent svc ctx sess ev st = (err, st') \<Longrightarrow> tracked st' = tracked st"
    and delete_forgets: "ss_Delete svc ctx req' st = (err, st') \<Longrightarrow> tracked st' = (tracked st)(gr_SessionID req' := None)"
begin

text \<open>The bookkeeping loses a session only when a delete names it.\<close>

inductive session_step :: "'st \<Rightarrow> string option \<Rightarrow> 'st \<Rightarrow> bool" where
  "ss_Create svc ctx req st = (Inl e, st') \<Longrightarrow> session_step st None st'"
| "ss_Get svc ctx req' st = (r, st') \<Longrightarrow> session_step st None st'"
| "ss_List svc ctx lreq st = (rl, st') \<Longrightarrow> session_step st None st'"
| "ss_AppendEvent svc ctx sess ev st = (err, st') \<Longrightarrow> session_step st None st'"
| "ss_Delete svc ctx req' st = (err, st') \<Longrightarrow> session_step st (Some (gr_SessionID req')) st'"

lemma step_keeps:
  "session_step st d st' \<Longrightarrow> d \<noteq> Some i \<Longrightarrow> tracked st' i = tracked st i"
  by (cases rule: session_step.cases)
    (auto dest: create_fail get_keeps list_keeps append_keeps dest!: delete_forgets split: if_splits)

lemma decorated: "session_store (ServiceDecorator svc) tracked"
proof
  fix ctx req st e st'
  assume "ss_Create (ServiceDecorator svc) ctx req st = (Inl e, st')"
  then show "tracked st' = tracked st"
    by (auto simp: ServiceDecorator_def Decorator_Create_def Let_def split: option.splits if_splits dest: create_fail)
qed (auto simp: ServiceDecorator_def dest: get_keeps list_keeps append_keeps delete_forgets)

end

lemma AppendEvent_index: "AppendEvent s sess ev w = (err, w') \<Longrightarrow> w_gauge w' = w_gauge w \<and> w_audit w' = w_audit w"
  by (auto simp: AppendEvent_def Let_def split: prod.splits option.splits)

definition session_index :: "('k, 'd, 's) CRDSessionService \<times> ('k, 'd) world \<Rightarrow> string \<Rightarrow> string option" where
  "session_index st = map_of (sv_crdIndex (fst st))"

lemma Create_error_index: "Create s req w = (Inl e, s', w') \<Longrightarrow> s' = s"
  by (cases rule: Create_error_cases) auto

interpretation crd: session_store crd_store session_index
proof
  fix ctx req st e st'
  assume "ss_Create crd_store ctx req st = (Inl e, st')"
  then show "session_index st' = session_index st"
    by (cases st; cases st') (auto simp: crd_store_def session_index_def split: prod.splits dest: Create_error_index)
qed (auto simp: crd_store_def session_index_def Delete_def delete_conv' Let_def split: prod.splits)

interpretation dec: session_store "ServiceDecorator crd_store" session_index
  by (rule crd.decorated)

section \<open>Properties\<close>

text \<open>
  A session created through the decorated service from an A2A task (a creation context is set)
  needs an authenticated user: without one nothing happens at all. With one, the resource sent to
  the API server names exactly the authenticated user and groups, the task of the context and the
  join mode start, whatever configuration the request itself carried.
\<close>
lemma decorated_create_identity:
  assumes "CreateContextFromContext ctx = Some sc"
    and "ss_Create (ServiceDecorator crd_store) ctx req (s, w) = (r, (s', w'))"
  shows "((UserIdentityFromContext ctx = None \<or> (\<exists>i. UserIdentityFromContext ctx = Some i \<and> ui_Username i = [])) \<longrightarrow>
      r = Inl ErrNoIdentity \<and> s' = s \<and> w' = w) \<and>
    (\<forall>sess. r = Inr sess \<longrightarrow> (\<exists>i crd crd' k. UserIdentityFromContext ctx = Some i \<and> ui_Username i \<noteq> [] \<and>
      kc_Create (sv_client s) crd (w_api w) = (None, crd', k) \<and>
      UserIdentityOf (Spec crd) = \<lparr>su_Username = ui_Username i, su_Groups = ui_Groups i\<rparr> \<and>
      A2ATaskID (Spec crd) = cx_TaskID sc \<and> JoinMode (Spec crd) = SessionJoinModeStart \<and>
      or_Name (RemediationRequestRef (Spec crd)) \<noteq> [] \<and>
      session_index (s', w') (dl_ID (sv_delegate s) sess) = Some (om_Name (Meta crd))))"
proof (cases "\<exists>i. UserIdentityFromContext ctx = Some i \<and> ui_Username i \<noteq> []")
  case False
  with assms show ?thesis
    by (auto simp: ServiceDecorator_def Decorator_Create_def split: option.splits)
next
  case True
  then obtain i where i: "UserIdentityFromContext ctx = Some i" "ui_Username i \<noteq> []" by blast
  define req' where "req' = req\<lparr>cr_State := Some (AList.update StateKeyCreateConfig
    (SVConfig (Some (decorator_config sc i))) (case cr_State req of None \<Rightarrow> [] | Some m \<Rightarrow> m))\<rparr>"
  have c: "Create s req' w = (r, s', w')"
    using assms i by (auto simp: ServiceDecorator_def Decorator_Create_def crd_store_def req'_def Let_def split: prod.splits)
  have cfg: "request_config req' = Inr (Some (decorator_config sc i))"
    by (simp add: request_config_def req'_def update_conv')
  show ?thesis
  proof (intro conjI impI allI)
    fix sess assume "r = Inr sess"
    with Create_ok [of s req' w sess s' w'] c obtain crd k where
      k: "kc_Create (sv_client s) (new_session_crd (sv_namespace s) (Create_crd_name (sv_now s (w_api w)) req')
          (sv_now s (w_api w)) (Some (decorator_config sc i))) (w_api w) = (None, crd, k)"
      and idx: "map_of (sv_crdIndex s') (dl_ID (sv_delegate s) sess) = Some (Create_crd_name (sv_now s (w_api w)) req')"
      by (auto simp: cfg Let_def)
    show "\<exists>i crd crd' k. UserIdentityFromContext ctx = Some i \<and> ui_Username i \<noteq> [] \<and>
      kc_Create (sv_client s) crd (w_api w) = (None, crd', k) \<and>
      UserIdentityOf (Spec crd) = \<lparr>su_Username = ui_Username i, su_Groups = ui_Groups i\<rparr> \<and>
      A2ATaskID (Spec crd) = cx_TaskID sc \<and> JoinMode (Spec crd) = SessionJoinModeStart \<and>
      or_Name (RemediationRequestRef (Spec crd)) \<noteq> [] \<and>
      session_index (s', w') (dl_ID (sv_delegate s) sess) = Some (om_Name (Meta crd))"
      by (rule exI [of _ i], rule exI, rule exI, rule exI, intro conjI, rule i(1), rule i(2), rule k)
        (simp_all add: new_session_crd_def decorator_config_def session_index_def idx Let_def)
  qed (use i in auto)
qed

definition alice_task :: Ctx where
  "alice_task = WithCreateContext (WithUserIdentity background (Some \<lparr>ui_Username = ''alice'', ui_Groups = [''sre''],
     ui_Issuer = ''iss'', ui_RawToken = [], ui_ExpiresAt = None\<rparr>))
     (Some \<lparr>cx_TaskID = ''t1'', cx_RemediationRef = \<lparr>or_Name = [], or_Namespace = []\<rparr>\<rparr>)"

text \<open>A request that carries a configuration of its own, for the user root.\<close>

definition spoofed_s1 :: CreateRequest where
  "spoofed_s1 = create_s1\<lparr>cr_State := Some [(StateKeyCreateConfig, SVConfig (Some (decorator_config
     \<lparr>cx_TaskID = ''x'', cx_RemediationRef = \<lparr>or_Name = ''r'', or_Namespace = ''n''\<rparr>\<rparr>
     \<lparr>ui_Username = ''root'', ui_Groups = [], ui_Issuer = [], ui_RawToken = [], ui_ExpiresAt = None\<rparr>)))]\<rparr>"

lemma decorated_create_identity_example:
  "\<exists>s' w'. ss_Create (ServiceDecorator crd_store) alice_task spoofed_s1 (mem_service, mem_world []) = (Inr ''s1'', (s', w')) \<and>
     (\<exists>crd crd' k. kc_Create mem_client crd (w_api (mem_world [])) = (None, crd', k) \<and>
       UserIdentityOf (Spec crd) = \<lparr>su_Username = ''alice'', su_Groups = [''sre'']\<rparr>)"
proof -
  have cl: "sv_client mem_service = mem_client"
    by (simp add: mem_service_def NewCRDSessionService_def WithAuditor_def WithSessionsActive_def)
  have ctx: "CreateContextFromContext alice_task = Some \<lparr>cx_TaskID = ''t1'', cx_RemediationRef = \<lparr>or_Name = [], or_Namespace = []\<rparr>\<rparr>"
    "UserIdentityFromContext alice_task = Some \<lparr>ui_Username = ''alice'', ui_Groups = [''sre''],
     ui_Issuer = ''iss'', ui_RawToken = [], ui_ExpiresAt = None\<rparr>"
    by (simp_all add: alice_task_def CreateContextFromContext_def WithCreateContext_def WithUserIdentity_def
        UserIdentityFromContext_def)
  have "\<exists>s' w'. ss_Create (ServiceDecorator crd_store) alice_task spoofed_s1 (mem_service, mem_world []) = (Inr ''s1'', (s', w'))"
    using s1_name by (simp add: ServiceDecorator_def Decorator_Create_def crd_store_def ctx spoofed_s1_def Create_def
      mem_defs request_config_def update_conv' Create_crd_name_def new_session_crd_def effect_defs zero_meta_def
      zero_status_def Let_def)
  then obtain s' w' where e: "ss_Create (ServiceDecorator crd_store) alice_task spoofed_s1 (mem_service, mem_world []) = (Inr ''s1'', (s', w'))"
    by blast
  from decorated_create_identity [OF ctx(1) e] e ctx(2) cl show ?thesis by fastforce
qed

end
