(* ===== verification/Streaming.thy ===== *)
theory Streaming
  imports SessionEvents
begin

text \<open>
  Package \<open>internal/streaming\<close>: the SSE frame of a session event (\<open>sse.go\<close>) and the tracker of open
  streaming connections (\<open>tracker.go\<close>). The frames are read back by a parser for event streams written
  after the HTML standard (lines end in LF, CR or CRLF; a blank line dispatches), so that injection of
  a field or of a second event through author names, texts or tool arguments is excluded by a round
  trip. The tracker is modelled with the cancel function and the writer of a connection named by a
  number, and \<open>DrainAll\<close> returns the effects it has on the connections.
\<close>

section \<open>Frames\<close>

definition StateKeyTerminal :: string where "StateKeyTerminal = ''af:terminal''"
definition DefaultRetryMS :: int where "DefaultRetryMS = 3000"

text \<open>
  \<open>pl_ToolArgs\<close> is the \<open>any\<close> field: \<open>None\<close> the nil interface, \<open>Some JNull\<close> an interface that holds a nil
  map, which \<open>omitempty\<close> keeps.
\<close>

record SSEPayload =
  pl_Seq :: int
  pl_EventType :: string
  pl_Author :: string
  pl_Text :: string
  pl_ToolName :: string
  pl_ToolArgs :: "jv option"

definition part_has_call :: "Part option \<Rightarrow> bool" where
  "part_has_call p = (case p of None \<Rightarrow> False | Some part \<Rightarrow> pt_FunctionCall part \<noteq> None)"

definition EventTypeFromEvent :: "SEvent \<Rightarrow> string" where
  "EventTypeFromEvent event =
    (if (case ae_Parts event of None \<Rightarrow> False | Some parts \<Rightarrow> list_ex part_has_call parts) then ''tool-call''
     else (let author = filter (\<lambda>c. c \<noteq> CHR 0x0A) (ae_Author event);
               author = filter (\<lambda>c. c \<noteq> CHR 0x0D) author
           in if author = [] then ''message'' else author))"

definition HeartbeatFrame :: string where
  "HeartbeatFrame = '': heartbeat'' @ [CHR 0x0A, CHR 0x0A]"

definition isTerminalEvent :: "SEvent \<Rightarrow> bool" where
  "isTerminalEvent event = (case ae_StateDelta event of None \<Rightarrow> False
     | Some delta \<Rightarrow> (case map_of delta StateKeyTerminal of Some (JBool b) \<Rightarrow> b | _ \<Rightarrow> False))"

definition add_part :: "Part option \<Rightarrow> SSEPayload \<Rightarrow> SSEPayload" where
  "add_part p pl = (case p of None \<Rightarrow> pl | Some part \<Rightarrow>
     (let pl = (if pt_Text part \<noteq> [] then pl\<lparr>pl_Text := pl_Text pl @ pt_Text part\<rparr> else pl)
      in case pt_FunctionCall part of None \<Rightarrow> pl
         | Some fc \<Rightarrow> pl\<lparr>pl_ToolName := fc_Name fc,
             pl_ToolArgs := Some (case fc_Args fc of None \<Rightarrow> JNull | Some kvs \<Rightarrow> JObj kvs)\<rparr>))"

definition eventToPayload :: "SEvent \<Rightarrow> int \<Rightarrow> string \<Rightarrow> SSEPayload" where
  "eventToPayload event sq eventType =
    (let p = \<lparr>pl_Seq = sq, pl_EventType = eventType, pl_Author = ae_Author event, pl_Text = [], pl_ToolName = [],
              pl_ToolArgs = None\<rparr>
     in case ae_Parts event of
          None \<Rightarrow> (if eventType = ''done'' then p\<lparr>pl_Text := ''Investigation complete''\<rparr> else p)
        | Some parts \<Rightarrow>
            (let p = fold add_part parts p
             in if eventType = ''done'' \<and> pl_Text p = [] then p\<lparr>pl_Text := ''Investigation complete''\<rparr> else p))"

text \<open>
  A struct is written in the order of its fields; \<open>omitempty\<close> leaves out empty strings and nil interfaces.
  The encoder's error value is not modelled further.
\<close>

definition json_field :: "string \<Rightarrow> jv \<Rightarrow> string option" where
  "json_field k v = map_option (\<lambda>t. json_string k @ '':'' @ t) (json_marshal v)"

definition marshal_struct :: "(string \<times> jv) list \<Rightarrow> string option" where
  "marshal_struct kvs = map_option (\<lambda>ts. ''{'' @ commas ts @ ''}'') (those (map (\<lambda>(k, v). json_field k v) kvs))"

definition payload_fields :: "SSEPayload \<Rightarrow> (string \<times> jv) list" where
  "payload_fields p =
     [(''seq'', JInt (pl_Seq p)), (''event_type'', JStr (pl_EventType p)), (''author'', JStr (pl_Author p))] @
     (if pl_Text p = [] then [] else [(''text'', JStr (pl_Text p))]) @
     (if pl_ToolName p = [] then [] else [(''tool_name'', JStr (pl_ToolName p))]) @
     (case pl_ToolArgs p of None \<Rightarrow> [] | Some v \<Rightarrow> [(''tool_args'', v)])"

definition marshal_payload :: "SSEPayload \<Rightarrow> string option" where
  "marshal_payload p = marshal_struct (payload_fields p)"

definition frame_line :: "string \<Rightarrow> string \<Rightarrow> string" where
  "frame_line field v = field @ '': '' @ v @ [CHR 0x0A]"

definition FormatSSEFrame :: "SEvent \<Rightarrow> int \<Rightarrow> goerr + string option" where
  "FormatSSEFrame event sq =
    (if ae_Partial event then Inr None
     else (let eventType = EventTypeFromEvent event;
               eventType = (if isTerminalEvent event then ''done'' else eventType)
           in case marshal_payload (eventToPayload event sq eventType) of
                None \<Rightarrow> Inl (Wrapf ''marshal SSE payload: %w'' [] (ErrVar ''json.Marshal''))
              | Some dt \<Rightarrow> Inr (Some (frame_line ''id'' (show_int sq) @ frame_line ''retry'' (show_int DefaultRetryMS) @
                  frame_line ''event'' eventType @ frame_line ''data'' dt @ [CHR 0x0A]))))"

section \<open>Connection tracker\<close>

text \<open>\<open>tc_ref\<close> names the writer and the cancel function; \<open>tc_flusher\<close> says that the writer can flush.\<close>

record TrackedConnection =
  tc_ID :: string
  tc_ref :: nat
  tc_flusher :: bool

record ConnectionTracker =
  tk_conns :: "(string \<times> TrackedConnection) list"
  tk_gauge :: "int option"
  tk_drainWait :: duration
  tk_MaxConnections :: int

definition NewConnectionTracker :: "bool \<Rightarrow> duration \<Rightarrow> ConnectionTracker" where
  "NewConnectionTracker has_gauge drainWait =
    \<lparr>tk_conns = [], tk_gauge = (if has_gauge then Some 0 else None), tk_drainWait = drainWait, tk_MaxConnections = 1000\<rparr>"

definition set_gauge :: "int \<Rightarrow> ConnectionTracker \<Rightarrow> ConnectionTracker" where
  "set_gauge n t = (case tk_gauge t of None \<Rightarrow> t | Some _ \<Rightarrow> t\<lparr>tk_gauge := Some n\<rparr>)"

definition tracker_Add :: "TrackedConnection \<Rightarrow> ConnectionTracker \<Rightarrow> bool \<times> ConnectionTracker" where
  "tracker_Add conn t =
    (if tk_MaxConnections t > 0 \<and> int (length (tk_conns t)) \<ge> tk_MaxConnections t then (False, t)
     else (let t = t\<lparr>tk_conns := AList.update (tc_ID conn) conn (tk_conns t)\<rparr>
           in (True, set_gauge (int (length (tk_conns t))) t)))"

definition tracker_Remove :: "string \<Rightarrow> ConnectionTracker \<Rightarrow> ConnectionTracker" where
  "tracker_Remove cid t =
    (let t = t\<lparr>tk_conns := AList.delete cid (tk_conns t)\<rparr> in set_gauge (int (length (tk_conns t))) t)"

definition tracker_Count :: "ConnectionTracker \<Rightarrow> int" where
  "tracker_Count t = int (length (tk_conns t))"

definition shutdownFrame :: string where
  "shutdownFrame = ''event: shutdown'' @ [CHR 0x0A] @ ''data: {'' @ [CHR 0x22] @ ''retry_ms'' @ [CHR 0x22] @ '':5000}'' @ [CHR 0x0A, CHR 0x0A]"

datatype drain_effect = WriteTo nat string | FlushOf nat | WaitFor duration | CancelOf nat

definition DrainAll :: "ConnectionTracker \<Rightarrow> int \<times> drain_effect list \<times> ConnectionTracker" where
  "DrainAll t =
    (let snapshot = map snd (tk_conns t);
         t' = set_gauge 0 (t\<lparr>tk_conns := []\<rparr>)
     in if snapshot = [] then (0, [], t')
        else (int (length snapshot),
              concat (map (\<lambda>c. if tc_flusher c then [WriteTo (tc_ref c) shutdownFrame, FlushOf (tc_ref c)] else []) snapshot) @
              (if tk_drainWait t > 0 then [WaitFor (tk_drainWait t)] else []) @
              map (\<lambda>c. CancelOf (tc_ref c)) snapshot, t'))"

section \<open>Reading an event stream\<close>

text \<open>Complete lines of a stream; what follows the last line end is not yet a line.\<close>

fun lines_acc :: "string \<Rightarrow> string \<Rightarrow> string list" where
  "lines_acc acc [] = []"
| "lines_acc acc (c # cs) =
    (if c = CHR 0x0A then rev acc # lines_acc [] cs
     else if c = CHR 0x0D then rev acc # (case cs of d # ds \<Rightarrow> if d = CHR 0x0A then lines_acc [] ds else lines_acc [] cs | [] \<Rightarrow> [])
     else lines_acc (c # acc) cs)"

record sse_msg =
  sm_event :: string
  sm_data :: string
  sm_id :: string

record sse_reader =
  rd_event :: string
  rd_data :: string
  rd_id :: string
  rd_retry :: string

definition field_of :: "string \<Rightarrow> string \<times> string" where
  "field_of line = (takeWhile (\<lambda>c. c \<noteq> CHR '':'') line,
     (case drop 1 (dropWhile (\<lambda>c. c \<noteq> CHR '':'') line) of [] \<Rightarrow> [] | c # cs \<Rightarrow> if c = CHR '' '' then cs else c # cs))"

definition on_field :: "string \<times> string \<Rightarrow> sse_reader \<Rightarrow> sse_reader" where
  "on_field fv st = (case fv of (f, v) \<Rightarrow>
     if f = ''event'' then st\<lparr>rd_event := v\<rparr>
     else if f = ''data'' then st\<lparr>rd_data := rd_data st @ v @ [CHR 0x0A]\<rparr>
     else if f = ''id'' then (if CHR 0x00 \<in> set v then st else st\<lparr>rd_id := v\<rparr>)
     else if f = ''retry'' then (if list_all (\<lambda>c. c \<in> set ''0123456789'') v then st\<lparr>rd_retry := v\<rparr> else st)
     else st)"

fun sse_read :: "sse_reader \<Rightarrow> string list \<Rightarrow> sse_msg list" where
  "sse_read st [] = []"
| "sse_read st (l # ls) =
    (if l = [] then
       (if rd_data st = [] then sse_read (st\<lparr>rd_event := []\<rparr>) ls
        else \<lparr>sm_event = (if rd_event st = [] then ''message'' else rd_event st), sm_data = butlast (rd_data st),
               sm_id = rd_id st\<rparr> # sse_read (st\<lparr>rd_event := [], rd_data := []\<rparr>) ls)
     else if hd l = CHR '':'' then sse_read st ls
     else sse_read (on_field (field_of l) st) ls)"

definition sse_parse :: "string \<Rightarrow> sse_msg list" where
  "sse_parse s = sse_read \<lparr>rd_event = [], rd_data = [], rd_id = [], rd_retry = []\<rparr> (lines_acc [] s)"

section \<open>No line breaks in JSON\<close>

definition one_line :: "string \<Rightarrow> bool" where
  "one_line s \<longleftrightarrow> CHR 0x0A \<notin> set s \<and> CHR 0x0D \<notin> set s"

lemma one_line_simps [simp]:
  "one_line []" "one_line (c # s) \<longleftrightarrow> c \<noteq> CHR 0x0A \<and> c \<noteq> CHR 0x0D \<and> one_line s" "one_line (s @ t) \<longleftrightarrow> one_line s \<and> one_line t"
  by (auto simp: one_line_def)

lemma one_line_concat [simp]: "one_line (concat ss) \<longleftrightarrow> (\<forall>s\<in>set ss. one_line s)"
  by (induction ss) auto

lemma one_line_commas: "\<forall>s\<in>set ss. one_line s \<Longrightarrow> one_line (commas ss)"
  by (induction ss rule: commas.induct) auto

text \<open>Every byte of a rune of 128 and above is itself at least 128.\<close>

lemma decode_bytes_high:
  "128 \<le> b \<Longrightarrow> list_all (\<lambda>x. 128 \<le> x) (take (snd (decode_bytes (b # bs))) (b # bs))"
  by (simp add: cont_def second_ok_def split: list.split)

lemma runes_high_piece: "(r, t) \<in> set (runes s) \<Longrightarrow> 128 \<le> r \<Longrightarrow> list_all (\<lambda>c. 128 \<le> byte c) t"
proof (induction s rule: length_induct)
  case (1 s)
  show ?case
  proof (cases s)
    case (Cons c s')
    then have l: "length (drop (snd (decode_rune s)) s) < length s" by simp
    from 1(2) Cons consider "r = fst (decode_rune s)" "t = take (snd (decode_rune s)) s"
      | "(r, t) \<in> set (runes (drop (snd (decode_rune s)) s))" by (auto simp: runes_step)
    then show ?thesis
    proof cases
      case 1
      define w where "w = snd (decode_rune s)"
      have "128 \<le> byte c"
        using 1 \<open>128 \<le> r\<close> Cons decode_rune_ascii [of c s'] by (metis fst_conv leD leI)
      from decode_bytes_high [OF this, of "map byte (take 3 s')"]
      have "list_all (\<lambda>x. 128 \<le> x) (take w (map byte (take 4 s)))"
        by (simp add: w_def decode_rune_def Cons del: decode_bytes.simps)
      moreover have "w \<le> 4" using decode_bytes_width_le [of "map byte (take 4 s)"]
        by (simp add: w_def decode_rune_def)
      ultimately have "list_all (\<lambda>c. 128 \<le> byte c) (take w s)"
        by (simp add: take_map list.pred_map comp_def min_absorb1)
      then show ?thesis using 1 by (simp add: w_def)
    next
      case 2 then show ?thesis using 1 l by blast
    qed
  qed (use 1 in simp)
qed

lemma high_char: "14 \<le> byte c \<Longrightarrow> c \<noteq> CHR 0x0A \<and> c \<noteq> CHR 0x0D"
  by auto

lemma one_line_high: "list_all (\<lambda>c. 14 \<le> byte c) s \<Longrightarrow> one_line s"
  using high_char by (induction s) auto

lemma one_line_esc_u: "one_line (esc_u n)"
proof -
  have "hex_digit k \<noteq> CHR 0x0A \<and> hex_digit k \<noteq> CHR 0x0D" if "k < 16" for k
    using that by (intro high_char) (simp add: hex_digit_def)
  then show ?thesis by (simp add: esc_u_def)
qed

lemma one_line_esc_rune:
  assumes "(r, t) \<in> set (runes s)"
  shows "one_line (esc_rune (r, t))"
proof (cases "r < 128")
  case True
  then have t: "t = [char_of r]" using runes_ascii_piece assms by blast
  have "one_line [char_of r :: char]" if "r \<ge> 32"
    using that True by (intro one_line_high) simp
  with True show ?thesis unfolding esc_rune_def t by (auto simp: one_line_esc_u)
next
  case False
  then have "list_all (\<lambda>c. 14 \<le> byte c) t"
    using runes_high_piece [OF assms] by (auto simp: list_all_iff intro: order_trans [of 14 128])
  then show ?thesis using one_line_high False by (auto simp: esc_rune_def one_line_esc_u)
qed

lemma one_line_json_string [simp]: "one_line (json_string s)"
  by (auto simp: json_string_def intro!: one_line_esc_rune)

lemma one_line_show_nat [simp]: "one_line (show_nat n)"
proof (induction n rule: show_nat.induct)
  case (1 n)
  have "one_line [digit k]" if "k < 10" for k using that by (intro one_line_high) (simp add: digit_def)
  with 1 show ?case by (subst show_nat.simps) simp
qed

lemma one_line_show_int [simp]: "one_line (show_int i)"
  by (simp add: show_int_def)

text \<open>
  A float carries the text \<open>strconv\<close> prints; the model asks only that this text has no line break.
\<close>

fun float_clean :: "jv \<Rightarrow> bool" where
  "float_clean (JFloat t) = one_line t"
| "float_clean (JArr xs) = list_all float_clean xs"
| "float_clean (JObj kvs) = list_all float_clean (map snd kvs)"
| "float_clean v = True"

lemma those_SomeD: "those xs = Some ys \<Longrightarrow> y \<in> set ys \<Longrightarrow> Some y \<in> set xs"
  by (induction xs arbitrary: ys) (auto split: option.splits)

lemma Some_eq_map_option: "Some u = map_option f x \<longleftrightarrow> (\<exists>z. x = Some z \<and> u = f z)"
  by (cases x) auto

lemma one_line_marshal: "float_clean v \<Longrightarrow> json_marshal v = Some t \<Longrightarrow> one_line t"
proof (induction v arbitrary: t)
  case (JArr xs)
  then obtain ts where ts: "those (map json_marshal xs) = Some ts" "t = ''['' @ commas ts @ '']''" by auto
  have "one_line u" if "u \<in> set ts" for u
    using those_SomeD [OF ts(1) that] JArr by (auto simp: list_all_iff)
  then show ?case by (simp add: ts(2) one_line_commas)
next
  case (JObj kvs)
  from JObj.prems obtain ts where ts: "those (map (\<lambda>(k, t). map_option (\<lambda>t. json_string k @ '':'' @ t) t)
      (sort_key fst (map (\<lambda>(k, v). (k, json_marshal v)) kvs))) = Some ts" "t = ''{'' @ commas ts @ ''}''"
    by auto
  have "one_line u" if "u \<in> set ts" for u
  proof -
    from those_SomeD [OF ts(1) that] obtain k v w where "(k, v) \<in> set kvs" "json_marshal v = Some w" "u = json_string k @ '':'' @ w"
      by (auto simp: Some_eq_map_option)
    with JObj show ?thesis by (force simp: list_all_iff)
  qed
  then show ?case by (simp add: ts(2) one_line_commas)
qed auto

definition call_args :: "SEvent \<Rightarrow> jv list" where
  "call_args ev = (case ae_Parts ev of None \<Rightarrow> [] | Some parts \<Rightarrow>
     List.map_filter (\<lambda>p. case p of None \<Rightarrow> None | Some part \<Rightarrow>
       (case pt_FunctionCall part of None \<Rightarrow> None | Some fc \<Rightarrow> map_option JObj (fc_Args fc))) parts)"

lemma add_part_args:
  "pl_ToolArgs (add_part p pl) = (case p of None \<Rightarrow> pl_ToolArgs pl | Some part \<Rightarrow>
     (case pt_FunctionCall part of None \<Rightarrow> pl_ToolArgs pl
      | Some fc \<Rightarrow> Some (case fc_Args fc of None \<Rightarrow> JNull | Some kvs \<Rightarrow> JObj kvs)))"
  by (auto simp: add_part_def Let_def split: option.splits)

lemma fold_add_part_args:
  "pl_ToolArgs (fold add_part parts pl) = Some v \<Longrightarrow> pl_ToolArgs pl = None \<Longrightarrow>
   v = JNull \<or> (\<exists>part fc kvs. Some part \<in> set parts \<and> pt_FunctionCall part = Some fc \<and> fc_Args fc = Some kvs \<and> v = JObj kvs)"
proof (induction parts rule: rev_induct)
  case (snoc p parts)
  then show ?case by (auto simp: add_part_args split: option.splits)
qed simp

lemma payload_args_clean:
  assumes "list_all float_clean (call_args ev)" "pl_ToolArgs (eventToPayload ev sq ty) = Some v"
  shows "float_clean v"
proof (cases "ae_Parts ev")
  case None
  with assms(2) show ?thesis by (auto simp: eventToPayload_def Let_def split: if_splits)
next
  case (Some parts)
  define p0 where "p0 = \<lparr>pl_Seq = sq, pl_EventType = ty, pl_Author = ae_Author ev, pl_Text = [], pl_ToolName = [], pl_ToolArgs = None\<rparr>"
  have "pl_ToolArgs (fold add_part parts p0) = Some v"
    using assms(2) Some by (simp add: eventToPayload_def Let_def p0_def split: if_splits)
  from fold_add_part_args [OF this] show ?thesis
    using assms(1) Some by (fastforce simp: p0_def call_args_def list_all_iff map_filter_def)
qed

lemma marshal_payload_one_line:
  assumes "list_all float_clean (call_args ev)" "marshal_payload (eventToPayload ev sq ty) = Some dt"
  shows "one_line dt"
proof -
  define p where "p = eventToPayload ev sq ty"
  have c: "float_clean v" if "(k, v) \<in> set (payload_fields p)" for k v
    using that payload_args_clean [OF assms(1)] by (auto simp: payload_fields_def p_def split: option.splits if_splits)
  from assms(2) obtain ts where ts: "those (map (\<lambda>(k, v). json_field k v) (payload_fields p)) = Some ts" "dt = ''{'' @ commas ts @ ''}''"
    by (auto simp: marshal_payload_def marshal_struct_def p_def)
  have "one_line u" if "u \<in> set ts" for u
    using those_SomeD [OF ts(1) that] c one_line_marshal by (fastforce simp: json_field_def Some_eq_map_option)
  then show ?thesis by (simp add: ts(2) one_line_commas)
qed

section \<open>Frames are read back as one message\<close>

lemma lines_acc_one_line: "one_line s \<Longrightarrow> lines_acc acc (s @ CHR 0x0A # cs) = (rev acc @ s) # lines_acc [] cs"
  by (induction s arbitrary: acc) auto

lemma lines_frame_line: "one_line f \<Longrightarrow> one_line v \<Longrightarrow> lines_acc [] (frame_line f v @ cs) = (f @ '': '' @ v) # lines_acc [] cs"
  using lines_acc_one_line [of "f @ '': '' @ v" "[]" cs] by (simp add: frame_line_def)

lemma field_of_line: "CHR '':'' \<notin> set f \<Longrightarrow> field_of (f @ '': '' @ v) = (f, v)"
  by (simp add: field_of_def takeWhile_tail dropWhile_append)

lemma one_line_event_type: "one_line (EventTypeFromEvent ev)" "EventTypeFromEvent ev \<noteq> []"
  by (auto simp: EventTypeFromEvent_def Let_def one_line_def)

definition expected_msgs :: "SEvent \<Rightarrow> int \<Rightarrow> sse_msg list" where
  "expected_msgs ev sq =
    (let ty = (if isTerminalEvent ev then ''done'' else EventTypeFromEvent ev)
     in if ae_Partial ev then [] else (case marshal_payload (eventToPayload ev sq ty) of
          None \<Rightarrow> [] | Some dt \<Rightarrow> [\<lparr>sm_event = ty, sm_data = dt, sm_id = show_int sq\<rparr>]))"

datatype stream_item = Heartbeat | Frame SEvent int

fun item_bytes :: "stream_item \<Rightarrow> string" where
  "item_bytes Heartbeat = HeartbeatFrame"
| "item_bytes (Frame ev sq) = (case FormatSSEFrame ev sq of Inr (Some f) \<Rightarrow> f | _ \<Rightarrow> [])"

fun item_msgs :: "stream_item \<Rightarrow> sse_msg list" where
  "item_msgs Heartbeat = []"
| "item_msgs (Frame ev sq) = expected_msgs ev sq"

fun item_clean :: "stream_item \<Rightarrow> bool" where
  "item_clean Heartbeat = True"
| "item_clean (Frame ev sq) = list_all float_clean (call_args ev)"

lemma no_nul_show_int: "CHR 0x00 \<notin> set (show_int i)"
proof -
  have "CHR 0x00 \<notin> set (show_nat n)" for n
  proof (induction n rule: show_nat.induct)
    case (1 n)
    have "digit k \<noteq> CHR 0x00" if "k < 10" for k
    proof
      assume "digit k = CHR 0x00"
      then have "byte (digit k) = 0" by simp
      then show False using that by (simp add: digit_def)
    qed
    with 1 show ?case by (subst show_nat.simps) (auto dest: sym)
  qed
  then show ?thesis by (simp add: show_int_def)
qed

text \<open>A reader between two messages: only the last id and the retry time remain.\<close>

definition idle :: "sse_reader \<Rightarrow> bool" where
  "idle st \<longleftrightarrow> rd_event st = [] \<and> rd_data st = []"

lemma read_frame:
  assumes "idle st" "one_line ty" "ty \<noteq> []" "one_line dt"
  shows "\<exists>st'. idle st' \<and> sse_read st (lines_acc [] (frame_line ''id'' (show_int sq) @ frame_line ''retry'' (show_int r) @
      frame_line ''event'' ty @ frame_line ''data'' dt @ [CHR 0x0A] @ rest)) =
    \<lparr>sm_event = ty, sm_data = dt, sm_id = show_int sq\<rparr> # sse_read st' (lines_acc [] rest)"
proof -
  have f: "field_of (''id: '' @ v) = (''id'', v)" "field_of (''retry: '' @ v) = (''retry'', v)"
    "field_of (''event: '' @ v) = (''event'', v)" "field_of (''data: '' @ v) = (''data'', v)" for v
    using field_of_line [of "''id''" v] field_of_line [of "''retry''" v] field_of_line [of "''event''" v] field_of_line [of "''data''" v]
    by simp_all
  define st1 where "st1 = on_field (''retry'', show_int r) (on_field (''id'', show_int sq) st)"
  have s1: "rd_event st1 = []" "rd_data st1 = []" "rd_id st1 = show_int sq"
    using assms(1) no_nul_show_int by (auto simp: st1_def on_field_def idle_def)
  show ?thesis
    using assms s1 f
    by (intro exI [of _ "st1\<lparr>rd_event := [], rd_data := []\<rparr>"])
      (simp add: lines_frame_line idle_def flip: st1_def, simp add: on_field_def)
qed

lemma read_item:
  assumes "idle st" "item_clean it"
  shows "\<exists>st'. idle st' \<and> sse_read st (lines_acc [] (item_bytes it @ rest)) = item_msgs it @ sse_read st' (lines_acc [] rest)"
proof (cases it)
  case Heartbeat
  show ?thesis using assms(1)
    by (intro exI [of _ "st\<lparr>rd_event := []\<rparr>"]) (simp add: Heartbeat HeartbeatFrame_def idle_def)
next
  case (Frame ev sq)
  define ty where "ty = (if isTerminalEvent ev then ''done'' else EventTypeFromEvent ev)"
  have ty: "one_line ty" "ty \<noteq> []" using one_line_event_type by (auto simp: ty_def)
  show ?thesis
  proof (cases "ae_Partial ev \<or> marshal_payload (eventToPayload ev sq ty) = None")
    case True
    then have "item_bytes it = []" "item_msgs it = []"
      by (auto simp: Frame FormatSSEFrame_def expected_msgs_def Let_def ty_def)
    with assms(1) show ?thesis by auto
  next
    case False
    then obtain dt where p: "\<not> ae_Partial ev" "marshal_payload (eventToPayload ev sq ty) = Some dt" by auto
    then have "one_line dt" using marshal_payload_one_line assms(2) Frame by auto
    from read_frame [OF assms(1) ty this, of sq DefaultRetryMS rest]
    show ?thesis using p by (simp add: Frame FormatSSEFrame_def expected_msgs_def Let_def flip: ty_def)
  qed
qed

lemma read_stream:
  "idle st \<Longrightarrow> \<forall>it\<in>set items. item_clean it \<Longrightarrow>
   sse_read st (lines_acc [] (concat (map item_bytes items))) = concat (map item_msgs items)"
proof (induction items arbitrary: st)
  case (Cons it items)
  from Cons.prems obtain st' where "idle st'" "sse_read st (lines_acc [] (item_bytes it @ concat (map item_bytes items))) =
      item_msgs it @ sse_read st' (lines_acc [] (concat (map item_bytes items)))"
    using read_item by (metis list.set_intros(1))
  with Cons show ?case by simp
qed simp

text \<open>
  C23: whatever line breaks or SSE syntax the author names, texts and tool arguments of a sequence of
  session events contain, a client that parses the stream of their frames, interleaved with
  heartbeats, gets exactly one message per complete event, in order, with the event's type, its JSON
  payload and its sequence number, and nothing for partial events and heartbeats.
\<close>
theorem sse_stream_roundtrip:
  assumes "\<forall>it\<in>set items. item_clean it"
  shows "sse_parse (concat (map item_bytes items)) = concat (map item_msgs items)"
  unfolding sse_parse_def using assms by (intro read_stream) (auto simp: idle_def)

definition demo_event :: SEvent where
  "demo_event = \<lparr>ae_Author = ''a'' @ [CHR 0x0A] @ ''event: done'', ae_Partial = False, ae_Role = ''model'',
     ae_Parts = Some [None, Some \<lparr>pt_Text = ''hi'' @ [CHR 0x0A, CHR 0x0A] @ ''data: x'', pt_FunctionCall = None, pt_FunctionResponse = None\<rparr>],
     ae_StateDelta = None\<rparr>"

theorem sse_stream_roundtrip_witness:
  "sse_parse (concat (map item_bytes [Frame demo_event 1, Heartbeat, Frame demo_event 2])) =
     concat (map item_msgs [Frame demo_event 1, Heartbeat, Frame demo_event 2]) \<and>
   length (item_msgs (Frame demo_event 1)) = 1"
proof
  show "length (item_msgs (Frame demo_event 1)) = 1"
    by (simp add: expected_msgs_def demo_event_def marshal_payload_def marshal_struct_def payload_fields_def
        json_field_def eventToPayload_def add_part_def EventTypeFromEvent_def isTerminalEvent_def part_has_call_def Let_def)
qed (rule sse_stream_roundtrip, simp add: demo_event_def call_args_def map_filter_simps)

section \<open>Tracker invariant\<close>

definition tracker_inv :: "ConnectionTracker \<Rightarrow> bool" where
  "tracker_inv t \<longleftrightarrow> distinct (map fst (tk_conns t)) \<and>
     (tk_MaxConnections t > 0 \<longrightarrow> tracker_Count t \<le> tk_MaxConnections t) \<and>
     (case tk_gauge t of None \<Rightarrow> True | Some g \<Rightarrow> g = tracker_Count t)"

inductive tracker_step :: "ConnectionTracker \<Rightarrow> ConnectionTracker \<Rightarrow> bool" where
  add: "tracker_step t (snd (tracker_Add conn t))"
| remove: "tracker_step t (tracker_Remove cid t)"
| drain: "tracker_step t (snd (snd (DrainAll t)))"

lemmas tracker_ops = tracker_Count_def set_gauge_def

lemma tracker_inv_new: "tracker_inv (NewConnectionTracker g d)"
  by (simp add: tracker_inv_def NewConnectionTracker_def tracker_Count_def)

lemma length_delete_le: "length (AList.delete k al) \<le> length al"
  by (induction al) auto

lemma tracker_inv_step: "tracker_step t t' \<Longrightarrow> tracker_inv t \<Longrightarrow> tracker_inv t'"
proof (induction rule: tracker_step.induct)
  case (add t conn)
  then show ?case using length_update_le [of "tc_ID conn" conn "tk_conns t"]
    by (auto simp: tracker_inv_def tracker_Add_def Let_def tracker_ops distinct_update split: option.splits)
next
  case (remove t cid)
  then show ?case using length_delete_le [of cid "tk_conns t"]
    by (auto simp: tracker_inv_def tracker_Remove_def Let_def tracker_ops distinct_delete split: option.splits)
next
  case (drain t)
  then show ?case by (auto simp: tracker_inv_def DrainAll_def Let_def tracker_ops split: option.splits)
qed

lemma tracker_max_step: "tracker_step t t' \<Longrightarrow> tk_MaxConnections t' = tk_MaxConnections t"
  by (induction rule: tracker_step.induct)
    (auto simp: tracker_Add_def tracker_Remove_def DrainAll_def Let_def set_gauge_def split: option.splits)

lemma tracker_inv_run: "tracker_step\<^sup>*\<^sup>* t t' \<Longrightarrow> tracker_inv t \<Longrightarrow> tracker_inv t' \<and> tk_MaxConnections t' = tk_MaxConnections t"
  by (induction rule: rtranclp_induct) (auto intro: tracker_inv_step dest: tracker_max_step)

fun cancels :: "drain_effect list \<Rightarrow> nat list" where
  "cancels [] = []"
| "cancels (CancelOf r # es) = r # cancels es"
| "cancels (_ # es) = cancels es"

lemma cancels_append [simp]: "cancels (es @ es') = cancels es @ cancels es'"
  by (induction es rule: cancels.induct) auto

lemma cancels_drain [simp]:
  "cancels (map (\<lambda>c. CancelOf (tc_ref c)) cs) = map tc_ref cs"
  "cancels (concat (map (\<lambda>c. if tc_flusher c then [WriteTo (tc_ref c) f, FlushOf (tc_ref c)] else []) cs)) = []"
  by (induction cs) auto

lemma DrainAll_effects:
  assumes "DrainAll t = (n, effs, t')"
  shows "n = tracker_Count t \<and> tracker_Count t' = 0 \<and> cancels effs = map tc_ref (map snd (tk_conns t))"
proof -
  define cs where "cs = map snd (tk_conns t)"
  have "int (length cs) = tracker_Count t" by (simp add: cs_def tracker_Count_def)
  moreover have "tracker_Count (set_gauge k (t\<lparr>tk_conns := []\<rparr>)) = 0" for k
    by (simp add: tracker_ops split: option.splits)
  ultimately show ?thesis using assms unfolding DrainAll_def cs_def [symmetric] Let_def
    by (auto split: if_splits)
qed

text \<open>
  C25: in every state the tracker can reach by adding, removing and draining connections, the number of
  tracked connections stays within the positive limit and the gauge shows it; draining empties the
  tracker, cancels every tracked connection exactly once and returns their number.
\<close>
theorem tracker_bounded:
  assumes "tracker_step\<^sup>*\<^sup>* ((NewConnectionTracker has_gauge wait)\<lparr>tk_MaxConnections := m\<rparr>) t" and "0 < m"
  shows "tracker_Count t \<le> m \<and> (\<forall>g. tk_gauge t = Some g \<longrightarrow> g = tracker_Count t) \<and>
    (\<exists>effs t'. DrainAll t = (tracker_Count t, effs, t') \<and> tracker_Count t' = 0 \<and>
       cancels effs = map tc_ref (map snd (tk_conns t)))"
proof -
  have "tracker_inv ((NewConnectionTracker has_gauge wait)\<lparr>tk_MaxConnections := m\<rparr>)"
    using assms(2) by (simp add: tracker_inv_def NewConnectionTracker_def tracker_Count_def)
  from tracker_inv_run [OF assms(1) this] have i: "tracker_inv t" "tk_MaxConnections t = m" by auto
  obtain n effs t' where d: "DrainAll t = (n, effs, t')" by (rule prod_cases3)
  with DrainAll_effects [OF d] i assms(2) show ?thesis by (auto simp: tracker_inv_def split: option.splits)
qed

theorem tracker_bounded_witness:
  "tracker_Count (snd (tracker_Add \<lparr>tc_ID = ''r1'', tc_ref = 7, tc_flusher = True\<rparr>
     ((NewConnectionTracker True 5)\<lparr>tk_MaxConnections := 2\<rparr>))) \<le> 2"
  by (rule tracker_bounded [THEN conjunct1, OF r_into_rtranclp [of tracker_step, OF tracker_step.add]]) simp

text \<open>
  Connections are keyed by the request id, which a client may choose. A second connection with the id
  of an open one replaces it: the first is no longer counted, is not cancelled on shutdown, and when
  either ends the other's entry goes.
\<close>

lemma same_id_escapes_limit:
  assumes "tc_ID c1 = tc_ID c2" "tk_conns t = []" "1 < tk_MaxConnections t"
  shows "fst (tracker_Add c2 (snd (tracker_Add c1 t)))"
    and "tk_conns (snd (tracker_Add c2 (snd (tracker_Add c1 t)))) = [(tc_ID c2, c2)]"
    and "tk_conns (tracker_Remove (tc_ID c1) (snd (tracker_Add c2 (snd (tracker_Add c1 t))))) = []"
  using assms by (auto simp: tracker_Add_def tracker_Remove_def Let_def set_gauge_def split: option.splits)

end
