(* ===== verification/AuthClaims.thy ===== *)
theory AuthClaims
  imports HttpUtil
begin

text \<open>
  Claims and identities (\<open>internal/auth\<close>: \<open>sanitize.go\<close>, \<open>config.go\<close> and the claim checks of
  \<open>jwt.go\<close>). The lemmas show that a sanitised claim is short and carries no control or
  bidirectional-override character, and what the time and audience checks accept.
\<close>

section \<open>Sanitising claim values (auth/sanitize.go)\<close>

definition maxClaimLen :: nat where "maxClaimLen = 256"

definition isBidiOverride :: "rune \<Rightarrow> bool" where
  "isBidiOverride r \<longleftrightarrow> r \<in> {8234, 8235, 8236, 8237, 8238, 8294, 8295, 8296, 8297}"

fun claim_loop :: "(rune \<times> string) list \<Rightarrow> string \<Rightarrow> string" where
  "claim_loop [] b = b"
| "claim_loop ((r, t) # xs) b =
    (if r = RuneError \<and> length t \<le> 1 then claim_loop xs b
     else if r = 0 then claim_loop xs b
     else if is_control r \<and> r \<noteq> 32 \<and> r \<noteq> 9 then claim_loop xs b
     else if isBidiOverride r then claim_loop xs b
     else (let b = b @ encode_rune r
           in if length b \<ge> maxClaimLen then b else claim_loop xs b))"

definition auth_SanitizeClaimValue :: "string \<Rightarrow> string" where
  "auth_SanitizeClaimValue s =
    (if s = [] then s
     else (let result = claim_loop (runes s) []
           in if length result > maxClaimLen then take maxClaimLen result else result))"

definition claim_rune_ok :: "rune \<Rightarrow> bool" where
  "claim_rune_ok r \<longleftrightarrow> (r = 9 \<or> \<not> is_control r) \<and> \<not> isBidiOverride r"

lemma claim_loop_encodes:
  assumes "\<forall>x\<in>set xs. valid_rune (fst x)"
  shows "\<exists>rs. claim_loop xs b = b @ concat (map encode_rune rs) \<and> (\<forall>r\<in>set rs. valid_rune r \<and> claim_rune_ok r)"
  using assms
proof (induction xs b rule: claim_loop.induct)
  case (1 b) then show ?case by (intro exI [of _ "[]"]) simp
next
  case (2 r t xs b)
  let ?skip = "(r = RuneError \<and> length t \<le> 1) \<or> r = 0 \<or> (is_control r \<and> r \<noteq> 32 \<and> r \<noteq> 9) \<or> isBidiOverride r"
  have xs: "\<forall>x\<in>set xs. valid_rune (fst x)" and r: "valid_rune r" using 2(6) by auto
  show ?case
  proof (cases ?skip)
    case True
    then have "claim_loop ((r, t) # xs) b = claim_loop xs b" by auto
    moreover have "\<exists>rs. claim_loop xs b = b @ concat (map encode_rune rs) \<and> (\<forall>r\<in>set rs. valid_rune r \<and> claim_rune_ok r)"
      using True 2(1-4) xs by blast
    ultimately show ?thesis by simp
  next
    case False
    then have ok: "claim_rune_ok r" by (auto simp: claim_rune_ok_def is_control_def)
    show ?thesis
    proof (cases "length (b @ encode_rune r) \<ge> maxClaimLen")
      case True
      then have "claim_loop ((r, t) # xs) b = b @ concat (map encode_rune [r])" using False by (auto simp: Let_def)
      then show ?thesis using r ok by (intro exI [of _ "[r]"]) simp
    next
      case long: False
      obtain rs where rs: "claim_loop xs (b @ encode_rune r) = (b @ encode_rune r) @ concat (map encode_rune rs)"
        "\<forall>r\<in>set rs. valid_rune r \<and> claim_rune_ok r"
        using 2(5) False long xs by blast
      have "claim_loop ((r, t) # xs) b = b @ concat (map encode_rune (r # rs))"
        using False long rs(1) by (auto simp: Let_def)
      then show ?thesis using rs(2) r ok by (intro exI [of _ "r # rs"]) simp
    qed
  qed
qed

text \<open>Cutting an encoded text inside a rune leaves ill-formed bytes, read as U+FFFD.\<close>

lemma runes_continuation:
  "\<forall>c\<in>set s. 128 \<le> byte c \<and> byte c < 192 \<Longrightarrow> x \<in> set (runes s) \<Longrightarrow> fst x = RuneError"
proof (induction s)
  case (Cons c s)
  have "decode_rune (c # s) = (RuneError, 1)" using Cons.prems(1) by (simp add: decode_rune_def)
  with Cons show ?case by (auto simp: runes_step)
qed simp

lemma encode_bytes_tail: "b \<in> set (tl (encode_bytes r)) \<Longrightarrow> 128 \<le> b \<and> b < 192"
  by (auto simp: encode_bytes_def split: if_splits)

lemma decode_bytes_partial:
  assumes "valid_rune r" "0 < n" "n < length (encode_bytes r)"
  shows "decode_bytes (take n (encode_bytes r)) = (RuneError, 1)"
proof -
  consider "r < 128" | "128 \<le> r" "r < 2048" | "2048 \<le> r" "r < 65536" | "65536 \<le> r" by linarith
  then show ?thesis
  proof cases
    case 1 then show ?thesis using assms by (simp add: encode_bytes_def)
  next
    case 2
    then have "n = 1" using assms by (simp add: encode_bytes_def)
    then show ?thesis using 2 by (simp add: encode_bytes_def)
  next
    case 3
    then have "n = 1 \<or> n = 2" "r div 4096 < 16" using assms by (auto simp: encode_bytes_def)
    then show ?thesis using 3 assms(1) by (auto simp: encode_bytes_def)
  next
    case 4
    then have "n = 1 \<or> n = 2 \<or> n = 3" "r div 262144 < 5" using assms by (auto simp: encode_bytes_def valid_rune_def)
    then show ?thesis using 4 assms(1) by (auto simp: encode_bytes_def)
  qed
qed

lemma runes_take_one:
  assumes "valid_rune r" "n < length (encode_rune r)" "x \<in> set (runes (take n (encode_rune r)))"
  shows "fst x = RuneError"
proof -
  let ?s = "take n (encode_rune r)"
  have l: "length (encode_bytes r) = length (encode_rune r)" by (simp add: encode_rune_def)
  have n: "0 < n" using assms(3) by (cases n) auto
  have "length (encode_bytes r) \<le> 4" by (rule length_encode_bytes_le)
  then have "map of_char (take 4 ?s) = take n (encode_bytes r)"
    using assms(2) l by (simp add: take_map of_char_encode [symmetric] min_def)
  then have d: "decode_rune ?s = (RuneError, 1)"
    using decode_bytes_partial [OF assms(1) n] assms(2) l by (simp add: decode_rune_def)
  have "\<forall>c\<in>set (drop 1 ?s). 128 \<le> byte c \<and> byte c < 192"
  proof
    fix c assume "c \<in> set (drop 1 ?s)"
    then have "c \<in> set (tl (encode_rune r))"
      by (metis drop_Suc drop_0 One_nat_def drop_take in_set_takeD)
    then have "byte c \<in> set (tl (encode_bytes r))"
      by (metis imageI list.set_map map_tl of_char_encode)
    then show "128 \<le> byte c \<and> byte c < 192" by (rule encode_bytes_tail)
  qed
  moreover have "?s \<noteq> []" using n assms(2) by auto
  ultimately show ?thesis using assms(3) d runes_continuation [of "drop 1 ?s" x]
    by (auto simp: runes_step)
qed

lemma runes_take_encoded:
  "\<forall>r\<in>set rs. valid_rune r \<Longrightarrow> x \<in> set (runes (take n (concat (map encode_rune rs)))) \<Longrightarrow>
     fst x \<in> set rs \<or> fst x = RuneError"
proof (induction rs arbitrary: n)
  case (Cons r rs)
  show ?case
  proof (cases "n < length (encode_rune r)")
    case True
    then show ?thesis using Cons.prems runes_take_one [of r n x] by simp
  next
    case False
    then have "take n (concat (map encode_rune (r # rs))) =
        encode_rune r @ take (n - length (encode_rune r)) (concat (map encode_rune rs))" by simp
    then show ?thesis using Cons runes_encode_append [of r] by auto
  qed
qed simp

text \<open>
  An identity or group name taken from a token is at most 256 bytes long and contains no
  control character other than a tab and no bidirectional override, whatever bytes the claim had;
  it therefore also passes the header check used for outbound calls.
\<close>

lemma claim_sanitized:
  "length (auth_SanitizeClaimValue s) \<le> maxClaimLen \<and>
   list_all (\<lambda>x. claim_rune_ok (fst x)) (runes (auth_SanitizeClaimValue s)) \<and>
   ValidateHeaderValue (auth_SanitizeClaimValue s) = None"
proof -
  have "\<forall>x\<in>set (runes s). valid_rune (fst x)" using runes_valid by (metis prod.collapse)
  then obtain rs where rs: "claim_loop (runes s) [] = concat (map encode_rune rs)"
    "\<forall>r\<in>set rs. valid_rune r \<and> claim_rune_ok r" using claim_loop_encodes [of "runes s" "[]"] by auto
  have t: "auth_SanitizeClaimValue s = take maxClaimLen (concat (map encode_rune rs))"
    by (auto simp: auth_SanitizeClaimValue_def rs(1) [symmetric] Let_def)
  have "claim_rune_ok RuneError" by (simp add: claim_rune_ok_def is_control_def isBidiOverride_def)
  then have "list_all (\<lambda>x. claim_rune_ok (fst x)) (runes (auth_SanitizeClaimValue s))"
    unfolding t list_all_iff using rs(2) runes_take_encoded [of rs] by metis
  moreover from this have "ValidateHeaderValue (auth_SanitizeClaimValue s) = None"
    by (auto simp: ValidateHeaderValue_def list_ex_iff list_all_iff claim_rune_ok_def)
  moreover have "length (auth_SanitizeClaimValue s) \<le> maxClaimLen" unfolding t by simp
  ultimately show ?thesis by blast
qed

lemma runes_letters: "runes (replicate n CHR ''a'' @ s) = replicate n (97, ''a'') @ runes s"
  by (induction n) (simp_all add: runes_ascii_Cons)

lemma claim_loop_letters:
  "length b + n < maxClaimLen \<Longrightarrow>
     claim_loop (replicate n (97, ''a'') @ xs) b = claim_loop xs (b @ replicate n CHR ''a'')"
proof (induction n arbitrary: b)
  case (Suc n)
  have e: "encode_rune 97 = ''a''" by code_simp
  from Suc show ?case
    by (simp add: e is_control_def isBidiOverride_def)
qed simp

text \<open>
  The truncation counts bytes and may cut a character in two: a claim of 255 ASCII letters
  followed by a two-byte letter is cut after the first byte of that letter, and the result is not
  valid UTF-8 although ill-formed sequences were stripped before.
\<close>

lemma claim_truncation_splits_rune:
  "\<exists>s. auth_SanitizeClaimValue s = replicate 255 CHR ''a'' @ [CHR 0xC3] \<and>
     s = replicate 255 CHR ''a'' @ [CHR 0xC3, CHR 0xA9] \<and>
     last (runes (auth_SanitizeClaimValue s)) = (RuneError, [CHR 0xC3])"
proof -
  let ?a = "replicate 255 CHR ''a''"
  have r: "runes [CHR 0xC3, CHR 0xA9] = [(233, [CHR 0xC3, CHR 0xA9])]" "runes [CHR 0xC3] = [(RuneError, [CHR 0xC3])]"
    by (simp_all add: runes_step decode_rune_def cont_def)
  have e: "encode_rune 233 = [CHR 0xC3, CHR 0xA9]" by code_simp
  have "claim_loop (runes (?a @ [CHR 0xC3, CHR 0xA9])) [] = ?a @ [CHR 0xC3, CHR 0xA9]"
    unfolding runes_letters r
    by (subst claim_loop_letters) (simp_all add: e maxClaimLen_def is_control_def isBidiOverride_def)
  then have "auth_SanitizeClaimValue (?a @ [CHR 0xC3, CHR 0xA9]) = ?a @ [CHR 0xC3]"
    by (simp add: auth_SanitizeClaimValue_def maxClaimLen_def)
  moreover have "last (runes (?a @ [CHR 0xC3])) = (RuneError, [CHR 0xC3])"
    by (simp add: runes_letters r)
  ultimately show ?thesis by (intro exI [of _ "?a @ [CHR 0xC3, CHR 0xA9]"]) simp
qed

section \<open>Claims (auth/jwt.go)\<close>

text \<open>A decoded JSON value: \<open>json.Unmarshal\<close> into \<open>interface{}\<close>, numbers as float64.\<close>

datatype claim =
    CNull
  | CBool bool
  | CNum f64
  | CStr string
  | CArr "claim list"
  | CObj "(string \<times> claim) list"

type_synonym claims = "(string \<times> claim) list"

definition ErrUnknownIssuer :: goerr where "ErrUnknownIssuer = ErrVar ''ErrUnknownIssuer''"
definition ErrTokenExpired :: goerr where "ErrTokenExpired = ErrVar ''ErrTokenExpired''"
definition ErrInvalidAudience :: goerr where "ErrInvalidAudience = ErrVar ''ErrInvalidAudience''"
definition ErrMalformedToken :: goerr where "ErrMalformedToken = ErrVar ''ErrMalformedToken''"
definition ErrCELValidation :: goerr where "ErrCELValidation = ErrVar ''ErrCELValidation''"
definition ErrCircuitOpen :: goerr where "ErrCircuitOpen = ErrVar ''ErrCircuitOpen''"
definition ErrTokenReplayed :: goerr where "ErrTokenReplayed = ErrVar ''ErrTokenReplayed''"
definition ErrMissingExpiry :: goerr where "ErrMissingExpiry = ErrVar ''ErrMissingExpiry''"
definition ErrNotYetValid :: goerr where "ErrNotYetValid = ErrVar ''ErrNotYetValid''"

lemmas auth_errors = ErrUnknownIssuer_def ErrTokenExpired_def ErrInvalidAudience_def ErrMalformedToken_def
  ErrCELValidation_def ErrCircuitOpen_def ErrTokenReplayed_def ErrMissingExpiry_def ErrNotYetValid_def

text \<open>
  \<open>int64(x)\<close> of a float truncates toward zero; outside the range of int64 the result depends on the
  processor and is the argument \<open>conv\<close>. \<open>time.Unix(s, 0)\<close> counts seconds from year 1 in 64 bits.
\<close>

definition rat_trunc :: "rat \<Rightarrow> int" where
  "rat_trunc q = (if 0 \<le> q then \<lfloor>q\<rfloor> else \<lceil>q\<rceil>)"

definition f64_to_int64 :: "(f64 \<Rightarrow> int) \<Rightarrow> f64 \<Rightarrow> int" where
  "f64_to_int64 conv x = (case x of
     Fin q \<Rightarrow> (if in_int64 (rat_trunc q) then rat_trunc q else conv x) | _ \<Rightarrow> conv x)"

definition unix_time :: "int \<Rightarrow> gotime" where
  "unix_time s = (wrap64 (s + 62135596800) - 62135596800) * 1000000000"

definition finite_f64 :: "f64 \<Rightarrow> bool" where
  "finite_f64 x = (case x of Fin q \<Rightarrow> True | _ \<Rightarrow> False)"

definition validateExpiry :: "(f64 \<Rightarrow> int) \<Rightarrow> gotime \<Rightarrow> claims \<Rightarrow> goerr option" where
  "validateExpiry conv now cl = (case map_of cl ''exp'' of
     Some (CNum e) \<Rightarrow>
       (if \<not> finite_f64 e then Some (Wrapf ''%w: exp claim is not a finite number'' [] ErrMalformedToken)
        else if unix_time (f64_to_int64 conv e) < now then Some ErrTokenExpired else None)
   | _ \<Rightarrow> Some ErrMissingExpiry)"

definition validateNotBefore :: "(f64 \<Rightarrow> int) \<Rightarrow> gotime \<Rightarrow> claims \<Rightarrow> goerr option" where
  "validateNotBefore conv now cl = (case map_of cl ''nbf'' of
     None \<Rightarrow> None
   | Some (CNum e) \<Rightarrow>
       (if \<not> finite_f64 e then Some (Wrapf ''%w: nbf claim is not a finite number'' [] ErrMalformedToken)
        else if now < unix_time (f64_to_int64 conv e) then Some ErrNotYetValid else None)
   | Some _ \<Rightarrow> Some (Wrapf ''%w: nbf claim must be numeric, got %T'' [] ErrMalformedToken))"

fun string_claims :: "claim list \<Rightarrow> string list" where
  "string_claims [] = []"
| "string_claims (CStr s # cs) = s # string_claims cs"
| "string_claims (c # cs) = string_claims cs"

definition extractAudiences :: "claims \<Rightarrow> string list" where
  "extractAudiences cl = (case map_of cl ''aud'' of
     Some (CStr v) \<Rightarrow> [v] | Some (CArr v) \<Rightarrow> string_claims v | _ \<Rightarrow> [])"

definition validateAudience :: "claims \<Rightarrow> string list \<Rightarrow> goerr option" where
  "validateAudience cl expectedAudiences =
    (let tokenAudiences = extractAudiences cl
     in if list_ex (\<lambda>expected. list_ex (\<lambda>actual. actual = expected) tokenAudiences) expectedAudiences
        then None else Some ErrInvalidAudience)"

definition extractStringClaim :: "claims \<Rightarrow> string \<Rightarrow> string" where
  "extractStringClaim cl key = (case map_of cl key of Some (CStr s) \<Rightarrow> s | _ \<Rightarrow> [])"

definition extractGroupsClaim :: "claims \<Rightarrow> string list" where
  "extractGroupsClaim cl = (case map_of cl ''groups'' of Some (CArr v) \<Rightarrow> string_claims v | _ \<Rightarrow> [])"

definition sanitizeGroups :: "string list \<Rightarrow> string list" where
  "sanitizeGroups groups = map auth_SanitizeClaimValue groups"

definition buildIdentity :: "(f64 \<Rightarrow> int) \<Rightarrow> claims \<Rightarrow> string \<Rightarrow> string \<Rightarrow> UserIdentity" where
  "buildIdentity conv cl issuer rawToken =
    (let username = extractStringClaim cl ''preferred_username'';
         username = (if username = [] then extractStringClaim cl ''sub'' else username)
     in \<lparr>ui_Username = auth_SanitizeClaimValue username,
         ui_Groups = sanitizeGroups (extractGroupsClaim cl),
         ui_Issuer = issuer, ui_RawToken = rawToken,
         ui_ExpiresAt = (case map_of cl ''exp'' of
            Some (CNum e) \<Rightarrow> Some (unix_time (f64_to_int64 conv e)) | _ \<Rightarrow> None)\<rparr>)"

lemma validateExpiry_None:
  "validateExpiry conv now cl = None \<Longrightarrow> \<exists>q. map_of cl ''exp'' = Some (CNum (Fin q)) \<and>
     now \<le> unix_time (f64_to_int64 conv (Fin q))"
  by (auto simp: validateExpiry_def finite_f64_def split: option.splits claim.splits if_splits f64.splits)

lemma validateAudience_None:
  "validateAudience cl auds = None \<longleftrightarrow> set (extractAudiences cl) \<inter> set auds \<noteq> {}"
  by (auto simp: validateAudience_def list_ex_iff Let_def split: if_splits)

section \<open>Provider configuration (auth/config.go)\<close>

record IssuerConfig =
  ic_URL :: string
  ic_JWKSURL :: string
  ic_Audiences :: "string list"

record ValidationRule =
  vr_Expression :: string
  vr_Message :: string

record ProviderConfig =
  pc_Issuer :: IssuerConfig
  pc_UsernameMapping :: string
  pc_GroupsMapping :: string
  pc_UserValidationRules :: "ValidationRule list"

record AuthConfig =
  ac_JWT :: "ProviderConfig list"
  ac_KubernetesEnabled :: bool
  ac_AllowInsecureIssuers :: bool

definition ResolveJWKSURL :: "IssuerConfig \<Rightarrow> string" where
  "ResolveJWKSURL c = (if ic_JWKSURL c \<noteq> [] then ic_JWKSURL c else ic_URL c)"

definition maxIssuerURLLen :: nat where "maxIssuerURLLen = 4096"

text \<open>\<open>url_parse\<close> is \<open>url.Parse\<close>: an error, or the scheme of the URL.\<close>

definition validateIssuerURL :: "(string \<Rightarrow> goerr + string) \<Rightarrow> string \<Rightarrow> bool \<Rightarrow> goerr option" where
  "validateIssuerURL url_parse rawURL allowInsecure =
    (if length rawURL > maxIssuerURLLen
     then Some (Errorf ''issuer URL exceeds %d characters'' [show_nat maxIssuerURLLen])
     else if list_ex (\<lambda>b. byte b = 0) rawURL then Some (Errorf ''issuer URL contains null byte'' [])
     else (case url_parse rawURL of
        Inl e \<Rightarrow> Some (Wrapf ''invalid issuer URL %q: %w'' [rawURL] e)
      | Inr scheme \<Rightarrow>
          if scheme = ''https'' then None
          else if scheme = ''http'' then
            (if allowInsecure then None
             else Some (Errorf ''issuer URL %q uses http; https required (set AllowInsecureIssuer for dev/test)'' [rawURL]))
          else Some (Errorf ''issuer URL %q has unsupported scheme %q (must be https)'' [rawURL, scheme])))"

fun empty_rule :: "nat \<Rightarrow> ValidationRule list \<Rightarrow> nat option" where
  "empty_rule j [] = None"
| "empty_rule j (rule # rules) = (if vr_Expression rule = [] then Some j else empty_rule (Suc j) rules)"

fun validate_providers ::
  "(string \<Rightarrow> goerr + string) \<Rightarrow> bool \<Rightarrow> nat \<Rightarrow> string list \<Rightarrow> ProviderConfig list \<Rightarrow> goerr option" where
  "validate_providers url_parse insecure i seen [] = None"
| "validate_providers url_parse insecure i seen (p # ps) =
    (let url = ic_URL (pc_Issuer p); jwks = ic_JWKSURL (pc_Issuer p) in
     if url = [] then Some (Errorf ''jwt[%d]: issuer URL must not be empty'' [show_nat i])
     else case validateIssuerURL url_parse url insecure of
       Some e \<Rightarrow> Some (Wrapf ''jwt[%d]: %w'' [show_nat i] e)
     | None \<Rightarrow>
        if ic_Audiences (pc_Issuer p) = []
        then Some (Errorf ''jwt[%d]: audiences must not be empty (would reject all tokens)'' [show_nat i])
        else case (if jwks \<noteq> [] then validateIssuerURL url_parse jwks insecure else None) of
          Some e \<Rightarrow> Some (Wrapf ''jwt[%d]: JWKS URL: %w'' [show_nat i] e)
        | None \<Rightarrow>
           case empty_rule 0 (pc_UserValidationRules p) of
             Some j \<Rightarrow> Some (Errorf ''jwt[%d].userValidationRules[%d]: expression must not be empty'' [show_nat i, show_nat j])
           | None \<Rightarrow>
              if url \<in> set seen then Some (Errorf ''duplicate issuer URL: %s'' [url])
              else validate_providers url_parse insecure (Suc i) (url # seen) ps)"

definition AuthConfig_Validate :: "(string \<Rightarrow> goerr + string) \<Rightarrow> AuthConfig \<Rightarrow> goerr option" where
  "AuthConfig_Validate url_parse c =
     validate_providers url_parse (ac_AllowInsecureIssuers c) 0 [] (ac_JWT c)"

definition safe_url :: "(string \<Rightarrow> goerr + string) \<Rightarrow> bool \<Rightarrow> string \<Rightarrow> bool" where
  "safe_url url_parse insecure u \<longleftrightarrow> length u \<le> maxIssuerURLLen \<and>
     (url_parse u = Inr ''https'' \<or> (insecure \<and> url_parse u = Inr ''http''))"

lemma validateIssuerURL_None: "validateIssuerURL url_parse u ins = None \<Longrightarrow> safe_url url_parse ins u"
  by (auto simp: validateIssuerURL_def safe_url_def split: if_splits sum.splits)

definition provider_ok :: "(string \<Rightarrow> goerr + string) \<Rightarrow> bool \<Rightarrow> ProviderConfig \<Rightarrow> bool" where
  "provider_ok url_parse ins p \<longleftrightarrow> ic_Audiences (pc_Issuer p) \<noteq> [] \<and>
     safe_url url_parse ins (ic_URL (pc_Issuer p)) \<and> safe_url url_parse ins (ResolveJWKSURL (pc_Issuer p))"

lemma validate_providers_step:
  assumes "validate_providers url_parse ins i seen (p # ps) = None"
  shows "provider_ok url_parse ins p \<and> ic_URL (pc_Issuer p) \<notin> set seen \<and>
    validate_providers url_parse ins (Suc i) (ic_URL (pc_Issuer p) # seen) ps = None"
  using assms
  by (auto simp: Let_def ResolveJWKSURL_def provider_ok_def split: if_splits option.splits
      dest!: validateIssuerURL_None)

lemma validate_providers_None:
  "validate_providers url_parse ins i seen ps = None \<Longrightarrow>
     (\<forall>p\<in>set ps. provider_ok url_parse ins p) \<and>
     distinct (map (ic_URL \<circ> pc_Issuer) ps) \<and> set (map (ic_URL \<circ> pc_Issuer) ps) \<inter> set seen = {}"
proof (induction ps arbitrary: i seen)
  case (Cons p ps)
  note s = validate_providers_step [OF Cons.prems]
  with Cons.IH [of "Suc i" "ic_URL (pc_Issuer p) # seen"] show ?case by auto
qed simp

text \<open>
  An accepted provider configuration has pairwise different issuer URLs (so that the issuer of
  a token selects one provider), every provider names an audience, and issuer and key-set URLs are
  https, or http only when insecure issuers are allowed.
\<close>

lemma AuthConfig_Validate_sound:
  assumes "AuthConfig_Validate url_parse c = None"
  shows "distinct (map (ic_URL \<circ> pc_Issuer) (ac_JWT c)) \<and>
    (\<forall>p\<in>set (ac_JWT c). provider_ok url_parse (ac_AllowInsecureIssuers c) p)"
  using validate_providers_None assms unfolding AuthConfig_Validate_def by blast

definition https_only :: "string \<Rightarrow> goerr + string" where
  "https_only u = (if has_prefix u ''https://'' then Inr ''https'' else Inr ''http'')"

definition sample_auth :: AuthConfig where
  "sample_auth = \<lparr>ac_JWT = [\<lparr>pc_Issuer = \<lparr>ic_URL = ''https://idp'', ic_JWKSURL = [], ic_Audiences = [''af'']\<rparr>,
     pc_UsernameMapping = [], pc_GroupsMapping = [], pc_UserValidationRules = []\<rparr>],
     ac_KubernetesEnabled = False, ac_AllowInsecureIssuers = False\<rparr>"

lemma AuthConfig_Validate_sound_example:
  "AuthConfig_Validate https_only sample_auth = None \<and> safe_url https_only False ''https://idp''"
proof -
  have v: "AuthConfig_Validate https_only sample_auth = None"
    by (simp add: AuthConfig_Validate_def sample_auth_def validateIssuerURL_def https_only_def maxIssuerURLLen_def)
  from AuthConfig_Validate_sound [OF this] v show ?thesis by (simp add: sample_auth_def provider_ok_def)
qed

end
