(* ===== verification/Breaker.thy ===== *)
theory Breaker
  imports Prelude
begin

text \<open>
  The circuit breaker library (\<open>sony/gobreaker\<close>) as an interface: \<open>Execute\<close> on an opaque breaker
  state, and whether \<open>State()\<close> is open. \<open>breaker_law\<close> is its documented contract: a request is either
  rejected without being run, with one of the two errors of the library, or run exactly once and
  its result returned. \<open>trip3\<close> is one concrete breaker that opens after three failures in a row.
\<close>

record ('b, 'n, 'a) breaker_ops =
  bo_exec :: "'b \<Rightarrow> ('n \<Rightarrow> (goerr + 'a) \<times> 'n) \<Rightarrow> 'n \<Rightarrow> (goerr + 'a) \<times> 'b \<times> 'n"
  bo_open :: "'b \<Rightarrow> 'n \<Rightarrow> bool"

definition ErrOpenState :: goerr where "ErrOpenState = ErrVar ''gobreaker.ErrOpenState''"
definition ErrTooManyRequests :: goerr where "ErrTooManyRequests = ErrVar ''gobreaker.ErrTooManyRequests''"

definition breaker_law :: "('b, 'n, 'a) breaker_ops \<Rightarrow> bool" where
  "breaker_law ops \<longleftrightarrow> (\<forall>b f n.
     (\<exists>e b'. bo_exec ops b f n = (Inl e, b', n) \<and> (e = ErrOpenState \<or> e = ErrTooManyRequests)) \<or>
     (\<exists>b'. bo_exec ops b f n = (fst (f n), b', snd (f n))))"

lemma breaker_cases:
  assumes "breaker_law ops" "bo_exec ops b f n = (r, b', n')"
  obtains e where "r = Inl e" "n' = n" "e = ErrOpenState \<or> e = ErrTooManyRequests"
  | "r = fst (f n)" "n' = snd (f n)"
proof -
  from assms(1) consider
    (reject) e b1 where "bo_exec ops b f n = (Inl e, b1, n)" "e = ErrOpenState \<or> e = ErrTooManyRequests"
    | (ran) b1 where "bo_exec ops b f n = (fst (f n), b1, snd (f n))"
    unfolding breaker_law_def by metis
  then show ?thesis
  proof cases
    case reject with assms(2) that(1) [of e] show ?thesis by auto
  next
    case ran with assms(2) that(2) show ?thesis by simp
  qed
qed

lemma breaker_success:
  assumes "breaker_law ops" "bo_exec ops b f n = (Inr a, b', n')"
  shows "f n = (Inr a, n')"
  using assms by (cases rule: breaker_cases) (auto simp: prod_eq_iff)

definition trip3 :: "(nat, 'n, 'a) breaker_ops" where
  "trip3 = \<lparr>bo_exec = (\<lambda>b f n. if 3 \<le> b then (Inl ErrOpenState, b, n)
       else (case f n of (Inl e, n') \<Rightarrow> (Inl e, b + 1, n') | (Inr a, n') \<Rightarrow> (Inr a, 0, n'))),
     bo_open = (\<lambda>b n. 3 \<le> b)\<rparr>"

lemma trip3_law: "breaker_law trip3"
  unfolding breaker_law_def trip3_def by (auto split: prod.splits sum.splits)

end
