(* ===== verification/AuthJWT.thy ===== *)
theory AuthJWT
  imports AuthClaims Breaker
begin

text \<open>
  Token validation (\<open>internal/auth\<close>: \<open>replay_cache.go\<close>, \<open>jwks_cache.go\<close>, \<open>tokenreview.go\<close>, the
  validator of \<open>jwt.go\<close>). Outside code enters as parameters: the JOSE library (parse, unverified
  issuer, signature check), the HTTP fetch of a key set, the circuit breaker, the CEL programs and
  the TokenReview call, all over an abstract network state \<open>'n\<close> that also carries the clock. The
  locale \<open>replay_guard\<close> is the contract between the validator and the replay cache.
\<close>

section \<open>Replay cache\<close>

record ReplayCache =
  rp_entries :: "(string \<times> gotime) list"
  rp_ttl :: duration

definition NewReplayCache :: "duration \<Rightarrow> ReplayCache" where
  "NewReplayCache ttl = \<lparr>rp_entries = [], rp_ttl = ttl\<rparr>"

definition MissingJTI :: "string \<Rightarrow> bool" where
  "MissingJTI jti \<longleftrightarrow> jti = []"

definition Seen :: "gotime \<Rightarrow> string \<Rightarrow> ReplayCache \<Rightarrow> bool \<times> ReplayCache" where
  "Seen now jti c =
    (if jti = [] then (False, c)
     else if map_of (rp_entries c) jti \<noteq> None then (True, c)
     else (False, c\<lparr>rp_entries := AList.update jti (now + rp_ttl c) (rp_entries c)\<rparr>))"

text \<open>One tick of \<open>evictLoop\<close>.\<close>

definition evict :: "gotime \<Rightarrow> ReplayCache \<Rightarrow> ReplayCache" where
  "evict now c = c\<lparr>rp_entries := filter (\<lambda>e. \<not> now > snd e) (rp_entries c)\<rparr>"

datatype cache_op = OpSeen gotime string | OpEvict gotime

fun op_time :: "cache_op \<Rightarrow> gotime" where
  "op_time (OpSeen t k) = t"
| "op_time (OpEvict t) = t"

definition apply_op :: "(gotime \<Rightarrow> string \<Rightarrow> 'c \<Rightarrow> bool \<times> 'c) \<Rightarrow> (gotime \<Rightarrow> 'c \<Rightarrow> 'c) \<Rightarrow> cache_op \<Rightarrow> 'c \<Rightarrow> 'c" where
  "apply_op seen evictor op c = (case op of OpSeen t k \<Rightarrow> snd (seen t k c) | OpEvict t \<Rightarrow> evictor t c)"

abbreviation "cache_run seen evictor ops c \<equiv> fold (apply_op seen evictor) ops c"

locale replay_guard =
  fixes seen :: "gotime \<Rightarrow> string \<Rightarrow> 'c \<Rightarrow> bool \<times> 'c" and evictor :: "gotime \<Rightarrow> 'c \<Rightarrow> 'c"
    and held :: "'c \<Rightarrow> string \<Rightarrow> gotime option" and ttl :: "'c \<Rightarrow> duration" and ok :: "'c \<Rightarrow> bool"
  assumes seen_known: "k \<noteq> [] \<Longrightarrow> fst (seen t k c) \<longleftrightarrow> held c k \<noteq> None"
    and seen_records: "k \<noteq> [] \<Longrightarrow> held c k = None \<Longrightarrow> held (snd (seen t k c)) k = Some (t + ttl c)"
    and seen_keeps: "held c k' = Some e \<Longrightarrow> held (snd (seen t k c)) k' = Some e"
    and evict_keeps: "ok c \<Longrightarrow> held c k = Some e \<Longrightarrow> t \<le> e \<Longrightarrow> held (evictor t c) k = Some e"
    and seen_ok: "ok c \<Longrightarrow> ok (snd (seen t k c))"
    and evict_ok: "ok c \<Longrightarrow> ok (evictor t c)"
begin

lemma run_ok: "ok c \<Longrightarrow> ok (cache_run seen evictor ops c)"
  by (induction ops arbitrary: c) (auto simp: apply_op_def intro: seen_ok evict_ok split: cache_op.split)

lemma run_keeps:
  "ok c \<Longrightarrow> held c k = Some e \<Longrightarrow> \<forall>x\<in>set ops. op_time x \<le> e \<Longrightarrow>
     held (cache_run seen evictor ops c) k = Some e"
proof (induction ops arbitrary: c)
  case (Cons x ops)
  have "held (apply_op seen evictor x c) k = Some e" "ok (apply_op seen evictor x c)"
    using Cons.prems by (auto simp: apply_op_def intro: seen_keeps evict_keeps seen_ok evict_ok split: cache_op.split)
  with Cons show ?case by simp
qed simp

lemma replay_detected:
  assumes "ok c" "k \<noteq> []" "\<not> fst (seen t k c)" "\<forall>x\<in>set ops. op_time x \<le> t + ttl c"
  shows "fst (seen t' k (cache_run seen evictor ops (snd (seen t k c))))"
proof -
  have "held c k = None" using assms(2,3) seen_known by blast
  then have "held (snd (seen t k c)) k = Some (t + ttl c)" using assms(2) seen_records by blast
  from run_keeps [OF seen_ok [OF assms(1)] this assms(4)] show ?thesis using assms(2) seen_known by blast
qed

end

definition replay_held :: "ReplayCache \<Rightarrow> string \<Rightarrow> gotime option" where
  "replay_held c = map_of (rp_entries c)"

definition replay_ok :: "ReplayCache \<Rightarrow> bool" where
  "replay_ok c \<longleftrightarrow> amap_ok (rp_entries c)"

interpretation rc: replay_guard Seen evict replay_held rp_ttl replay_ok
proof
  fix k k' :: string and t e :: gotime and c :: ReplayCache
  show "k \<noteq> [] \<Longrightarrow> fst (Seen t k c) \<longleftrightarrow> replay_held c k \<noteq> None"
    by (simp add: Seen_def replay_held_def)
  show "k \<noteq> [] \<Longrightarrow> replay_held c k = None \<Longrightarrow> replay_held (snd (Seen t k c)) k = Some (t + rp_ttl c)"
    by (simp add: Seen_def replay_held_def update_conv')
  show "replay_held c k' = Some e \<Longrightarrow> replay_held (snd (Seen t k c)) k' = Some e"
    by (auto simp: Seen_def replay_held_def update_conv')
  show "replay_ok c \<Longrightarrow> replay_held c k = Some e \<Longrightarrow> t \<le> e \<Longrightarrow> replay_held (evict t c) k = Some e"
    by (simp add: replay_held_def replay_ok_def evict_def map_of_filter_key)
  show "replay_ok c \<Longrightarrow> replay_ok (snd (Seen t k c))"
    by (auto simp: replay_ok_def Seen_def)
  show "replay_ok c \<Longrightarrow> replay_ok (evict t c)"
    by (simp add: replay_ok_def evict_def)
qed

lemma replay_ok_new: "replay_ok (NewReplayCache ttl)"
  by (simp add: replay_ok_def NewReplayCache_def)

section \<open>JWKS cache\<close>

record ('b, 'ks) JWKSCache =
  jc_entries :: "(string \<times> ('ks \<times> gotime)) list"
  jc_maxStaleness :: duration
  jc_refreshInterval :: duration
  jc_breakers :: "(string \<times> 'b) list"

record ('n, 'ks) jwks_net =
  jn_newreq :: "string \<Rightarrow> goerr option"
  jn_do :: "string \<Rightarrow> 'n \<Rightarrow> (goerr + int \<times> string) \<times> 'n"
  jn_decode :: "bool \<Rightarrow> string \<Rightarrow> goerr + 'ks"
  jn_clock :: "'n \<Rightarrow> gotime"

text \<open>
  The HTTP side of a fetch: building the request, the exchange (status and body), the JSON decoder
  on the first MiB of the body (with a flag when the body is longer), and the clock.
\<close>

definition maxJWKSBytes :: nat where "maxJWKSBytes = 1048576"

definition NewJWKSCache :: "'b \<Rightarrow> string list \<Rightarrow> duration \<Rightarrow> duration \<Rightarrow> ('b, 'ks) JWKSCache" where
  "NewJWKSCache fresh jwksURLs maxStaleness refreshInterval =
    \<lparr>jc_entries = [], jc_maxStaleness = maxStaleness, jc_refreshInterval = refreshInterval,
     jc_breakers = fold (\<lambda>u bs. AList.update u fresh bs) jwksURLs []\<rparr>"

definition fetchJWKS :: "('n, 'ks) jwks_net \<Rightarrow> string \<Rightarrow> 'n \<Rightarrow> (goerr + 'ks) \<times> 'n" where
  "fetchJWKS net issuerURL n = (case jn_newreq net issuerURL of Some e \<Rightarrow> (Inl e, n) | None \<Rightarrow>
    (case jn_do net issuerURL n of
       (Inl e, n) \<Rightarrow> (Inl e, n)
     | (Inr (status, body), n) \<Rightarrow>
         if status \<noteq> 200 then (Inl (Errorf ''JWKS endpoint returned %d'' [show_int status]), n)
         else (case jn_decode net (length body > maxJWKSBytes) (take maxJWKSBytes body) of
            Inl e \<Rightarrow> (Inl (Wrapf ''decode JWKS: %w'' [] e), n)
          | Inr ks \<Rightarrow> (Inr ks, n))))"

definition GetKeys ::
  "('b, 'n, 'ks) breaker_ops \<Rightarrow> ('n, 'ks) jwks_net \<Rightarrow> string \<Rightarrow> ('b, 'ks) JWKSCache \<times> 'n \<Rightarrow>
   (goerr + 'ks) \<times> ('b, 'ks) JWKSCache \<times> 'n" where
  "GetKeys cb net issuerURL st = (case st of (c, n) \<Rightarrow>
    (case map_of (jc_breakers c) issuerURL of
       None \<Rightarrow> (Inl (Errorf ''no circuit breaker configured for issuer: %s'' [issuerURL]), c, n)
     | Some b \<Rightarrow>
        (let fresh = (if jc_refreshInterval c > 0 then
               (case map_of (jc_entries c) issuerURL of
                  Some (ks, fetchedAt) \<Rightarrow>
                    if since (jn_clock net n) fetchedAt < jc_refreshInterval c then Some ks else None
                | None \<Rightarrow> None) else None)
         in case fresh of Some ks \<Rightarrow> (Inr ks, c, n)
            | None \<Rightarrow>
               (case bo_exec cb b (fetchJWKS net issuerURL) n of
                  (Inr ks, b, n) \<Rightarrow>
                    (Inr ks, c\<lparr>jc_entries := AList.update issuerURL (ks, jn_clock net n) (jc_entries c),
                               jc_breakers := AList.update issuerURL b (jc_breakers c)\<rparr>, n)
                | (Inl err, b, n) \<Rightarrow>
                    (let c = c\<lparr>jc_breakers := AList.update issuerURL b (jc_breakers c)\<rparr> in
                     case map_of (jc_entries c) issuerURL of
                       Some (ks, fetchedAt) \<Rightarrow>
                         (if jc_maxStaleness c > 0 \<and> since (jn_clock net n) fetchedAt > jc_maxStaleness c
                          then (Inl (Wrapf ''JWKS cache expired (stale for %v, max %v): %w'' [] ErrCircuitOpen), c, n)
                          else (Inr ks, c, n))
                     | None \<Rightarrow>
                         if bo_open cb b n then (Inl ErrCircuitOpen, c, n)
                         else (Inl (Wrapf ''JWKS fetch failed for %s: %w'' [issuerURL] err), c, n))))))"

definition Healthy :: "('b, 'n, 'ks) breaker_ops \<Rightarrow> ('b, 'ks) JWKSCache \<Rightarrow> 'n \<Rightarrow> bool" where
  "Healthy cb c n \<longleftrightarrow> list_all (\<lambda>(u, b). \<not> bo_open cb b n) (jc_breakers c)"

section \<open>Validator\<close>

record TokenReviewStatus =
  tr_Authenticated :: bool
  tr_Username :: string
  tr_Groups :: "string list"

record 'p providerRuntime =
  pr_config :: ProviderConfig
  pr_jwksURL :: string
  pr_celRules :: "('p \<times> string) list"

text \<open>Everything the validator calls outside the repository.\<close>

record ('t, 'key, 'ks, 'p, 'n) auth_env =
  en_parse :: "string \<Rightarrow> goerr + 't"
  en_issuer :: "'t \<Rightarrow> goerr + string"
  en_keys :: "'ks \<Rightarrow> 'key list"
  en_claims :: "'t \<Rightarrow> 'key \<Rightarrow> string option"
  en_unmarshal :: "string \<Rightarrow> claims option"
  en_cel :: "'p \<Rightarrow> string \<Rightarrow> string list \<Rightarrow> goerr + bool"
  en_compile :: "string \<Rightarrow> goerr + 'p"
  en_review :: "string \<Rightarrow> 'n \<Rightarrow> (goerr + TokenReviewStatus) \<times> 'n"
  en_url_parse :: "string \<Rightarrow> goerr + string"
  en_conv :: "f64 \<Rightarrow> int"

record ('b, 'ks, 'p) JWTValidator =
  jv_providers :: "(string \<times> 'p providerRuntime) list"
  jv_cache :: "('b, 'ks) JWKSCache"
  jv_reviewer :: "bool option"
  jv_replay :: "ReplayCache option"
  jv_k8sEnabled :: bool

fun compile_rules :: "(string \<Rightarrow> goerr + 'p) \<Rightarrow> ValidationRule list \<Rightarrow> goerr + ('p \<times> string) list" where
  "compile_rules compile [] = Inr []"
| "compile_rules compile (rule # rules) = (case compile (vr_Expression rule) of Inl e \<Rightarrow> Inl e
    | Inr p \<Rightarrow> (case compile_rules compile rules of Inl e \<Rightarrow> Inl e | Inr ps \<Rightarrow> Inr ((p, vr_Message rule) # ps)))"

fun build_providers ::
  "(string \<Rightarrow> goerr + 'p) \<Rightarrow> ProviderConfig list \<Rightarrow> (string \<times> 'p providerRuntime) list \<Rightarrow>
   goerr + (string \<times> 'p providerRuntime) list" where
  "build_providers compile [] acc = Inr acc"
| "build_providers compile (pc # pcs) acc =
    (case compile_rules compile (pc_UserValidationRules pc) of
       Inl e \<Rightarrow> Inl (Wrapf ''compile CEL rule for issuer %s: %w'' [ic_URL (pc_Issuer pc)] e)
     | Inr rules \<Rightarrow> build_providers compile pcs (AList.update (ic_URL (pc_Issuer pc))
         \<lparr>pr_config = pc, pr_jwksURL = ResolveJWKSURL (pc_Issuer pc), pr_celRules = rules\<rparr> acc))"

definition NewJWTValidator ::
  "('t, 'key, 'ks, 'p, 'n) auth_env \<Rightarrow> 'b \<Rightarrow> AuthConfig \<Rightarrow> bool option \<Rightarrow> ReplayCache option \<Rightarrow>
   goerr + ('b, 'ks, 'p) JWTValidator" where
  "NewJWTValidator env fresh cfg reviewer replay =
    (case AuthConfig_Validate (en_url_parse env) cfg of Some e \<Rightarrow> Inl e | None \<Rightarrow>
      (case build_providers (en_compile env) (ac_JWT cfg) [] of Inl e \<Rightarrow> Inl e | Inr providers \<Rightarrow>
        Inr \<lparr>jv_providers = providers,
             jv_cache = NewJWKSCache fresh (map (ResolveJWKSURL \<circ> pc_Issuer) (ac_JWT cfg)) ns_hour (5 * ns_minute),
             jv_reviewer = reviewer, jv_replay = replay, jv_k8sEnabled = ac_KubernetesEnabled cfg\<rparr>))"

definition Ready :: "('b, 'n, 'ks) breaker_ops \<Rightarrow> ('b, 'ks, 'p) JWTValidator \<Rightarrow> 'n \<Rightarrow> bool" where
  "Ready cb v n = Healthy cb (jv_cache v) n"

definition TokenReviewer_Validate ::
  "('t, 'key, 'ks, 'p, 'n) auth_env \<Rightarrow> bool \<Rightarrow> string \<Rightarrow> 'n \<Rightarrow> (goerr + UserIdentity) \<times> 'n" where
  "TokenReviewer_Validate env has_client token n =
    (if \<not> has_client then (Inl (Errorf ''token review not configured'' []), n)
     else case en_review env token n of
       (Inl e, n) \<Rightarrow> (Inl (Wrapf ''token review request failed: %w'' [] e), n)
     | (Inr st, n) \<Rightarrow>
         if \<not> tr_Authenticated st
         then (Inl (Wrapf ''%w: token review: not authenticated'' [] ErrMalformedToken), n)
         else (Inr \<lparr>ui_Username = auth_SanitizeClaimValue (tr_Username st),
                    ui_Groups = map auth_SanitizeClaimValue (tr_Groups st),
                    ui_Issuer = [], ui_RawToken = token, ui_ExpiresAt = None\<rparr>, n))"

definition fallbackToTokenReview ::
  "('t, 'key, 'ks, 'p, 'n) auth_env \<Rightarrow> ('b, 'ks, 'p) JWTValidator \<Rightarrow> string \<Rightarrow> goerr \<Rightarrow> 'n \<Rightarrow>
   (goerr + UserIdentity) \<times> 'n" where
  "fallbackToTokenReview env v rawToken origErr n =
    (case jv_reviewer v of
       None \<Rightarrow> (Inl origErr, n)
     | Some has_client \<Rightarrow> if \<not> jv_k8sEnabled v then (Inl origErr, n)
         else TokenReviewer_Validate env has_client rawToken n)"

fun verify_loop :: "('t, 'key, 'ks, 'p, 'n) auth_env \<Rightarrow> 't \<Rightarrow> 'key list \<Rightarrow> goerr + claims" where
  "verify_loop env token [] = Inl (Wrapf ''%w: signature verification failed'' [] ErrMalformedToken)"
| "verify_loop env token (k # ks) = (case en_claims env token k of
     None \<Rightarrow> verify_loop env token ks
   | Some raw \<Rightarrow> (case en_unmarshal env raw of None \<Rightarrow> verify_loop env token ks | Some cl \<Rightarrow> Inr cl))"

definition verifySignature :: "('t, 'key, 'ks, 'p, 'n) auth_env \<Rightarrow> 't \<Rightarrow> 'ks \<Rightarrow> goerr + claims" where
  "verifySignature env token keySet = verify_loop env token (en_keys env keySet)"

definition evaluateCELRule :: "('t, 'key, 'ks, 'p, 'n) auth_env \<Rightarrow> 'p \<times> string \<Rightarrow> UserIdentity \<Rightarrow> goerr option" where
  "evaluateCELRule env rule identity = (case en_cel env (fst rule) (ui_Username identity) (ui_Groups identity) of
     Inl e \<Rightarrow> Some (Wrapf ''%w: evaluation error: %v'' [] ErrCELValidation)
   | Inr b \<Rightarrow> if b then None else Some (Wrapf ''%w: %s'' [snd rule] ErrCELValidation))"

fun first_rule_error :: "('t, 'key, 'ks, 'p, 'n) auth_env \<Rightarrow> ('p \<times> string) list \<Rightarrow> UserIdentity \<Rightarrow> goerr option" where
  "first_rule_error env [] identity = None"
| "first_rule_error env (rule # rules) identity = (case evaluateCELRule env rule identity of
     Some e \<Rightarrow> Some e | None \<Rightarrow> first_rule_error env rules identity)"

text \<open>The replay check: the cache after it, or the error.\<close>

definition check_replay :: "gotime \<Rightarrow> claims \<Rightarrow> ReplayCache option \<Rightarrow> goerr option \<times> ReplayCache option" where
  "check_replay now cl replay = (case replay of None \<Rightarrow> (None, None) | Some rc \<Rightarrow>
    (let jti = extractStringClaim cl ''jti'' in
     if MissingJTI jti
     then (Some (Wrapf ''%w: token missing required jti claim for replay protection'' [] ErrMalformedToken), Some rc)
     else (case Seen now jti rc of (dup, rc) \<Rightarrow>
       (if dup then Some (Wrapf ''%w: token jti already used'' [] ErrTokenReplayed) else None, Some rc))))"

definition Validate ::
  "('t, 'key, 'ks, 'p, 'n) auth_env \<Rightarrow> ('b, 'n, 'ks) breaker_ops \<Rightarrow> ('n, 'ks) jwks_net \<Rightarrow>
   ('b, 'ks, 'p) JWTValidator \<Rightarrow> string \<Rightarrow> 'n \<Rightarrow>
   (goerr + UserIdentity) \<times> ('b, 'ks, 'p) JWTValidator \<times> 'n" where
  "Validate env cb net v rawToken n =
    (case en_parse env rawToken of
       Inl e \<Rightarrow> (case fallbackToTokenReview env v rawToken (Wrapf ''%w: %v'' [] ErrMalformedToken) n of (r, n) \<Rightarrow> (r, v, n))
     | Inr token \<Rightarrow>
      (case en_issuer env token of
         Inl e \<Rightarrow> (Inl (Wrapf ''%w: cannot read issuer'' [] ErrMalformedToken), v, n)
       | Inr issuer \<Rightarrow>
        (case map_of (jv_providers v) issuer of
           None \<Rightarrow> (case fallbackToTokenReview env v rawToken ErrUnknownIssuer n of (r, n) \<Rightarrow> (r, v, n))
         | Some provider \<Rightarrow>
          (case GetKeys cb net (pr_jwksURL provider) (jv_cache v, n) of (keys, cache, n) \<Rightarrow>
           (let v = v\<lparr>jv_cache := cache\<rparr>; now = jn_clock net n in
            case keys of
              Inl e \<Rightarrow> (if errors_is e ''ErrCircuitOpen'' then (Inl ErrCircuitOpen, v, n)
                        else (Inl (Wrapf ''JWKS fetch failed: %w'' [] e), v, n))
            | Inr keySet \<Rightarrow>
             (case verifySignature env token keySet of
                Inl e \<Rightarrow> (Inl e, v, n)
              | Inr cl \<Rightarrow>
               (case validateExpiry (en_conv env) now cl of
                  Some e \<Rightarrow> (Inl e, v, n)
                | None \<Rightarrow>
                 (case validateNotBefore (en_conv env) now cl of
                    Some e \<Rightarrow> (Inl e, v, n)
                  | None \<Rightarrow>
                   (case validateAudience cl (ic_Audiences (pc_Issuer (pr_config provider))) of
                      Some e \<Rightarrow> (Inl e, v, n)
                    | None \<Rightarrow>
                     (case check_replay now cl (jv_replay v) of
                        (err, replay) \<Rightarrow>
                         (let v = v\<lparr>jv_replay := replay\<rparr> in
                          case err of Some e \<Rightarrow> (Inl e, v, n)
                          | None \<Rightarrow>
                           (let identity = buildIdentity (en_conv env) cl issuer rawToken in
                            case first_rule_error env (pr_celRules provider) identity of
                              Some e \<Rightarrow> (Inl e, v, n)
                            | None \<Rightarrow> (Inr identity, v, n)))))))))))))"

section \<open>What an accepted token has passed\<close>

lemma verify_loop_Inr:
  "verify_loop env token ks = Inr cl \<Longrightarrow>
     \<exists>k\<in>set ks. \<exists>raw. en_claims env token k = Some raw \<and> en_unmarshal env raw = Some cl"
  by (induction env token ks rule: verify_loop.induct) (auto split: option.splits)

lemma first_rule_error_None:
  "first_rule_error env rules identity = None \<longleftrightarrow>
     (\<forall>rule\<in>set rules. en_cel env (fst rule) (ui_Username identity) (ui_Groups identity) = Inr True)"
  by (induction rules) (auto simp: evaluateCELRule_def split: sum.splits if_splits option.splits)

text \<open>
  The signed claims \<open>cl\<close> of the token pass every check of the provider at time \<open>now\<close>: verified by one
  of the keys, not expired, not before its time, for one of the audiences, all rules true.
\<close>

definition claims_pass ::
  "('t, 'key, 'ks, 'p, 'n) auth_env \<Rightarrow> 'p providerRuntime \<Rightarrow> 'ks \<Rightarrow> 't \<Rightarrow> gotime \<Rightarrow> claims \<Rightarrow> UserIdentity \<Rightarrow> bool" where
  "claims_pass env provider keySet token now cl identity \<longleftrightarrow>
     (\<exists>k\<in>set (en_keys env keySet). \<exists>raw. en_claims env token k = Some raw \<and> en_unmarshal env raw = Some cl) \<and>
     (\<exists>q. map_of cl ''exp'' = Some (CNum (Fin q)) \<and> now \<le> unix_time (f64_to_int64 (en_conv env) (Fin q))) \<and>
     validateNotBefore (en_conv env) now cl = None \<and>
     set (extractAudiences cl) \<inter> set (ic_Audiences (pc_Issuer (pr_config provider))) \<noteq> {} \<and>
     (\<forall>rule\<in>set (pr_celRules provider). en_cel env (fst rule) (ui_Username identity) (ui_Groups identity) = Inr True)"

definition review_path ::
  "('t, 'key, 'ks, 'p, 'n) auth_env \<Rightarrow> ('b, 'ks, 'p) JWTValidator \<Rightarrow> string \<Rightarrow> 'n \<Rightarrow> UserIdentity \<Rightarrow> 'n \<Rightarrow> bool" where
  "review_path env v rawToken n identity n' \<longleftrightarrow> jv_k8sEnabled v \<and> jv_reviewer v = Some True \<and>
     (\<exists>st. en_review env rawToken n = (Inr st, n') \<and> tr_Authenticated st \<and>
        ui_Username identity = auth_SanitizeClaimValue (tr_Username st) \<and> ui_RawToken identity = rawToken)"

lemma fallback_Inr:
  "fallbackToTokenReview env v rawToken e n = (Inr identity, n') \<Longrightarrow> review_path env v rawToken n identity n'"
  by (auto simp: fallbackToTokenReview_def TokenReviewer_Validate_def review_path_def
      split: option.splits if_splits sum.splits prod.splits)

lemma Validate_jwt:
  assumes "Validate env cb net v rawToken n = (Inr identity, v', n')"
    and token: "en_parse env rawToken = Inr token" and issuer: "en_issuer env token = Inr issuer"
    and provider: "map_of (jv_providers v) issuer = Some provider"
  shows "\<exists>keySet cl.
      GetKeys cb net (pr_jwksURL provider) (jv_cache v, n) = (Inr keySet, jv_cache v', n') \<and>
      claims_pass env provider keySet token (jn_clock net n') cl identity \<and>
      check_replay (jn_clock net n') cl (jv_replay v) = (None, jv_replay v') \<and>
      identity = buildIdentity (en_conv env) cl issuer rawToken"
proof -
  obtain keys cache n1 where g: "GetKeys cb net (pr_jwksURL provider) (jv_cache v, n) = (keys, cache, n1)"
    by (metis prod_cases3)
  note run = assms [unfolded Validate_def token issuer provider g sum.case option.case prod.case Let_def]
  obtain keySet where k: "keys = Inr keySet" using run by (cases keys) (auto split: if_splits)
  obtain cl where c: "verifySignature env token keySet = Inr cl" using run k by (auto split: sum.splits)
  obtain replay where r: "check_replay (jn_clock net n1) cl (jv_replay v) = (None, replay)"
    using run k c by (auto split: option.splits prod.splits)
  have f: "validateExpiry (en_conv env) (jn_clock net n1) cl = None"
    "validateNotBefore (en_conv env) (jn_clock net n1) cl = None"
    "validateAudience cl (ic_Audiences (pc_Issuer (pr_config provider))) = None"
    using run k c by (auto split: option.splits)
  from run k c r f have "first_rule_error env (pr_celRules provider) identity = None"
      "identity = buildIdentity (en_conv env) cl issuer rawToken" "n' = n1"
      "v' = v\<lparr>jv_cache := cache, jv_replay := replay\<rparr>" by (auto split: option.splits)
  with token issuer provider g k c r f show ?thesis
    using validateExpiry_None [OF f(1)] verify_loop_Inr [of env token "en_keys env keySet" cl]
    by (auto simp: claims_pass_def first_rule_error_None validateAudience_None verifySignature_def)
qed

text \<open>
  C1: an identity is returned only on one of two paths. Either the Kubernetes TokenReview (when
  enabled and configured) reported the token as authenticated; or the token parsed, its issuer
  names a configured provider, one of the keys of that provider's key set verified the signature
  of the claims the identity is built from, the claims are in time and for a configured audience,
  all validation rules held, and with replay protection the token has a jti that was not in the
  replay cache and now is.
\<close>

theorem Validate_sound:
  assumes "Validate env cb net v rawToken n = (Inr identity, v', n')"
  shows "review_path env v rawToken n identity n' \<and> v' = v \<or>
    (\<exists>token issuer provider keySet cl.
      en_parse env rawToken = Inr token \<and> en_issuer env token = Inr issuer \<and>
      map_of (jv_providers v) issuer = Some provider \<and>
      GetKeys cb net (pr_jwksURL provider) (jv_cache v, n) = (Inr keySet, jv_cache v', n') \<and>
      claims_pass env provider keySet token (jn_clock net n') cl identity \<and>
      check_replay (jn_clock net n') cl (jv_replay v) = (None, jv_replay v') \<and>
      identity = buildIdentity (en_conv env) cl issuer rawToken)"
proof (cases "en_parse env rawToken")
  case (Inl e)
  with assms show ?thesis unfolding Validate_def by (auto split: prod.splits dest: fallback_Inr)
next
  case token: (Inr token)
  show ?thesis
  proof (cases "en_issuer env token")
    case (Inl e) with assms token show ?thesis unfolding Validate_def by simp
  next
    case issuer: (Inr issuer)
    show ?thesis
    proof (cases "map_of (jv_providers v) issuer")
      case None
      with assms token issuer show ?thesis unfolding Validate_def by (auto split: prod.splits dest: fallback_Inr)
    next
      case provider: (Some provider)
      from Validate_jwt [OF assms token issuer provider] token issuer provider show ?thesis by blast
    qed
  qed
qed

text \<open>A token and a validator to run: the token is its own payload, the clock is the network state.\<close>

definition sample_claims :: "string \<Rightarrow> claims" where
  "sample_claims jti = [(''exp'', CNum (Fin 100)), (''aud'', CStr ''af''), (''sub'', CStr ''alice''), (''jti'', CStr jti)]"

definition sample_env :: "(string, unit, unit, bool, gotime) auth_env" where
  "sample_env = \<lparr>en_parse = Inr, en_issuer = (\<lambda>t. Inr ''iss''), en_keys = (\<lambda>ks. [()]),
     en_claims = (\<lambda>t k. Some t), en_unmarshal = (\<lambda>raw. Some (sample_claims raw)),
     en_cel = (\<lambda>p u g. Inr p), en_compile = (\<lambda>x. Inr True),
     en_review = (\<lambda>t n. (Inl ErrMalformedToken, n)), en_url_parse = (\<lambda>u. Inr ''https''), en_conv = (\<lambda>_. 0)\<rparr>"

definition sample_net :: "(gotime, unit) jwks_net" where
  "sample_net = \<lparr>jn_newreq = (\<lambda>u. None), jn_do = (\<lambda>u n. (Inr (200, []), n)), jn_decode = (\<lambda>l b. Inr ()),
     jn_clock = id\<rparr>"

definition sample_validator :: "bool \<Rightarrow> duration \<Rightarrow> (nat, unit, bool) JWTValidator" where
  "sample_validator rule ttl = \<lparr>jv_providers = [(''iss'', \<lparr>pr_config = hd (ac_JWT sample_auth),
       pr_jwksURL = ''https://idp'', pr_celRules = [(rule, ''not allowed'')]\<rparr>)],
     jv_cache = NewJWKSCache 0 [''https://idp''] ns_hour (5 * ns_minute),
     jv_reviewer = None, jv_replay = Some (NewReplayCache ttl), jv_k8sEnabled = False\<rparr>"

lemmas sample_defs = sample_env_def sample_net_def sample_validator_def sample_claims_def sample_auth_def
  NewJWKSCache_def NewReplayCache_def trip3_def fetchJWKS_def GetKeys_def maxJWKSBytes_def
  validateExpiry_def validateNotBefore_def validateAudience_def extractAudiences_def finite_f64_def
  check_replay_def MissingJTI_def Seen_def extractStringClaim_def evaluateCELRule_def verifySignature_def
  f64_to_int64_def rat_trunc_def unix_time_def in_int64_def min_int64_def max_int64_def

lemma sample_run:
  "Validate sample_env trip3 sample_net (sample_validator True ttl) ''t1'' 5 =
    (Inr (buildIdentity (\<lambda>_. 0) (sample_claims ''t1'') ''iss'' ''t1''),
     (sample_validator True ttl)\<lparr>jv_replay := Some \<lparr>rp_entries = [(''t1'', 5 + ttl)], rp_ttl = ttl\<rparr>,
       jv_cache := (jv_cache (sample_validator True ttl))\<lparr>jc_entries := [(''https://idp'', ((), 5))]\<rparr>\<rparr>, 5)"
  by (simp add: Validate_def sample_defs Let_def)

theorem Validate_sound_witness:
  "\<exists>identity v' provider keySet cl.
     Validate sample_env trip3 sample_net (sample_validator True 600) ''t1'' 5 = (Inr identity, v', 5) \<and>
     claims_pass sample_env provider keySet ''t1'' 5 cl identity \<and>
     check_replay 5 cl (Some (NewReplayCache 600)) = (None, jv_replay v')"
proof -
  have "\<not> jv_k8sEnabled (sample_validator True 600)" "jv_replay (sample_validator True 600) = Some (NewReplayCache 600)"
    "en_parse sample_env ''t1'' = Inr ''t1''" "jn_clock sample_net 5 = 5"
    by (simp_all add: sample_validator_def sample_env_def sample_net_def)
  with Validate_sound [OF sample_run, of 600] have
    "\<exists>provider keySet cl. claims_pass sample_env provider keySet ''t1'' 5 cl
        (buildIdentity (\<lambda>_. 0) (sample_claims ''t1'') ''iss'' ''t1'') \<and>
      check_replay 5 cl (Some (NewReplayCache 600)) = (None, Some \<lparr>rp_entries = [(''t1'', 5 + 600)], rp_ttl = 600\<rparr>)"
    by (auto simp: review_path_def)
  then show ?thesis using sample_run [of 600] by fastforce
qed

section \<open>Replay protection\<close>

text \<open>The payload of a signed token does not depend on the key that verified it.\<close>

definition payload_law :: "('t, 'key, 'ks, 'p, 'n) auth_env \<Rightarrow> bool" where
  "payload_law env \<longleftrightarrow> (\<forall>token k k' raw raw'.
     en_claims env token k = Some raw \<longrightarrow> en_claims env token k' = Some raw' \<longrightarrow> raw = raw')"

lemma check_replay_pass:
  assumes "check_replay t cl (Some rc) = (None, rc')"
  shows "extractStringClaim cl ''jti'' \<noteq> [] \<and> \<not> fst (Seen t (extractStringClaim cl ''jti'') rc) \<and>
    rc' = Some (snd (Seen t (extractStringClaim cl ''jti'') rc))"
  using assms by (auto simp: check_replay_def MissingJTI_def Let_def split: prod.splits if_splits)



text \<open>
  A token is recorded as used before the provider's validation rules are evaluated: a token that
  a rule refuses is nevertheless burned, and presenting it again is reported as a replay rather than
  as the rule failure.
\<close>

lemma rule_failure_burns_token:
  "\<exists>v1 n1. Validate sample_env trip3 sample_net (sample_validator False 600) ''t1'' 5 =
       (Inl (Wrapf ''%w: %s'' [''not allowed''] ErrCELValidation), v1, n1) \<and>
     fst (Validate sample_env trip3 sample_net v1 ''t1'' n1) =
       Inl (Wrapf ''%w: token jti already used'' [] ErrTokenReplayed)"
  by (simp add: Validate_def sample_defs Let_def)

text \<open>
  The replay record lives for a fixed time that is not tied to the token's expiry: a token that
  outlives the record is accepted a second time after the record was evicted.
\<close>

lemma long_lived_token_replayable:
  "case Validate sample_env trip3 sample_net (sample_validator True 600) ''t1'' 5 of (r1, v1, n1) \<Rightarrow>
   case Validate sample_env trip3 sample_net (v1\<lparr>jv_replay := map_option (evict 700) (jv_replay v1)\<rparr>) ''t1'' 710 of (r2, v2, n2) \<Rightarrow>
     \<not> isl r1 \<and> \<not> isl r2"
  by (simp add: Validate_def sample_defs Let_def evict_def since_def)

section \<open>Freshness of signing keys\<close>

text \<open>
  The keys \<open>GetKeys\<close> returns for a URL were either fetched from that URL by this call (and are now
  cached with the time of the fetch), or come from the cache entry of that URL, which is then
  younger than the refresh interval or, when fetching failed or the breaker refused, not older than
  the staleness cap. No other cache entry changes, and with an empty cache entry and an open breaker
  the call fails with \<open>ErrCircuitOpen\<close>.
\<close>

lemma GetKeys_fresh:
  assumes "breaker_law cb" "GetKeys cb net url (c, n) = (r, c', n')"
  shows "(\<forall>ks. r = Inr ks \<longrightarrow>
      (fetchJWKS net url n = (Inr ks, n') \<and> map_of (jc_entries c') = (map_of (jc_entries c))(url \<mapsto> (ks, jn_clock net n'))) \<or>
      (\<exists>t0. map_of (jc_entries c) url = Some (ks, t0) \<and> jc_entries c' = jc_entries c \<and>
         (since (jn_clock net n') t0 < jc_refreshInterval c \<or> jc_maxStaleness c \<le> 0 \<or>
          since (jn_clock net n') t0 \<le> jc_maxStaleness c))) \<and>
    (\<forall>e. r = Inl e \<longrightarrow> jc_entries c' = jc_entries c \<and>
      (\<forall>b. map_of (jc_entries c) url = None \<longrightarrow> map_of (jc_breakers c') url = Some b \<longrightarrow> bo_open cb b n' \<longrightarrow>
         e = ErrCircuitOpen))"
proof (cases "map_of (jc_breakers c) url")
  case None
  with assms(2) show ?thesis by (auto simp: GetKeys_def)
next
  case (Some b)
  obtain x b1 n1 where ex: "bo_exec cb b (fetchJWKS net url) n = (x, b1, n1)" by (metis prod_cases3)
  have ok: "\<And>ks. x = Inr ks \<Longrightarrow> fetchJWKS net url n = (Inr ks, n1)"
    using breaker_success [OF assms(1)] ex by blast
  show ?thesis
  proof (cases "jc_refreshInterval c > 0 \<and> (\<exists>ks t0. map_of (jc_entries c) url = Some (ks, t0) \<and>
      since (jn_clock net n) t0 < jc_refreshInterval c)")
    case True
    with assms(2) Some show ?thesis by (auto simp: GetKeys_def Let_def)
  next
    case False
    then have st: "GetKeys cb net url (c, n) = (case (x, b1, n1) of
        (Inr ks, b, n) \<Rightarrow> (Inr ks, c\<lparr>jc_entries := AList.update url (ks, jn_clock net n) (jc_entries c),
                               jc_breakers := AList.update url b (jc_breakers c)\<rparr>, n)
      | (Inl err, b, n) \<Rightarrow>
          (let c = c\<lparr>jc_breakers := AList.update url b (jc_breakers c)\<rparr> in
           case map_of (jc_entries c) url of
             Some (ks, fetchedAt) \<Rightarrow>
               (if jc_maxStaleness c > 0 \<and> since (jn_clock net n) fetchedAt > jc_maxStaleness c
                then (Inl (Wrapf ''JWKS cache expired (stale for %v, max %v): %w'' [] ErrCircuitOpen), c, n)
                else (Inr ks, c, n))
           | None \<Rightarrow> if bo_open cb b n then (Inl ErrCircuitOpen, c, n)
               else (Inl (Wrapf ''JWKS fetch failed for %s: %w'' [url] err), c, n)))"
      using Some by (auto simp: GetKeys_def ex split: option.splits)
    show ?thesis
    proof (cases x)
      case (Inr ks)
      with st assms(2) ok show ?thesis by (auto simp: update_conv')
    next
      case (Inl err)
      with st assms(2) show ?thesis
        by (auto simp: Let_def update_conv' split: option.splits if_splits)
    qed
  qed
qed

lemma GetKeys_fresh_example:
  "\<exists>c'. GetKeys trip3 sample_net ''https://idp'' (jv_cache (sample_validator True 600), 5) = (Inr (), c', 5) \<and>
     fetchJWKS sample_net ''https://idp'' 5 = (Inr (), 5)"
proof -
  let ?c = "jv_cache (sample_validator True 600)"
  have g: "GetKeys trip3 sample_net ''https://idp'' (?c, 5) =
      (Inr (), ?c\<lparr>jc_entries := [(''https://idp'', ((), 5))]\<rparr>, 5)"
    by (simp add: sample_defs Let_def)
  have "map_of (jc_entries ?c) ''https://idp'' = None" by (simp add: sample_validator_def NewJWKSCache_def)
  with GetKeys_fresh [OF trip3_law g] g show ?thesis by auto
qed

end
