(* ===== verification/AuthMiddleware.thy ===== *)
theory AuthMiddleware
  imports AuthJWT
begin

text \<open>
  The authentication middleware (\<open>auth/middleware.go\<close>), impersonation (\<open>auth/impersonation.go\<close>,
  \<open>auth/dynamic_impersonation.go\<close>) and the outbound transports that add a header
  (\<open>auth/jwt_delegation.go\<close>, \<open>requestid/transport.go\<close>). The locale \<open>header_transport\<close> is what every
  such transport promises to the client that stacks it on another one.
\<close>

section \<open>Middleware\<close>

definition MaxBodySize :: nat where "MaxBodySize = 1048576"

definition classifyAuthError :: "goerr \<Rightarrow> string" where
  "classifyAuthError err =
    (if errors_is err ''ErrTokenReplayed'' then ''token_replayed''
     else if errors_is err ''ErrTokenExpired'' then ''token_expired''
     else if errors_is err ''ErrNotYetValid'' then ''not_yet_valid''
     else if errors_is err ''ErrInvalidAudience'' then ''invalid_audience''
     else if errors_is err ''ErrUnknownIssuer'' then ''unknown_issuer''
     else if errors_is err ''ErrMalformedToken'' then ''malformed_token''
     else if errors_is err ''ErrCircuitOpen'' then ''circuit_open''
     else if errors_is err ''ErrCELValidation'' then ''cel_rule_failed''
     else if errors_is err ''ErrMissingExpiry'' then ''missing_expiry''
     else ''validation_failed'')"

definition emitAuthFailure :: "bool \<Rightarrow> string \<Rightarrow> string \<Rightarrow> string \<Rightarrow> Event list" where
  "emitAuthFailure auditor userID sourceIP reason =
    (if auditor then [mk_event EventAuthFailure [] userID sourceIP (Some [(''reason'', reason)])] else [])"

definition emitAuthSuccess :: "bool \<Rightarrow> UserIdentity \<Rightarrow> string \<Rightarrow> Event list" where
  "emitAuthSuccess auditor identity sourceIP =
    (if auditor then [mk_event EventAuthSuccess [] (ui_Username identity) sourceIP
       (Some [(''issuer'', ui_Issuer identity)])] else [])"

text \<open>\<open>cryptoRandIntn\<close>: the value of the random source, or nothing when it failed.\<close>

definition cryptoRandIntn :: "int option \<Rightarrow> int" where
  "cryptoRandIntn v = (case v of None \<Rightarrow> 0 | Some x \<Rightarrow> x)"

definition WithDeadline :: "Ctx \<Rightarrow> gotime \<Rightarrow> Ctx" where
  "WithDeadline ctx d = ctx\<lparr>cx_deadline := (case cx_deadline ctx of Some c \<Rightarrow> Some (min c d) | None \<Rightarrow> Some d)\<rparr>"

text \<open>The request is answered here, or passed on with its new context.\<close>

datatype mw_result = Denied HttpResponse | Next HttpRequest

record mw_out =
  mo_result :: mw_result
  mo_audit :: "Event list"
  mo_observed :: "string list"

definition deny :: "HttpResponse \<Rightarrow> Event list \<Rightarrow> string list \<Rightarrow> mw_out" where
  "deny resp evs obs = \<lparr>mo_result = Denied resp, mo_audit = evs, mo_observed = obs\<rparr>"

definition auth_ctx :: "int option \<Rightarrow> UserIdentity \<Rightarrow> Ctx \<Rightarrow> Ctx" where
  "auth_ctx rnd identity ctx =
    (let ctx = WithUserIdentity ctx (Some identity)
     in case ui_ExpiresAt identity of None \<Rightarrow> ctx
        | Some expiry \<Rightarrow> WithDeadline ctx (expiry - (25 + cryptoRandIntn rnd) * ns_second))"

definition MiddlewareWithConfig ::
  "('t, 'key, 'ks, 'p, 'n) auth_env \<Rightarrow> ('b, 'n, 'ks) breaker_ops \<Rightarrow> ('n, 'ks) jwks_net \<Rightarrow> bool \<Rightarrow> bool \<Rightarrow>
   int option \<Rightarrow> ('b, 'ks, 'p) JWTValidator \<Rightarrow> header \<Rightarrow> HttpRequest \<Rightarrow> 'n \<Rightarrow>
   mw_out \<times> ('b, 'ks, 'p) JWTValidator \<times> 'n" where
  "MiddlewareWithConfig env cb net auditor hist rnd v w r n =
    (let ip = ExtractClientIP r; authHeader = header_get (rq_Header r) ''Authorization'';
         obs = (\<lambda>l. if hist then [l] else []) in
     if authHeader = []
     then (deny (WriteProblem w 401 ''Missing Authorization'' ''The Authorization header is required.'')
             (emitAuthFailure auditor [] ip ''missing_header'') [], v, n)
     else if ValidateHeaderValue authHeader \<noteq> None
     then (deny (WriteProblem w 400 ''Invalid Authorization Header'' ''The Authorization header contains invalid characters.'')
             (emitAuthFailure auditor [] ip ''control_chars'') [], v, n)
     else if \<not> has_prefix authHeader ''Bearer ''
     then (deny (WriteProblem w 401 ''Invalid Scheme'' ''The Authorization header must use the Bearer scheme.'')
             (emitAuthFailure auditor [] ip ''non_bearer'') [], v, n)
     else (case Validate env cb net v (drop 7 authHeader) n of
        (Inl err, v, n) \<Rightarrow>
          (deny (WriteProblem w 401 ''Authentication Failed'' ''The provided token could not be validated.'')
             (emitAuthFailure auditor [] ip (classifyAuthError err)) (obs ''failure''), v, n)
      | (Inr identity, v, n) \<Rightarrow>
          (\<lparr>mo_result = Next (r\<lparr>rq_Ctx := auth_ctx rnd identity (rq_Ctx r)\<rparr>),
             mo_audit = emitAuthSuccess auditor identity ip, mo_observed = obs ''success''\<rparr>, v, n)))"

lemma rs_Status_WriteProblem [simp]: "rs_Status (WriteProblem w s t d) = s"
  by (simp add: WriteProblem_def WriteProblemFull_def)

text \<open>
  C2: the middleware passes a request on only when it carries a well-formed bearer token that the
  validator accepted; the handler then sees exactly the validated identity in the context, with a
  deadline at least 25 seconds before the token expires. Every other request is answered with 400
  or 401 and never reaches the handler. One audit event records the outcome in every case: a success
  event for the user when passed on, a failure event otherwise.
\<close>

theorem middleware_gate:
  assumes "MiddlewareWithConfig env cb net True hist rnd v w r n = (out, v', n')"
    and "\<forall>x. rnd = Some x \<longrightarrow> 0 \<le> x \<and> x < 10"
  shows "(case mo_result out of
      Next r' \<Rightarrow> (\<exists>identity token. header_get (rq_Header r) ''Authorization'' = ''Bearer '' @ token \<and>
        ValidateHeaderValue (''Bearer '' @ token) = None \<and>
        Validate env cb net v token n = (Inr identity, v', n') \<and>
        UserIdentityFromContext (rq_Ctx r') = Some identity \<and> rq_Header r' = rq_Header r \<and>
        (\<forall>e. ui_ExpiresAt identity = Some e \<longrightarrow>
          (\<exists>d. cx_deadline (rq_Ctx r') = Some d \<and> d \<le> e - 25 * ns_second)) \<and>
        map ev_Type (mo_audit out) = [EventAuthSuccess] \<and> map ev_UserID (mo_audit out) = [ui_Username identity])
    | Denied resp \<Rightarrow> rs_Status resp \<in> {400, 401} \<and> map ev_Type (mo_audit out) = [EventAuthFailure])"
proof -
  let ?h = "header_get (rq_Header r) ''Authorization''"
  have dl: "ui_ExpiresAt i = Some e \<Longrightarrow> \<exists>d. cx_deadline (auth_ctx rnd i c) = Some d \<and> d \<le> e - 25 * ns_second" for i e c
    using assms(2) by (auto simp: auth_ctx_def WithDeadline_def WithUserIdentity_def cryptoRandIntn_def Let_def
        split: option.splits)
  have id: "UserIdentityFromContext (auth_ctx rnd i c) = Some i" for i c
    by (simp add: auth_ctx_def WithDeadline_def WithUserIdentity_def UserIdentityFromContext_def Let_def split: option.split)
  show ?thesis
  proof (cases "?h \<noteq> [] \<and> ValidateHeaderValue ?h = None \<and> has_prefix ?h ''Bearer ''")
    case False
    with assms(1) show ?thesis
      by (auto simp: MiddlewareWithConfig_def deny_def emitAuthFailure_def Let_def split: if_splits)
  next
    case True
    then obtain token where t: "?h = ''Bearer '' @ token" by (auto simp: has_prefix_iff)
    obtain x v1 n1 where v: "Validate env cb net v token n = (x, v1, n1)" by (metis prod_cases3)
    show ?thesis
    proof (cases x)
      case (Inl e)
      with True t v assms(1) show ?thesis
        by (auto simp: MiddlewareWithConfig_def deny_def emitAuthFailure_def Let_def)
    next
      case (Inr i)
      with True t v assms(1) dl [of i] id show ?thesis
        by (auto simp: MiddlewareWithConfig_def emitAuthSuccess_def Let_def)
    qed
  qed
qed

definition bearer_request :: HttpRequest where
  "bearer_request = sample_request\<lparr>rq_Header := header_set ''Authorization'' ''Bearer t1'' (\<lambda>_. [])\<rparr>"

theorem middleware_gate_witness:
  "\<exists>out v' n' r'. MiddlewareWithConfig sample_env trip3 sample_net True True (Some 3) (sample_validator True 600)
      (\<lambda>_. []) bearer_request 5 = (out, v', n') \<and> mo_result out = Next r' \<and>
      map ev_Type (mo_audit out) = [EventAuthSuccess]"
proof -
  have s: "ValidateHeaderValue ''Bearer t1'' = None"
    by (simp add: ValidateHeaderValue_def runes_ascii_Cons is_control_def)
  have "\<exists>out v' n' r'. MiddlewareWithConfig sample_env trip3 sample_net True True (Some 3) (sample_validator True 600)
      (\<lambda>_. []) bearer_request 5 = (out, v', n') \<and> mo_result out = Next r'"
    using s sample_run [of 600] by (simp add: MiddlewareWithConfig_def bearer_request_def)
  then obtain out v' n' r' where m: "MiddlewareWithConfig sample_env trip3 sample_net True True (Some 3)
      (sample_validator True 600) (\<lambda>_. []) bearer_request 5 = (out, v', n')" "mo_result out = Next r'" by blast
  have "\<forall>x. Some (3::int) = Some x \<longrightarrow> 0 \<le> x \<and> x < 10" by simp
  from middleware_gate [OF m(1) this] m show ?thesis by auto
qed

section \<open>Impersonation\<close>

definition ErrEmptyUsername :: goerr where "ErrEmptyUsername = ErrVar ''auth.ErrEmptyUsername''"

text \<open>A client configuration: an opaque base and the identity to act as.\<close>

record 'c rest_config =
  cf_base :: 'c
  cf_UserName :: string
  cf_Groups :: "string list"

definition NewImpersonatedConfig :: "'c rest_config \<Rightarrow> string \<Rightarrow> string list \<Rightarrow> goerr + 'c rest_config" where
  "NewImpersonatedConfig baseCfg username groups =
    (if username = [] then Inl ErrEmptyUsername
     else Inr (baseCfg\<lparr>cf_UserName := username, cf_Groups := groups\<rparr>))"

datatype ResourceScope = ScopeUserImpersonation | ScopeServiceAccount | OtherScope int

definition NewClientFactory :: "'c rest_config option \<Rightarrow> goerr + 'c rest_config" where
  "NewClientFactory baseCfg = (case baseCfg of
     None \<Rightarrow> Inl (Errorf ''base config must not be nil'' []) | Some c \<Rightarrow> Inr c)"

definition ClientForScope ::
  "('c rest_config \<Rightarrow> goerr + 'cl) \<Rightarrow> 'c rest_config \<Rightarrow> ResourceScope \<Rightarrow> UserIdentity option \<Rightarrow> goerr + 'cl" where
  "ClientForScope NewForConfig baseCfg scope identity = (case scope of
     ScopeUserImpersonation \<Rightarrow>
       (case identity of None \<Rightarrow> Inl (Errorf ''identity required for user impersonation scope'' [])
        | Some i \<Rightarrow> (case NewImpersonatedConfig baseCfg (ui_Username i) (ui_Groups i) of
             Inl e \<Rightarrow> Inl e | Inr cfg \<Rightarrow> NewForConfig cfg))
   | ScopeServiceAccount \<Rightarrow> NewForConfig baseCfg
   | OtherScope k \<Rightarrow> Inl (Errorf ''unknown resource scope: %d'' [show_int k]))"

definition NewImpersonatingDynamicFactory ::
  "('c rest_config \<Rightarrow> goerr + 'cl) \<Rightarrow> 'c rest_config \<Rightarrow> ('cl \<Rightarrow> 'cl) list \<Rightarrow> Ctx \<Rightarrow> goerr + 'cl" where
  "NewImpersonatingDynamicFactory NewForConfig baseCfg wrappers ctx =
    (case UserIdentityFromContext ctx of
       None \<Rightarrow> Inl (Errorf ''impersonation requires authenticated user identity in context'' [])
     | Some i \<Rightarrow>
        if ui_Username i = [] then Inl (Errorf ''impersonation requires authenticated user identity in context'' [])
        else (case NewImpersonatedConfig baseCfg (ui_Username i) (ui_Groups i) of
           Inl e \<Rightarrow> Inl (Wrapf ''creating impersonated config: %w'' [] e)
         | Inr cfg \<Rightarrow> (case NewForConfig cfg of
             Inl e \<Rightarrow> Inl (Wrapf ''creating impersonated dynamic client: %w'' [] e)
           | Inr client \<Rightarrow> Inr (fold (\<lambda>w c. w c) wrappers client))))"

definition StaticDynamicFactory :: "'cl option \<Rightarrow> Ctx \<Rightarrow> goerr + 'cl" where
  "StaticDynamicFactory client ctx = (case client of
     None \<Rightarrow> Inl (Errorf ''kubernetes cluster is not available'' []) | Some c \<Rightarrow> Inr c)"

definition lack_prefix :: string where "lack_prefix = ''You lack access to ''"
definition contact_admin :: string where "contact_admin = ''. Contact your cluster administrator for RBAC permissions.''"

definition buildForbiddenMessage :: "string \<Rightarrow> string" where
  "buildForbiddenMessage msg = (case str_index msg ''cannot'' of
     None \<Rightarrow> lack_prefix @ ''this resource'' @ contact_admin
   | Some i \<Rightarrow>
      (let action = trim_space (drop (i + 6) msg);
           action = (case str_index action ''in API group'' of
              Some idx \<Rightarrow> if idx > 0 then trim_space (take idx action) else action | None \<Rightarrow> action)
       in lack_prefix @ action @ contact_admin))"

fun status_error :: "goerr \<Rightarrow> (api_reason \<times> string) option" where
  "status_error (Wrapf f as e) = status_error e"
| "status_error (ApiError r m) = Some (r, m)"
| "status_error e = None"

definition ToUserFriendlyError :: "(goerr \<Rightarrow> string) \<Rightarrow> goerr option \<Rightarrow> string" where
  "ToUserFriendlyError text err = (case err of None \<Rightarrow> [] | Some e \<Rightarrow>
     (case status_error e of
        Some (r, m) \<Rightarrow> if r = Forbidden then buildForbiddenMessage m else m
      | None \<Rightarrow> (let msg = text e in
          if str_contains msg ''forbidden'' \<or> str_contains msg ''Forbidden''
          then buildForbiddenMessage msg else msg)))"

text \<open>
  A client built for a user's tool call never acts with the service account's own rights: the
  factory gives a client only for an authenticated identity with a user name, and the configuration
  it is built from impersonates exactly that user and those groups on the unchanged base; without
  such an identity it fails.
\<close>

lemma impersonation_fail_closed:
  "NewImpersonatingDynamicFactory NewForConfig baseCfg wrappers ctx = Inr client \<longleftrightarrow>
     (\<exists>i raw. UserIdentityFromContext ctx = Some i \<and> ui_Username i \<noteq> [] \<and>
        NewForConfig (baseCfg\<lparr>cf_UserName := ui_Username i, cf_Groups := ui_Groups i\<rparr>) = Inr raw \<and>
        client = fold (\<lambda>w c. w c) wrappers raw)"
  by (auto simp: NewImpersonatingDynamicFactory_def NewImpersonatedConfig_def split: option.splits sum.splits)

section \<open>Outbound transports\<close>

definition ErrTokenExpiredDelegation :: goerr where
  "ErrTokenExpiredDelegation = ErrVar ''auth.ErrTokenExpiredDelegation''"

definition JWTDelegation_RoundTrip ::
  "string \<Rightarrow> (HttpRequest \<Rightarrow> 'n \<Rightarrow> (goerr + 'a) \<times> 'n) \<Rightarrow> HttpRequest \<Rightarrow> 'n \<Rightarrow> (goerr + 'a) \<times> 'n" where
  "JWTDelegation_RoundTrip token base req =
     base (req\<lparr>rq_Header := header_set ''Authorization'' (''Bearer '' @ token) (rq_Header req)\<rparr>)"

definition ContextJWTDelegation_RoundTrip ::
  "('n \<Rightarrow> gotime) \<Rightarrow> (HttpRequest \<Rightarrow> 'n \<Rightarrow> (goerr + 'a) \<times> 'n) \<Rightarrow> HttpRequest \<Rightarrow> 'n \<Rightarrow> (goerr + 'a) \<times> 'n" where
  "ContextJWTDelegation_RoundTrip clock base req n =
    (case UserIdentityFromContext (rq_Ctx req) of
       None \<Rightarrow> base req n
     | Some i \<Rightarrow>
        if (case ui_ExpiresAt i of Some e \<Rightarrow> clock n > e | None \<Rightarrow> False) then (Inl ErrTokenExpiredDelegation, n)
        else (let req = (if ui_RawToken i \<noteq> []
                 then req\<lparr>rq_Header := header_set ''Authorization'' (''Bearer '' @ ui_RawToken i) (rq_Header req)\<rparr>
                 else req)
              in base req n))"

text \<open>Two requests that differ at most in one header.\<close>

definition same_but :: "string \<Rightarrow> HttpRequest \<Rightarrow> HttpRequest \<Rightarrow> bool" where
  "same_but h r r' \<longleftrightarrow> rq_Method r' = rq_Method r \<and> rq_Path r' = rq_Path r \<and> rq_Ctx r' = rq_Ctx r \<and>
     rq_RemoteAddr r' = rq_RemoteAddr r \<and> (\<forall>k. k \<noteq> h \<longrightarrow> rq_Header r' k = rq_Header r k)"

locale header_transport =
  fixes rt :: "(HttpRequest \<Rightarrow> 'n \<Rightarrow> (goerr + 'a) \<times> 'n) \<Rightarrow> HttpRequest \<Rightarrow> 'n \<Rightarrow> (goerr + 'a) \<times> 'n"
    and hdr :: string
  assumes refuse_or_forward:
    "(\<exists>e. \<forall>base. rt base req n = (Inl e, n)) \<or> (\<exists>req'. same_but hdr req req' \<and> (\<forall>base. rt base req n = base req' n))"
begin

lemma base_call:
  assumes "rt base req n = (Inr resp, n')"
  shows "\<exists>req'. same_but hdr req req' \<and> base req' n = (Inr resp, n')"
  using refuse_or_forward [of req n] assms by (metis Inl_Inr_False fst_conv)

text \<open>A transport stacked on this one sees its own header reach the base unchanged.\<close>

lemma stacked_header_survives:
  assumes "rt base req n = (Inr resp, n')" "h \<noteq> hdr"
  shows "\<exists>req'. base req' n = (Inr resp, n') \<and> rq_Header req' h = rq_Header req h"
  using base_call [OF assms(1)] assms(2) by (auto simp: same_but_def)

end

lemma same_but_set: "same_but h req (req\<lparr>rq_Header := header_set h v (rq_Header req)\<rparr>)"
  by (simp add: same_but_def header_set_def)

lemma same_but_refl [simp]: "same_but h req req"
  by (simp add: same_but_def)

interpretation rid_tr: header_transport requestid_RoundTrip "''X-Request-Id''"
  by unfold_locales (auto simp: requestid_RoundTrip_def Let_def intro: same_but_set same_but_refl)

interpretation jwt_tr: header_transport "JWTDelegation_RoundTrip token" "''Authorization''" for token
  by unfold_locales (auto simp: JWTDelegation_RoundTrip_def intro: same_but_set)

definition delegated :: "UserIdentity \<Rightarrow> HttpRequest \<Rightarrow> HttpRequest" where
  "delegated i req = (if ui_RawToken i \<noteq> []
     then req\<lparr>rq_Header := header_set ''Authorization'' (''Bearer '' @ ui_RawToken i) (rq_Header req)\<rparr> else req)"

lemma ContextJWT_eval:
  "UserIdentityFromContext (rq_Ctx req) = None \<Longrightarrow> ContextJWTDelegation_RoundTrip clock base req n = base req n"
  "UserIdentityFromContext (rq_Ctx req) = Some i \<Longrightarrow> \<exists>e. ui_ExpiresAt i = Some e \<and> clock n > e \<Longrightarrow>
     ContextJWTDelegation_RoundTrip clock base req n = (Inl ErrTokenExpiredDelegation, n)"
  "UserIdentityFromContext (rq_Ctx req) = Some i \<Longrightarrow> \<not> (\<exists>e. ui_ExpiresAt i = Some e \<and> clock n > e) \<Longrightarrow>
     ContextJWTDelegation_RoundTrip clock base req n = base (delegated i req) n"
  by (auto simp: ContextJWTDelegation_RoundTrip_def delegated_def Let_def split: option.splits)

interpretation ctx_tr: header_transport "ContextJWTDelegation_RoundTrip clock" "''Authorization''" for clock
proof
  fix req :: HttpRequest and n :: 'a
  show "(\<exists>e. \<forall>base. ContextJWTDelegation_RoundTrip clock base req n = (Inl e :: goerr + 'b, n)) \<or>
    (\<exists>req'. same_but ''Authorization'' req req' \<and>
       (\<forall>base :: HttpRequest \<Rightarrow> 'a \<Rightarrow> (goerr + 'b) \<times> 'a.
          ContextJWTDelegation_RoundTrip clock base req n = base req' n))"
  proof (cases "UserIdentityFromContext (rq_Ctx req)")
    case None then show ?thesis by (intro disjI2 exI [of _ req]) (simp add: ContextJWT_eval)
  next
    case (Some i)
    have "same_but ''Authorization'' req (delegated i req)" by (simp add: delegated_def same_but_set)
    then show ?thesis
    proof (cases "\<exists>e. ui_ExpiresAt i = Some e \<and> clock n > e")
      case True
      then show ?thesis by (intro disjI1 exI [of _ ErrTokenExpiredDelegation]) (simp add: ContextJWT_eval(2) [OF Some])
    next
      case False
      with \<open>same_but _ req _\<close> show ?thesis
        by (intro disjI2 exI [of _ "delegated i req"]) (simp add: ContextJWT_eval(3) [OF Some])
    qed
  qed
qed

text \<open>
  A call to the analysis backend made through the request-id transport on top of the token
  delegation transport: if it succeeds, the backend received the caller's own token byte for byte in
  the Authorization header together with the request id, the token had not expired when it was sent,
  and method and path are the caller's. An expired token is never forwarded.
\<close>

lemma delegation_forwards_token:
  assumes "requestid_RoundTrip (ContextJWTDelegation_RoundTrip clock base) req n = (Inr resp, n')"
    and "UserIdentityFromContext (rq_Ctx req) = Some i" "ui_RawToken i \<noteq> []"
    and "requestid_FromContext (rq_Ctx req) = rid" "rid \<noteq> []"
  shows "\<exists>req'. base req' n = (Inr resp, n') \<and>
    header_get (rq_Header req') ''Authorization'' = ''Bearer '' @ ui_RawToken i \<and>
    header_get (rq_Header req') ''X-Request-Id'' = rid \<and>
    rq_Method req' = rq_Method req \<and> rq_Path req' = rq_Path req \<and>
    (\<forall>e. ui_ExpiresAt i = Some e \<longrightarrow> clock n \<le> e)"
proof -
  define req1 where "req1 = req\<lparr>rq_Header := header_set ''X-Request-Id'' rid (rq_Header req)\<rparr>"
  have run: "ContextJWTDelegation_RoundTrip clock base req1 n = (Inr resp, n')"
    using assms(1,4,5) by (simp add: requestid_RoundTrip_def req1_def)
  have c: "UserIdentityFromContext (rq_Ctx req1) = Some i" using assms(2) by (simp add: req1_def)
  have e: "\<forall>e. ui_ExpiresAt i = Some e \<longrightarrow> clock n \<le> e"
    using run c by (auto simp: ContextJWTDelegation_RoundTrip_def split: if_splits)
  then have "base (delegated i req1) n = (Inr resp, n')"
    using run ContextJWT_eval(3) [OF c, of clock n base] by (auto simp: not_less)
  then show ?thesis using e assms(3)
    by (intro exI [of _ "delegated i req1"]) (simp add: delegated_def req1_def)
qed

definition alice_ctx :: Ctx where
  "alice_ctx = background\<lparr>cx_requestID := Some ''r-1'', cx_identity := Some
     \<lparr>ui_Username = ''alice'', ui_Groups = [], ui_Issuer = ''iss'', ui_RawToken = ''t1'', ui_ExpiresAt = Some 50\<rparr>\<rparr>"

definition echo_auth :: "HttpRequest \<Rightarrow> gotime \<Rightarrow> (goerr + string) \<times> gotime" where
  "echo_auth r n = (Inr (header_get (rq_Header r) ''Authorization'' @ '' '' @ header_get (rq_Header r) ''X-Request-Id''), n)"

lemma delegation_forwards_token_example:
  "requestid_RoundTrip (ContextJWTDelegation_RoundTrip id echo_auth) (sample_request\<lparr>rq_Ctx := alice_ctx\<rparr>) 20 =
     (Inr ''Bearer t1 r-1'', 20)"
proof -
  let ?req = "sample_request\<lparr>rq_Ctx := alice_ctx\<rparr>"
  have run: "requestid_RoundTrip (ContextJWTDelegation_RoundTrip id echo_auth) ?req 20 =
      (Inr ''Bearer t1 r-1'', 20)"
    by (simp add: requestid_RoundTrip_def ContextJWTDelegation_RoundTrip_def echo_auth_def alice_ctx_def
        UserIdentityFromContext_def requestid_FromContext_def Let_def)
  have i: "UserIdentityFromContext (rq_Ctx ?req) = Some \<lparr>ui_Username = ''alice'', ui_Groups = [], ui_Issuer = ''iss'',
      ui_RawToken = ''t1'', ui_ExpiresAt = Some 50\<rparr>" "requestid_FromContext (rq_Ctx ?req) = ''r-1''"
    by (simp_all add: alice_ctx_def UserIdentityFromContext_def requestid_FromContext_def)
  from delegation_forwards_token [OF run i(1) _ i(2)] run show ?thesis by simp
qed

end
