(* ===== verification/RateLimit.thy ===== *)
theory RateLimit
  imports AuthMiddleware
begin

text \<open>
  Package \<open>internal/ratelimit\<close>. The token bucket of \<open>golang.org/x/time/rate\<close> is a parameter (create,
  ask, change rate and burst); what the package itself does with it is modelled: per-address and
  per-user tables with eviction, concurrent-session slots, the fetch limiter, the semaphore for
  model calls, and the two middlewares.

  The locale \<open>keyed_limiter\<close> is the contract of a table of limiters (one key never influences
  another); \<open>slot_pool\<close> that of a counted pool of slots. Both are interpreted on the operations
  below. The compare-and-swap loops are also given as a step relation over threads, with the
  invariant that the counter is the number of holders and never exceeds the limit.
\<close>

section \<open>Configuration (ratelimit/config.go)\<close>

record PerIPConfig =
  ip_RequestsPerSecond :: f64
  ip_Burst :: int
  ip_CleanupInterval :: duration
  ip_MaxAge :: duration

record PerUserConfig =
  us_RequestsPerMinute :: int
  us_MaxConcurrentSessions :: int
  us_ToolCallsPerMinute :: int
  us_CleanupInterval :: duration
  us_MaxAge :: duration

record RateLimitConfig =
  rl_PerIP :: PerIPConfig
  rl_PerUser :: PerUserConfig
  rl_FetchIntervalSeconds :: int
  rl_MaxLLMConcurrency :: int
  rl_TokenBudgetEnabled :: bool

definition ratelimit_DefaultConfig :: RateLimitConfig where
  "ratelimit_DefaultConfig =
    \<lparr>rl_PerIP = \<lparr>ip_RequestsPerSecond = Fin 10, ip_Burst = 20, ip_CleanupInterval = 5 * ns_minute,
       ip_MaxAge = 10 * ns_minute\<rparr>,
     rl_PerUser = \<lparr>us_RequestsPerMinute = 30, us_MaxConcurrentSessions = 3, us_ToolCallsPerMinute = 60,
       us_CleanupInterval = 5 * ns_minute, us_MaxAge = 10 * ns_minute\<rparr>,
     rl_FetchIntervalSeconds = 300, rl_MaxLLMConcurrency = 10, rl_TokenBudgetEnabled = False\<rparr>"

section \<open>Tables of limiters\<close>

record 'l limiter_ops =
  lm_new :: "f64 \<Rightarrow> int \<Rightarrow> 'l"
  lm_allow :: "gotime \<Rightarrow> 'l \<Rightarrow> bool \<times> 'l"
  lm_set_limit :: "f64 \<Rightarrow> 'l \<Rightarrow> 'l"
  lm_set_burst :: "int \<Rightarrow> 'l \<Rightarrow> 'l"

type_synonym 'l limiter_table = "(string \<times> 'l \<times> gotime) list"

text \<open>Look up or create the entry of a key, refresh its time, and ask its limiter.\<close>

definition table_allow ::
  "'l limiter_ops \<Rightarrow> (unit \<Rightarrow> 'l) \<Rightarrow> gotime \<Rightarrow> string \<Rightarrow> 'l limiter_table \<Rightarrow> bool \<times> 'l limiter_table" where
  "table_allow ops fresh now key tab =
    (let lim = (case map_of tab key of Some (l, t) \<Rightarrow> l | None \<Rightarrow> fresh ())
     in case lm_allow ops now lim of (b, lim) \<Rightarrow> (b, AList.update key (lim, now) tab))"

definition table_evict :: "gotime \<Rightarrow> 'l limiter_table \<Rightarrow> 'l limiter_table" where
  "table_evict cutoff tab = filter (\<lambda>e. \<not> snd (snd e) < cutoff) tab"

definition table_set :: "'l limiter_ops \<Rightarrow> f64 \<Rightarrow> int \<Rightarrow> 'l limiter_table \<Rightarrow> 'l limiter_table" where
  "table_set ops rps burst tab =
    map (\<lambda>(k, l, t). (k, lm_set_burst ops burst (lm_set_limit ops rps l), t)) tab"

record 'l IPLimiter =
  il_limiters :: "'l limiter_table"
  il_cfg :: PerIPConfig

definition NewIPLimiter :: "PerIPConfig \<Rightarrow> 'l IPLimiter" where
  "NewIPLimiter cfg =
    (let cfg = (if ip_CleanupInterval cfg \<le> 0 then cfg\<lparr>ip_CleanupInterval := 5 * ns_minute\<rparr> else cfg);
         cfg = (if ip_MaxAge cfg \<le> 0 then cfg\<lparr>ip_MaxAge := 10 * ns_minute\<rparr> else cfg)
     in \<lparr>il_limiters = [], il_cfg = cfg\<rparr>)"

definition IPLimiter_Allow :: "'l limiter_ops \<Rightarrow> gotime \<Rightarrow> string \<Rightarrow> 'l IPLimiter \<Rightarrow> bool \<times> 'l IPLimiter" where
  "IPLimiter_Allow ops now ip l =
    (case table_allow ops (\<lambda>_. lm_new ops (ip_RequestsPerSecond (il_cfg l)) (ip_Burst (il_cfg l))) now ip (il_limiters l) of
       (b, tab) \<Rightarrow> (b, l\<lparr>il_limiters := tab\<rparr>))"

definition UpdateLimits :: "'l limiter_ops \<Rightarrow> f64 \<Rightarrow> int \<Rightarrow> 'l IPLimiter \<Rightarrow> 'l IPLimiter" where
  "UpdateLimits ops rps burst l =
    l\<lparr>il_cfg := (il_cfg l)\<lparr>ip_RequestsPerSecond := rps, ip_Burst := burst\<rparr>,
      il_limiters := table_set ops rps burst (il_limiters l)\<rparr>"

text \<open>One tick of the clean-up goroutine.\<close>

definition IPLimiter_cleanup :: "gotime \<Rightarrow> 'l IPLimiter \<Rightarrow> 'l IPLimiter" where
  "IPLimiter_cleanup now l = l\<lparr>il_limiters := table_evict (now - ip_MaxAge (il_cfg l)) (il_limiters l)\<rparr>"

section \<open>UserLimiter\<close>

record 'l UserLimiter =
  ul_cfg :: PerUserConfig
  ul_requests :: "'l limiter_table"
  ul_sessions :: "(string \<times> 32 word \<times> gotime) list"
  ul_tools :: "'l limiter_table"

definition NewUserLimiter :: "PerUserConfig \<Rightarrow> 'l UserLimiter" where
  "NewUserLimiter cfg =
    (let cfg = (if us_CleanupInterval cfg \<le> 0 then cfg\<lparr>us_CleanupInterval := 5 * ns_minute\<rparr> else cfg);
         cfg = (if us_MaxAge cfg \<le> 0 then cfg\<lparr>us_MaxAge := 10 * ns_minute\<rparr> else cfg)
     in \<lparr>ul_cfg = cfg, ul_requests = [], ul_sessions = [], ul_tools = []\<rparr>)"

definition per_minute :: "int \<Rightarrow> f64" where
  "per_minute n = Fin (of_int n / 60)"

definition AllowRequest :: "'l limiter_ops \<Rightarrow> gotime \<Rightarrow> string \<Rightarrow> 'l UserLimiter \<Rightarrow> bool \<times> 'l UserLimiter" where
  "AllowRequest ops now username l =
    (let rpm = us_RequestsPerMinute (ul_cfg l) in
     case table_allow ops (\<lambda>_. lm_new ops (per_minute rpm) rpm) now username (ul_requests l) of
       (b, tab) \<Rightarrow> (b, l\<lparr>ul_requests := tab\<rparr>))"

definition AllowToolCall :: "'l limiter_ops \<Rightarrow> gotime \<Rightarrow> string \<Rightarrow> 'l UserLimiter \<Rightarrow> bool \<times> 'l UserLimiter" where
  "AllowToolCall ops now username l =
    (let tpm = us_ToolCallsPerMinute (ul_cfg l) in
     case table_allow ops (\<lambda>_. lm_new ops (per_minute tpm) tpm) now username (ul_tools l) of
       (b, tab) \<Rightarrow> (b, l\<lparr>ul_tools := tab\<rparr>))"

definition UpdateRequestRate :: "'l limiter_ops \<Rightarrow> int \<Rightarrow> 'l UserLimiter \<Rightarrow> 'l UserLimiter" where
  "UpdateRequestRate ops rpm l = l\<lparr>ul_cfg := (ul_cfg l)\<lparr>us_RequestsPerMinute := rpm\<rparr>,
     ul_requests := table_set ops (per_minute rpm) rpm (ul_requests l)\<rparr>"

definition UpdateToolRate :: "'l limiter_ops \<Rightarrow> int \<Rightarrow> 'l UserLimiter \<Rightarrow> 'l UserLimiter" where
  "UpdateToolRate ops tpm l = l\<lparr>ul_cfg := (ul_cfg l)\<lparr>us_ToolCallsPerMinute := tpm\<rparr>,
     ul_tools := table_set ops (per_minute tpm) tpm (ul_tools l)\<rparr>"

text \<open>Without contention the compare-and-swap of the loops succeeds at once.\<close>

definition AcquireSession :: "gotime \<Rightarrow> string \<Rightarrow> 'l UserLimiter \<Rightarrow> bool \<times> 'l UserLimiter" where
  "AcquireSession now username l =
    (let current = (case map_of (ul_sessions l) username of Some (c, t) \<Rightarrow> c | None \<Rightarrow> 0) in
     if sint current \<ge> us_MaxConcurrentSessions (ul_cfg l)
     then (False, l\<lparr>ul_sessions := AList.update username (current, now) (ul_sessions l)\<rparr>)
     else (True, l\<lparr>ul_sessions := AList.update username (current + 1, now) (ul_sessions l)\<rparr>))"

definition ReleaseSession :: "string \<Rightarrow> 'l UserLimiter \<Rightarrow> 'l UserLimiter" where
  "ReleaseSession username l =
    (case map_of (ul_sessions l) username of
       None \<Rightarrow> l
     | Some (current, t) \<Rightarrow>
         if sint current \<le> 0 then l
         else l\<lparr>ul_sessions := AList.update username (current - 1, t) (ul_sessions l)\<rparr>)"

definition UserLimiter_cleanup :: "gotime \<Rightarrow> 'l UserLimiter \<Rightarrow> 'l UserLimiter" where
  "UserLimiter_cleanup now l =
    (let cutoff = now - us_MaxAge (ul_cfg l) in
     l\<lparr>ul_requests := table_evict cutoff (ul_requests l),
       ul_sessions := filter (\<lambda>e. \<not> (snd (snd e) < cutoff \<and> fst (snd e) = 0)) (ul_sessions l),
       ul_tools := table_evict cutoff (ul_tools l)\<rparr>)"

section \<open>Provider limiter and model-call semaphore\<close>

record ProviderLimiter =
  pl_lastFetch :: "(string \<times> gotime) list"
  pl_interval :: duration

definition NewProviderLimiter :: "int \<Rightarrow> ProviderLimiter" where
  "NewProviderLimiter fetchIntervalSeconds =
    \<lparr>pl_lastFetch = [], pl_interval = wrap64 (fetchIntervalSeconds * ns_second)\<rparr>"

definition AllowFetch :: "gotime \<Rightarrow> string \<Rightarrow> ProviderLimiter \<Rightarrow> bool \<times> ProviderLimiter" where
  "AllowFetch now provider l =
    (case map_of (pl_lastFetch l) provider of
       Some prev \<Rightarrow> if since now prev < pl_interval l then (False, l)
         else (True, l\<lparr>pl_lastFetch := AList.update provider now (pl_lastFetch l)\<rparr>)
     | None \<Rightarrow> (True, l\<lparr>pl_lastFetch := AList.update provider now (pl_lastFetch l)\<rparr>))"

definition MaxInt32 :: int where "MaxInt32 = 2147483647"

record LLMSemaphore =
  se_max :: "32 word"
  se_current :: "32 word"

definition NewLLMSemaphore :: "int \<Rightarrow> LLMSemaphore" where
  "NewLLMSemaphore maxSlots =
    (let m = (if maxSlots \<le> 0 \<or> maxSlots > MaxInt32 then MaxInt32 else maxSlots)
     in \<lparr>se_max = word_of_int m, se_current = 0\<rparr>)"

definition Acquire :: "LLMSemaphore \<Rightarrow> bool \<times> LLMSemaphore" where
  "Acquire s = (if sint (se_current s) \<ge> sint (se_max s) then (False, s)
     else (True, s\<lparr>se_current := se_current s + 1\<rparr>))"

definition Release :: "LLMSemaphore \<Rightarrow> LLMSemaphore" where
  "Release s = (if sint (se_current s) \<le> 0 then s else s\<lparr>se_current := se_current s - 1\<rparr>)"

section \<open>Middlewares\<close>

definition f64_recip :: "f64 \<Rightarrow> f64" where
  "f64_recip x = (case x of Fin q \<Rightarrow> if q = 0 then PInf else Fin (1 / q) | PInf \<Rightarrow> Fin 0 | NInf \<Rightarrow> Fin 0 | FNaN \<Rightarrow> FNaN)"

record limit_out =
  lo_result :: mw_result
  lo_audit :: "Event list"
  lo_denied :: "(string \<times> string) list"

definition too_many :: "header \<Rightarrow> string \<Rightarrow> string \<Rightarrow> HttpResponse" where
  "too_many w retryAfter detail =
    WriteProblem (header_set ''Retry-After'' retryAfter w) 429 ''Rate Limit Exceeded'' detail"

definition PreAuthMiddlewareWithConfig ::
  "'l limiter_ops \<Rightarrow> (f64 \<Rightarrow> int) \<Rightarrow> bool \<Rightarrow> bool \<Rightarrow> gotime \<Rightarrow> 'l IPLimiter \<Rightarrow> header \<Rightarrow> HttpRequest \<Rightarrow>
   limit_out \<times> 'l IPLimiter" where
  "PreAuthMiddlewareWithConfig ops conv auditor metrics now l w r =
    (let ip = ExtractClientIP r in
     case IPLimiter_Allow ops now ip l of
       (True, l) \<Rightarrow> (\<lparr>lo_result = Next r, lo_audit = [], lo_denied = []\<rparr>, l)
     | (False, l) \<Rightarrow>
        (let retryAfter = f64_to_int64 conv (f64_recip (ip_RequestsPerSecond (il_cfg l)));
             retryAfter = (if retryAfter < 1 then 1 else retryAfter)
         in (\<lparr>lo_result = Denied (too_many w (show_int retryAfter)
                 ''Too many requests from your IP address. Please retry later.''),
              lo_audit = (if auditor then [mk_event EventRateLimitDenied [] [] ip (Some [(''tier'', ''ip'')])] else []),
              lo_denied = (if metrics then [(''ip'', ''burst_exceeded'')] else [])\<rparr>, l)))"

definition PostAuthMiddlewareWithConfig ::
  "'l limiter_ops \<Rightarrow> bool \<Rightarrow> bool \<Rightarrow> gotime \<Rightarrow> 'l UserLimiter \<Rightarrow> header \<Rightarrow> HttpRequest \<Rightarrow>
   limit_out \<times> 'l UserLimiter" where
  "PostAuthMiddlewareWithConfig ops auditor metrics now l w r =
    (case UserIdentityFromContext (rq_Ctx r) of
       None \<Rightarrow> (\<lparr>lo_result = Next r, lo_audit = [], lo_denied = []\<rparr>, l)
     | Some identity \<Rightarrow>
       (case AllowRequest ops now (ui_Username identity) l of
          (True, l) \<Rightarrow> (\<lparr>lo_result = Next r, lo_audit = [], lo_denied = []\<rparr>, l)
        | (False, l) \<Rightarrow>
           (\<lparr>lo_result = Denied (too_many w ''1'' ''You have exceeded your request rate limit. Please retry later.''),
             lo_audit = (if auditor then [mk_event EventRateLimitDenied [] (ui_Username identity) (ExtractClientIP r)
               (Some [(''tier'', ''user'')])] else []),
             lo_denied = (if metrics then [(''user'', ''request_rate'')] else [])\<rparr>, l)))"

section \<open>One key never influences another\<close>

text \<open>The answers given to key \<open>k\<close> in a sequence of requests (time, key).\<close>

fun decisions :: "(gotime \<Rightarrow> string \<Rightarrow> 's \<Rightarrow> bool \<times> 's) \<Rightarrow> string \<Rightarrow> (gotime \<times> string) list \<Rightarrow> 's \<Rightarrow> bool list" where
  "decisions allow k [] s = []"
| "decisions allow k ((t, k') # rs) s =
    (case allow t k' s of (b, s') \<Rightarrow> (if k' = k then [b] else []) @ decisions allow k rs s')"

locale keyed_limiter =
  fixes allow :: "gotime \<Rightarrow> string \<Rightarrow> 's \<Rightarrow> bool \<times> 's" and slot :: "'s \<Rightarrow> string \<Rightarrow> 'e option"
    and conf :: "'s \<Rightarrow> 'c"
  assumes own: "slot s k = slot s' k \<Longrightarrow> conf s = conf s' \<Longrightarrow>
      fst (allow t k s) = fst (allow t k s') \<and> slot (snd (allow t k s)) k = slot (snd (allow t k s')) k"
    and frame: "k' \<noteq> k \<Longrightarrow> slot (snd (allow t k s)) k' = slot s k'"
    and conf_kept: "conf (snd (allow t k s)) = conf s"
begin

lemma decisions_slot:
  "slot s k = slot s' k \<Longrightarrow> conf s = conf s' \<Longrightarrow> decisions allow k rs s = decisions allow k rs s'"
proof (induction rs arbitrary: s s')
  case (Cons r rs)
  obtain t k' where r: "r = (t, k')" by (cases r)
  have same: "slot (snd (allow t k' s)) k = slot (snd (allow t k' s')) k"
    "conf (snd (allow t k' s)) = conf (snd (allow t k' s'))"
    using Cons.prems own [of s k s' t] frame [of k k' t s] frame [of k k' t s'] conf_kept
    by (cases "k' = k"; simp)+
  have "k' = k \<Longrightarrow> fst (allow t k s) = fst (allow t k s')" using own Cons.prems by blast
  with Cons.IH [OF same] show ?case by (simp add: r case_prod_unfold)
qed simp

lemma isolation: "decisions allow k rs s = decisions allow k (filter (\<lambda>r. snd r = k) rs) s"
proof (induction rs arbitrary: s)
  case (Cons r rs)
  obtain t k' where r: "r = (t, k')" by (cases r)
  show ?case
  proof (cases "k' = k")
    case True
    then show ?thesis using Cons by (simp add: r case_prod_unfold)
  next
    case False
    then have "decisions allow k rs (snd (allow t k' s)) = decisions allow k rs s"
      by (intro decisions_slot) (simp_all add: frame conf_kept)
    with False Cons show ?thesis by (simp add: r case_prod_unfold)
  qed
qed simp

end

lemma table_allow_slot:
  "map_of (snd (table_allow ops f t k tab)) = (map_of tab)(k \<mapsto>
     (snd (lm_allow ops t (case map_of tab k of Some (l, t') \<Rightarrow> l | None \<Rightarrow> f ())), t))"
  "fst (table_allow ops f t k tab) = fst (lm_allow ops t (case map_of tab k of Some (l, t') \<Rightarrow> l | None \<Rightarrow> f ()))"
  by (simp_all add: table_allow_def Let_def case_prod_unfold update_conv')

interpretation ip_lim: keyed_limiter "IPLimiter_Allow ops" "\<lambda>l. map_of (il_limiters l)" il_cfg for ops
  by unfold_locales (simp_all add: IPLimiter_Allow_def case_prod_unfold table_allow_slot)

interpretation req_lim: keyed_limiter "AllowRequest ops" "\<lambda>l. map_of (ul_requests l)" ul_cfg for ops
  by unfold_locales (simp_all add: AllowRequest_def case_prod_unfold table_allow_slot Let_def)

interpretation tool_lim: keyed_limiter "AllowToolCall ops" "\<lambda>l. map_of (ul_tools l)" ul_cfg for ops
  by unfold_locales (simp_all add: AllowToolCall_def case_prod_unfold table_allow_slot Let_def)

interpretation fetch_lim: keyed_limiter AllowFetch "\<lambda>l. map_of (pl_lastFetch l)" pl_interval
  by unfold_locales (auto simp: AllowFetch_def update_conv' split: option.splits)

text \<open>
  C36: rate limiting isolates clients from each other: in any sequence of requests, the decisions the
  per-address limiter takes for one address, and the per-user limiters for one user, are those it
  would take if the requests of all others had never been made; no traffic of one client can exhaust
  or enlarge the allowance of another, whatever the token bucket does.
\<close>

theorem limiter_isolation:
  "decisions (IPLimiter_Allow ops) ip rs l = decisions (IPLimiter_Allow ops) ip (filter (\<lambda>r. snd r = ip) rs) l \<and>
   decisions (AllowRequest ops) user rs u = decisions (AllowRequest ops) user (filter (\<lambda>r. snd r = user) rs) u \<and>
   decisions (AllowToolCall ops) user rs u = decisions (AllowToolCall ops) user (filter (\<lambda>r. snd r = user) rs) u \<and>
   decisions AllowFetch p rs f = decisions AllowFetch p (filter (\<lambda>r. snd r = p) rs) f"
  using ip_lim.isolation req_lim.isolation tool_lim.isolation fetch_lim.isolation by blast

section \<open>Slots are counted exactly\<close>

locale slot_pool =
  fixes acquire :: "'s \<Rightarrow> bool \<times> 's" and release :: "'s \<Rightarrow> 's" and used :: "'s \<Rightarrow> int" and cap :: "'s \<Rightarrow> int"
    and ok :: "'s \<Rightarrow> bool"
  assumes acquire_granted: "ok s \<Longrightarrow> fst (acquire s) \<longleftrightarrow> used s < cap s"
    and acquire_used: "ok s \<Longrightarrow> used (snd (acquire s)) = used s + of_bool (fst (acquire s))"
    and release_used: "ok s \<Longrightarrow> used (release s) = used s - of_bool (0 < used s)"
    and acquire_ok: "ok s \<Longrightarrow> ok (snd (acquire s)) \<and> cap (snd (acquire s)) = cap s"
    and release_ok: "ok s \<Longrightarrow> ok (release s) \<and> cap (release s) = cap s"
    and used_range: "ok s \<Longrightarrow> 0 \<le> used s \<and> used s \<le> cap s"
begin

text \<open>A slot that was granted and given back is free again; a full pool grants nothing.\<close>

lemma acquire_release: "ok s \<Longrightarrow> fst (acquire s) \<Longrightarrow> used (release (snd (acquire s))) = used s"
  using acquire_used [of s] acquire_ok [of s] release_used [of "snd (acquire s)"] used_range [of s] by simp

lemma full_denies: "ok s \<Longrightarrow> used s = cap s \<Longrightarrow> \<not> fst (acquire s)"
  using acquire_granted by simp

lemma grants_bounded:
  assumes "ok s"
  shows "used (snd (acquire s)) \<le> cap s"
  using acquire_granted [OF assms] acquire_used [OF assms] used_range [OF assms] by (cases "fst (acquire s)") auto

end

definition sem_ok :: "LLMSemaphore \<Rightarrow> bool" where
  "sem_ok s \<longleftrightarrow> 0 < sint (se_max s) \<and> 0 \<le> sint (se_current s) \<and> sint (se_current s) \<le> sint (se_max s)"

lemma sint32_bounds: "sint (w :: 32 word) < 2 ^ 31" "- (2 ^ 31) \<le> sint (w :: 32 word)"
  using sint_less [of w] sint_ge [of w] by simp_all

lemma sint32_add1: "sint (w :: 32 word) < 2 ^ 31 - 1 \<Longrightarrow> sint (w + 1) = sint w + 1"
  using sint32_bounds [of w]
  by (simp add: sint_word_ariths signed_take_bit_int_eq_self)

lemma sint32_sub1: "- (2 ^ 31) < sint (w :: 32 word) \<Longrightarrow> sint (w - 1) = sint w - 1"
  using sint32_bounds [of w]
  by (simp add: sint_word_ariths signed_take_bit_int_eq_self)

lemma sem_ok_new: "sem_ok (NewLLMSemaphore n)"
  by (auto simp: sem_ok_def NewLLMSemaphore_def MaxInt32_def Let_def sint_uint signed_take_bit_int_eq_self
      unsigned_of_int take_bit_int_eq_self)

interpretation sem: slot_pool Acquire Release "\<lambda>s. sint (se_current s)" "\<lambda>s. sint (se_max s)" sem_ok
proof
  fix s assume ok: "sem_ok s"
  have lt: "\<not> sint (se_max s) \<le> sint (se_current s) \<Longrightarrow> sint (se_current s) < 2 ^ 31 - 1"
    using sint32_bounds(1) [of "se_max s"] by linarith
  show "fst (Acquire s) \<longleftrightarrow> sint (se_current s) < sint (se_max s)" by (auto simp: Acquire_def)
  show "sint (se_current (snd (Acquire s))) = sint (se_current s) + of_bool (fst (Acquire s))"
    using lt by (simp add: Acquire_def sint32_add1)
  show "sint (se_current (Release s)) = sint (se_current s) - of_bool (0 < sint (se_current s))"
    by (simp add: Release_def sint32_sub1)
  show "sem_ok (snd (Acquire s)) \<and> sint (se_max (snd (Acquire s))) = sint (se_max s)"
    using ok lt by (simp add: Acquire_def sem_ok_def sint32_add1)
  show "sem_ok (Release s) \<and> sint (se_max (Release s)) = sint (se_max s)"
    using ok by (simp add: Release_def sem_ok_def sint32_sub1)
  show "0 \<le> sint (se_current s) \<and> sint (se_current s) \<le> sint (se_max s)" using ok by (simp add: sem_ok_def)
qed

text \<open>The slots of one user.\<close>

definition session_count :: "string \<Rightarrow> 'l UserLimiter \<Rightarrow> int" where
  "session_count user l = (case map_of (ul_sessions l) user of Some (c, t) \<Rightarrow> sint c | None \<Rightarrow> 0)"

definition sessions_ok :: "string \<Rightarrow> 'l UserLimiter \<Rightarrow> bool" where
  "sessions_ok user l \<longleftrightarrow> us_MaxConcurrentSessions (ul_cfg l) \<le> MaxInt32 \<and>
     0 \<le> session_count user l \<and> session_count user l \<le> us_MaxConcurrentSessions (ul_cfg l)"

lemma AcquireSession_eval:
  "fst (AcquireSession now user l) \<longleftrightarrow> session_count user l < us_MaxConcurrentSessions (ul_cfg l)"
  "ul_cfg (snd (AcquireSession now user l)) = ul_cfg l"
  by (auto simp: AcquireSession_def session_count_def Let_def split: option.splits)

lemma AcquireSession_count:
  assumes "sessions_ok user l"
  shows "session_count user (snd (AcquireSession now user l)) =
     session_count user l + of_bool (fst (AcquireSession now user l))"
proof (cases "map_of (ul_sessions l) user")
  case None
  then show ?thesis by (simp add: AcquireSession_def session_count_def update_conv' Let_def)
next
  case (Some p)
  obtain c t where p: "p = (c, t)" by (cases p)
  have "sint c < us_MaxConcurrentSessions (ul_cfg l) \<Longrightarrow> sint (c + 1) = sint c + 1"
    using assms by (intro sint32_add1) (simp add: sessions_ok_def MaxInt32_def)
  with Some p show ?thesis by (simp add: AcquireSession_def session_count_def update_conv' Let_def)
qed

lemma ReleaseSession_count:
  "session_count user (ReleaseSession user l) = session_count user l - of_bool (0 < session_count user l)"
  "ul_cfg (ReleaseSession user l) = ul_cfg l"
  by (auto simp: ReleaseSession_def session_count_def update_conv' sint32_sub1 split: option.splits)

interpretation user_slots: slot_pool "AcquireSession now user" "ReleaseSession user" "session_count user"
  "\<lambda>l. us_MaxConcurrentSessions (ul_cfg l)" "sessions_ok user" for now user
proof
  fix l :: "'a UserLimiter" assume ok: "sessions_ok user l"
  show "fst (AcquireSession now user l) \<longleftrightarrow> session_count user l < us_MaxConcurrentSessions (ul_cfg l)"
    by (simp add: AcquireSession_eval)
  show c: "session_count user (snd (AcquireSession now user l)) = session_count user l + of_bool (fst (AcquireSession now user l))"
    using ok by (rule AcquireSession_count)
  show "session_count user (ReleaseSession user l) = session_count user l - of_bool (0 < session_count user l)"
    by (rule ReleaseSession_count)
  show "sessions_ok user (snd (AcquireSession now user l)) \<and>
      us_MaxConcurrentSessions (ul_cfg (snd (AcquireSession now user l))) = us_MaxConcurrentSessions (ul_cfg l)"
    using ok c by (auto simp: sessions_ok_def AcquireSession_eval)
  show "sessions_ok user (ReleaseSession user l) \<and>
      us_MaxConcurrentSessions (ul_cfg (ReleaseSession user l)) = us_MaxConcurrentSessions (ul_cfg l)"
    using ok by (auto simp: sessions_ok_def ReleaseSession_count)
  show "0 \<le> session_count user l \<and> session_count user l \<le> us_MaxConcurrentSessions (ul_cfg l)"
    using ok by (simp add: sessions_ok_def)
qed

text \<open>
  The concurrent-session limit of a user: a slot is granted exactly while fewer than the
  configured number are in use, a granted slot is counted once, giving it back frees exactly that
  slot, and a clean-up of idle entries never forgets a user who still holds one.
\<close>

lemma session_slots:
  assumes "sessions_ok user l" "amap_ok (ul_sessions l)"
  shows "(fst (AcquireSession now user l) \<longleftrightarrow> session_count user l < us_MaxConcurrentSessions (ul_cfg l)) \<and>
    session_count user (snd (AcquireSession now user l)) \<le> us_MaxConcurrentSessions (ul_cfg l) \<and>
    (fst (AcquireSession now user l) \<longrightarrow>
       session_count user (ReleaseSession user (snd (AcquireSession now user l))) = session_count user l) \<and>
    session_count user (UserLimiter_cleanup t l) = session_count user l"
proof -
  have "session_count user (UserLimiter_cleanup t l) = session_count user l"
    using assms(2) by (auto simp: UserLimiter_cleanup_def session_count_def Let_def map_of_filter_key split: option.splits)
  then show ?thesis
    using user_slots.acquire_granted [OF assms(1)] user_slots.grants_bounded [OF assms(1)]
      user_slots.acquire_release [OF assms(1)] by blast
qed

definition one_slot :: "unit UserLimiter" where
  "one_slot = NewUserLimiter \<lparr>us_RequestsPerMinute = 1, us_MaxConcurrentSessions = 1, us_ToolCallsPerMinute = 1,
     us_CleanupInterval = 0, us_MaxAge = 0\<rparr>"

lemma session_slots_example:
  "fst (AcquireSession 5 ''alice'' one_slot) \<and>
   session_count ''alice'' (ReleaseSession ''alice'' (snd (AcquireSession 5 ''alice'' one_slot))) = 0"
proof -
  have "sessions_ok ''alice'' one_slot" "amap_ok (ul_sessions one_slot)"
    by (simp_all add: sessions_ok_def session_count_def one_slot_def NewUserLimiter_def MaxInt32_def Let_def)
  from session_slots [OF this, of 5 0] show ?thesis
    by (simp add: session_count_def one_slot_def NewUserLimiter_def Let_def)
qed

section \<open>The compare-and-swap loops under concurrency\<close>

text \<open>
  Threads that acquire and release slots of one counter. A thread is about to load the counter, or
  has loaded a value and is about to compare and swap; only a thread that holds a slot releases.
\<close>

datatype thread = Idle | AcqLoad | AcqCas "32 word" | Holding | RelLoad | RelCas "32 word"

fun occupies :: "thread \<Rightarrow> bool" where
  "occupies Holding = True" | "occupies RelLoad = True" | "occupies (RelCas v) = True"
| "occupies t = False"

definition holders :: "thread list \<Rightarrow> nat" where
  "holders ts = length (filter occupies ts)"

inductive sem_step :: "32 word \<Rightarrow> 32 word \<times> thread list \<Rightarrow> 32 word \<times> thread list \<Rightarrow> bool" for mx where
  start: "i < length ts \<Longrightarrow> ts ! i = Idle \<Longrightarrow> sem_step mx (c, ts) (c, ts[i := AcqLoad])"
| acq_load: "i < length ts \<Longrightarrow> ts ! i = AcqLoad \<Longrightarrow> sem_step mx (c, ts) (c, ts[i := AcqCas c])"
| acq_deny: "i < length ts \<Longrightarrow> ts ! i = AcqCas v \<Longrightarrow> sint v \<ge> sint mx \<Longrightarrow> sem_step mx (c, ts) (c, ts[i := Idle])"
| acq_swap: "i < length ts \<Longrightarrow> ts ! i = AcqCas v \<Longrightarrow> \<not> sint v \<ge> sint mx \<Longrightarrow> c = v \<Longrightarrow>
    sem_step mx (c, ts) (v + 1, ts[i := Holding])"
| acq_retry: "i < length ts \<Longrightarrow> ts ! i = AcqCas v \<Longrightarrow> \<not> sint v \<ge> sint mx \<Longrightarrow> c \<noteq> v \<Longrightarrow>
    sem_step mx (c, ts) (c, ts[i := AcqLoad])"
| give_back: "i < length ts \<Longrightarrow> ts ! i = Holding \<Longrightarrow> sem_step mx (c, ts) (c, ts[i := RelLoad])"
| rel_load: "i < length ts \<Longrightarrow> ts ! i = RelLoad \<Longrightarrow> sem_step mx (c, ts) (c, ts[i := RelCas c])"
| rel_floor: "i < length ts \<Longrightarrow> ts ! i = RelCas v \<Longrightarrow> sint v \<le> 0 \<Longrightarrow> sem_step mx (c, ts) (c, ts[i := Idle])"
| rel_swap: "i < length ts \<Longrightarrow> ts ! i = RelCas v \<Longrightarrow> \<not> sint v \<le> 0 \<Longrightarrow> c = v \<Longrightarrow>
    sem_step mx (c, ts) (v - 1, ts[i := Idle])"
| rel_retry: "i < length ts \<Longrightarrow> ts ! i = RelCas v \<Longrightarrow> \<not> sint v \<le> 0 \<Longrightarrow> c \<noteq> v \<Longrightarrow>
    sem_step mx (c, ts) (c, ts[i := RelLoad])"

definition sem_inv :: "32 word \<Rightarrow> 32 word \<times> thread list \<Rightarrow> bool" where
  "sem_inv mx st \<longleftrightarrow> sint (fst st) = int (holders (snd st)) \<and> int (holders (snd st)) \<le> sint mx \<and>
     (\<forall>i v. i < length (snd st) \<longrightarrow> snd st ! i = RelCas v \<longrightarrow> 0 < sint v)"

lemma holders_update:
  "i < length ts \<Longrightarrow> int (holders (ts[i := t])) = int (holders ts) - of_bool (occupies (ts ! i)) + of_bool (occupies t)"
proof (induction ts arbitrary: i)
  case (Cons x ts)
  then show ?case by (cases i) (auto simp: holders_def)
qed simp

lemma holders_pos: "i < length ts \<Longrightarrow> occupies (ts ! i) \<Longrightarrow> 0 < int (holders ts)"
  unfolding holders_def by (simp add: filter_empty_conv) (metis nth_mem)

lemma sem_inv_step: "sem_step mx st st' \<Longrightarrow> sem_inv mx st \<Longrightarrow> sem_inv mx st'"
proof (induction rule: sem_step.induct)
  case (acq_swap i ts v c)
  then have "sint v < 2 ^ 31 - 1" using sint32_bounds(1) [of mx] by (simp add: not_le)
  then have "sint (v + 1) = sint v + 1" by (rule sint32_add1)
  with acq_swap show ?case
    by (auto simp: sem_inv_def holders_update nth_list_update split: if_splits)
next
  case (rel_load i ts c)
  then have "0 < int (holders ts)" by (intro holders_pos [of i]) simp_all
  with rel_load show ?case
    by (auto simp: sem_inv_def holders_update nth_list_update split: if_splits)
next
  case (rel_floor i ts v c)
  then have "0 < sint v" by (auto simp: sem_inv_def)
  with rel_floor show ?case by simp
next
  case (rel_swap i ts v c)
  then have "sint (v - 1) = sint v - 1" by (intro sint32_sub1) simp
  with rel_swap show ?case
    by (auto simp: sem_inv_def holders_update nth_list_update split: if_splits)
qed (auto simp: sem_inv_def holders_update nth_list_update split: if_splits)

lemma sem_inv_run: "(sem_step mx)\<^sup>*\<^sup>* st st' \<Longrightarrow> sem_inv mx st \<Longrightarrow> sem_inv mx st'"
  by (induction rule: rtranclp_induct) (auto intro: sem_inv_step)

lemma sem_inv_init: "0 \<le> sint mx \<Longrightarrow> sem_inv mx (0, replicate n Idle)"
  by (simp add: sem_inv_def holders_def)

text \<open>
  Any number of goroutines calling \<open>Acquire\<close> and, once each, \<open>Release\<close> on the model-call
  semaphore, interleaved in any way between their atomic loads and compare-and-swaps: at every moment
  the counter equals the number of slots held, and it never exceeds the maximum, nor does its 32-bit
  value overflow.
\<close>

lemma semaphore_exact:
  assumes "(sem_step (se_max (NewLLMSemaphore maxSlots)))\<^sup>*\<^sup>* (0, replicate n Idle) (c, ts)"
  shows "sint c = int (holders ts) \<and> int (holders ts) \<le> sint (se_max (NewLLMSemaphore maxSlots))"
proof -
  have "0 \<le> sint (se_max (NewLLMSemaphore maxSlots))" using sem_ok_new [of maxSlots] by (simp add: sem_ok_def)
  from sem_inv_run [OF assms sem_inv_init [OF this]] show ?thesis by (simp add: sem_inv_def)
qed

lemma semaphore_exact_example:
  "(sem_step (se_max (NewLLMSemaphore 1)))\<^sup>*\<^sup>* (0, replicate 2 Idle) (1, [Holding, AcqLoad]) \<and>
   sint (1 :: 32 word) = int (holders [Holding, AcqLoad])"
proof -
  have m: "se_max (NewLLMSemaphore 1) = 1" by (simp add: NewLLMSemaphore_def MaxInt32_def)
  have "(sem_step 1)\<^sup>*\<^sup>* (0, [Idle, Idle]) (1, [Holding, AcqLoad])"
    using start [of 0 "[Idle, Idle]" 1 0] acq_load [of 0 "[AcqLoad, Idle]" 1 0]
      acq_swap [of 0 "[AcqCas 0, Idle]" 0 1 0] start [of 1 "[Holding, Idle]" 1 1]
    by (simp add: numeral_2_eq_2)
  then have run: "(sem_step (se_max (NewLLMSemaphore 1)))\<^sup>*\<^sup>* (0, replicate 2 Idle) (1, [Holding, AcqLoad])"
    by (simp add: m numeral_2_eq_2)
  from semaphore_exact [OF run] run show ?thesis by simp
qed

section \<open>The loops refine atomic operations\<close>

text \<open>
  A call takes effect at one moment between its start and its return: a refused \<open>Acquire\<close> when it loads a
  full counter, a granted one and a \<open>Release\<close> when the swap succeeds. \<open>call_effects\<close> is what a step of a thread
  from \<open>t\<close> to \<open>t'\<close> contributes to that order, \<open>call_returns\<close> what the thread's call returns with it, and \<open>call_pending\<close> an
  effect whose call has not returned yet.
\<close>

datatype sem_op = DidAcquire bool | DidRelease

fun call_pending :: "32 word \<Rightarrow> thread \<Rightarrow> sem_op list" where
  "call_pending mx (AcqCas v) = (if sint v \<ge> sint mx then [DidAcquire False] else [])"
| "call_pending mx (RelCas v) = (if sint v \<le> 0 then [DidRelease] else [])"
| "call_pending mx t = []"

fun call_returns :: "thread \<Rightarrow> thread \<Rightarrow> sem_op list" where
  "call_returns (AcqCas v) Idle = [DidAcquire False]"
| "call_returns (AcqCas v) Holding = [DidAcquire True]"
| "call_returns (RelCas v) Idle = [DidRelease]"
| "call_returns t t' = []"

fun call_effects :: "32 word \<Rightarrow> thread \<Rightarrow> thread \<Rightarrow> sem_op list" where
  "call_effects mx AcqLoad (AcqCas v) = call_pending mx (AcqCas v)"
| "call_effects mx RelLoad (RelCas v) = call_pending mx (RelCas v)"
| "call_effects mx (AcqCas v) Holding = [DidAcquire True]"
| "call_effects mx (RelCas v) Idle = (if sint v \<le> 0 then [] else [DidRelease])"
| "call_effects mx t t' = []"

text \<open>A run with the effects so far, in order and by thread, and what the calls of the threads returned.\<close>

inductive lin_run :: "32 word \<Rightarrow> 32 word \<times> thread list \<Rightarrow> (nat \<times> sem_op) list \<Rightarrow> (nat \<times> sem_op) list \<Rightarrow> bool" for mx where
  lin_init: "lin_run mx (0, replicate n Idle) [] []"
| lin_next: "lin_run mx (c, ts) es rs \<Longrightarrow> sem_step mx (c, ts) (c', ts[i := t]) \<Longrightarrow> i < length ts \<Longrightarrow>
    lin_run mx (c', ts[i := t]) (es @ map (Pair i) (call_effects mx (ts ! i) t)) (rs @ map (Pair i) (call_returns (ts ! i) t))"

text \<open>The specification: the operations one after the other, each with the result it has to have.\<close>

fun atomic_run :: "LLMSemaphore \<Rightarrow> sem_op list \<Rightarrow> LLMSemaphore option" where
  "atomic_run s [] = Some s"
| "atomic_run s (DidAcquire b # ops) = (if fst (Acquire s) = b then atomic_run (snd (Acquire s)) ops else None)"
| "atomic_run s (DidRelease # ops) = atomic_run (Release s) ops"

lemma atomic_run_app: "atomic_run s (xs @ ys) = Option.bind (atomic_run s xs) (\<lambda>s'. atomic_run s' ys)"
  by (induction s xs rule: atomic_run.induct) auto

lemma list_update_eq_iff: "i < length ts \<Longrightarrow> ts[j := u] = ts[i := t] \<Longrightarrow> u \<noteq> ts ! j \<Longrightarrow> j < length ts \<Longrightarrow> j = i \<and> u = t"
  by (metis nth_list_update_eq nth_list_update_neq)

text \<open>A step with its thread: what it does to the counter is what its effects do to the specification.\<close>

lemma sem_step_effects:
  assumes "sem_step mx (c, ts) (c', ts[i := t])" "i < length ts" "se_max s = mx" "se_current s = c"
  shows "atomic_run s (call_effects mx (ts ! i) t) = Some (s\<lparr>se_current := c'\<rparr>) \<and>
    call_pending mx (ts ! i) @ call_effects mx (ts ! i) t = call_returns (ts ! i) t @ call_pending mx t"
  using assms
proof (cases rule: sem_step.cases)
  case (acq_deny j v)
  then have "j = i \<and> Idle = t" using list_update_eq_iff [of i ts j Idle t] assms(2) by simp
  then show ?thesis using acq_deny assms(3,4) by auto
qed (use assms(2-4) list_update_eq_iff [of i ts _ _ t] in \<open>fastforce simp: Acquire_def Release_def\<close>)+

lemma filter_map_Pair: "filter (\<lambda>x. fst x = j) (map (Pair i) xs) = (if i = j then map (Pair i) xs else [])"
  by (induction xs) auto

definition of_thread :: "nat \<Rightarrow> (nat \<times> sem_op) list \<Rightarrow> sem_op list" where
  "of_thread j xs = map snd (filter (\<lambda>x. fst x = j) xs)"

lemma of_thread_app: "of_thread j (xs @ map (Pair i) ys) = of_thread j xs @ (if i = j then ys else [])"
  by (simp add: of_thread_def filter_map_Pair comp_def)

lemma lin_run_reach: "lin_run mx st es rs \<Longrightarrow> \<exists>n. (sem_step mx)\<^sup>*\<^sup>* (0, replicate n Idle) st"
  by (induction rule: lin_run.induct) (blast intro: rtranclp.rtrancl_into_rtrancl)+

lemma lin_run_atomic:
  assumes "lin_run (se_max (NewLLMSemaphore maxSlots)) (c, ts) es rs"
  shows "atomic_run (NewLLMSemaphore maxSlots) (map snd es) = Some ((NewLLMSemaphore maxSlots)\<lparr>se_current := c\<rparr>) \<and>
    (\<forall>j<length ts. of_thread j es = of_thread j rs @ call_pending (se_max (NewLLMSemaphore maxSlots)) (ts ! j))"
  using assms
proof (induction "(c, ts)" es rs arbitrary: c ts rule: lin_run.induct)
  case (lin_init n)
  then show ?case by (simp add: NewLLMSemaphore_def of_thread_def Let_def)
next
  case (lin_next c0 ts0 es rs c' i t)
  let ?mx = "se_max (NewLLMSemaphore maxSlots)" and ?s = "(NewLLMSemaphore maxSlots)\<lparr>se_current := c0\<rparr>"
  from sem_step_effects [OF lin_next(3,4), of ?s]
  have e: "atomic_run ?s (call_effects ?mx (ts0 ! i) t) = Some ((NewLLMSemaphore maxSlots)\<lparr>se_current := c'\<rparr>)"
    "call_pending ?mx (ts0 ! i) @ call_effects ?mx (ts0 ! i) t = call_returns (ts0 ! i) t @ call_pending ?mx t" by simp_all
  show ?case
  proof (intro conjI allI impI)
    show "atomic_run (NewLLMSemaphore maxSlots) (map snd (es @ map (Pair i) (call_effects ?mx (ts0 ! i) t))) =
        Some ((NewLLMSemaphore maxSlots)\<lparr>se_current := c'\<rparr>)"
      using lin_next(2) e(1) by (simp add: atomic_run_app comp_def)
    fix j assume "j < length (ts0[i := t])"
    then show "of_thread j (es @ map (Pair i) (call_effects ?mx (ts0 ! i) t)) =
        of_thread j (rs @ map (Pair i) (call_returns (ts0 ! i) t)) @ call_pending ?mx (ts0[i := t] ! j)"
      using lin_next(2) e(2) lin_next(4) by (cases "i = j") (auto simp: of_thread_app)
  qed
qed



text \<open>
  Releasing twice is not harmless while others hold slots: with a maximum of two, one holder
  releasing twice frees the other holder's slot as well, and two further acquisitions succeed while
  the other holder is still active, so three calls run at once.
\<close>

lemma double_release_exceeds_limit:
  "let s0 = NewLLMSemaphore 2; (a, s1) = Acquire s0; (b, s2) = Acquire s1; s3 = Release (Release s2);
       (c, s4) = Acquire s3; (d, s5) = Acquire s4
   in a \<and> b \<and> c \<and> d \<and> sint (se_current s5) = 2"
  by code_simp

section \<open>Answers of the middlewares\<close>

text \<open>
  The pre-authentication middleware forwards the request unchanged exactly when the limiter
  allows the client address, and otherwise answers 429 with a Retry-After of at least one second and
  one audit event with the address.
\<close>

lemma preauth_answer:
  "case PreAuthMiddlewareWithConfig ops conv True metrics now l w r of (out, l') \<Rightarrow>
     l' = snd (IPLimiter_Allow ops now (ExtractClientIP r) l) \<and>
     (if fst (IPLimiter_Allow ops now (ExtractClientIP r) l) then lo_result out = Next r \<and> lo_audit out = []
      else (\<exists>resp k. lo_result out = Denied resp \<and> rs_Status resp = 429 \<and> 1 \<le> k \<and>
        header_get (rs_Header resp) ''Retry-After'' = show_int k) \<and>
        map ev_Type (lo_audit out) = [EventRateLimitDenied] \<and> map ev_SourceIP (lo_audit out) = [ExtractClientIP r])"
proof -
  obtain b l1 where a: "IPLimiter_Allow ops now (ExtractClientIP r) l = (b, l1)" by (metis prod.exhaust)
  define k where "k = (let x = f64_to_int64 conv (f64_recip (ip_RequestsPerSecond (il_cfg l1))) in if x < 1 then 1 else x)"
  have k: "1 \<le> k" by (simp add: k_def Let_def)
  show ?thesis
  proof (cases b)
    case True with a show ?thesis by (simp add: PreAuthMiddlewareWithConfig_def)
  next
    case False
    with a k show ?thesis
      by (auto simp: PreAuthMiddlewareWithConfig_def too_many_def WriteProblem_def WriteProblemFull_def
          k_def [unfolded Let_def, symmetric] Let_def intro!: exI [of _ k])
  qed
qed

end
