(* ===== verification/GoPath.thy ===== *)
theory GoPath
  imports GoStrings
begin

text \<open>
  Slash-separated paths as packages \<open>path\<close> and \<open>path/filepath\<close> (on Unix) treat them: the last element,
  the shortest equivalent path, the directory.
\<close>

definition filepath_Base :: "string \<Rightarrow> string" where
  "filepath_Base p =
    (if p = [] then ''.''
     else let q = trim_right {CHR ''/''} p
          in if q = [] then ''/'' else rev (takeWhile (\<lambda>c. c \<noteq> CHR ''/'') (rev q)))"

text \<open>\<open>path.Clean\<close> on the elements between slashes: the stack holds the elements kept so far, the last first.\<close>

fun clean_elems :: "bool \<Rightarrow> string list \<Rightarrow> string list \<Rightarrow> string list" where
  "clean_elems rooted stack [] = rev stack"
| "clean_elems rooted stack (e # es) =
    (if e = [] \<or> e = ''.'' then clean_elems rooted stack es
     else if e = ''..'' then
       (case stack of
          t # rest \<Rightarrow> if t = ''..'' then clean_elems rooted (e # stack) es else clean_elems rooted rest es
        | [] \<Rightarrow> clean_elems rooted (if rooted then [] else [e]) es)
     else clean_elems rooted (e # stack) es)"

fun split_slash :: "string \<Rightarrow> string list" where
  "split_slash [] = [[]]"
| "split_slash (c # cs) = (if c = CHR ''/'' then [] # split_slash cs
     else (case split_slash cs of s # rest \<Rightarrow> (c # s) # rest | [] \<Rightarrow> [[c]]))"

fun join_slash :: "string list \<Rightarrow> string" where
  "join_slash [] = []"
| "join_slash [s] = s"
| "join_slash (s # ss) = s @ ''/'' @ join_slash ss"

definition filepath_Clean :: "string \<Rightarrow> string" where
  "filepath_Clean p =
    (let rooted = (p \<noteq> [] \<and> hd p = CHR ''/'');
         q = (if rooted then ''/'' else []) @ join_slash (clean_elems rooted [] (split_slash p))
     in if q = [] then ''.'' else q)"

definition filepath_Dir :: "string \<Rightarrow> string" where
  "filepath_Dir p = filepath_Clean (rev (dropWhile (\<lambda>c. c \<noteq> CHR ''/'') (rev p)))"

definition filepath_Join :: "string list \<Rightarrow> string" where
  "filepath_Join elems = (case dropWhile (\<lambda>e. e = []) elems of [] \<Rightarrow> [] | es \<Rightarrow> filepath_Clean (join_slash es))"

text \<open>A cleaned rooted path has no empty, dot or dot-dot element left, so cleaning it again changes nothing.\<close>

definition plain_elem :: "string \<Rightarrow> bool" where
  "plain_elem e \<longleftrightarrow> e \<noteq> [] \<and> e \<noteq> ''.'' \<and> e \<noteq> ''..'' \<and> CHR ''/'' \<notin> set e"

lemma split_slash_no_slash: "e \<in> set (split_slash p) \<Longrightarrow> CHR ''/'' \<notin> set e"
proof (induction p arbitrary: e)
  case (Cons c cs)
  show ?case
  proof (cases "split_slash cs")
    case (Cons s rest)
    with Cons.prems Cons.IH show ?thesis by (auto split: if_splits)
  qed (use Cons in \<open>auto split: if_splits\<close>)
qed simp

lemma clean_elems_plain:
  "\<forall>e\<in>set es. CHR ''/'' \<notin> set e \<Longrightarrow> \<forall>e\<in>set stack. plain_elem e \<Longrightarrow> \<forall>e\<in>set (clean_elems True stack es). plain_elem e"
proof (induction es arbitrary: stack)
  case (Cons e es)
  then have e: "CHR ''/'' \<notin> set e" and es: "\<forall>e\<in>set es. CHR ''/'' \<notin> set e" by simp_all
  consider "e = [] \<or> e = ''.''" | "e = ''..''" | "plain_elem e" using e by (auto simp: plain_elem_def)
  then show ?case
  proof cases
    case 1 then show ?thesis using Cons.IH [OF es Cons.prems(2)] by simp
  next
    case 2
    show ?thesis
    proof (cases stack)
      case Nil then show ?thesis using 2 Cons.IH [OF es, of "[]"] by simp
    next
      case (Cons t rest)
      with Cons.prems(2) have "t \<noteq> ''..''" "\<forall>e\<in>set rest. plain_elem e" by (auto simp: plain_elem_def)
      with 2 Cons show ?thesis using Cons.IH [OF es, of rest] by simp
    qed
  next
    case 3
    then have "clean_elems True stack (e # es) = clean_elems True (e # stack) es" by (simp add: plain_elem_def)
    then show ?thesis using Cons.IH [OF es, of "e # stack"] Cons.prems(2) 3 by simp
  qed
qed simp

lemma clean_elems_id: "\<forall>e\<in>set es. plain_elem e \<Longrightarrow> clean_elems rooted stack es = rev stack @ es"
  by (induction es arbitrary: stack) (auto simp: plain_elem_def)

lemma split_slash_append: "CHR ''/'' \<notin> set e \<Longrightarrow> split_slash (e @ CHR ''/'' # p) = e # split_slash p"
  by (induction e) auto

lemma split_slash_plain: "CHR ''/'' \<notin> set e \<Longrightarrow> split_slash e = [e]"
  by (induction e) auto

lemma split_join_slash: "es \<noteq> [] \<Longrightarrow> \<forall>e\<in>set es. plain_elem e \<Longrightarrow> split_slash (join_slash es) = es"
  by (induction es rule: join_slash.induct) (auto simp: plain_elem_def split_slash_plain split_slash_append)

lemma Clean_idempotent:
  assumes "p \<noteq> []" "hd p = CHR ''/''"
  shows "filepath_Clean (filepath_Clean p) = filepath_Clean p"
proof -
  define es where "es = clean_elems True [] (split_slash p)"
  have pl: "\<forall>e\<in>set es. plain_elem e"
    unfolding es_def using split_slash_no_slash by (intro clean_elems_plain) auto
  have c: "filepath_Clean p = CHR ''/'' # join_slash es" using assms by (simp add: filepath_Clean_def es_def)
  have "clean_elems True [] (split_slash (CHR ''/'' # join_slash es)) = es"
  proof (cases "es = []")
    case False
    with pl show ?thesis by (simp add: split_join_slash clean_elems_id)
  qed simp
  then show ?thesis unfolding c by (simp add: filepath_Clean_def)
qed

end
