(* ===== verification/HttpRouter.thy ===== *)
theory HttpRouter
  imports Streaming RateLimit GoPath
begin

text \<open>
  The HTTP surface of package \<open>internal/handler\<close>: the router and its middlewares (\<open>router.go\<close>,
  \<open>middleware.go\<close>, \<open>recover.go\<close>), the health endpoints (\<open>health.go\<close>) and the agent card
  (\<open>agentcard.go\<close>). A handler is a state transformer on one connection and the state of the server; it
  may leave with a panic. The type of the response writer is modelled as the stack of its wrappers,
  because interface assertions on it decide what a handler can do.

  The locale \<open>gate\<close> is what the router relies on in the middlewares it is given: each either answers
  itself or passes a request on.
\<close>

section \<open>Response writers\<close>

datatype writer = BaseWriter | StatusRecorder writer

datatype write_deadline = NoDeadline | DeadlineAt gotime

text \<open>
  One connection: the header map under construction, what was sent (status and header), the body, the
  write deadline, the limit on the request body, and the status the recorder saw.
\<close>

record conn =
  cn_header :: header
  cn_sent :: "(int \<times> header) option"
  cn_body :: string
  cn_deadline :: write_deadline
  cn_bodyLimit :: "int option"
  cn_recorded :: int

definition new_conn :: "write_deadline \<Rightarrow> conn" where
  "new_conn d = \<lparr>cn_header = (\<lambda>_. []), cn_sent = None, cn_body = [], cn_deadline = d, cn_bodyLimit = None, cn_recorded = 0\<rparr>"

text \<open>\<open>net/http\<close>: the first status wins, later calls are ignored; a write without a status sends 200.\<close>

definition base_WriteHeader :: "int \<Rightarrow> conn \<Rightarrow> conn" where
  "base_WriteHeader code c = (case cn_sent c of None \<Rightarrow> c\<lparr>cn_sent := Some (code, cn_header c)\<rparr> | Some _ \<Rightarrow> c)"

fun WriteHeader :: "writer \<Rightarrow> int \<Rightarrow> conn \<Rightarrow> conn" where
  "WriteHeader BaseWriter code c = base_WriteHeader code c"
| "WriteHeader (StatusRecorder w) code c = WriteHeader w code (c\<lparr>cn_recorded := code\<rparr>)"

text \<open>\<open>Write\<close> of the embedded writer is not intercepted by the recorder.\<close>

definition write_body :: "string \<Rightarrow> conn \<Rightarrow> conn" where
  "write_body t c = (let c = base_WriteHeader 200 c in c\<lparr>cn_body := cn_body c @ t\<rparr>)"

definition set_header :: "string \<Rightarrow> string \<Rightarrow> conn \<Rightarrow> conn" where
  "set_header k v c = c\<lparr>cn_header := header_set k v (cn_header c)\<rparr>"

text \<open>
  \<open>http.ResponseController.SetWriteDeadline\<close> asks the writer for the method and otherwise for
  \<open>Unwrap\<close>; \<open>statusRecorder\<close> has neither, so the call fails on it.
\<close>

fun SetWriteDeadline :: "writer \<Rightarrow> write_deadline \<Rightarrow> conn \<Rightarrow> goerr option \<times> conn" where
  "SetWriteDeadline BaseWriter d c = (None, c\<lparr>cn_deadline := d\<rparr>)"
| "SetWriteDeadline (StatusRecorder w) d c = (Some (ErrVar ''ErrNotSupported''), c)"

text \<open>Send a finished response: its header replaces the one under construction.\<close>

definition respond :: "writer \<Rightarrow> HttpResponse \<Rightarrow> conn \<Rightarrow> conn" where
  "respond w resp c = write_body (rs_Body resp) (WriteHeader w (rs_Status resp) (c\<lparr>cn_header := rs_Header resp\<rparr>))"

definition http_Error :: "writer \<Rightarrow> string \<Rightarrow> int \<Rightarrow> conn \<Rightarrow> conn" where
  "http_Error w msg code c =
    write_body (msg @ [CHR 0x0A]) (WriteHeader w code
      (set_header ''X-Content-Type-Options'' ''nosniff'' (set_header ''Content-Type'' ''text/plain; charset=utf-8''
        (c\<lparr>cn_header := (cn_header c)(''Content-Length'' := [])\<rparr>))))"

section \<open>Server state and handlers\<close>

record 'a server =
  hs_tracker :: "ConnectionTracker option"
  hs_nextRef :: nat
  hs_now :: gotime
  hs_draining :: bool
  hs_requests :: "(string \<times> string \<times> int) list"
  hs_panics :: nat
  hs_rest :: 'a

text \<open>The first component of a result is the value of a panic.\<close>

type_synonym 'a outcome = "string option \<times> conn \<times> 'a server"
type_synonym 'a handler = "writer \<Rightarrow> HttpRequest \<Rightarrow> conn \<Rightarrow> 'a server \<Rightarrow> 'a outcome"

definition returns :: "conn \<Rightarrow> 'a server \<Rightarrow> 'a outcome" where
  "returns c s = (None, c, s)"

section \<open>Health\<close>

definition AllReady :: "('a server \<Rightarrow> bool) list \<Rightarrow> 'a server \<Rightarrow> bool" where
  "AllReady checkers s = list_all (\<lambda>c. c s) checkers"

definition handleHealthz :: "'a handler" where
  "handleHealthz w r c s = returns (write_body ''ok'' (WriteHeader w 200 c)) s"

definition ReadyzHandlerFunc :: "('a server \<Rightarrow> bool) \<Rightarrow> bool \<Rightarrow> 'a handler" where
  "ReadyzHandlerFunc checker has_draining w r c s =
    (if has_draining \<and> hs_draining s
     then returns (respond w (WriteProblem (cn_header c) 503 ''Service Unavailable'' ''service is shutting down'') c) s
     else if \<not> checker s
     then returns (respond w (WriteProblem (cn_header c) 503 ''Service Unavailable'' ''one or more dependencies are not ready'') c) s
     else returns (write_body ''ok'' (WriteHeader w 200 c)) s)"

section \<open>Middlewares\<close>

definition normalizePath :: "string \<Rightarrow> string" where
  "normalizePath p =
    (if p \<in> {''/healthz'', ''/readyz'', ''/metrics''} then p
     else if has_prefix p ''/a2a/'' then ''/a2a/invoke''
     else if p = ''/mcp'' then ''/mcp''
     else if p = ''/.well-known/agent-card.json'' then ''/.well-known/agent-card.json''
     else ''unknown'')"

text \<open>A panic leaves the middleware before the counters; the observed duration is left out.\<close>

definition metricsMiddleware :: "'a handler \<Rightarrow> 'a handler" where
  "metricsMiddleware next w r c s =
    (case next (StatusRecorder w) r (c\<lparr>cn_recorded := 200\<rparr>) s of
       (Some p, c, s) \<Rightarrow> (Some p, c, s)
     | (None, c, s) \<Rightarrow> (None, c,
         s\<lparr>hs_requests := hs_requests s @ [(rq_Method r, normalizePath (rq_Path r), cn_recorded c)]\<rparr>))"

definition securityHeadersMiddleware :: "'a handler \<Rightarrow> 'a handler" where
  "securityHeadersMiddleware next w r c s =
    next w r (set_header ''Strict-Transport-Security'' ''max-age=63072000; includeSubDomains''
      (set_header ''Cache-Control'' ''no-store'' (set_header ''X-Frame-Options'' ''DENY''
        (set_header ''X-Content-Type-Options'' ''nosniff'' c)))) s"

definition RecoverMiddleware :: "'a handler \<Rightarrow> 'a handler" where
  "RecoverMiddleware next w r c s =
    (case next w r c s of
       (None, c, s) \<Rightarrow> (None, c, s)
     | (Some p, c, s) \<Rightarrow> (None,
         respond w (WriteProblem (cn_header c) 500 ''Internal Server Error'' ''an unexpected internal error occurred'') c,
         s\<lparr>hs_panics := hs_panics s + 1\<rparr>))"

text \<open>\<open>uuid\<close> gives the fresh id of the n-th request.\<close>

definition requestid_handler :: "(nat \<Rightarrow> string) \<Rightarrow> 'a handler \<Rightarrow> 'a handler" where
  "requestid_handler uuid next w r c s =
    (case requestid_Middleware (uuid (hs_nextRef s)) r (cn_header c) of (r', h) \<Rightarrow>
       next w r' (c\<lparr>cn_header := h\<rparr>) (s\<lparr>hs_nextRef := hs_nextRef s + 1\<rparr>))"

definition defaultMaxPayloadBytes :: int where "defaultMaxPayloadBytes = 1048576"

definition maxBodyMiddleware :: "int \<Rightarrow> 'a handler \<Rightarrow> 'a handler" where
  "maxBodyMiddleware maxBytes next w r c s =
    next w r (c\<lparr>cn_bodyLimit := Some (case cn_bodyLimit c of None \<Rightarrow> maxBytes | Some m \<Rightarrow> min m maxBytes)\<rparr>) s"

definition defaultWriteDeadline :: duration where "defaultWriteDeadline = 60 * ns_second"

definition writeDeadlineMiddleware :: "'a handler \<Rightarrow> 'a handler" where
  "writeDeadlineMiddleware next w r c s =
    next w r (snd (SetWriteDeadline w (DeadlineAt (hs_now s + defaultWriteDeadline)) c)) s"

text \<open>\<open>statusRecorder\<close> has a \<open>Flush\<close> method, and so has the writer of the server.\<close>

fun is_flusher :: "writer \<Rightarrow> bool" where
  "is_flusher BaseWriter = True"
| "is_flusher (StatusRecorder w) = True"

definition on_tracker :: "(ConnectionTracker \<Rightarrow> ConnectionTracker) \<Rightarrow> 'a server \<Rightarrow> 'a server" where
  "on_tracker f s = s\<lparr>hs_tracker := map_option f (hs_tracker s)\<rparr>"

text \<open>
  The deferred \<open>Remove\<close> runs after the handler, also when it panics. The tracker of the server is the
  \<open>tracker\<close> argument of the code; \<open>None\<close> is nil.
\<close>

definition trackSSEConnection :: "'a handler \<Rightarrow> 'a handler" where
  "trackSSEConnection next w r c s =
    (case hs_tracker s of None \<Rightarrow> next w r c s
     | Some tracker \<Rightarrow>
        (let connID = requestid_FromContext (rq_Ctx r);
             connID = (if connID = [] then rq_RemoteAddr r else connID)
         in case tracker_Add \<lparr>tc_ID = connID, tc_ref = hs_nextRef s, tc_flusher = is_flusher w\<rparr> tracker of
              (False, tracker) \<Rightarrow> returns (http_Error w ''too many concurrent connections'' 503 c)
                 (s\<lparr>hs_tracker := Some tracker, hs_nextRef := hs_nextRef s + 1\<rparr>)
            | (True, tracker) \<Rightarrow>
                (case next w r (snd (SetWriteDeadline w NoDeadline c))
                     (s\<lparr>hs_tracker := Some tracker, hs_nextRef := hs_nextRef s + 1\<rparr>) of
                   (p, c, s) \<Rightarrow> (p, c, on_tracker (tracker_Remove connID) s))))"

section \<open>Routing\<close>

text \<open>
  \<open>http.ServeMux\<close> for patterns of a method (empty: any) and a full path: an unclean path is redirected, a GET pattern
  also serves HEAD, a path known under other methods only gives 405. Paths are taken without escapes,
  and the page a redirect carries is left out.
\<close>

definition mux_cleanPath :: "string \<Rightarrow> string" where
  "mux_cleanPath p =
    (if p = [] then ''/''
     else (let p = (if hd p = CHR ''/'' then p else CHR ''/'' # p); np = filepath_Clean p
           in if last p = CHR ''/'' \<and> np \<noteq> ''/'' then np @ ''/'' else np))"

definition method_matches :: "string \<Rightarrow> string \<Rightarrow> bool" where
  "method_matches pat m \<longleftrightarrow> pat = [] \<or> pat = m \<or> (pat = ''GET'' \<and> m = ''HEAD'')"

type_synonym 'a mux = "(string \<times> string \<times> 'a handler) list"

definition mux_allowed :: "'a mux \<Rightarrow> string \<Rightarrow> string list" where
  "mux_allowed mux path = concat (map (\<lambda>(m, p, h). if p = path then (if m = ''GET'' then [''GET'', ''HEAD''] else [m]) else []) mux)"

fun comma_space :: "string list \<Rightarrow> string" where
  "comma_space [] = []"
| "comma_space [x] = x"
| "comma_space (x # xs) = x @ '', '' @ comma_space xs"

definition mux_ServeHTTP :: "'a mux \<Rightarrow> 'a handler" where
  "mux_ServeHTTP mux w r c s =
    (let path = mux_cleanPath (rq_Path r) in
     if rq_Method r \<noteq> ''CONNECT'' \<and> path \<noteq> rq_Path r
     then returns (WriteHeader w 301 (set_header ''Location'' path c)) s
     else (case find (\<lambda>(m, p, h). method_matches m (rq_Method r) \<and> p = rq_Path r) mux of
         Some (m, p, h) \<Rightarrow> h w r c s
       | None \<Rightarrow> if mux_allowed mux (rq_Path r) \<noteq> []
           then returns (http_Error w ''Method Not Allowed'' 405 (set_header ''Allow'' (comma_space (mux_allowed mux (rq_Path r))) c)) s
           else returns (http_Error w ''404 page not found'' 404 c) s))"

record 'a RouterConfig =
  rc_MetricsRegistry :: "'a handler option"
  rc_A2AHandler :: "'a handler option"
  rc_MCPHandler :: "'a handler option"
  rc_AgentCardHandler :: "'a handler option"
  rc_AuthMiddleware :: "('a handler \<Rightarrow> 'a handler) option"
  rc_PreAuthMiddleware :: "('a handler \<Rightarrow> 'a handler) option"
  rc_PostAuthMiddleware :: "('a handler \<Rightarrow> 'a handler) option"
  rc_ReadyChecker :: "('a server \<Rightarrow> bool) option"
  rc_MaxPayloadBytes :: int
  rc_Draining :: bool

definition RouterConfig_validate :: "'a RouterConfig \<Rightarrow> goerr option" where
  "RouterConfig_validate c =
    (if rc_MetricsRegistry c = None then Some (Errorf ''MetricsRegistry is required'' [])
     else if rc_A2AHandler c = None then Some (Errorf ''A2AHandler is required'' [])
     else if rc_MCPHandler c = None then Some (Errorf ''MCPHandler is required'' [])
     else if rc_AgentCardHandler c = None then Some (Errorf ''AgentCardHandler is required'' [])
     else if rc_AuthMiddleware c = None then Some (Errorf ''AuthMiddleware is required'' [])
     else if rc_ReadyChecker c = None then Some (Errorf ''ReadyChecker is required'' [])
     else None)"

text \<open>The two protected chains, innermost first.\<close>

definition protected_chain :: "'a RouterConfig \<Rightarrow> 'a handler \<Rightarrow> 'a handler" where
  "protected_chain cfg h =
    (let maxBytes = (if rc_MaxPayloadBytes cfg \<le> 0 then defaultMaxPayloadBytes else rc_MaxPayloadBytes cfg);
         inner = writeDeadlineMiddleware (maxBodyMiddleware maxBytes (trackSSEConnection h));
         inner = (case rc_PostAuthMiddleware cfg of None \<Rightarrow> inner | Some post \<Rightarrow> post inner);
         chain = the (rc_AuthMiddleware cfg) inner
     in case rc_PreAuthMiddleware cfg of None \<Rightarrow> chain | Some pre \<Rightarrow> pre chain)"

definition router_mux :: "'a RouterConfig \<Rightarrow> 'a mux" where
  "router_mux cfg =
    [(''GET'', ''/healthz'', handleHealthz),
     (''GET'', ''/readyz'', ReadyzHandlerFunc (the (rc_ReadyChecker cfg)) (rc_Draining cfg)),
     (''GET'', ''/metrics'', the (rc_MetricsRegistry cfg)),
     (''GET'', ''/.well-known/agent-card.json'', the (rc_AgentCardHandler cfg)),
     (''POST'', ''/a2a/invoke'', protected_chain cfg (the (rc_A2AHandler cfg))),
     (''POST'', ''/mcp'', protected_chain cfg (the (rc_MCPHandler cfg)))]"

definition NewRouter :: "(nat \<Rightarrow> string) \<Rightarrow> 'a RouterConfig \<Rightarrow> goerr + 'a handler" where
  "NewRouter uuid cfg =
    (case RouterConfig_validate cfg of
       Some e \<Rightarrow> Inl (Wrapf ''invalid router config: %w'' [] e)
     | None \<Rightarrow> Inr (RecoverMiddleware (requestid_handler uuid (metricsMiddleware
         (securityHeadersMiddleware (mux_ServeHTTP (router_mux cfg)))))))"

section \<open>The program's own gates\<close>

text \<open>A middleware that answers a request itself or passes it on.\<close>

definition lift_mw :: "(header \<Rightarrow> HttpRequest \<Rightarrow> 'a server \<Rightarrow> mw_result \<times> 'a server) \<Rightarrow> 'a handler \<Rightarrow> 'a handler" where
  "lift_mw f next w r c s =
    (case f (cn_header c) r s of
       (Denied resp, s) \<Rightarrow> returns (respond w resp c) s
     | (Next r', s) \<Rightarrow> next w r' c s)"

text \<open>The state behind the gates: limiters, token validator with its network, audit trail, application.\<close>

record ('l, 'v, 'n, 'x) front =
  fr_ip :: "'l IPLimiter"
  fr_user :: "'l UserLimiter"
  fr_validator :: 'v
  fr_net :: 'n
  fr_audit :: "Event list"
  fr_app :: 'x

type_synonym ('l, 'b, 'ks, 'p, 'n, 'x) front_server = "('l, ('b, 'ks, 'p) JWTValidator, 'n, 'x) front server"

definition pre_auth ::
  "'l limiter_ops \<Rightarrow> (f64 \<Rightarrow> int) \<Rightarrow> bool \<Rightarrow> header \<Rightarrow> HttpRequest \<Rightarrow> ('l, 'v, 'n, 'x) front server \<Rightarrow>
   mw_result \<times> ('l, 'v, 'n, 'x) front server" where
  "pre_auth ops conv auditor h r s =
    (let fr = hs_rest s in
     case PreAuthMiddlewareWithConfig ops conv auditor True (hs_now s) (fr_ip fr) h r of (out, l) \<Rightarrow>
       (lo_result out, s\<lparr>hs_rest := fr\<lparr>fr_ip := l, fr_audit := fr_audit fr @ lo_audit out\<rparr>\<rparr>))"

definition authenticate ::
  "('t, 'key, 'ks, 'p, 'n) auth_env \<Rightarrow> ('b, 'n, 'ks) breaker_ops \<Rightarrow> ('n, 'ks) jwks_net \<Rightarrow> bool \<Rightarrow> (nat \<Rightarrow> int option) \<Rightarrow>
   header \<Rightarrow> HttpRequest \<Rightarrow> ('l, 'b, 'ks, 'p, 'n, 'x) front_server \<Rightarrow> mw_result \<times> ('l, 'b, 'ks, 'p, 'n, 'x) front_server" where
  "authenticate env cb net auditor rnd h r s =
    (let fr = hs_rest s in
     case MiddlewareWithConfig env cb net auditor True (rnd (hs_nextRef s)) (fr_validator fr) h r (fr_net fr) of (out, v, n) \<Rightarrow>
       (mo_result out, s\<lparr>hs_rest := fr\<lparr>fr_validator := v, fr_net := n, fr_audit := fr_audit fr @ mo_audit out\<rparr>\<rparr>))"

definition post_auth ::
  "'l limiter_ops \<Rightarrow> bool \<Rightarrow> header \<Rightarrow> HttpRequest \<Rightarrow> ('l, 'v, 'n, 'x) front server \<Rightarrow>
   mw_result \<times> ('l, 'v, 'n, 'x) front server" where
  "post_auth ops auditor h r s =
    (let fr = hs_rest s in
     case PostAuthMiddlewareWithConfig ops auditor True (hs_now s) (fr_user fr) h r of (out, l) \<Rightarrow>
       (lo_result out, s\<lparr>hs_rest := fr\<lparr>fr_user := l, fr_audit := fr_audit fr @ lo_audit out\<rparr>\<rparr>))"

section \<open>Gates\<close>

locale gate =
  fixes mw :: "'a handler \<Rightarrow> 'a handler" and decide :: "header \<Rightarrow> HttpRequest \<Rightarrow> 'a server \<Rightarrow> mw_result \<times> 'a server"
  assumes passed: "decide (cn_header c) r s = (Next r', s') \<Longrightarrow> mw next w r c s = next w r' c s'"
    and denied: "decide (cn_header c) r s = (Denied resp, s') \<Longrightarrow> mw next w r c s = returns (respond w resp c) s'"
begin

lemma differs:
  assumes "mw next w r c s \<noteq> mw next' w r c s"
  obtains r' s' where "decide (cn_header c) r s = (Next r', s')" "next w r' c s' \<noteq> next' w r' c s'"
proof -
  obtain m s' where d: "decide (cn_header c) r s = (m, s')" by (rule prod.exhaust)
  then show thesis using assms that by (cases m) (auto simp: passed denied)
qed

end

interpretation pre: gate "lift_mw (pre_auth ops conv auditor)" "pre_auth ops conv auditor" for ops conv auditor
  by unfold_locales (simp_all add: lift_mw_def)

interpretation auth: gate "lift_mw (authenticate env cb net auditor rnd)" "authenticate env cb net auditor rnd"
  for env cb net auditor rnd
  by unfold_locales (simp_all add: lift_mw_def)

interpretation post: gate "lift_mw (post_auth ops auditor)" "post_auth ops auditor" for ops auditor
  by unfold_locales (simp_all add: lift_mw_def)

section \<open>Only authenticated requests reach the protected handlers\<close>

lemma middleware_passed:
  assumes "MiddlewareWithConfig env cb net auditor hist rnd v h r n = (out, v', n')" "mo_result out = Next r'"
  obtains identity token where "header_get (rq_Header r) ''Authorization'' = ''Bearer '' @ token"
    "Validate env cb net v token n = (Inr identity, v', n')" "r' = r\<lparr>rq_Ctx := auth_ctx rnd identity (rq_Ctx r)\<rparr>"
proof -
  let ?h = "header_get (rq_Header r) ''Authorization''"
  have ok: "?h \<noteq> [] \<and> ValidateHeaderValue ?h = None \<and> has_prefix ?h ''Bearer ''"
    using assms by (auto simp: MiddlewareWithConfig_def deny_def Let_def split: if_splits)
  then obtain token where t: "?h = ''Bearer '' @ token" by (auto simp: has_prefix_iff)
  obtain x v1 n1 where v: "Validate env cb net v token n = (x, v1, n1)" by (rule prod_cases3)
  show thesis
  proof (cases x)
    case (Inl e)
    with ok t v assms show thesis by (auto simp: MiddlewareWithConfig_def deny_def Let_def)
  next
    case (Inr i)
    with ok t v assms show thesis by (intro that [OF t]) (auto simp: MiddlewareWithConfig_def Let_def)
  qed
qed

lemma authenticate_Next:
  assumes "authenticate env cb net auditor rnd h r s = (Next r', s')"
  shows "\<exists>identity token. header_get (rq_Header r) ''Authorization'' = ''Bearer '' @ token \<and>
    fst (Validate env cb net (fr_validator (hs_rest s)) token (fr_net (hs_rest s))) = Inr identity \<and>
    UserIdentityFromContext (rq_Ctx r') = Some identity"
proof -
  let ?m = "MiddlewareWithConfig env cb net auditor True (rnd (hs_nextRef s)) (fr_validator (hs_rest s)) h r (fr_net (hs_rest s))"
  obtain out v n where m: "?m = (out, v, n)" by (rule prod_cases3)
  with assms have "mo_result out = Next r'" by (simp add: authenticate_def Let_def)
  from middleware_passed [OF m this] obtain identity token where
    "header_get (rq_Header r) ''Authorization'' = ''Bearer '' @ token"
    "Validate env cb net (fr_validator (hs_rest s)) token (fr_net (hs_rest s)) = (Inr identity, v, n)"
    "r' = r\<lparr>rq_Ctx := auth_ctx (rnd (hs_nextRef s)) identity (rq_Ctx r)\<rparr>" by metis
  moreover have "cx_identity (auth_ctx k identity ctx) = Some identity" for k ctx
    by (simp add: auth_ctx_def WithDeadline_def WithUserIdentity_def Let_def split: option.split)
  ultimately show ?thesis by (auto simp: UserIdentityFromContext_def)
qed

lemma pre_auth_Next:
  assumes "pre_auth ops conv auditor h r s = (Next r', s')"
  shows "r' = r \<and> fr_validator (hs_rest s') = fr_validator (hs_rest s) \<and> fr_net (hs_rest s') = fr_net (hs_rest s)"
  using assms by (auto simp: pre_auth_def PreAuthMiddlewareWithConfig_def Let_def split: prod.splits bool.splits)

text \<open>The outer middlewares only pass a difference of their inner handlers on.\<close>

lemma outer_differs:
  assumes "RecoverMiddleware (requestid_handler uuid (metricsMiddleware (securityHeadersMiddleware f))) w r c s \<noteq>
    RecoverMiddleware (requestid_handler uuid (metricsMiddleware (securityHeadersMiddleware g))) w r c s"
  obtains w' i c' where "f w' (r\<lparr>rq_Ctx := (rq_Ctx r)\<lparr>cx_requestID := Some i\<rparr>\<rparr>) c' (s\<lparr>hs_nextRef := hs_nextRef s + 1\<rparr>) \<noteq>
    g w' (r\<lparr>rq_Ctx := (rq_Ctx r)\<lparr>cx_requestID := Some i\<rparr>\<rparr>) c' (s\<lparr>hs_nextRef := hs_nextRef s + 1\<rparr>)"
proof -
  obtain i h where q: "requestid_Middleware (uuid (hs_nextRef s)) r (cn_header c) =
      (r\<lparr>rq_Ctx := (rq_Ctx r)\<lparr>cx_requestID := Some i\<rparr>\<rparr>, h)"
    by (simp add: requestid_Middleware_def Let_def)
  show thesis
  proof (rule ccontr)
    assume n: "\<not> thesis"
    then have "f w' (r\<lparr>rq_Ctx := (rq_Ctx r)\<lparr>cx_requestID := Some i\<rparr>\<rparr>) c' (s\<lparr>hs_nextRef := hs_nextRef s + 1\<rparr>) =
      g w' (r\<lparr>rq_Ctx := (rq_Ctx r)\<lparr>cx_requestID := Some i\<rparr>\<rparr>) c' (s\<lparr>hs_nextRef := hs_nextRef s + 1\<rparr>)" for w' c'
      using that by blast
    with assms q show False
      by (simp add: RecoverMiddleware_def requestid_handler_def metricsMiddleware_def securityHeadersMiddleware_def)
  qed
qed

lemma mux_differs:
  assumes "mux_ServeHTTP (router_mux cfg) w r c s \<noteq>
    mux_ServeHTTP (router_mux (cfg\<lparr>rc_A2AHandler := Some a, rc_MCPHandler := Some m\<rparr>)) w r c s"
  obtains h h' where "rq_Method r = ''POST''" "rq_Path r \<in> {''/a2a/invoke'', ''/mcp''}"
    "protected_chain cfg h w r c s \<noteq> protected_chain cfg h' w r c s"
proof -
  have pc: "protected_chain (cfg\<lparr>rc_A2AHandler := Some a, rc_MCPHandler := Some m\<rparr>) h = protected_chain cfg h" for h
    by (simp add: protected_chain_def Let_def split: option.split)
  show thesis using assms that
    by (auto simp: mux_ServeHTTP_def router_mux_def pc method_matches_def mux_allowed_def Let_def split: if_splits)
qed

text \<open>
  C3: the answer of the server to a request depends on what is mounted behind the protected routes only
  if the request is a POST to one of the two protected paths, carries a bearer token and the validator
  accepts that token: exchange both protected handlers for any others, and every request that is not
  authenticated is answered the same, with the same effects.
\<close>
theorem protected_routes_authenticated:
  assumes "NewRouter uuid cfg = Inr h" "NewRouter uuid (cfg\<lparr>rc_A2AHandler := Some a, rc_MCPHandler := Some m\<rparr>) = Inr h'"
    and "rc_AuthMiddleware cfg = Some (lift_mw (authenticate env cb net auditor rnd))"
    and "rc_PreAuthMiddleware cfg = Some (lift_mw (pre_auth ops conv auditor))"
    and "h w r c s \<noteq> h' w r c s"
  shows "rq_Method r = ''POST'' \<and> rq_Path r \<in> {''/a2a/invoke'', ''/mcp''} \<and>
    (\<exists>token identity. header_get (rq_Header r) ''Authorization'' = ''Bearer '' @ token \<and>
      fst (Validate env cb net (fr_validator (hs_rest s)) token (fr_net (hs_rest s))) = Inr identity)"
proof -
  from assms(1,2,5) obtain w' i c' where d: "mux_ServeHTTP (router_mux cfg) w' (r\<lparr>rq_Ctx := (rq_Ctx r)\<lparr>cx_requestID := Some i\<rparr>\<rparr>) c'
      (s\<lparr>hs_nextRef := hs_nextRef s + 1\<rparr>) \<noteq> mux_ServeHTTP (router_mux (cfg\<lparr>rc_A2AHandler := Some a, rc_MCPHandler := Some m\<rparr>)) w'
      (r\<lparr>rq_Ctx := (rq_Ctx r)\<lparr>cx_requestID := Some i\<rparr>\<rparr>) c' (s\<lparr>hs_nextRef := hs_nextRef s + 1\<rparr>)"
    by (auto simp: NewRouter_def split: option.splits elim: outer_differs)
  define r1 where "r1 = r\<lparr>rq_Ctx := (rq_Ctx r)\<lparr>cx_requestID := Some i\<rparr>\<rparr>"
  define s1 where "s1 = s\<lparr>hs_nextRef := hs_nextRef s + 1\<rparr>"
  from mux_differs [OF d [folded r1_def s1_def]] obtain f g where p: "rq_Method r1 = ''POST''" "rq_Path r1 \<in> {''/a2a/invoke'', ''/mcp''}"
    "protected_chain cfg f w' r1 c' s1 \<noteq> protected_chain cfg g w' r1 c' s1" by blast
  then obtain f' g' where "lift_mw (pre_auth ops conv auditor) (lift_mw (authenticate env cb net auditor rnd) f') w' r1 c' s1 \<noteq>
      lift_mw (pre_auth ops conv auditor) (lift_mw (authenticate env cb net auditor rnd) g') w' r1 c' s1"
    using assms(3,4) by (auto simp: protected_chain_def Let_def)
  then obtain r2 s2 where 2: "pre_auth ops conv auditor (cn_header c') r1 s1 = (Next r2, s2)"
    "lift_mw (authenticate env cb net auditor rnd) f' w' r2 c' s2 \<noteq> lift_mw (authenticate env cb net auditor rnd) g' w' r2 c' s2"
    by (rule pre.differs)
  from 2(2) obtain r3 s3 where 3: "authenticate env cb net auditor rnd (cn_header c') r2 s2 = (Next r3, s3)"
    by (rule auth.differs)
  show ?thesis using authenticate_Next [OF 3] pre_auth_Next [OF 2(1)] p(1,2) by (auto simp: r1_def s1_def)
qed

text \<open>A server with an open limiter and the sample validator; its protected handlers do nothing.\<close>

definition open_ops :: "unit limiter_ops" where
  "open_ops = \<lparr>lm_new = (\<lambda>_ _. ()), lm_allow = (\<lambda>_ l. (True, l)), lm_set_limit = (\<lambda>_ l. l), lm_set_burst = (\<lambda>_ l. l)\<rparr>"

definition demo_server :: "(unit, nat, unit, bool, gotime, unit) front_server" where
  "demo_server = \<lparr>hs_tracker = None, hs_nextRef = 0, hs_now = 5, hs_draining = False, hs_requests = [], hs_panics = 0,
     hs_rest = \<lparr>fr_ip = NewIPLimiter (rl_PerIP ratelimit_DefaultConfig), fr_user = NewUserLimiter (rl_PerUser ratelimit_DefaultConfig),
       fr_validator = sample_validator True 600, fr_net = 5, fr_audit = [], fr_app = ()\<rparr>\<rparr>"

definition demo_auth :: "(unit, (nat, unit, bool) JWTValidator, gotime, unit) front handler \<Rightarrow> (unit, (nat, unit, bool) JWTValidator, gotime, unit) front handler" where
  "demo_auth = lift_mw (authenticate sample_env trip3 sample_net True (\<lambda>_. Some 3))"

definition demo_router :: "(unit, (nat, unit, bool) JWTValidator, gotime, unit) front RouterConfig" where
  "demo_router = \<lparr>rc_MetricsRegistry = Some handleHealthz, rc_A2AHandler = Some (\<lambda>w r. returns), rc_MCPHandler = Some (\<lambda>w r. returns),
     rc_AgentCardHandler = Some handleHealthz, rc_AuthMiddleware = Some demo_auth,
     rc_PreAuthMiddleware = Some (lift_mw (pre_auth open_ops (\<lambda>_. 0) True)), rc_PostAuthMiddleware = None,
     rc_ReadyChecker = Some (\<lambda>_. True), rc_MaxPayloadBytes = 0, rc_Draining = True\<rparr>"

definition mcp_request :: HttpRequest where
  "mcp_request = bearer_request\<lparr>rq_Method := ''POST''\<rparr>"

definition late_handler :: "'a handler" where
  "late_handler w r c s = returns c (s\<lparr>hs_now := 99\<rparr>)"

lemma demo_mux: "mux_cleanPath ''/mcp'' = ''/mcp''"
  by code_simp

lemma demo_pre: "pre_auth open_ops conv auditor h r s = (Next r, s\<lparr>hs_rest := (hs_rest s)\<lparr>fr_ip :=
    snd (IPLimiter_Allow open_ops (hs_now s) (ExtractClientIP r) (fr_ip (hs_rest s)))\<rparr>\<rparr>)"
  by (simp add: pre_auth_def PreAuthMiddlewareWithConfig_def IPLimiter_Allow_def table_allow_def open_ops_def Let_def)

lemma demo_authenticate:
  assumes "rq_Header r = rq_Header bearer_request" "fr_validator (hs_rest s) = sample_validator True 600" "fr_net (hs_rest s) = 5"
  shows "\<exists>r' fr. authenticate sample_env trip3 sample_net True rnd h r s = (Next r', s\<lparr>hs_rest := fr\<rparr>)"
proof -
  have s: "ValidateHeaderValue ''Bearer t1'' = None"
    by (simp add: ValidateHeaderValue_def runes_ascii_Cons is_control_def)
  then show ?thesis using assms sample_run [of 600]
    by (simp add: authenticate_def MiddlewareWithConfig_def bearer_request_def Let_def) blast
qed

lemma demo_chain:
  assumes "rq_Header r = rq_Header bearer_request" "fr_validator (hs_rest s) = sample_validator True 600" "fr_net (hs_rest s) = 5"
    and "hs_tracker s = None"
  shows "\<exists>w' r' c' fr. protected_chain demo_router f w r c s = f w' r' c' (s\<lparr>hs_rest := fr\<rparr>)"
proof -
  let ?s = "s\<lparr>hs_rest := (hs_rest s)\<lparr>fr_ip := snd (IPLimiter_Allow open_ops (hs_now s) (ExtractClientIP r) (fr_ip (hs_rest s)))\<rparr>\<rparr>"
  have "\<exists>r' fr. authenticate sample_env trip3 sample_net True (\<lambda>_. Some 3) (cn_header c) r ?s = (Next r', ?s\<lparr>hs_rest := fr\<rparr>)"
    using assms by (intro demo_authenticate) simp_all
  then obtain r' fr where a: "authenticate sample_env trip3 sample_net True (\<lambda>_. Some 3) (cn_header c) r ?s = (Next r', s\<lparr>hs_rest := fr\<rparr>)"
    by auto
  show ?thesis using assms(4) a
    by (auto simp: protected_chain_def demo_router_def demo_auth_def lift_mw_def demo_pre writeDeadlineMiddleware_def
        maxBodyMiddleware_def trackSSEConnection_def Let_def)
qed

lemma demo_mcp:
  assumes "rq_Header r = rq_Header bearer_request" "rq_Method r = ''POST''" "rq_Path r = ''/mcp''"
    and "fr_validator (hs_rest s) = sample_validator True 600" "fr_net (hs_rest s) = 5" "hs_tracker s = None" "hs_now s = 5"
  shows "\<exists>c' s'. mux_ServeHTTP (router_mux demo_router) w r c s = (None, c', s') \<and> hs_now s' = 5"
    and "\<exists>c' s'. mux_ServeHTTP (router_mux (demo_router\<lparr>rc_A2AHandler := Some late_handler, rc_MCPHandler := Some late_handler\<rparr>)) w r c s
           = (None, c', s') \<and> hs_now s' = 99"
proof -
  have p: "protected_chain (demo_router\<lparr>rc_A2AHandler := x, rc_MCPHandler := y\<rparr>) = protected_chain demo_router" for x y
    by (intro ext) (simp add: protected_chain_def Let_def demo_router_def)
  note m = mux_ServeHTTP_def router_mux_def assms(2,3) demo_mux method_matches_def Let_def
  obtain w1 r1 c1 f1 where "protected_chain demo_router (\<lambda>w r. returns) w r c s = returns c1 (s\<lparr>hs_rest := f1\<rparr>)"
    using demo_chain [OF assms(1,4-6)] by metis
  then show "\<exists>c' s'. mux_ServeHTTP (router_mux demo_router) w r c s = (None, c', s') \<and> hs_now s' = 5"
    using assms(7) by (simp add: m) (simp add: demo_router_def returns_def)
  obtain w2 r2 c2 f2 where "protected_chain demo_router late_handler w r c s = late_handler w2 r2 c2 (s\<lparr>hs_rest := f2\<rparr>)"
    using demo_chain [OF assms(1,4-6)] by metis
  then show "\<exists>c' s'. mux_ServeHTTP (router_mux (demo_router\<lparr>rc_A2AHandler := Some late_handler, rc_MCPHandler := Some late_handler\<rparr>)) w r c s
      = (None, c', s') \<and> hs_now s' = 99"
    by (simp add: m p) (simp add: late_handler_def returns_def)
qed

lemma demo_outer:
  assumes "\<And>w c i. \<exists>c' s'. f w (r\<lparr>rq_Ctx := (rq_Ctx r)\<lparr>cx_requestID := Some i\<rparr>\<rparr>) c (s\<lparr>hs_nextRef := hs_nextRef s + 1\<rparr>) = (None, c', s') \<and> hs_now s' = t"
  shows "hs_now (snd (snd (RecoverMiddleware (requestid_handler uuid (metricsMiddleware (securityHeadersMiddleware f))) w r c s))) = t"
proof -
  obtain i h where q: "requestid_Middleware (uuid (hs_nextRef s)) r (cn_header c) = (r\<lparr>rq_Ctx := (rq_Ctx r)\<lparr>cx_requestID := Some i\<rparr>\<rparr>, h)"
    by (simp add: requestid_Middleware_def Let_def)
  define c1 where "c1 = set_header ''Strict-Transport-Security'' ''max-age=63072000; includeSubDomains''
      (set_header ''Cache-Control'' ''no-store'' (set_header ''X-Frame-Options'' ''DENY''
        (set_header ''X-Content-Type-Options'' ''nosniff'' (c\<lparr>cn_header := h, cn_recorded := 200\<rparr>))))"
  obtain c' s' where "f (StatusRecorder w) (r\<lparr>rq_Ctx := (rq_Ctx r)\<lparr>cx_requestID := Some i\<rparr>\<rparr>) c1 (s\<lparr>hs_nextRef := hs_nextRef s + 1\<rparr>) = (None, c', s')"
    "hs_now s' = t" using assms by blast
  then show ?thesis using q
    by (simp add: RecoverMiddleware_def requestid_handler_def metricsMiddleware_def securityHeadersMiddleware_def flip: c1_def)
qed

definition demo_routes :: "(unit, (nat, unit, bool) JWTValidator, gotime, unit) front RouterConfig \<Rightarrow> (unit, (nat, unit, bool) JWTValidator, gotime, unit) front handler" where
  "demo_routes cfg = RecoverMiddleware (requestid_handler (\<lambda>_. ''u-1'') (metricsMiddleware (securityHeadersMiddleware (mux_ServeHTTP (router_mux cfg)))))"

lemma demo_answers:
  "hs_now (snd (snd (demo_routes demo_router BaseWriter mcp_request (new_conn NoDeadline) demo_server))) = 5"
  "hs_now (snd (snd (demo_routes (demo_router\<lparr>rc_A2AHandler := Some late_handler, rc_MCPHandler := Some late_handler\<rparr>)
     BaseWriter mcp_request (new_conn NoDeadline) demo_server))) = 99"
  unfolding demo_routes_def
  by (rule demo_outer, rule demo_mcp; simp add: mcp_request_def bearer_request_def sample_request_def demo_server_def)+

theorem protected_routes_authenticated_witness:
  "\<exists>token identity. header_get (rq_Header mcp_request) ''Authorization'' = ''Bearer '' @ token \<and>
     fst (Validate sample_env trip3 sample_net (fr_validator (hs_rest demo_server)) token (fr_net (hs_rest demo_server))) = Inr identity"
proof -
  have n: "NewRouter (\<lambda>_. ''u-1'') demo_router = Inr (demo_routes demo_router)"
    "NewRouter (\<lambda>_. ''u-1'') (demo_router\<lparr>rc_A2AHandler := Some late_handler, rc_MCPHandler := Some late_handler\<rparr>) =
       Inr (demo_routes (demo_router\<lparr>rc_A2AHandler := Some late_handler, rc_MCPHandler := Some late_handler\<rparr>))"
    by (simp_all add: NewRouter_def RouterConfig_validate_def demo_router_def demo_routes_def)
  have a: "rc_AuthMiddleware demo_router = Some (lift_mw (authenticate sample_env trip3 sample_net True (\<lambda>_. Some 3)))"
    "rc_PreAuthMiddleware demo_router = Some (lift_mw (pre_auth open_ops (\<lambda>_. 0) True))"
    by (simp_all add: demo_router_def demo_auth_def)
  have d: "demo_routes demo_router BaseWriter mcp_request (new_conn NoDeadline) demo_server \<noteq>
    demo_routes (demo_router\<lparr>rc_A2AHandler := Some late_handler, rc_MCPHandler := Some late_handler\<rparr>)
      BaseWriter mcp_request (new_conn NoDeadline) demo_server"
    using demo_answers by auto
  from protected_routes_authenticated [OF n a d] show ?thesis by blast
qed

section \<open>Panics, streaming slots, headers\<close>

lemma WriteHeader_sent: "cn_sent (WriteHeader w code c) = (case cn_sent c of None \<Rightarrow> Some (code, cn_header c) | Some x \<Rightarrow> Some x)"
  by (induction w code c rule: WriteHeader.induct) (auto simp: base_WriteHeader_def split: option.splits)

lemma write_body_sent: "cn_sent (write_body t c) = (case cn_sent c of None \<Rightarrow> Some (200, cn_header c) | Some x \<Rightarrow> Some x)"
  by (auto simp: write_body_def base_WriteHeader_def Let_def split: option.splits)

lemma respond_sent: "cn_sent (respond w resp c) =
    (case cn_sent c of None \<Rightarrow> Some (rs_Status resp, rs_Header resp) | Some x \<Rightarrow> Some x)"
  by (simp add: respond_def write_body_sent WriteHeader_sent split: option.splits)

text \<open>
  No panic leaves the router: a request whose handler panics is counted and answered with the fixed 500
  problem when nothing was sent before, whatever the panic value; what was already sent stays.
\<close>

lemma recover_answers:
  assumes "next w r c s = (Some p, c', s')"
  shows "RecoverMiddleware next w r c s = (None,
      respond w (WriteProblem (cn_header c') 500 ''Internal Server Error'' ''an unexpected internal error occurred'') c',
      s'\<lparr>hs_panics := hs_panics s' + 1\<rparr>)"
    and "cn_sent (fst (snd (RecoverMiddleware next w r c s))) = (case cn_sent c' of Some x \<Rightarrow> Some x
      | None \<Rightarrow> Some (500, header_set ''Content-Type'' ''application/problem+json'' (cn_header c')))"
  using assms by (auto simp: RecoverMiddleware_def respond_sent WriteProblem_def WriteProblemFull_def split: option.split)

lemma recover_no_panic: "fst (RecoverMiddleware next w r c s) = None"
  by (auto simp: RecoverMiddleware_def split: prod.splits option.splits)

lemma router_no_panic: "NewRouter uuid cfg = Inr h \<Longrightarrow> fst (h w r c s) = None"
  by (auto simp: NewRouter_def recover_no_panic split: option.splits)

lemma normalizePath_bounded:
  "normalizePath p \<in> {''/healthz'', ''/readyz'', ''/metrics'', ''/a2a/invoke'', ''/mcp'', ''/.well-known/agent-card.json'', ''unknown''}"
  by (auto simp: normalizePath_def)

definition conn_id :: "HttpRequest \<Rightarrow> string" where
  "conn_id r = (if requestid_FromContext (rq_Ctx r) = [] then rq_RemoteAddr r else requestid_FromContext (rq_Ctx r))"

lemma delete_update_fresh: "k \<notin> fst ` set al \<Longrightarrow> AList.delete k (AList.update k v al) = al"
  by (induction al) (auto simp: delete_update AList.delete_eq filter_id_conv)

text \<open>
  A streaming request whose connection id is not in use either finds the tracker full, is answered
  503 and changes no slot, or runs with a slot of its own; in both cases, and also when its handler
  panics, the tracked connections afterwards are exactly those before the request.
\<close>
lemma sse_slot_released:
  assumes "hs_tracker s = Some t" "tracker_inv t" "conn_id r \<notin> fst ` set (tk_conns t)"
    and "\<And>w r c s. hs_tracker (snd (snd (next w r c s))) = hs_tracker s"
  shows "\<exists>t'. hs_tracker (snd (snd (trackSSEConnection next w r c s))) = Some t' \<and> tk_conns t' = tk_conns t \<and> tracker_inv t' \<and>
    (tk_MaxConnections t > 0 \<and> tracker_Count t \<ge> tk_MaxConnections t \<longrightarrow>
       trackSSEConnection next w r c s = (None, http_Error w ''too many concurrent connections'' 503 c, s\<lparr>hs_nextRef := hs_nextRef s + 1\<rparr>))"
proof (cases "tk_MaxConnections t > 0 \<and> tracker_Count t \<ge> tk_MaxConnections t")
  case True
  then have "tracker_Add cn t = (False, t)" for cn by (simp add: tracker_Add_def tracker_Count_def)
  with True assms(1,2) show ?thesis by (simp add: trackSSEConnection_def Let_def returns_def)
next
  case False
  define k where "k = conn_id r"
  define cn where "cn = \<lparr>tc_ID = k, tc_ref = hs_nextRef s, tc_flusher = is_flusher w\<rparr>"
  obtain t1 where add: "tracker_Add cn t = (True, t1)" and t1: "tk_conns t1 = AList.update k cn (tk_conns t)"
    using False by (auto simp: tracker_Add_def tracker_Count_def cn_def set_gauge_def Let_def split: option.splits)
  obtain p c' s' where n: "next w r (snd (SetWriteDeadline w NoDeadline c)) (s\<lparr>hs_tracker := Some t1, hs_nextRef := hs_nextRef s + 1\<rparr>) = (p, c', s')"
    by (rule prod_cases3)
  have s': "hs_tracker s' = Some t1" 
    using assms(4) [of w r "snd (SetWriteDeadline w NoDeadline c)" "s\<lparr>hs_tracker := Some t1, hs_nextRef := hs_nextRef s + 1\<rparr>"] n by simp
  have run: "trackSSEConnection next w r c s = (p, c', on_tracker (tracker_Remove k) s')"
    using assms(1) add n by (simp add: trackSSEConnection_def Let_def k_def cn_def conn_id_def)
  have "tracker_inv (tracker_Remove k t1)"
    using assms(2) add tracker_inv_step [OF tracker_step.add [of t cn]] tracker_inv_step [OF tracker_step.remove [of t1 k]] by simp
  moreover have "tk_conns (tracker_Remove k t1) = tk_conns t"
    using delete_update_fresh [OF assms(3) [folded k_def]] by (simp add: tracker_Remove_def set_gauge_def t1 Let_def split: option.splits)
  ultimately show ?thesis using False by (auto simp: run on_tracker_def s')
qed

definition tracked_server :: "unit server" where
  "tracked_server = \<lparr>hs_tracker = Some (NewConnectionTracker True 0), hs_nextRef = 0, hs_now = 5, hs_draining = False, hs_requests = [],
     hs_panics = 0, hs_rest = ()\<rparr>"

lemma sse_slot_released_example:
  "\<exists>t'. hs_tracker (snd (snd (trackSSEConnection (\<lambda>w r c s. (Some ''boom'', c, s)) (StatusRecorder BaseWriter) mcp_request
      (new_conn NoDeadline) tracked_server))) = Some t' \<and> tk_conns t' = [] \<and> tracker_inv t'"
proof -
  have "hs_tracker tracked_server = Some (NewConnectionTracker True 0)" "tracker_inv (NewConnectionTracker True 0)"
    "conn_id mcp_request \<notin> fst ` set (tk_conns (NewConnectionTracker True 0))"
    by (simp_all add: tracked_server_def tracker_inv_new) (simp add: NewConnectionTracker_def)
  from sse_slot_released [OF this, of "\<lambda>w r c s. (Some ''boom'', c, s)" "StatusRecorder BaseWriter" "new_conn NoDeadline"]
  show ?thesis by (auto simp: NewConnectionTracker_def)
qed

text \<open>
  Behind the metrics middleware every writer is a \<open>statusRecorder\<close>, on which the deadline calls fail
  silently: neither the 60 s deadline is ever set nor the server's write timeout ever cleared for a
  stream.
\<close>

lemma deadline_untouched:
  "writeDeadlineMiddleware next (StatusRecorder w) = next (StatusRecorder w)"
  "snd (SetWriteDeadline (StatusRecorder w) d c) = c"
  by (intro ext) (simp_all add: writeDeadlineMiddleware_def)

lemma stream_keeps_server_deadline:
  assumes "hs_tracker s = Some t" "tracker_Add \<lparr>tc_ID = conn_id r, tc_ref = hs_nextRef s, tc_flusher = True\<rparr> t = (True, t')"
  shows "writeDeadlineMiddleware (maxBodyMiddleware m (trackSSEConnection (\<lambda>w r c s. (None, c, s)))) (StatusRecorder w) r c s =
    (None, c\<lparr>cn_bodyLimit := Some (case cn_bodyLimit c of None \<Rightarrow> m | Some x \<Rightarrow> min x m)\<rparr>,
     s\<lparr>hs_tracker := Some (tracker_Remove (conn_id r) t'), hs_nextRef := hs_nextRef s + 1\<rparr>)"
  using assms by (simp add: deadline_untouched maxBodyMiddleware_def trackSSEConnection_def conn_id_def on_tracker_def Let_def)

text \<open>Readiness: a draining server answers 503, whatever its checkers say; otherwise all checkers must pass.\<close>

lemma readyz_answer:
  assumes "cn_sent c = None"
  shows "\<exists>h. cn_sent (fst (snd (ReadyzHandlerFunc (AllReady checkers) True w r c s))) =
    Some (if \<not> hs_draining s \<and> (\<forall>k\<in>set checkers. k s) then 200 else 503, h)"
  using assms
  by (auto simp: ReadyzHandlerFunc_def AllReady_def returns_def respond_sent write_body_sent WriteHeader_sent WriteProblem_def
      WriteProblemFull_def list_all_iff)

section \<open>Agent card\<close>

record AgentSkill =
  sk_ID :: string
  sk_Name :: string
  sk_Description :: string

record AgentCardConfig =
  gc_Name :: string
  gc_Description :: string
  gc_URL :: string
  gc_Version :: string
  gc_Skills :: "AgentSkill list option"

definition AgentCardConfig_validate :: "AgentCardConfig \<Rightarrow> goerr option" where
  "AgentCardConfig_validate c =
    (if gc_Name c = [] then Some (Errorf ''name is required'' [])
     else if gc_URL c = [] then Some (Errorf ''URL is required'' []) else None)"

definition obj_text :: "(string \<times> string) list \<Rightarrow> string" where
  "obj_text kvs = ''{'' @ commas (map (\<lambda>(k, t). json_string k @ '':'' @ t) kvs) @ ''}''"

definition arr_text :: "string list \<Rightarrow> string" where
  "arr_text ts = ''['' @ commas ts @ '']''"

definition skill_json :: "AgentSkill \<Rightarrow> string" where
  "skill_json sk = obj_text ([(''id'', json_string (sk_ID sk)), (''name'', json_string (sk_Name sk))] @
     (if sk_Description sk = [] then [] else [(''description'', json_string (sk_Description sk))]))"

text \<open>\<open>a2a_version\<close> is the protocol version constant of the A2A library.\<close>

definition agentCard_json :: "string \<Rightarrow> AgentCardConfig \<Rightarrow> string" where
  "agentCard_json a2a_version cfg = obj_text (
     [(''name'', json_string (gc_Name cfg))] @
     (if gc_Description cfg = [] then [] else [(''description'', json_string (gc_Description cfg))]) @
     [(''url'', json_string (gc_URL cfg)), (''version'', json_string (gc_Version cfg)),
      (''protocolVersion'', json_string a2a_version),
      (''skills'', arr_text (map skill_json (case gc_Skills cfg of None \<Rightarrow> [] | Some sks \<Rightarrow> sks))),
      (''authentication'', obj_text [(''schemes'', arr_text [obj_text [(''scheme'', json_string ''bearer'')]])]),
      (''capabilities'', obj_text [(''streaming'', ''false''), (''pushNotifications'', ''false''), (''stateTransitionHistory'', ''true'')]),
      (''provider'', obj_text [(''organization'', json_string ''kubernaut.ai'')])])"

definition NewAgentCardHandler :: "string \<Rightarrow> AgentCardConfig \<Rightarrow> goerr + 'a handler" where
  "NewAgentCardHandler a2a_version cfg =
    (case AgentCardConfig_validate cfg of
       Some e \<Rightarrow> Inl (Wrapf ''invalid agent card config: %w'' [] e)
     | None \<Rightarrow> Inr (\<lambda>w r c s. returns (write_body (agentCard_json a2a_version cfg)
         (WriteHeader w 200 (set_header ''Content-Type'' ''application/json'' c))) s))"

lemma one_line_obj [simp]: "\<forall>kv\<in>set kvs. one_line (snd kv) \<Longrightarrow> one_line (obj_text kvs)"
  by (force simp: obj_text_def intro!: one_line_commas)

lemma one_line_arr [simp]: "\<forall>t\<in>set ts. one_line t \<Longrightarrow> one_line (arr_text ts)"
  by (auto simp: arr_text_def intro!: one_line_commas)

text \<open>The served card is one line of JSON, whatever its texts are, and does not depend on the request.\<close>

lemma agent_card_served:
  assumes "NewAgentCardHandler v cfg = Inr h" "cn_sent c = None"
  shows "gc_Name cfg \<noteq> [] \<and> gc_URL cfg \<noteq> [] \<and> one_line (agentCard_json v cfg) \<and>
    cn_body (fst (snd (h w r c s))) = cn_body c @ agentCard_json v cfg"
proof -
  have b: "cn_body (WriteHeader w k c) = cn_body c" for w k c
    by (induction w k c rule: WriteHeader.induct) (auto simp: base_WriteHeader_def split: option.split)
  have "one_line (skill_json sk)" for sk by (auto simp: skill_json_def intro!: one_line_obj)
  then have "one_line (agentCard_json v cfg)" by (auto simp: agentCard_json_def intro!: one_line_obj one_line_arr)
  with assms b show ?thesis
    by (auto simp: NewAgentCardHandler_def AgentCardConfig_validate_def returns_def write_body_def base_WriteHeader_def set_header_def
        Let_def split: if_splits option.splits)
qed

end
