(* ===== verification/McpBridge.thy ===== *)
theory McpBridge
  imports HttpRouter
begin

text \<open>
  \<open>internal/handler/mcp_bridge.go\<close>, \<open>mcp.go\<close> and \<open>mcptools.go\<close>: the wrapper every MCP tool runs in (role
  check, rate limit, time limit, concurrency limit, panic recovery, metrics, audit, redaction) and the
  registration of the tools. What a tool does is an argument: a handler works on a world \<open>'w\<close>, which
  also holds the clock, the cancellation of the request and the weighted semaphore of
  \<open>golang.org/x/sync\<close>. Log lines and the observed durations are left out.
\<close>

section \<open>Configuration\<close>

definition defaultToolTimeout :: duration where "defaultToolTimeout = 30 * ns_second"
definition defaultMaxConcurrentTool :: int where "defaultMaxConcurrentTool = 10"

text \<open>Which of the optional collectors are there; the whole struct may be nil.\<close>

record MCPBridgeMetrics =
  mm_ToolCallsTotal :: bool
  mm_ToolCallDuration :: bool
  mm_RBACDeniedTotal :: bool

type_synonym rbac_roles = "string \<Rightarrow> string list option"

record MCPBridgeConfig =
  mb_RBACRoles :: "rbac_roles option"
  mb_Auditor :: bool
  mb_Metrics :: "MCPBridgeMetrics option"
  mb_ToolTimeout :: duration
  mb_MaxConcurrentTools :: int

definition GetToolTimeout :: "MCPBridgeConfig \<Rightarrow> duration" where
  "GetToolTimeout c = (if mb_ToolTimeout c > 0 then mb_ToolTimeout c else defaultToolTimeout)"

definition GetMaxConcurrentTools :: "MCPBridgeConfig \<Rightarrow> int" where
  "GetMaxConcurrentTools c = (if mb_MaxConcurrentTools c > 0 then mb_MaxConcurrentTools c else defaultMaxConcurrentTool)"

section \<open>Roles\<close>

definition allows :: "rbac_roles \<Rightarrow> string \<Rightarrow> string \<Rightarrow> bool" where
  "allows roles grp toolName =
    (case roles grp of None \<Rightarrow> False | Some allowedTools \<Rightarrow> list_ex (\<lambda>t. t = toolName \<or> t = ''*'') allowedTools)"

text \<open>Reading a nil map finds nothing.\<close>

definition checkRBAC :: "Ctx \<Rightarrow> MCPBridgeConfig \<Rightarrow> string \<Rightarrow> goerr option" where
  "checkRBAC ctx cfg toolName =
    (let roles = (case mb_RBACRoles cfg of None \<Rightarrow> (\<lambda>_. None) | Some rs \<Rightarrow> rs) in
     if allows roles ''*'' toolName then None
     else (case UserIdentityFromContext ctx of
         None \<Rightarrow> Some (Errorf ''permission denied: authentication required to invoke %s'' [toolName])
       | Some user \<Rightarrow>
           if list_ex (\<lambda>grp. allows roles grp toolName) (ui_Groups user) then None
           else Some (Errorf ''permission denied: role lacks access to %s'' [toolName])))"

definition usernameFromCtx :: "Ctx \<Rightarrow> string" where
  "usernameFromCtx ctx =
    (case UserIdentityFromContext ctx of
       Some identity \<Rightarrow> if ui_Username identity \<noteq> [] then ui_Username identity else ''system''
     | None \<Rightarrow> ''system'')"

section \<open>State\<close>

text \<open>
  \<open>bd_calls\<close> are the increments of the call counter by (tool, result), \<open>bd_observed\<close> the observations of
  the duration histogram, \<open>bd_denied\<close> the increments of the denial counter.
\<close>

record ('l, 'w) bridge =
  bd_world :: 'w
  bd_limiter :: "'l UserLimiter option"
  bd_calls :: "(string \<times> string) list"
  bd_observed :: "string list"
  bd_denied :: "string list"
  bd_audit :: "Event list"

record CallToolResult =
  ct_Text :: string
  ct_IsError :: bool

datatype 'o tool_outcome = ToolResult 'o | ToolError goerr | ToolPanic string

record ('l, 'o, 'w) tool_env =
  te_clock :: "'w \<Rightarrow> gotime"
  te_cancelled :: "'w \<Rightarrow> bool"
  te_acquire :: "Ctx \<Rightarrow> 'w \<Rightarrow> goerr option \<times> 'w"
  te_release :: "'w \<Rightarrow> 'w"
  te_render :: "goerr \<Rightarrow> string"
  te_marshal :: "'o \<Rightarrow> string option"
  te_ops :: "'l limiter_ops"

definition bridge_recordMetrics :: "MCPBridgeConfig \<Rightarrow> string \<Rightarrow> string \<Rightarrow> ('l, 'w) bridge \<Rightarrow> ('l, 'w) bridge" where
  "bridge_recordMetrics cfg toolName result b =
    (case mb_Metrics cfg of None \<Rightarrow> b | Some m \<Rightarrow>
      (let b = (if mm_ToolCallsTotal m then b\<lparr>bd_calls := bd_calls b @ [(toolName, result)]\<rparr> else b)
       in if mm_ToolCallDuration m then b\<lparr>bd_observed := bd_observed b @ [toolName]\<rparr> else b))"

definition bridge_emitAudit ::
  "Ctx \<Rightarrow> MCPBridgeConfig \<Rightarrow> string \<Rightarrow> EventType \<Rightarrow> (string \<times> string) list \<Rightarrow> ('l, 'w) bridge \<Rightarrow> ('l, 'w) bridge" where
  "bridge_emitAudit ctx cfg toolName eventType extra b =
    (if \<not> mb_Auditor cfg then b
     else (let username = (case UserIdentityFromContext ctx of Some user \<Rightarrow> ui_Username user | None \<Rightarrow> []);
               detail = fold (\<lambda>(k, v). AList.update k v) extra [(''tool'', toolName)]
           in b\<lparr>bd_audit := bd_audit b @ [mk_event eventType [] username [] (Some detail)]\<rparr>))"

definition count_denied :: "MCPBridgeConfig \<Rightarrow> string \<Rightarrow> ('l, 'w) bridge \<Rightarrow> ('l, 'w) bridge" where
  "count_denied cfg toolName b =
    (case mb_Metrics cfg of Some m \<Rightarrow> if mm_RBACDeniedTotal m then b\<lparr>bd_denied := bd_denied b @ [toolName]\<rparr> else b | None \<Rightarrow> b)"

definition tool_error :: "string \<Rightarrow> CallToolResult" where
  "tool_error text = \<lparr>ct_Text = text, ct_IsError = True\<rparr>"

section \<open>The wrapper\<close>

text \<open>The per-user limit: without a limiter every call passes.\<close>

definition tool_rate :: "('l, 'o, 'w) tool_env \<Rightarrow> Ctx \<Rightarrow> ('l, 'w) bridge \<Rightarrow> bool \<times> ('l, 'w) bridge" where
  "tool_rate env ctx b =
    (case bd_limiter b of None \<Rightarrow> (True, b)
     | Some l \<Rightarrow> (case AllowToolCall (te_ops env) (te_clock env (bd_world b)) (usernameFromCtx ctx) l of
         (ok, l) \<Rightarrow> (ok, b\<lparr>bd_limiter := Some l\<rparr>)))"

definition ctx_expired :: "('l, 'o, 'w) tool_env \<Rightarrow> Ctx \<Rightarrow> 'w \<Rightarrow> bool" where
  "ctx_expired env ctx w \<longleftrightarrow> te_cancelled env w \<or> (case cx_deadline ctx of None \<Rightarrow> False | Some d \<Rightarrow> d \<le> te_clock env w)"

text \<open>
  From the acquired semaphore on. The deferred release runs on every way out, before the deferred
  recovery from a panic.
\<close>

definition run_tool ::
  "('l, 'o, 'w) tool_env \<Rightarrow> MCPBridgeConfig \<Rightarrow> string \<Rightarrow> (Ctx \<Rightarrow> 'i \<Rightarrow> 'w \<Rightarrow> 'o tool_outcome \<times> 'w) \<Rightarrow> Ctx \<Rightarrow> Ctx \<Rightarrow> 'i \<Rightarrow>
   ('l, 'w) bridge \<Rightarrow> CallToolResult \<times> ('l, 'w) bridge" where
  "run_tool env cfg toolName handler ctx toolCtx input b =
    (case handler toolCtx input (bd_world b) of (out, w) \<Rightarrow>
      (let b = b\<lparr>bd_world := te_release env w\<rparr> in
       case out of
         ToolPanic p \<Rightarrow> (tool_error ''internal error'',
           bridge_emitAudit ctx cfg toolName EventMCPToolFailed [(''error'', ''internal error'')] (bridge_recordMetrics cfg toolName ''panic'' b))
       | ToolError err \<Rightarrow>
           (let resultLabel = (if ctx_expired env toolCtx w then ''timeout'' else ''error'');
                redacted = RedactError (Some (te_render env err))
            in (tool_error redacted,
                bridge_emitAudit ctx cfg toolName EventMCPToolFailed [(''error'', redacted)] (bridge_recordMetrics cfg toolName resultLabel b)))
       | ToolResult result \<Rightarrow> (case te_marshal env result of
           None \<Rightarrow> (tool_error ''internal error: failed to marshal result'',
             bridge_emitAudit ctx cfg toolName EventMCPToolFailed [(''error'', ''marshal failure'')] (bridge_recordMetrics cfg toolName ''error'' b))
         | Some resultJSON \<Rightarrow> (\<lparr>ct_Text = resultJSON, ct_IsError = False\<rparr>,
             bridge_emitAudit ctx cfg toolName EventMCPToolInvoked [] (bridge_recordMetrics cfg toolName ''success'' b)))))"

definition rate_text :: string where
  "rate_text = ''rate limit exceeded '' @ em_dash @ '' too many tool calls per minute, please retry later''"

definition busy_text :: string where
  "busy_text = ''server busy '' @ em_dash @ '' too many concurrent tool calls, please retry''"

definition wrapTool ::
  "('l, 'o, 'w) tool_env \<Rightarrow> MCPBridgeConfig \<Rightarrow> string \<Rightarrow> (Ctx \<Rightarrow> 'i \<Rightarrow> 'w \<Rightarrow> 'o tool_outcome \<times> 'w) \<Rightarrow> Ctx \<Rightarrow> 'i \<Rightarrow>
   ('l, 'w) bridge \<Rightarrow> CallToolResult \<times> ('l, 'w) bridge" where
  "wrapTool env cfg toolName handler ctx input b =
    (case checkRBAC ctx cfg toolName of
       Some err \<Rightarrow> (tool_error (te_render env err),
         bridge_emitAudit ctx cfg toolName EventMCPToolDenied [] (count_denied cfg toolName (bridge_recordMetrics cfg toolName ''denied'' b)))
     | None \<Rightarrow>
       (case tool_rate env ctx b of
          (False, b) \<Rightarrow> (tool_error rate_text,
            bridge_emitAudit ctx cfg toolName EventMCPToolFailed [(''error'', ''rate_limited'')] (bridge_recordMetrics cfg toolName ''rate_limited'' b))
        | (True, b) \<Rightarrow>
          (let toolCtx = WithDeadline ctx (te_clock env (bd_world b) + GetToolTimeout cfg) in
           case te_acquire env toolCtx (bd_world b) of
             (Some err, w) \<Rightarrow> (tool_error busy_text,
               bridge_emitAudit ctx cfg toolName EventMCPToolFailed [(''error'', ''throttled'')]
                 (bridge_recordMetrics cfg toolName ''throttled'' (b\<lparr>bd_world := w\<rparr>)))
           | (None, w) \<Rightarrow> run_tool env cfg toolName handler ctx toolCtx input (b\<lparr>bd_world := w\<rparr>))))"

section \<open>Registration\<close>

text \<open>
  What the closure given to \<open>registerTool\<close> does before it calls the tool: it makes an impersonating
  client, it uses one of the service clients, or it checks that the data store is there.
\<close>

datatype backend = ViaCluster | ViaKA | ViaKAMCP | ViaDS | NoBackend

record ('c, 'o, 'i, 'w) backends =
  bk_DynFactory :: "Ctx \<Rightarrow> 'w \<Rightarrow> (goerr + 'c) \<times> 'w"
  bk_hasDS :: bool
  bk_cluster :: "string \<Rightarrow> 'c \<Rightarrow> Ctx \<Rightarrow> 'i \<Rightarrow> 'w \<Rightarrow> 'o tool_outcome \<times> 'w"
  bk_other :: "string \<Rightarrow> Ctx \<Rightarrow> 'i \<Rightarrow> 'w \<Rightarrow> 'o tool_outcome \<times> 'w"

definition dispatch :: "('c, 'o, 'i, 'w) backends \<Rightarrow> string \<Rightarrow> backend \<Rightarrow> Ctx \<Rightarrow> 'i \<Rightarrow> 'w \<Rightarrow> 'o tool_outcome \<times> 'w" where
  "dispatch bk name via ctx args w =
    (case via of
       ViaCluster \<Rightarrow> (case bk_DynFactory bk ctx w of
           (Inl err, w) \<Rightarrow> (ToolError err, w)
         | (Inr client, w) \<Rightarrow> bk_cluster bk name client ctx args w)
     | ViaDS \<Rightarrow> if \<not> bk_hasDS bk then (ToolError (Errorf ''datastorage service unavailable'' []), w) else bk_other bk name ctx args w
     | ViaKA \<Rightarrow> bk_other bk name ctx args w
     | ViaKAMCP \<Rightarrow> bk_other bk name ctx args w
     | NoBackend \<Rightarrow> bk_other bk name ctx args w)"

definition bridge_tools :: "(string \<times> string \<times> backend) list" where
  "bridge_tools =
    [(''kubernaut_list_remediations'', ''List active and recent remediations'', ViaCluster),
     (''kubernaut_get_remediation'', ''Get details of a specific remediation'', ViaCluster),
     (''kubernaut_approve'', ''Approve a remediation action'', ViaCluster),
     (''kubernaut_cancel_remediation'', ''Cancel an active remediation'', ViaCluster),
     (''kubernaut_watch'', ''Watch for remediation state changes'', ViaCluster),
     (''kubernaut_start_investigation'', ''Start a new investigation session'', ViaKA),
     (''kubernaut_poll_investigation'', ''Poll an investigation session for updates'', ViaKA),
     (''kubernaut_select_workflow'', ''Select a workflow for an investigation'', ViaKAMCP),
     (''kubernaut_present_decision'', ''Present a decision point requiring user input'', NoBackend),
     (''kubernaut_list_workflows'', ''List available workflows'', ViaDS),
     (''kubernaut_get_remediation_history'', ''Get remediation execution history'', ViaDS),
     (''kubernaut_get_effectiveness'', ''Get remediation effectiveness metrics'', ViaDS),
     (''kubernaut_get_audit_trail'', ''Get audit trail for remediations'', ViaDS),
     (''af_list_events'', ''List Kubernetes events filtered by namespace with optional reason/object filters'', ViaCluster),
     (''af_get_pods'', ''Get pod status summaries including container states and conditions'', ViaCluster),
     (''af_get_workloads'', ''List Deployment and StatefulSet health with replica counts'', ViaCluster),
     (''af_resolve_owner'', ''Trace owner references from a resource to its root workload'', ViaCluster),
     (''af_check_existing_rr'', ''Check for existing non-terminal RemediationRequest by fingerprint'', ViaCluster),
     (''af_create_rr'', ''Create a RemediationRequest with singleflight deduplication'', ViaCluster)]"

type_synonym ('l, 'i, 'w) tool_table = "(string \<times> string \<times> (Ctx \<Rightarrow> 'i \<Rightarrow> ('l, 'w) bridge \<Rightarrow> CallToolResult \<times> ('l, 'w) bridge)) list"

text \<open>The tools given to the server, each wrapped; a nil configuration or nil roles panic.\<close>

definition RegisterTools ::
  "('l, 'o, 'w) tool_env \<Rightarrow> ('c, 'o, 'i, 'w) backends \<Rightarrow> MCPBridgeConfig option \<Rightarrow> goerr + ('l, 'i, 'w) tool_table" where
  "RegisterTools env bk cfg =
    (case cfg of None \<Rightarrow> Inl (Panicked ''RegisterTools: cfg must not be nil'')
     | Some cfg \<Rightarrow>
         if mb_RBACRoles cfg = None then Inl (Panicked ''RegisterTools: RBACRoles must not be nil'')
         else Inr (map (\<lambda>(name, description, via). (name, description, wrapTool env cfg name (dispatch bk name via))) bridge_tools))"

definition mcpToolRegistry :: "(string \<times> string) list" where
  "mcpToolRegistry =
    [(''kubernaut_list_remediations'', ''List active and recent remediations''),
     (''kubernaut_get_remediation'', ''Get details of a specific remediation''),
     (''kubernaut_approve'', ''Approve a remediation action''),
     (''kubernaut_cancel_remediation'', ''Cancel an active remediation''),
     (''kubernaut_watch'', ''Watch for remediation state changes''),
     (''kubernaut_start_investigation'', ''Start a new investigation session''),
     (''kubernaut_poll_investigation'', ''Poll an investigation session for updates''),
     (''kubernaut_select_workflow'', ''Select a workflow for an investigation''),
     (''kubernaut_present_decision'', ''Present a decision point requiring user input''),
     (''kubernaut_list_workflows'', ''List available workflows''),
     (''kubernaut_get_remediation_history'', ''Get remediation execution history''),
     (''kubernaut_get_effectiveness'', ''Get remediation effectiveness metrics''),
     (''kubernaut_get_audit_trail'', ''Get audit trail for remediations''),
     (''af_list_events'', ''List Kubernetes events filtered by namespace with optional reason/object filters''),
     (''af_get_pods'', ''Get pod status summaries including container states and conditions''),
     (''af_get_workloads'', ''List Deployment and StatefulSet health with replica counts''),
     (''af_resolve_owner'', ''Trace owner references from a resource to its root workload''),
     (''af_check_existing_rr'', ''Check for existing non-terminal RemediationRequest by fingerprint''),
     (''af_create_rr'', ''Create a RemediationRequest with singleflight deduplication'')]"

definition DefaultAgentSkills :: "AgentSkill list" where
  "DefaultAgentSkills = map (\<lambda>(n, d). \<lparr>sk_ID = n, sk_Name = n, sk_Description = d\<rparr>) mcpToolRegistry"

section \<open>MCP handler (mcp.go)\<close>

record MCPToolDef =
  td_Name :: string
  td_Description :: string
  td_InputSchema :: jv

definition DefaultMCPTools :: "MCPToolDef list" where
  "DefaultMCPTools = map (\<lambda>(n, d). \<lparr>td_Name = n, td_Description = d,
     td_InputSchema = JObj [(''type'', JStr ''object''), (''properties'', JObj [])]\<rparr>) mcpToolRegistry"

record MCPConfig =
  mk_ServerName :: string
  mk_ServerVersion :: string
  mk_Tools :: "MCPToolDef list option"
  mk_Auditor :: bool
  mk_Enabled :: bool
  mk_Bridge :: "MCPBridgeConfig option"
  mk_SessionTimeout :: duration

definition MCPConfig_validate :: "MCPConfig \<Rightarrow> goerr option" where
  "MCPConfig_validate c =
    (if mk_ServerName c = [] then Some (Errorf ''server name is required'' [])
     else if mk_ServerVersion c = [] then Some (Errorf ''server version is required'' []) else None)"

text \<open>
  A stub tool: the callback (an effect on the world), the audit event, and a fixed answer; \<open>quote\<close> is the
  verb \<open>%q\<close>.
\<close>

definition stub_tool ::
  "(string \<Rightarrow> string) \<Rightarrow> (string \<Rightarrow> 'w \<Rightarrow> 'w) option \<Rightarrow> bool \<Rightarrow> string \<Rightarrow> Ctx \<Rightarrow> 'i \<Rightarrow> ('l, 'w) bridge \<Rightarrow> CallToolResult \<times> ('l, 'w) bridge" where
  "stub_tool quote cb auditor toolName ctx input b =
    (let b = (case cb of None \<Rightarrow> b | Some f \<Rightarrow> b\<lparr>bd_world := f toolName (bd_world b)\<rparr>);
         username = (case UserIdentityFromContext ctx of Some user \<Rightarrow> ui_Username user | None \<Rightarrow> []);
         b = (if auditor then b\<lparr>bd_audit := bd_audit b @ [mk_event EventMCPToolInvoked [] username [] (Some [(''tool'', toolName)])]\<rparr> else b)
     in (\<lparr>ct_Text = ''tool '' @ quote toolName @ '': not yet wired to backend'', ct_IsError = False\<rparr>, b))"

definition registerStubTools :: "(string \<Rightarrow> string) \<Rightarrow> (string \<Rightarrow> 'w \<Rightarrow> 'w) option \<Rightarrow> MCPConfig \<Rightarrow> ('l, 'i, 'w) tool_table" where
  "registerStubTools quote cb cfg =
    map (\<lambda>t. (td_Name t, td_Description t, stub_tool quote cb (mk_Auditor cfg) (td_Name t)))
      (case mk_Tools cfg of None \<Rightarrow> DefaultMCPTools | Some ts \<Rightarrow> ts)"

text \<open>
  \<open>sdk\<close> is the streamable HTTP handler of the MCP library for a server with these tools and the given idle
  timeout (0: none).
\<close>

definition NewMCPHandler ::
  "(string \<Rightarrow> string) \<Rightarrow> (string \<Rightarrow> 'w \<Rightarrow> 'w) option \<Rightarrow> ('l, 'o, 'w) tool_env \<Rightarrow> ('c, 'o, 'i, 'w) backends \<Rightarrow>
   (('l, 'i, 'w) tool_table \<Rightarrow> duration \<Rightarrow> 'a handler) \<Rightarrow> MCPConfig \<Rightarrow> goerr + 'a handler" where
  "NewMCPHandler quote cb env bk sdk cfg =
    (case MCPConfig_validate cfg of
       Some e \<Rightarrow> Inl (Wrapf ''invalid MCP config: %w'' [] e)
     | None \<Rightarrow>
        if \<not> mk_Enabled cfg
        then Inr (\<lambda>w r c s. returns (respond w (WriteProblem (cn_header c) 501 ''Not Implemented'' ''MCP protocol is disabled in configuration'') c) s)
        else (case (case mk_Bridge cfg of Some b \<Rightarrow> RegisterTools env bk (Some b) | None \<Rightarrow> Inr (registerStubTools quote cb cfg)) of
            Inl e \<Rightarrow> Inl e
          | Inr tools \<Rightarrow> Inr (sdk tools (if mk_SessionTimeout cfg > 0 then mk_SessionTimeout cfg else 0))))"

section \<open>Role check\<close>

text \<open>Reference: the groups of a caller, with the wildcard group that everybody is in.\<close>

definition permitted :: "rbac_roles \<Rightarrow> Ctx \<Rightarrow> string \<Rightarrow> bool" where
  "permitted roles ctx tool \<longleftrightarrow>
     (\<exists>g tools. (g = ''*'' \<or> (\<exists>user. UserIdentityFromContext ctx = Some user \<and> g \<in> set (ui_Groups user))) \<and>
        roles g = Some tools \<and> (tool \<in> set tools \<or> ''*'' \<in> set tools))"

lemma allows_iff: "allows roles g tool \<longleftrightarrow> (\<exists>tools. roles g = Some tools \<and> (tool \<in> set tools \<or> ''*'' \<in> set tools))"
  by (auto simp: allows_def list_ex_iff split: option.splits)

lemma checkRBAC_iff: "mb_RBACRoles cfg = Some roles \<Longrightarrow> checkRBAC ctx cfg tool = None \<longleftrightarrow> permitted roles ctx tool"
  by (auto simp: checkRBAC_def permitted_def list_ex_iff allows_iff Let_def split: option.splits)

text \<open>The wildcard group is checked before the identity, so it also admits callers without one.\<close>

lemma wildcard_admits_anonymous:
  "mb_RBACRoles cfg = Some roles \<Longrightarrow> roles ''*'' = Some [''*''] \<Longrightarrow> checkRBAC background cfg tool = None"
  by (simp add: checkRBAC_def allows_def)

text \<open>
  What a role check promises: a user has the tools of a caller without groups and those of each of the
  user's groups, and no other. The MCP bridge and the agent each have such a check.
\<close>

locale role_policy =
  fixes permits :: "string list \<Rightarrow> string \<Rightarrow> bool"
  assumes by_group: "permits groups tool \<longleftrightarrow> permits [] tool \<or> (\<exists>g\<in>set groups. permits [g] tool)"
begin

lemma joining_keeps: "set groups \<subseteq> set groups' \<Longrightarrow> permits groups tool \<Longrightarrow> permits groups' tool"
  using by_group [of groups tool] by_group [of groups' tool] by blast

lemma order_irrelevant: "set groups = set groups' \<Longrightarrow> permits groups tool \<longleftrightarrow> permits groups' tool"
  using joining_keeps [of groups groups' tool] joining_keeps [of groups' groups tool] by blast

lemma union_of_groups: "permits (groups @ groups') tool \<longleftrightarrow> permits groups tool \<or> permits groups' tool"
  using by_group [of "groups @ groups'" tool] by_group [of groups tool] by_group [of groups' tool] by auto

end

abbreviation "member u groups ctx \<equiv> WithUserIdentity ctx (Some (u\<lparr>ui_Groups := groups\<rparr>))"

interpretation bridge_roles: role_policy "\<lambda>groups tool. checkRBAC (member u groups ctx) cfg tool = None" for u ctx cfg
  by unfold_locales (auto simp: checkRBAC_def list_ex_iff Let_def WithUserIdentity_def UserIdentityFromContext_def split: option.split)

section \<open>The ways through the wrapper\<close>

definition tool_ctx :: "('l, 'o, 'w) tool_env \<Rightarrow> MCPBridgeConfig \<Rightarrow> Ctx \<Rightarrow> 'w \<Rightarrow> Ctx" where
  "tool_ctx env cfg ctx w = WithDeadline ctx (te_clock env w + GetToolTimeout cfg)"

lemma tool_rate_world: "bd_world (snd (tool_rate env ctx b)) = bd_world b"
  by (simp add: tool_rate_def split: option.split prod.split)

lemma wrapTool_cases:
  obtains (denied) err where "checkRBAC ctx cfg tool = Some err"
      "wrapTool env cfg tool h ctx i b = (tool_error (te_render env err),
         bridge_emitAudit ctx cfg tool EventMCPToolDenied [] (count_denied cfg tool (bridge_recordMetrics cfg tool ''denied'' b)))"
  | (limited) b1 where "checkRBAC ctx cfg tool = None" "tool_rate env ctx b = (False, b1)"
      "wrapTool env cfg tool h ctx i b = (tool_error rate_text,
         bridge_emitAudit ctx cfg tool EventMCPToolFailed [(''error'', ''rate_limited'')] (bridge_recordMetrics cfg tool ''rate_limited'' b1))"
  | (throttled) b1 err w where "checkRBAC ctx cfg tool = None" "tool_rate env ctx b = (True, b1)"
      "te_acquire env (tool_ctx env cfg ctx (bd_world b)) (bd_world b) = (Some err, w)"
      "wrapTool env cfg tool h ctx i b = (tool_error busy_text,
         bridge_emitAudit ctx cfg tool EventMCPToolFailed [(''error'', ''throttled'')] (bridge_recordMetrics cfg tool ''throttled'' (b1\<lparr>bd_world := w\<rparr>)))"
  | (run) b1 w where "checkRBAC ctx cfg tool = None" "tool_rate env ctx b = (True, b1)"
      "te_acquire env (tool_ctx env cfg ctx (bd_world b)) (bd_world b) = (None, w)"
      "\<And>h. wrapTool env cfg tool h ctx i b =
         run_tool env cfg tool h ctx (tool_ctx env cfg ctx (bd_world b)) i (b1\<lparr>bd_world := w\<rparr>)"
proof (cases "checkRBAC ctx cfg tool")
  case (Some err) then show thesis by (intro denied) (auto simp: wrapTool_def)
next
  case r: None
  obtain ok b1 where t: "tool_rate env ctx b = (ok, b1)" by (rule prod.exhaust)
  have w1: "bd_world b1 = bd_world b" using tool_rate_world [of env ctx b] t by simp
  show thesis
  proof (cases ok)
    case False then show thesis using r t by (intro limited) (auto simp: wrapTool_def)
  next
    case True
    obtain e w where a: "te_acquire env (tool_ctx env cfg ctx (bd_world b)) (bd_world b) = (e, w)" by (rule prod.exhaust)
    show thesis
    proof (cases e)
      case None
      show thesis by (rule run [of b1 w]) (use r t True a None w1 in \<open>auto simp: wrapTool_def tool_ctx_def Let_def\<close>)
    next
      case (Some err)
      show thesis by (rule throttled [of b1 err w]) (use r t True a Some w1 in \<open>auto simp: wrapTool_def tool_ctx_def Let_def\<close>)
    qed
  qed
qed

text \<open>
  C4: what a tool handler is plugged in makes a difference to a call, in its answer or in any effect, only
  if the caller is permitted by the roles (its own groups or the wildcard group), is within its rate
  limit, and got a slot of the concurrency limit: no other call reaches the handler.
\<close>
theorem tool_call_gate:
  assumes "mb_RBACRoles cfg = Some roles" and "wrapTool env cfg tool h1 ctx i b \<noteq> wrapTool env cfg tool h2 ctx i b"
  shows "permitted roles ctx tool \<and> fst (tool_rate env ctx b) \<and>
    fst (te_acquire env (tool_ctx env cfg ctx (bd_world b)) (bd_world b)) = None"
proof (cases rule: wrapTool_cases [of ctx cfg tool env h1 i b])
  case (run b1 w)
  with checkRBAC_iff [OF assms(1)] show ?thesis by simp
next
  case denied
  then have "wrapTool env cfg tool h2 ctx i b = wrapTool env cfg tool h1 ctx i b" by (simp add: wrapTool_def)
  with assms(2) show ?thesis by simp
next
  case limited
  then have "wrapTool env cfg tool h2 ctx i b = wrapTool env cfg tool h1 ctx i b" by (simp add: wrapTool_def)
  with assms(2) show ?thesis by simp
next
  case (throttled b1 err w)
  moreover have "bd_world b1 = bd_world b" using tool_rate_world [of env ctx b] throttled(2) by simp
  ultimately have "wrapTool env cfg tool h2 ctx i b = wrapTool env cfg tool h1 ctx i b"
    by (simp add: wrapTool_def tool_ctx_def Let_def)
  with assms(2) show ?thesis by simp
qed

section \<open>Accounting\<close>

lemma bridge_recordMetrics_sel [simp]:
  "bd_audit (bridge_recordMetrics cfg tool l b) = bd_audit b" "bd_world (bridge_recordMetrics cfg tool l b) = bd_world b"
  "bd_limiter (bridge_recordMetrics cfg tool l b) = bd_limiter b" "bd_denied (bridge_recordMetrics cfg tool l b) = bd_denied b"
  by (auto simp: bridge_recordMetrics_def Let_def split: option.split)

lemma count_denied_sel [simp]:
  "bd_audit (count_denied cfg tool b) = bd_audit b" "bd_world (count_denied cfg tool b) = bd_world b"
  "bd_calls (count_denied cfg tool b) = bd_calls b"
  by (auto simp: count_denied_def split: option.split)

lemma emitAudit_sel [simp]:
  "bd_calls (bridge_emitAudit ctx cfg tool ty ex b) = bd_calls b" "bd_world (bridge_emitAudit ctx cfg tool ty ex b) = bd_world b"
  by (auto simp: bridge_emitAudit_def Let_def)

lemma tool_rate_sel: "bd_calls (snd (tool_rate env ctx b)) = bd_calls b" "bd_audit (snd (tool_rate env ctx b)) = bd_audit b"
  by (auto simp: tool_rate_def split: option.split prod.split)

definition tool_event :: "Ctx \<Rightarrow> string \<Rightarrow> EventType \<Rightarrow> Event \<Rightarrow> bool" where
  "tool_event ctx tool ty ev \<longleftrightarrow> ev_Type ev = ty \<and>
     ev_UserID ev = (case UserIdentityFromContext ctx of Some u \<Rightarrow> ui_Username u | None \<Rightarrow> []) \<and>
     (\<exists>d. ev_Detail ev = Some d \<and> map_of d ''tool'' = Some tool)"

text \<open>The step every way out ends with: one counter increment and one audit event.\<close>

lemma account:
  assumes "mb_Auditor cfg" "mb_Metrics cfg = Some m" "mm_ToolCallsTotal m" "\<forall>kv\<in>set ex. fst kv = ''error''" "length ex \<le> 1"
  shows "bd_calls (bridge_recordMetrics cfg tool l b) = bd_calls b @ [(tool, l)]"
    and "\<exists>ev. bd_audit (bridge_emitAudit ctx cfg tool ty ex b) = bd_audit b @ [ev] \<and> tool_event ctx tool ty ev"
proof -
  show "bd_calls (bridge_recordMetrics cfg tool l b) = bd_calls b @ [(tool, l)]"
    using assms(2,3) by (simp add: bridge_recordMetrics_def Let_def)
  have "map_of (fold (\<lambda>(k, v). AList.update k v) ex [(''tool'', tool)]) ''tool'' = Some tool"
  proof (cases ex)
    case (Cons a as)
    then have "ex = [(fst a, snd a)]" "fst a = ''error''" using assms(4,5) by (cases a, auto)
    then show ?thesis by (simp add: case_prod_unfold)
  qed simp
  then show "\<exists>ev. bd_audit (bridge_emitAudit ctx cfg tool ty ex b) = bd_audit b @ [ev] \<and> tool_event ctx tool ty ev"
    using assms(1) by (auto simp: bridge_emitAudit_def tool_event_def Let_def split: option.splits)
qed

definition result_event :: "string \<Rightarrow> EventType" where
  "result_event l = (if l = ''success'' then EventMCPToolInvoked else if l = ''denied'' then EventMCPToolDenied else EventMCPToolFailed)"

definition accounted :: "Ctx \<Rightarrow> string \<Rightarrow> ('l, 'w) bridge \<Rightarrow> CallToolResult \<times> ('l, 'w) bridge \<Rightarrow> bool" where
  "accounted ctx tool b out \<longleftrightarrow>
    (\<exists>l ev. l \<in> {''denied'', ''rate_limited'', ''throttled'', ''panic'', ''timeout'', ''error'', ''success''} \<and>
       bd_calls (snd out) = bd_calls b @ [(tool, l)] \<and> bd_audit (snd out) = bd_audit b @ [ev] \<and>
       tool_event ctx tool (result_event l) ev \<and> (ct_IsError (fst out) \<longleftrightarrow> l \<noteq> ''success''))"

lemma accounted_exit:
  assumes "mb_Auditor cfg" "mb_Metrics cfg = Some m" "mm_ToolCallsTotal m"
    and "bd_calls b' = bd_calls b" "bd_audit b' = bd_audit b" "\<forall>kv\<in>set ex. fst kv = ''error''" "length ex \<le> 1"
    and "l \<in> {''denied'', ''rate_limited'', ''throttled'', ''panic'', ''timeout'', ''error'', ''success''}"
    and "ct_IsError res \<longleftrightarrow> l \<noteq> ''success''" "ty = result_event l"
  shows "accounted ctx tool b (res, bridge_emitAudit ctx cfg tool ty ex (bridge_recordMetrics cfg tool l b'))"
    and "accounted ctx tool b (res, bridge_emitAudit ctx cfg tool ty ex (count_denied cfg tool (bridge_recordMetrics cfg tool l b')))"
proof -
  note calls = account(1) [OF assms(1-3,6,7)] and audit = account(2) [OF assms(1-3,6,7), of ctx tool "result_event l"]
  obtain ev where "bd_audit (bridge_emitAudit ctx cfg tool ty ex (bridge_recordMetrics cfg tool l b')) = bd_audit b @ [ev]"
      "tool_event ctx tool (result_event l) ev"
    using audit [of "bridge_recordMetrics cfg tool l b'"] assms(5,10) by auto
  then show "accounted ctx tool b (res, bridge_emitAudit ctx cfg tool ty ex (bridge_recordMetrics cfg tool l b'))"
    unfolding accounted_def using assms(4,8,9) by (intro exI [of _ l] exI [of _ ev]) (simp add: calls)
  obtain ev where "bd_audit (bridge_emitAudit ctx cfg tool ty ex (count_denied cfg tool (bridge_recordMetrics cfg tool l b'))) = bd_audit b @ [ev]"
      "tool_event ctx tool (result_event l) ev"
    using audit [of "count_denied cfg tool (bridge_recordMetrics cfg tool l b')"] assms(5,10) by auto
  then show "accounted ctx tool b (res, bridge_emitAudit ctx cfg tool ty ex (count_denied cfg tool (bridge_recordMetrics cfg tool l b')))"
    unfolding accounted_def using assms(4,8,9) by (intro exI [of _ l] exI [of _ ev]) (simp add: calls)
qed

lemma run_tool_accounted:
  assumes a: "mb_Auditor cfg" "mb_Metrics cfg = Some m" "mm_ToolCallsTotal m" and b: "bd_calls b' = bd_calls b" "bd_audit b' = bd_audit b"
  shows "accounted ctx tool b (run_tool env cfg tool h ctx tc i b')"
proof -
  obtain out w where h: "h tc i (bd_world b') = (out, w)" by (rule prod.exhaust)
  have r: "run_tool env cfg tool h ctx tc i b' = (case out of
         ToolPanic p \<Rightarrow> (tool_error ''internal error'',
           bridge_emitAudit ctx cfg tool EventMCPToolFailed [(''error'', ''internal error'')] (bridge_recordMetrics cfg tool ''panic'' (b'\<lparr>bd_world := te_release env w\<rparr>)))
       | ToolError err \<Rightarrow> (tool_error (RedactError (Some (te_render env err))),
           bridge_emitAudit ctx cfg tool EventMCPToolFailed [(''error'', RedactError (Some (te_render env err)))]
             (bridge_recordMetrics cfg tool (if ctx_expired env tc w then ''timeout'' else ''error'') (b'\<lparr>bd_world := te_release env w\<rparr>)))
       | ToolResult result \<Rightarrow> (case te_marshal env result of
           None \<Rightarrow> (tool_error ''internal error: failed to marshal result'',
             bridge_emitAudit ctx cfg tool EventMCPToolFailed [(''error'', ''marshal failure'')] (bridge_recordMetrics cfg tool ''error'' (b'\<lparr>bd_world := te_release env w\<rparr>)))
         | Some t \<Rightarrow> (\<lparr>ct_Text = t, ct_IsError = False\<rparr>,
             bridge_emitAudit ctx cfg tool EventMCPToolInvoked [] (bridge_recordMetrics cfg tool ''success'' (b'\<lparr>bd_world := te_release env w\<rparr>)))))"
    by (simp add: run_tool_def h Let_def split: tool_outcome.split)
  show ?thesis
  proof (cases out)
    case (ToolResult v)
    show ?thesis unfolding r ToolResult tool_outcome.case
      by (cases "te_marshal env v") (simp_all, (rule accounted_exit(1) [OF a]; simp add: b result_event_def tool_error_def)+)
  next
    case (ToolError e)
    show ?thesis unfolding r ToolError tool_outcome.case
      by (rule accounted_exit(1) [OF a]; simp add: b result_event_def tool_error_def)
  next
    case (ToolPanic p)
    show ?thesis unfolding r ToolPanic tool_outcome.case
      by (rule accounted_exit(1) [OF a]; simp add: b result_event_def tool_error_def)
  qed
qed

text \<open>
  C20: with metrics and an auditor configured, every tool call, on every way out (denied, rate limited,
  throttled, panicked, timed out, failed, not serialisable, successful), increments the call counter
  exactly once and emits exactly one audit event, which names the tool and the caller; the event type,
  the result label and the error flag of the answer agree.
\<close>
theorem tool_call_accounted:
  assumes "mb_Auditor cfg" "mb_Metrics cfg = Some m" "mm_ToolCallsTotal m"
  shows "accounted ctx tool b (wrapTool env cfg tool h ctx i b)"
proof (cases rule: wrapTool_cases [of ctx cfg tool env h i b])
  case denied
  show ?thesis unfolding denied(2) by (rule accounted_exit(2) [OF assms]; simp add: result_event_def tool_error_def)
next
  case (limited b1)
  with tool_rate_sel [of env ctx b] have s: "bd_calls b1 = bd_calls b" "bd_audit b1 = bd_audit b" by simp_all
  show ?thesis unfolding limited(3) by (rule accounted_exit(1) [OF assms]; simp add: s result_event_def tool_error_def)
next
  case (throttled b1 err w)
  with tool_rate_sel [of env ctx b] have s: "bd_calls b1 = bd_calls b" "bd_audit b1 = bd_audit b" by simp_all
  show ?thesis unfolding throttled(4) by (rule accounted_exit(1) [OF assms]; simp add: s result_event_def tool_error_def)
next
  case (run b1 w)
  with tool_rate_sel [of env ctx b] have s: "bd_calls b1 = bd_calls b" "bd_audit b1 = bd_audit b" by simp_all
  show ?thesis unfolding run(4) by (rule run_tool_accounted [OF assms]) (simp_all add: s)
qed

section \<open>Slots and redaction\<close>

text \<open>\<open>held\<close> counts the slots taken. Every way through the wrapper leaves it as it was.\<close>

lemma wrapTool_releases:
  assumes "\<And>c w w'. te_acquire env c w = (None, w') \<Longrightarrow> held w' = held w + (1::int)"
    and "\<And>c w e w'. te_acquire env c w = (Some e, w') \<Longrightarrow> held w' = held w"
    and "\<And>w. held (te_release env w) = held w - 1"
    and "\<And>c i w. held (snd (h c i w)) = held w"
  shows "held (bd_world (snd (wrapTool env cfg tool h ctx i b))) = held (bd_world b)"
proof (cases rule: wrapTool_cases [of ctx cfg tool env h i b])
  case (limited b1)
  then show ?thesis using tool_rate_world [of env ctx b] by simp
next
  case (throttled b1 err w)
  then show ?thesis using assms(2) by simp
next
  case (run b1 w)
  obtain out w' where h: "h (tool_ctx env cfg ctx (bd_world b)) i w = (out, w')" by (rule prod.exhaust)
  have "bd_world (snd (wrapTool env cfg tool h ctx i b)) = te_release env w'"
    by (simp add: run(4) run_tool_def h Let_def split: tool_outcome.split option.split)
  then show ?thesis using assms(3) assms(4) [of "tool_ctx env cfg ctx (bd_world b)" i w] assms(1) [OF run(3)] h by simp
qed simp

text \<open>What a failing tool tells the client: a panic tells nothing, an error its redacted text of at most 259 bytes.\<close>

lemma tool_failure_text:
  "h tc i (bd_world b) = (ToolPanic p, w) \<Longrightarrow> fst (run_tool env cfg tool h ctx tc i b) = tool_error ''internal error''"
  "h tc i (bd_world b) = (ToolError e, w) \<Longrightarrow>
     fst (run_tool env cfg tool h ctx tc i b) = tool_error (RedactError (Some (te_render env e))) \<and>
     length (ct_Text (fst (run_tool env cfg tool h ctx tc i b))) \<le> 259"
  using RedactError_length [of "Some (te_render env e)"] by (simp_all add: run_tool_def tool_error_def Let_def)

text \<open>The bridge registers exactly the tools the agent card and the stub table advertise, each once.\<close>

lemma tool_registry_consistent:
  "map (\<lambda>(n, d, via). (n, d)) bridge_tools = mcpToolRegistry" "distinct (map fst mcpToolRegistry)" "length mcpToolRegistry = 19"
  by (simp_all add: bridge_tools_def mcpToolRegistry_def)

lemma RegisterTools_names:
  "RegisterTools env bk (Some cfg) = Inr tools \<Longrightarrow> map (\<lambda>(n, d, f). (n, d)) tools = mcpToolRegistry \<and>
     (\<forall>(n, d, f)\<in>set tools. \<exists>h. f = wrapTool env cfg n h)"
  by (auto simp: RegisterTools_def tool_registry_consistent(1) [symmetric] comp_def case_prod_unfold split: if_splits)

text \<open>A world that is the clock; the semaphore always has room, and a result is its own text.\<close>

definition demo_tool_env :: "(unit, string, gotime) tool_env" where
  "demo_tool_env = \<lparr>te_clock = id, te_cancelled = (\<lambda>_. False), te_acquire = (\<lambda>_ w. (None, w)), te_release = id,
     te_render = (\<lambda>_. ''denied''), te_marshal = Some, te_ops = open_ops\<rparr>"

definition demo_bridge_cfg :: MCPBridgeConfig where
  "demo_bridge_cfg = \<lparr>mb_RBACRoles = Some [''sre'' \<mapsto> [''kubernaut_approve'']], mb_Auditor = True,
     mb_Metrics = Some \<lparr>mm_ToolCallsTotal = True, mm_ToolCallDuration = True, mm_RBACDeniedTotal = True\<rparr>,
     mb_ToolTimeout = 0, mb_MaxConcurrentTools = 0\<rparr>"

definition demo_bridge :: "(unit, gotime) bridge" where
  "demo_bridge = \<lparr>bd_world = 7, bd_limiter = None, bd_calls = [], bd_observed = [], bd_denied = [], bd_audit = []\<rparr>"

definition sre_ctx :: Ctx where
  "sre_ctx = background\<lparr>cx_identity := Some \<lparr>ui_Username = ''alice'', ui_Groups = [''sre''], ui_Issuer = [], ui_RawToken = [], ui_ExpiresAt = None\<rparr>\<rparr>"

lemmas demo_bridge_defs = demo_tool_env_def demo_bridge_cfg_def demo_bridge_def sre_ctx_def background_def

lemma demo_calls_differ:
  "wrapTool demo_tool_env demo_bridge_cfg ''kubernaut_approve'' (\<lambda>_ _ w. (ToolResult ''a'', w)) sre_ctx () demo_bridge \<noteq>
   wrapTool demo_tool_env demo_bridge_cfg ''kubernaut_approve'' (\<lambda>_ _ w. (ToolResult ''b'', w)) sre_ctx () demo_bridge"
  by (simp add: wrapTool_def run_tool_def checkRBAC_def allows_def tool_rate_def UserIdentityFromContext_def demo_bridge_defs Let_def)

theorem tool_call_gate_witness: "permitted [''sre'' \<mapsto> [''kubernaut_approve'']] sre_ctx ''kubernaut_approve''"
  using tool_call_gate [OF _ demo_calls_differ] by (simp add: demo_bridge_cfg_def)

theorem tool_call_accounted_witness:
  "accounted sre_ctx ''kubernaut_watch'' demo_bridge
     (wrapTool demo_tool_env demo_bridge_cfg ''kubernaut_watch'' (\<lambda>_ _ w. (ToolPanic ''x'', w)) sre_ctx () demo_bridge)"
  by (rule tool_call_accounted [of demo_bridge_cfg "the (mb_Metrics demo_bridge_cfg)"]) (simp_all add: demo_bridge_cfg_def)

end
