(* ===== verification/Resilience.thy ===== *)
theory Resilience
  imports AuthMiddleware
begin

text \<open>
  Package \<open>internal/resilience\<close>: the retrying transport, the circuit-breaking transport and the
  circuit-breaking Kubernetes client. The next transport, the context, the timer and the breaker
  library are parameters over a network state \<open>'n\<close>. Backoff is computed in exact arithmetic; the
  rounding of float64 (a relative error of about 2 to the -53) is not modelled.
\<close>

section \<open>Retrying transport (resilience/retry.go)\<close>

record RetryConfig =
  rt_MaxAttempts :: int
  rt_InitialBackoff :: duration
  rt_MaxBackoff :: duration
  rt_RetryableStatuses :: "int list"
  rt_RetryCounter :: bool
  rt_DependencyName :: string
  rt_IdempotentOnly :: bool

text \<open>
  An outbound request: \<open>oq_body\<close> is \<open>None\<close> for a nil or empty body, \<open>oq_getbody\<close> is \<open>None\<close> when the
  request has no \<open>GetBody\<close>, else what that function returns.
\<close>

record OutReq =
  oq_req :: HttpRequest
  oq_body :: "string option"
  oq_getbody :: "(goerr + string) option"

record 'n net =
  nt_next :: "OutReq \<Rightarrow> 'n \<Rightarrow> (goerr + HttpResponse) \<times> 'n"
  nt_ctx_err :: "'n \<Rightarrow> goerr option"
  nt_wait :: "duration \<Rightarrow> 'n \<Rightarrow> goerr option \<times> 'n"
  nt_rand :: "'n \<Rightarrow> rat"
  nt_inc_retry :: "string \<Rightarrow> string \<Rightarrow> 'n \<Rightarrow> 'n"

definition NewRetryTransport :: "RetryConfig \<Rightarrow> RetryConfig" where
  "NewRetryTransport config = (if rt_MaxAttempts config < 1 then config\<lparr>rt_MaxAttempts := 1\<rparr> else config)"

definition isRetryableStatus :: "RetryConfig \<Rightarrow> int \<Rightarrow> bool" where
  "isRetryableStatus cfg code = list_ex (\<lambda>s. code = s) (rt_RetryableStatuses cfg)"

definition isRetryableError :: "goerr \<Rightarrow> bool" where
  "isRetryableError err \<longleftrightarrow> errors_is err ''ECONNRESET'' \<or> errors_is err ''ECONNREFUSED'' \<or>
     errors_is err ''io.EOF'' \<or> errors_is err ''io.ErrUnexpectedEOF''"

definition isIdempotent :: "string \<Rightarrow> bool" where
  "isIdempotent m \<longleftrightarrow> m \<in> {''GET'', ''HEAD'', ''OPTIONS'', ''PUT'', ''DELETE''}"

definition calculateBackoff :: "RetryConfig \<Rightarrow> rat \<Rightarrow> nat \<Rightarrow> duration" where
  "calculateBackoff cfg rnd attempt =
    (let backoff = of_int (rt_InitialBackoff cfg) * 2 ^ (attempt - 1);
         backoff = (if backoff > of_int (rt_MaxBackoff cfg) then of_int (rt_MaxBackoff cfg) else backoff);
         jitter = backoff * (1 / 5) * (rnd - 1 / 2)
     in rat_trunc (backoff + jitter))"

definition sleepWithContext :: "'n net \<Rightarrow> duration \<Rightarrow> 'n \<Rightarrow> goerr option \<times> 'n" where
  "sleepWithContext net d n = (if d \<le> 0 then (nt_ctx_err net n, n) else nt_wait net d n)"

text \<open>
  What one attempt came to: \<open>Inl\<close> what \<open>RoundTrip\<close> returns at once, \<open>Inr\<close> the retryable error it
  records in \<open>lastErr\<close> (lines 71 to 84).
\<close>

definition attempt_outcome :: "RetryConfig \<Rightarrow> goerr + HttpResponse \<Rightarrow> (goerr option + HttpResponse) + goerr" where
  "attempt_outcome cfg r = (case r of
     Inr resp \<Rightarrow> if isRetryableStatus cfg (rs_Status resp)
       then Inr (Errorf ''downstream returned retryable status %d'' [show_int (rs_Status resp)])
       else Inl (Inr resp)
   | Inl err \<Rightarrow> if isRetryableError err then Inr err else Inl (Inl (Some err)))"

definition replayed_body :: "nat \<Rightarrow> OutReq \<Rightarrow> goerr + OutReq" where
  "replayed_body attempt req = (if attempt > 1 then (case oq_getbody req of
       None \<Rightarrow> Inr req
     | Some (Inl e) \<Rightarrow> Inl e
     | Some (Inr body) \<Rightarrow> Inr (req\<lparr>oq_body := Some body\<rparr>)) else Inr req)"

text \<open>
  The loop with \<open>left\<close> attempts to go, \<open>attempt\<close> being the number of the next one.
\<close>

fun retry_loop ::
  "'n net \<Rightarrow> RetryConfig \<Rightarrow> bool \<Rightarrow> nat \<Rightarrow> nat \<Rightarrow> OutReq \<Rightarrow> goerr option \<Rightarrow> 'n \<Rightarrow> (goerr option + HttpResponse) \<times> 'n" where
  "retry_loop net cfg canReplay 0 attempt req lastErr n = (Inl lastErr, n)"
| "retry_loop net cfg canReplay (Suc left) attempt req lastErr n =
    (case replayed_body attempt req of
       Inl e \<Rightarrow> (Inl (Some e), n)
     | Inr req' \<Rightarrow> (case nt_next net req' n of (r, n1) \<Rightarrow>
        (case attempt_outcome cfg r of
           Inl res \<Rightarrow> (res, n1)
         | Inr err \<Rightarrow>
            (if \<not> canReplay then (Inl (Some err), n1)
             else if left = 0 then (Inl (Some err), n1)
             else (let n2 = (if rt_RetryCounter cfg
                             then nt_inc_retry net (rt_DependencyName cfg) (show_nat (attempt + 1)) n1 else n1) in
               case sleepWithContext net (calculateBackoff cfg (nt_rand net n2) attempt) n2 of
                 (Some e, n3) \<Rightarrow> (Inl (Some e), n3)
               | (None, n3) \<Rightarrow> retry_loop net cfg canReplay left (attempt + 1) req' (Some err) n3)))))"

definition can_replay :: "RetryConfig \<Rightarrow> OutReq \<Rightarrow> bool" where
  "can_replay cfg req \<longleftrightarrow> (oq_body req = None \<or> oq_getbody req \<noteq> None) \<and>
     (rt_IdempotentOnly cfg \<longrightarrow> isIdempotent (rq_Method (oq_req req)))"

definition Retry_RoundTrip ::
  "'n net \<Rightarrow> RetryConfig \<Rightarrow> OutReq \<Rightarrow> 'n \<Rightarrow> (goerr option + HttpResponse) \<times> 'n" where
  "Retry_RoundTrip net cfg req n = (case nt_ctx_err net n of
     Some e \<Rightarrow> (Inl (Some e), n)
   | None \<Rightarrow> retry_loop net cfg (can_replay cfg req) (nat (rt_MaxAttempts cfg)) 1 req None n)"

section \<open>How often a request is sent\<close>

text \<open>A network that counts the requests it got: only the next transport counts.\<close>

definition counts_calls :: "'n net \<Rightarrow> ('n \<Rightarrow> nat) \<Rightarrow> bool" where
  "counts_calls net calls \<longleftrightarrow> (\<forall>req n. calls (snd (nt_next net req n)) = calls n + 1) \<and>
     (\<forall>d n. calls (snd (nt_wait net d n)) = calls n) \<and> (\<forall>d l n. calls (nt_inc_retry net d l n) = calls n)"

lemma sleep_counts: "counts_calls net calls \<Longrightarrow> calls (snd (sleepWithContext net d n)) = calls n"
  by (simp add: counts_calls_def sleepWithContext_def)

lemma retry_loop_calls:
  assumes cc: "counts_calls net calls"
    and res: "retry_loop net cfg cr left attempt req e n = (r, n')"
  shows "calls n' \<le> calls n + left \<and> (\<not> cr \<longrightarrow> calls n' \<le> calls n + 1)"
  using res
proof (induction left arbitrary: attempt req e n)
  case (Suc left)
  show ?case
  proof (cases "replayed_body attempt req")
    case rb: (Inr req')
    obtain x n1 where nx: "nt_next net req' n = (x, n1)" by fastforce
    have c1: "calls n1 = calls n + 1" using cc nx unfolding counts_calls_def by (metis snd_conv)
    show ?thesis
    proof (cases "attempt_outcome cfg x")
      case out: (Inr err)
      define n2 where "n2 = (if rt_RetryCounter cfg
        then nt_inc_retry net (rt_DependencyName cfg) (show_nat (attempt + 1)) n1 else n1)"
      obtain se n3 where sl: "sleepWithContext net (calculateBackoff cfg (nt_rand net n2) attempt) n2 = (se, n3)"
        by fastforce
      have c3: "calls n3 = calls n1"
        using sleep_counts [OF cc, of "calculateBackoff cfg (nt_rand net n2) attempt" n2] sl cc
        by (simp add: n2_def counts_calls_def)
      note step = Suc.prems [unfolded retry_loop.simps rb nx sum.case prod.case out Let_def, folded n2_def, unfolded sl]
      show ?thesis
      proof (cases "cr \<and> left \<noteq> 0 \<and> se = None")
        case True
        then have "retry_loop net cfg cr left (attempt + 1) req' (Some err) n3 = (r, n')"
          using step by simp
        from Suc.IH [OF this] c1 c3 True show ?thesis by simp
      next
        case False
        then have "n' = n1 \<or> n' = n3"
          using step by (auto split: if_splits option.splits)
        with c1 c3 show ?thesis by auto
      qed
    qed (use Suc.prems rb nx c1 in auto)
  qed (use Suc.prems in simp)
qed simp

lemma retry_loop_result:
  assumes "retry_loop net cfg cr left attempt req e n = (Inr resp, n')"
  shows "\<not> isRetryableStatus cfg (rs_Status resp)"
  using assms
proof (induction left arbitrary: attempt req e n)
  case (Suc left)
  have done1: "\<not> isRetryableStatus cfg (rs_Status a)" if "attempt_outcome cfg x = Inl (Inr a)" for x a
    using that by (auto simp: attempt_outcome_def split: sum.splits if_splits)
  from Suc show ?case
    by (auto simp: Let_def split: sum.splits prod.splits if_splits option.splits dest: done1)
qed simp

lemma retry_loop_no_nil:
  assumes "retry_loop net cfg cr left attempt req e n = (Inl None, n')" "0 < left"
  shows False
  using assms
proof (induction left arbitrary: attempt req e n)
  case (Suc left)
  have "attempt_outcome cfg x \<noteq> Inl (Inl None)" for x
    by (auto simp: attempt_outcome_def split: sum.splits)
  with Suc show False
    by (cases "left = 0") (auto simp: Let_def split: sum.splits prod.splits if_splits option.splits)
qed simp

lemma NewRetryTransport_attempts [simp]:
  "rt_MaxAttempts (NewRetryTransport cfg) = max 1 (rt_MaxAttempts cfg)"
  "isRetryableStatus (NewRetryTransport cfg) = isRetryableStatus cfg"
  "can_replay (NewRetryTransport cfg) = can_replay cfg"
  by (auto simp: NewRetryTransport_def isRetryableStatus_def can_replay_def fun_eq_iff)

lemma Retry_RoundTrip_bound:
  assumes "counts_calls net calls" "Retry_RoundTrip net (NewRetryTransport cfg) req n = (r, n')"
  shows "calls n' \<le> calls n + nat (max 1 (rt_MaxAttempts cfg)) \<and>
    (\<not> can_replay cfg req \<longrightarrow> calls n' \<le> calls n + 1) \<and>
    (\<forall>resp. r = Inr resp \<longrightarrow> \<not> isRetryableStatus cfg (rs_Status resp)) \<and> r \<noteq> Inl None"
proof (cases "nt_ctx_err net n")
  case None
  with assms(2) have *: "retry_loop net (NewRetryTransport cfg) (can_replay cfg req)
      (nat (max 1 (rt_MaxAttempts cfg))) 1 req None n = (r, n')"
    by (simp add: Retry_RoundTrip_def)
  have "r \<noteq> Inl None" using retry_loop_no_nil * by fastforce
  then show ?thesis
    using retry_loop_calls [OF assms(1) *] retry_loop_result [of net "NewRetryTransport cfg"] * by fastforce
qed (use assms in \<open>auto simp: Retry_RoundTrip_def\<close>)

lemma backoff_bounds:
  assumes "0 \<le> rt_InitialBackoff cfg" "0 \<le> rt_MaxBackoff cfg" "0 \<le> rnd" "rnd < 1"
  shows "0 \<le> calculateBackoff cfg rnd k" "of_int (calculateBackoff cfg rnd k) \<le> (11 / 10 :: rat) * of_int (rt_MaxBackoff cfg)"
proof -
  define m :: rat where "m = of_int (rt_MaxBackoff cfg)"
  define b :: rat where "b = (if of_int (rt_InitialBackoff cfg) * 2 ^ (k - 1) > m then m
    else of_int (rt_InitialBackoff cfg) * 2 ^ (k - 1))"
  have b: "0 \<le> b" "b \<le> m" using assms by (auto simp: b_def m_def)
  have "b * (rnd - 1/2) \<le> b * (1/2)" "b * (- 1/2) \<le> b * (rnd - 1/2)"
    using b assms by (intro mult_left_mono; simp)+
  then have j: "0 \<le> b + b * (1/5) * (rnd - 1/2)" "b + b * (1/5) * (rnd - 1/2) \<le> (11/10) * m"
    using b by (auto simp: algebra_simps)
  have "calculateBackoff cfg rnd k = \<lfloor>b + b * (1/5) * (rnd - 1/2)\<rfloor>"
    using j(1) unfolding calculateBackoff_def Let_def b_def m_def rat_trunc_def by simp
  moreover have "of_int \<lfloor>b + b * (1/5) * (rnd - 1/2)\<rfloor> \<le> (11/10) * m"
    using j(2) of_int_floor_le order_trans by blast
  ultimately show "0 \<le> calculateBackoff cfg rnd k"
    "of_int (calculateBackoff cfg rnd k) \<le> (11 / 10 :: rat) * of_int (rt_MaxBackoff cfg)"
    using j(1) by (simp_all add: m_def)
qed

text \<open>
  One \<open>RoundTrip\<close> of the retrying transport sends the request at most \<open>MaxAttempts\<close> times (at
  least one attempt being configured by the constructor), and at most once when the body cannot be
  replayed or the method is not idempotent under \<open>IdempotentOnly\<close>; a response it returns never has
  a retryable status, it never returns neither a response nor an error, and every pause it takes is
  nonnegative and at most 1.1 times \<open>MaxBackoff\<close>.
\<close>
lemma retry_bounded:
  assumes "counts_calls net calls" "Retry_RoundTrip net (NewRetryTransport cfg) req n = (r, n')"
    and "0 \<le> rt_InitialBackoff cfg" "0 \<le> rt_MaxBackoff cfg" "0 \<le> rnd" "rnd < 1"
  shows "calls n' \<le> calls n + nat (max 1 (rt_MaxAttempts cfg)) \<and>
    (\<not> can_replay cfg req \<longrightarrow> calls n' \<le> calls n + 1) \<and>
    (\<forall>resp. r = Inr resp \<longrightarrow> \<not> isRetryableStatus cfg (rs_Status resp)) \<and> r \<noteq> Inl None \<and>
    0 \<le> calculateBackoff cfg rnd k \<and>
    of_int (calculateBackoff cfg rnd k) \<le> (11 / 10 :: rat) * of_int (rt_MaxBackoff cfg)"
  using Retry_RoundTrip_bound [OF assms(1,2)] backoff_bounds [OF assms(3-6)] by blast

text \<open>A network that answers 503 twice and then 200, counting the requests, the pauses and the retries.\<close>

definition flaky_net :: "(nat \<times> duration list \<times> string list) net" where
  "flaky_net = \<lparr>nt_next = (\<lambda>req (k, ds, ls).
      (Inr \<lparr>rs_Status = (if k < 2 then 503 else 200), rs_Header = (\<lambda>_. []), rs_Body = []\<rparr>, (k + 1, ds, ls))),
    nt_ctx_err = (\<lambda>_. None), nt_wait = (\<lambda>d (k, ds, ls). (None, (k, ds @ [d], ls))),
    nt_rand = (\<lambda>_. 1 / 2), nt_inc_retry = (\<lambda>dep l (k, ds, ls). (k, ds, ls @ [l]))\<rparr>"

definition flaky_cfg :: RetryConfig where
  "flaky_cfg = \<lparr>rt_MaxAttempts = 3, rt_InitialBackoff = 100, rt_MaxBackoff = 150, rt_RetryableStatuses = [503],
     rt_RetryCounter = True, rt_DependencyName = ''ka'', rt_IdempotentOnly = True\<rparr>"

definition flaky_req :: "string \<Rightarrow> OutReq" where
  "flaky_req m = \<lparr>oq_req = sample_request\<lparr>rq_Method := m\<rparr>, oq_body = None, oq_getbody = None\<rparr>"

lemma flaky_counts: "counts_calls flaky_net fst"
  by (auto simp: counts_calls_def flaky_net_def split: prod.splits)


lemma retry_bounded_example:
  "fst (snd (Retry_RoundTrip flaky_net (NewRetryTransport flaky_cfg) (flaky_req ''GET'') (0, [], []))) = 3 \<and>
   rs_Status (projr (fst (Retry_RoundTrip flaky_net (NewRetryTransport flaky_cfg) (flaky_req ''GET'') (0, [], [])))) = 200 \<and>
   snd (snd (Retry_RoundTrip flaky_net (NewRetryTransport flaky_cfg) (flaky_req ''GET'') (0, [], []))) = ([100, 150], [''2'', ''3'']) \<and>
   fst (snd (Retry_RoundTrip flaky_net (NewRetryTransport flaky_cfg) (flaky_req ''POST'') (0, [], []))) \<le> 1"
proof -
  have h: "0 \<le> rt_InitialBackoff flaky_cfg" "0 \<le> rt_MaxBackoff flaky_cfg" by (simp_all add: flaky_cfg_def)
  have np: "\<not> can_replay flaky_cfg (flaky_req ''POST'')" by code_simp
  obtain r n' where "Retry_RoundTrip flaky_net (NewRetryTransport flaky_cfg) (flaky_req ''POST'') (0, [], []) = (r, n')"
    by (rule prod.exhaust)
  from retry_bounded [OF flaky_counts this h, of 0] this np
  have "fst (snd (Retry_RoundTrip flaky_net (NewRetryTransport flaky_cfg) (flaky_req ''POST'') (0, [], []))) \<le> 1"
    by simp
  moreover have "fst (snd (Retry_RoundTrip flaky_net (NewRetryTransport flaky_cfg) (flaky_req ''GET'') (0, [], []))) = 3" by code_simp
  moreover have "rs_Status (projr (fst (Retry_RoundTrip flaky_net (NewRetryTransport flaky_cfg) (flaky_req ''GET'') (0, [], [])))) = 200"
    by code_simp
  moreover have "snd (snd (Retry_RoundTrip flaky_net (NewRetryTransport flaky_cfg) (flaky_req ''GET'') (0, [], []))) = ([100, 150], [''2'', ''3''])"
    by code_simp
  ultimately show ?thesis by blast
qed

section \<open>Circuit-breaking transport (resilience/circuitbreaker.go)\<close>

text \<open>
  \<open>cb_StateGauge\<close>, \<open>cb_DurationHist\<close>, \<open>cb_AuditFunc\<close> and \<open>cb_OnStateChange\<close> tell whether the code's
  pointer or function is set. The breaker states are numbered as the library numbers them
  (\<open>float64(to)\<close>).
\<close>

record CircuitBreakerConfig =
  cb_Name :: string
  cb_MaxRequests :: "32 word"
  cb_Interval :: duration
  cb_Timeout :: duration
  cb_FailureThreshold :: "32 word"
  cb_FailureStatuses :: "int list"
  cb_StateGauge :: bool
  cb_DurationHist :: bool
  cb_DependencyName :: string
  cb_OnStateChange :: bool
  cb_AuditFunc :: bool

datatype breaker_state = StateClosed | StateHalfOpen | StateOpen

definition state_number :: "breaker_state \<Rightarrow> nat" where
  "state_number st = (case st of StateClosed \<Rightarrow> 0 | StateHalfOpen \<Rightarrow> 1 | StateOpen \<Rightarrow> 2)"

text \<open>What a change of state does to the outside world, in the order of the code.\<close>

datatype breaker_effect =
    SetStateGauge string nat
  | CallAudit string breaker_state breaker_state
  | CallOnStateChange string breaker_state breaker_state
  | InitDurationHist string string

record breaker_settings =
  bs_Name :: string
  bs_MaxRequests :: "32 word"
  bs_Interval :: duration
  bs_Timeout :: duration
  bs_ReadyToTrip :: "32 word \<Rightarrow> bool"
  bs_OnStateChange :: "string \<Rightarrow> breaker_state \<Rightarrow> breaker_state \<Rightarrow> breaker_effect list"

record CircuitBreakerTransport =
  ct_settings :: breaker_settings
  ct_cfg :: CircuitBreakerConfig
  ct_failureStatuses :: "int set"

definition defaultFailureStatuses :: "int list" where
  "defaultFailureStatuses = [502, 503, 504]"

definition NewCircuitBreakerTransport :: "CircuitBreakerConfig \<Rightarrow> CircuitBreakerTransport \<times> breaker_effect list" where
  "NewCircuitBreakerTransport cfg =
    (let failureThreshold = (if cb_FailureThreshold cfg = 0 then 5 else cb_FailureThreshold cfg);
         settings = \<lparr>bs_Name = cb_Name cfg, bs_MaxRequests = cb_MaxRequests cfg, bs_Interval = cb_Interval cfg,
           bs_Timeout = cb_Timeout cfg, bs_ReadyToTrip = (\<lambda>consecutiveFailures. consecutiveFailures \<ge> failureThreshold),
           bs_OnStateChange = (\<lambda>name fr to.
             (if cb_StateGauge cfg then [SetStateGauge (cb_DependencyName cfg) (state_number to)] else []) @
             (if cb_AuditFunc cfg then [CallAudit (cb_DependencyName cfg) fr to] else []) @
             (if cb_OnStateChange cfg then [CallOnStateChange name fr to] else []))\<rparr>;
         statuses = (if cb_FailureStatuses cfg \<noteq> [] then cb_FailureStatuses cfg else defaultFailureStatuses)
     in (\<lparr>ct_settings = settings, ct_cfg = cfg, ct_failureStatuses = set statuses\<rparr>,
         (if cb_StateGauge cfg then [SetStateGauge (cb_DependencyName cfg) (state_number StateClosed)] else []) @
         (if cb_DurationHist cfg \<and> cb_DependencyName cfg \<noteq> [] then [InitDurationHist (cb_DependencyName cfg) ''2xx''] else [])))"

definition isFailureStatus :: "CircuitBreakerTransport \<Rightarrow> int \<Rightarrow> bool" where
  "isFailureStatus t code \<longleftrightarrow> code \<in> ct_failureStatuses t"

definition downstreamError :: "(int \<Rightarrow> string) \<Rightarrow> int \<Rightarrow> goerr" where
  "downstreamError statusText code = Errorf ''downstream returned %s'' [statusText code]"

text \<open>\<open>StatusCode / 100\<close> truncates towards zero; status codes the HTTP library returns are positive.\<close>

definition statusBucket :: "goerr + HttpResponse \<Rightarrow> string" where
  "statusBucket r = (case r of
     Inl _ \<Rightarrow> ''error''
   | Inr resp \<Rightarrow>
      (let c = (if 0 \<le> rs_Status resp then rs_Status resp div 100 else - ((- rs_Status resp) div 100)) in
       if c = 2 then ''2xx'' else if c = 3 then ''3xx'' else if c = 4 then ''4xx''
       else if c = 5 then ''5xx'' else ''other''))"

text \<open>The clock and the histogram of the transport, over the network state.\<close>

record 'n cb_env =
  ce_now :: "'n \<Rightarrow> gotime"
  ce_observe :: "string \<Rightarrow> string \<Rightarrow> duration \<Rightarrow> 'n \<Rightarrow> 'n"
  ce_statusText :: "int \<Rightarrow> string"

definition guarded_call ::
  "'n cb_env \<Rightarrow> CircuitBreakerTransport \<Rightarrow> (OutReq \<Rightarrow> 'n \<Rightarrow> (goerr + HttpResponse) \<times> 'n) \<Rightarrow> OutReq \<Rightarrow> 'n \<Rightarrow> (goerr + HttpResponse) \<times> 'n" where
  "guarded_call env t next_rt req n = (case next_rt req n of
     (Inl e, n') \<Rightarrow> (Inl e, n')
   | (Inr r, n') \<Rightarrow> if isFailureStatus t (rs_Status r) then (Inl (downstreamError (ce_statusText env) (rs_Status r)), n')
       else (Inr r, n'))"

definition CircuitBreaker_RoundTrip ::
  "'n cb_env \<Rightarrow> ('b, 'n, HttpResponse) breaker_ops \<Rightarrow> CircuitBreakerTransport \<Rightarrow>
   (OutReq \<Rightarrow> 'n \<Rightarrow> (goerr + HttpResponse) \<times> 'n) \<Rightarrow> OutReq \<Rightarrow> 'b \<Rightarrow> 'n \<Rightarrow> (goerr + HttpResponse) \<times> 'b \<times> 'n" where
  "CircuitBreaker_RoundTrip env ops t next_rt req b n =
    (let start = ce_now env n in
     case bo_exec ops b (guarded_call env t next_rt req) n of (r, b', n') \<Rightarrow>
       (let d = since (ce_now env n') start;
            n'' = (if cb_DurationHist (ct_cfg t)
                   then ce_observe env (cb_DependencyName (ct_cfg t)) (statusBucket r) d n' else n')
        in (r, b', n'')))"

definition CircuitBreaker_Healthy :: "('b, 'n, 'a) breaker_ops \<Rightarrow> 'b \<Rightarrow> 'n \<Rightarrow> bool" where
  "CircuitBreaker_Healthy ops b n \<longleftrightarrow> \<not> bo_open ops b n"

section \<open>The transport chain of an outgoing dependency (main.go, buildResilientTransport)\<close>

record DependencyConfig =
  dc_ConnectTimeout :: duration
  dc_RequestTimeout :: duration
  dc_CBMaxRequests :: "32 word"
  dc_CBInterval :: duration
  dc_CBTimeout :: duration
  dc_CBFailureThreshold :: "32 word"
  dc_RetryMax :: int
  dc_RetryInitBackoff :: duration
  dc_RetryMaxBackoff :: duration
  dc_RetryableStatuses :: "int list"

definition chain_retry :: "DependencyConfig \<Rightarrow> string \<Rightarrow> RetryConfig" where
  "chain_retry depCfg name = NewRetryTransport
     \<lparr>rt_MaxAttempts = wrap64 (dc_RetryMax depCfg + 1), rt_InitialBackoff = dc_RetryInitBackoff depCfg,
      rt_MaxBackoff = dc_RetryMaxBackoff depCfg, rt_RetryableStatuses = dc_RetryableStatuses depCfg,
      rt_RetryCounter = True, rt_DependencyName = name, rt_IdempotentOnly = False\<rparr>"

definition chain_breaker :: "DependencyConfig \<Rightarrow> string \<Rightarrow> CircuitBreakerTransport \<times> breaker_effect list" where
  "chain_breaker depCfg name = NewCircuitBreakerTransport
     \<lparr>cb_Name = name,
      cb_MaxRequests = (if dc_CBMaxRequests depCfg = 0 then 1 else dc_CBMaxRequests depCfg),
      cb_Interval = (if dc_CBInterval depCfg = 0 then 30 * 10 ^ 9 else dc_CBInterval depCfg),
      cb_Timeout = (if dc_CBTimeout depCfg = 0 then 10 * 10 ^ 9 else dc_CBTimeout depCfg),
      cb_FailureThreshold = (if dc_CBFailureThreshold depCfg = 0 then 5 else dc_CBFailureThreshold depCfg),
      cb_FailureStatuses = [], cb_StateGauge = True, cb_DurationHist = True, cb_DependencyName = name,
      cb_OnStateChange = False, cb_AuditFunc = False\<rparr>"

text \<open>The retrying transport as the next transport of the breaker; a nil response without an error would be dereferenced.\<close>

definition retry_rt :: "'n net \<Rightarrow> RetryConfig \<Rightarrow> OutReq \<Rightarrow> 'n \<Rightarrow> (goerr + HttpResponse) \<times> 'n" where
  "retry_rt net cfg req n = (case Retry_RoundTrip net cfg req n of
     (Inl (Some e), n') \<Rightarrow> (Inl e, n')
   | (Inl None, n') \<Rightarrow> (Inl (Panicked ''nil response''), n')
   | (Inr resp, n') \<Rightarrow> (Inr resp, n'))"

definition buildResilientTransport ::
  "'n cb_env \<Rightarrow> ('b, 'n, HttpResponse) breaker_ops \<Rightarrow> 'n net \<Rightarrow> DependencyConfig \<Rightarrow> string \<Rightarrow>
   OutReq \<Rightarrow> 'b \<Rightarrow> 'n \<Rightarrow> (goerr + HttpResponse) \<times> 'b \<times> 'n" where
  "buildResilientTransport env ops net depCfg name =
     CircuitBreaker_RoundTrip env ops (fst (chain_breaker depCfg name)) (retry_rt net (chain_retry depCfg name))"

text \<open>\<open>keeps_calls\<close>: observing a duration sends no request.\<close>

definition keeps_calls :: "'n cb_env \<Rightarrow> ('n \<Rightarrow> nat) \<Rightarrow> bool" where
  "keeps_calls env calls \<longleftrightarrow> (\<forall>a b d n. calls (ce_observe env a b d n) = calls n)"

lemma CircuitBreaker_RoundTrip_cases:
  assumes "breaker_law ops" "keeps_calls env calls"
    and "CircuitBreaker_RoundTrip env ops t next_rt req b n = (r, b', n')"
  shows "(\<exists>e. r = Inl e \<and> (e = ErrOpenState \<or> e = ErrTooManyRequests) \<and> calls n' = calls n) \<or>
    (\<exists>x m. next_rt req n = (x, m) \<and> calls n' = calls m \<and>
      (\<forall>resp. r = Inr resp \<longrightarrow> x = Inr resp \<and> \<not> isFailureStatus t (rs_Status resp)))"
proof -
  obtain b1 m where ex: "bo_exec ops b (guarded_call env t next_rt req) n = (r, b1, m)"
    and cm: "calls n' = calls m"
    using assms(2,3) by (auto simp: CircuitBreaker_RoundTrip_def keeps_calls_def Let_def split: prod.splits)
  from assms(1) ex show ?thesis
  proof (cases rule: breaker_cases)
    case (1 e) with cm show ?thesis by auto
  next
    case 2
    then show ?thesis
      using cm by (auto simp: guarded_call_def split: prod.splits sum.splits if_splits)
  qed
qed

lemma retry_rt_bound:
  assumes "counts_calls net calls" "retry_rt net (NewRetryTransport cfg) req n = (x, m)"
  shows "calls m \<le> calls n + nat (max 1 (rt_MaxAttempts cfg)) \<and>
    (\<not> can_replay cfg req \<longrightarrow> calls m \<le> calls n + 1) \<and>
    (\<forall>resp. x = Inr resp \<longrightarrow> \<not> isRetryableStatus cfg (rs_Status resp))"
proof -
  obtain r n' where *: "Retry_RoundTrip net (NewRetryTransport cfg) req n = (r, n')" by (rule prod.exhaust)
  with assms(2) have "n' = m" "\<And>resp. x = Inr resp \<Longrightarrow> r = Inr resp"
    by (auto simp: retry_rt_def split: sum.splits option.splits)
  with Retry_RoundTrip_bound [OF assms(1) *] show ?thesis by blast
qed

text \<open>
  A request through the chain the server builds for a dependency (circuit breaker over retry
  over the base transport) is either rejected by the breaker without reaching the dependency, or
  reaches it at most \<open>RetryMax + 1\<close> times (once when its body cannot be replayed), and a response
  it yields is never a 502, 503 or 504 nor one of the retryable statuses.
\<close>
lemma resilient_chain:
  assumes "breaker_law ops" "counts_calls net calls" "keeps_calls env calls"
    and "0 \<le> dc_RetryMax dep" "dc_RetryMax dep < 2 ^ 63 - 1"
    and "buildResilientTransport env ops net dep name req b n = (r, b', n')"
  shows "((\<exists>e. r = Inl e \<and> (e = ErrOpenState \<or> e = ErrTooManyRequests) \<and> calls n' = calls n) \<or>
      calls n' \<le> calls n + nat (dc_RetryMax dep + 1) \<and>
      (oq_body req \<noteq> None \<and> oq_getbody req = None \<longrightarrow> calls n' \<le> calls n + 1)) \<and>
    (\<forall>resp. r = Inr resp \<longrightarrow> rs_Status resp \<notin> {502, 503, 504} \<union> set (dc_RetryableStatuses dep))"
proof -
  have w: "wrap64 (dc_RetryMax dep + 1) = dc_RetryMax dep + 1"
    using assms(4,5) by (simp add: wrap64_def)
  define cfg where "cfg = \<lparr>rt_MaxAttempts = wrap64 (dc_RetryMax dep + 1), rt_InitialBackoff = dc_RetryInitBackoff dep,
      rt_MaxBackoff = dc_RetryMaxBackoff dep, rt_RetryableStatuses = dc_RetryableStatuses dep,
      rt_RetryCounter = True, rt_DependencyName = name, rt_IdempotentOnly = False\<rparr>"
  have c: "chain_retry dep name = NewRetryTransport cfg" by (simp add: chain_retry_def cfg_def)
  have f: "isFailureStatus (fst (chain_breaker dep name)) k \<longleftrightarrow> k \<in> {502, 503, 504}" for k
    by (simp add: chain_breaker_def NewCircuitBreakerTransport_def isFailureStatus_def defaultFailureStatuses_def Let_def)
  have cr: "can_replay cfg req \<longleftrightarrow> oq_body req = None \<or> oq_getbody req \<noteq> None" by (auto simp: can_replay_def cfg_def)
  have st: "isRetryableStatus cfg k \<longleftrightarrow> k \<in> set (dc_RetryableStatuses dep)" for k
    by (auto simp: isRetryableStatus_def cfg_def list_ex_iff)
  have m: "max 1 (rt_MaxAttempts cfg) = dc_RetryMax dep + 1" using w assms(4) by (simp add: cfg_def)
  from CircuitBreaker_RoundTrip_cases [OF assms(1,3) assms(6) [unfolded buildResilientTransport_def c]]
  show ?thesis
  proof (elim disjE exE conjE)
    fix x k assume "retry_rt net (NewRetryTransport cfg) req n = (x, k)" and k: "calls n' = calls k"
      and r: "\<forall>resp. r = Inr resp \<longrightarrow> x = Inr resp \<and> \<not> isFailureStatus (fst (chain_breaker dep name)) (rs_Status resp)"
    from retry_rt_bound [OF assms(2) this(1)] k r show ?thesis
      by (auto simp: m cr st f)
  qed auto
qed

definition plain_env :: "'n cb_env" where
  "plain_env = \<lparr>ce_now = (\<lambda>_. 0), ce_observe = (\<lambda>_ _ _ n. n), ce_statusText = (\<lambda>_. ''Service Unavailable'')\<rparr>"

definition flaky_dep :: DependencyConfig where
  "flaky_dep = \<lparr>dc_ConnectTimeout = 0, dc_RequestTimeout = 0, dc_CBMaxRequests = 0, dc_CBInterval = 0, dc_CBTimeout = 0,
     dc_CBFailureThreshold = 0, dc_RetryMax = 2, dc_RetryInitBackoff = 10, dc_RetryMaxBackoff = 20, dc_RetryableStatuses = [503]\<rparr>"

lemma resilient_chain_example:
  "fst (snd (snd (buildResilientTransport plain_env trip3 flaky_net flaky_dep ''ds'' (flaky_req ''GET'') 0 (0, [], [])))) \<le> 3 \<and>
   rs_Status (projr (fst (buildResilientTransport plain_env trip3 flaky_net flaky_dep ''ds'' (flaky_req ''GET'') 0 (0, [], [])))) = 200 \<and>
   fst (buildResilientTransport plain_env trip3 flaky_net flaky_dep ''ds'' (flaky_req ''GET'') 3 (0, [], [])) = Inl ErrOpenState"
proof -
  have h: "breaker_law trip3" "counts_calls flaky_net fst" "keeps_calls plain_env fst"
    "0 \<le> dc_RetryMax flaky_dep" "dc_RetryMax flaky_dep < 2 ^ 63 - 1"
    by (simp_all add: trip3_law flaky_counts keeps_calls_def plain_env_def flaky_dep_def)
  obtain r b' n' where e: "buildResilientTransport plain_env trip3 flaky_net flaky_dep ''ds'' (flaky_req ''GET'') 0 (0, [], []) = (r, b', n')"
    by (metis prod.exhaust)
  from resilient_chain [OF h e] e
  have "fst (snd (snd (buildResilientTransport plain_env trip3 flaky_net flaky_dep ''ds'' (flaky_req ''GET'') 0 (0, [], [])))) \<le> 3"
    by (auto simp: flaky_dep_def)
  moreover have "rs_Status (projr (fst (buildResilientTransport plain_env trip3 flaky_net flaky_dep ''ds'' (flaky_req ''GET'') 0 (0, [], [])))) = 200"
    by code_simp
  moreover have "fst (buildResilientTransport plain_env trip3 flaky_net flaky_dep ''ds'' (flaky_req ''GET'') 3 (0, [], [])) = Inl ErrOpenState"
    by (simp add: buildResilientTransport_def CircuitBreaker_RoundTrip_def trip3_def Let_def)
  ultimately show ?thesis by blast
qed

section \<open>Circuit breaker of the Kubernetes API (resilience/k8s_cb.go)\<close>

record K8sCBConfig =
  kc_Name :: string
  kc_MaxRequests :: "32 word"
  kc_Interval :: duration
  kc_Timeout :: duration
  kc_FailureThreshold :: "32 word"
  kc_StateGauge :: bool
  kc_DependencyName :: string

definition NewK8sCircuitBreaker :: "K8sCBConfig \<Rightarrow> breaker_settings" where
  "NewK8sCircuitBreaker cfg =
    (let threshold = (if kc_FailureThreshold cfg = 0 then 5 else kc_FailureThreshold cfg) in
     \<lparr>bs_Name = kc_Name cfg, bs_MaxRequests = kc_MaxRequests cfg, bs_Interval = kc_Interval cfg,
      bs_Timeout = kc_Timeout cfg, bs_ReadyToTrip = (\<lambda>consecutiveFailures. consecutiveFailures \<ge> threshold),
      bs_OnStateChange = (\<lambda>name fr to.
        if kc_StateGauge cfg then [SetStateGauge (kc_DependencyName cfg) (state_number to)] else [])\<rparr>)"

text \<open>Both constructors turn an unset threshold into 5: no breaker of the program trips on its first success.\<close>

lemma ReadyToTrip_zero:
  "\<not> bs_ReadyToTrip (NewK8sCircuitBreaker c) 0"
  "\<not> bs_ReadyToTrip (ct_settings (fst (NewCircuitBreakerTransport t))) 0"
  by (auto simp: NewK8sCircuitBreaker_def NewCircuitBreakerTransport_def Let_def)

text \<open>\<open>fn\<close> returns an error or nil; the breaker sees a nil result of type \<open>any\<close>.\<close>

definition K8s_Execute ::
  "('b, 'm, unit) breaker_ops \<Rightarrow> ('m \<Rightarrow> goerr option \<times> 'm) \<Rightarrow> 'b \<Rightarrow> 'm \<Rightarrow> goerr option \<times> 'b \<times> 'm" where
  "K8s_Execute ops fn b m =
    (case bo_exec ops b (\<lambda>m. case fn m of (None, m') \<Rightarrow> (Inr (), m') | (Some e, m') \<Rightarrow> (Inl e, m')) m of
       (Inl e, b', m') \<Rightarrow> (Some e, b', m')
     | (Inr _, b', m') \<Rightarrow> (None, b', m'))"

lemma K8s_Execute_cases:
  assumes "breaker_law ops" "K8s_Execute ops fn b m = (err, b', m')"
  obtains e where "err = Some e" "m' = m" "e = ErrOpenState \<or> e = ErrTooManyRequests"
  | "fn m = (err, m')"
proof -
  let ?f = "\<lambda>m. case fn m of (None, m') \<Rightarrow> (Inr (), m') | (Some e, m') \<Rightarrow> (Inl e, m')"
  obtain r b1 m1 where ex: "bo_exec ops b ?f m = (r, b1, m1)" by (rule prod_cases3)
  with assms(2) have err: "err = (case r of Inl e \<Rightarrow> Some e | Inr _ \<Rightarrow> None)" "m' = m1"
    by (auto simp: K8s_Execute_def split: sum.splits)
  from assms(1) ex show thesis
  proof (cases rule: breaker_cases)
    case (1 e) with err that(1) show thesis by simp
  next
    case 2
    obtain x y where "fn m = (x, y)" by (rule prod.exhaust)
    with 2 err have "fn m = (err, m')" by (cases x) auto
    then show thesis by (rule that(2))
  qed
qed

section \<open>Circuit-breaking dynamic client (resilience/k8s_dynamic.go)\<close>

text \<open>
  The calls of \<open>dynamic.ResourceInterface\<close> with their arguments: \<open>'j\<close> stands for unstructured
  objects and lists, \<open>'o\<close> for the option structs, \<open>'w\<close> for a watch. The wrapped client answers a
  call with a result (nil as \<open>None\<close>) and an error, both of which Go may return at once.
\<close>

datatype ('j, 'o) dyn_call =
    DGet string 'o "string list"
  | DList 'o
  | DCreate 'j 'o "string list"
  | DUpdate 'j 'o "string list"
  | DUpdateStatus 'j 'o
  | DDelete string 'o "string list"
  | DDeleteCollection 'o 'o
  | DPatch string string string 'o "string list"
  | DWatch 'o
  | DApply string 'j 'o "string list"
  | DApplyStatus string 'j 'o

type_synonym ('r, 'n) dyn_answer = "'n \<Rightarrow> ('r option \<times> goerr option) \<times> 'n"

text \<open>
  \<open>protected\<close> is the shape of the methods that assign the captured variable \<open>result\<close> in the closure;
  \<open>protected_err\<close> the shape of \<open>Delete\<close> and \<open>DeleteCollection\<close>, which have none. The breaker runs over
  the pair of the captured variable and the cluster.
\<close>

definition protected ::
  "('b, 'r option \<times> 'n, unit) breaker_ops \<Rightarrow> ('r, 'n) dyn_answer \<Rightarrow> 'b \<Rightarrow> 'n \<Rightarrow> ('r option \<times> goerr option) \<times> 'b \<times> 'n" where
  "protected ops call b n =
    (case K8s_Execute ops (\<lambda>(result, n). case call n of ((r, e), n') \<Rightarrow> (e, (r, n'))) b (None, n) of
       (err, b', (result, n')) \<Rightarrow> ((result, err), b', n'))"

definition protected_err ::
  "('b, 'r option \<times> 'n, unit) breaker_ops \<Rightarrow> ('r, 'n) dyn_answer \<Rightarrow> 'b \<Rightarrow> 'n \<Rightarrow> ('r option \<times> goerr option) \<times> 'b \<times> 'n" where
  "protected_err ops call b n =
    (case K8s_Execute ops (\<lambda>(result, n). case call n of ((_, e), n') \<Rightarrow> (e, (result, n'))) b (None, n) of
       (err, b', (_, n')) \<Rightarrow> ((None, err), b', n'))"

definition direct ::
  "('r, 'n) dyn_answer \<Rightarrow> 'b \<Rightarrow> 'n \<Rightarrow> ('r option \<times> goerr option) \<times> 'b \<times> 'n" where
  "direct call b n = (case call n of (r, n') \<Rightarrow> (r, b, n'))"

text \<open>The methods of the cluster-scoped wrapper and of the namespaced one.\<close>

definition resilientNamespaceableResource ::
  "('b, 'r option \<times> 'n, unit) breaker_ops \<Rightarrow> (('j, 'o) dyn_call \<Rightarrow> ('r, 'n) dyn_answer) \<Rightarrow>
   ('j, 'o) dyn_call \<Rightarrow> 'b \<Rightarrow> 'n \<Rightarrow> ('r option \<times> goerr option) \<times> 'b \<times> 'n" where
  "resilientNamespaceableResource ops inner c = (case c of
     DGet name opts subs \<Rightarrow> protected ops (inner (DGet name opts subs))
   | DList opts \<Rightarrow> protected ops (inner (DList opts))
   | DCreate obj opts subs \<Rightarrow> protected ops (inner (DCreate obj opts subs))
   | DUpdate obj opts subs \<Rightarrow> protected ops (inner (DUpdate obj opts subs))
   | DUpdateStatus obj opts \<Rightarrow> protected ops (inner (DUpdateStatus obj opts))
   | DDelete name opts subs \<Rightarrow> protected_err ops (inner (DDelete name opts subs))
   | DDeleteCollection opts listOpts \<Rightarrow> protected_err ops (inner (DDeleteCollection opts listOpts))
   | DPatch name pt data opts subs \<Rightarrow> protected ops (inner (DPatch name pt data opts subs))
   | DWatch opts \<Rightarrow> direct (inner (DWatch opts))
   | DApply name obj opts subs \<Rightarrow> protected ops (inner (DApply name obj opts subs))
   | DApplyStatus name obj opts \<Rightarrow> protected ops (inner (DApplyStatus name obj opts)))"

definition resilientResourceInterface ::
  "('b, 'r option \<times> 'n, unit) breaker_ops \<Rightarrow> (('j, 'o) dyn_call \<Rightarrow> ('r, 'n) dyn_answer) \<Rightarrow>
   ('j, 'o) dyn_call \<Rightarrow> 'b \<Rightarrow> 'n \<Rightarrow> ('r option \<times> goerr option) \<times> 'b \<times> 'n" where
  "resilientResourceInterface ops inner c = (case c of
     DGet name opts subs \<Rightarrow> protected ops (inner (DGet name opts subs))
   | DList opts \<Rightarrow> protected ops (inner (DList opts))
   | DCreate obj opts subs \<Rightarrow> protected ops (inner (DCreate obj opts subs))
   | DUpdate obj opts subs \<Rightarrow> protected ops (inner (DUpdate obj opts subs))
   | DUpdateStatus obj opts \<Rightarrow> protected ops (inner (DUpdateStatus obj opts))
   | DDelete name opts subs \<Rightarrow> protected_err ops (inner (DDelete name opts subs))
   | DDeleteCollection opts listOpts \<Rightarrow> protected_err ops (inner (DDeleteCollection opts listOpts))
   | DPatch name pt data opts subs \<Rightarrow> protected ops (inner (DPatch name pt data opts subs))
   | DWatch opts \<Rightarrow> direct (inner (DWatch opts))
   | DApply name obj opts subs \<Rightarrow> protected ops (inner (DApply name obj opts subs))
   | DApplyStatus name obj opts \<Rightarrow> protected ops (inner (DApplyStatus name obj opts)))"

text \<open>
  The client: \<open>Resource\<close> wraps \<open>inner.Resource(gvr)\<close> and \<open>Namespace\<close> wraps its \<open>Namespace(ns)\<close>, so a
  call goes to the wrapper its scope selects.
\<close>

definition ResilientDynamicClient_call ::
  "('b, 'r option \<times> 'n, unit) breaker_ops \<Rightarrow> ('g \<Rightarrow> string option \<Rightarrow> ('j, 'o) dyn_call \<Rightarrow> ('r, 'n) dyn_answer) \<Rightarrow>
   'g \<Rightarrow> string option \<Rightarrow> ('j, 'o) dyn_call \<Rightarrow> 'b \<Rightarrow> 'n \<Rightarrow> ('r option \<times> goerr option) \<times> 'b \<times> 'n" where
  "ResilientDynamicClient_call ops inner gvr ns = (case ns of
     None \<Rightarrow> resilientNamespaceableResource ops (inner gvr None)
   | Some namespace \<Rightarrow> resilientResourceInterface ops (inner gvr (Some namespace)))"

fun is_watch :: "('j, 'o) dyn_call \<Rightarrow> bool" where
  "is_watch (DWatch _) = True"
| "is_watch _ = False"

fun is_delete :: "('j, 'o) dyn_call \<Rightarrow> bool" where
  "is_delete (DDelete _ _ _) = True"
| "is_delete (DDeleteCollection _ _) = True"
| "is_delete _ = False"

lemma namespaceable_shape:
  "resilientNamespaceableResource ops inner c =
    (if is_watch c then direct (inner c) else if is_delete c then protected_err ops (inner c) else protected ops (inner c))"
  unfolding resilientNamespaceableResource_def by (cases c) simp_all

lemma namespaced_shape:
  "resilientResourceInterface ops inner c =
    (if is_watch c then direct (inner c) else if is_delete c then protected_err ops (inner c) else protected ops (inner c))"
  unfolding resilientResourceInterface_def by (cases c) simp_all

lemma wrapper_shape:
  "ResilientDynamicClient_call ops inner gvr ns c =
    (if is_watch c then direct (inner gvr ns c) else if is_delete c then protected_err ops (inner gvr ns c)
     else protected ops (inner gvr ns c))"
  by (cases ns) (simp_all only: ResilientDynamicClient_call_def namespaceable_shape namespaced_shape option.case)

lemma protected_cases:
  assumes "breaker_law ops" "protected ops call b n = ((r, e), b', n')"
  shows "r = None \<and> n' = n \<and> (e = Some ErrOpenState \<or> e = Some ErrTooManyRequests) \<or> call n = ((r, e), n')"
proof -
  from assms(2) have ex: "K8s_Execute ops (\<lambda>(result, n). case call n of ((r, e), n') \<Rightarrow> (e, (r, n'))) b (None, n) = (e, b', (r, n'))"
    unfolding protected_def by (auto split: prod.splits)
  from assms(1) ex show ?thesis
    by (cases rule: K8s_Execute_cases) (auto split: prod.splits)
qed

lemma protected_err_cases:
  assumes "breaker_law ops" "protected_err ops call b n = ((r, e), b', n')"
  shows "r = None \<and> (n' = n \<and> (e = Some ErrOpenState \<or> e = Some ErrTooManyRequests) \<or> (\<exists>x. call n = ((x, e), n')))"
proof -
  from assms(2) obtain y where r: "r = None"
    and ex: "K8s_Execute ops (\<lambda>(result, n). case call n of ((_, e), n') \<Rightarrow> (e, (result, n'))) b (None, n) = (e, b', (y, n'))"
    unfolding protected_err_def by (auto split: prod.splits)
  from assms(1) ex r show ?thesis
    by (cases rule: K8s_Execute_cases) (auto split: prod.splits)
qed

text \<open>
  Every call on the circuit-breaking dynamic client, on any resource and scope, either is
  rejected with one of the breaker's two errors, no result and an untouched cluster, or answers
  exactly as the wrapped client does; a watch is never rejected and never touches the breaker.
  Deletes have no result but report the same error.
\<close>
lemma dynamic_client_transparent:
  assumes "breaker_law ops"
    and "ResilientDynamicClient_call ops inner gvr ns c b n = ((r, e), b', n')"
    and "is_delete c \<Longrightarrow> \<forall>n. fst (fst (inner gvr ns c n)) = None"
  shows "inner gvr ns c n = ((r, e), n') \<and> (is_watch c \<longrightarrow> b' = b) \<or>
    \<not> is_watch c \<and> r = None \<and> n' = n \<and> (e = Some ErrOpenState \<or> e = Some ErrTooManyRequests)"
proof (cases "is_watch c")
  case True
  then show ?thesis using assms(2) by (simp add: wrapper_shape direct_def split: prod.splits)
next
  case nw: False
  show ?thesis
  proof (cases "is_delete c")
    case True
    from assms(2) nw True have "protected_err ops (inner gvr ns c) b n = ((r, e), b', n')"
      by (simp add: wrapper_shape)
    from protected_err_cases [OF assms(1) this] assms(3) [OF True] nw show ?thesis by (metis fst_conv)
  next
    case False
    from assms(2) nw False have "protected ops (inner gvr ns c) b n = ((r, e), b', n')"
      by (simp add: wrapper_shape)
    from protected_cases [OF assms(1) this] nw show ?thesis by blast
  qed
qed

text \<open>A cluster that counts its calls and answers a get with the name asked for.\<close>

definition echo_cluster :: "string \<Rightarrow> string option \<Rightarrow> (string, unit) dyn_call \<Rightarrow> (string, nat) dyn_answer" where
  "echo_cluster gvr ns c n = ((case c of DGet name _ _ \<Rightarrow> Some name | _ \<Rightarrow> None, None), n + 1)"

lemma dynamic_client_transparent_example:
  "ResilientDynamicClient_call trip3 echo_cluster ''pods'' (Some ''ns'') (DGet ''p'' () []) 0 5 = ((Some ''p'', None), 0, 6) \<and>
   echo_cluster ''pods'' (Some ''ns'') (DGet ''p'' () []) 5 = ((Some ''p'', None), 6)"
proof -
  have e: "ResilientDynamicClient_call trip3 echo_cluster ''pods'' (Some ''ns'') (DGet ''p'' () []) 0 5 = ((Some ''p'', None), 0, 6)"
    by (simp add: wrapper_shape protected_def K8s_Execute_def trip3_def echo_cluster_def)
  from dynamic_client_transparent [OF trip3_law e] e show ?thesis by simp
qed

end
