(* ===== verification/Severity.thy ===== *)
theory Severity
  imports HttpUtil
begin

text \<open>
  Package \<open>internal/severity\<close> with \<open>internal/prometheus/types.go\<close> and \<open>rules.go\<close>: severity values and
  their order, the rules cache, the LLM classifiers and the tiers of the triage pipeline. The
  Prometheus client, the PromQL parser, the model and the clock are parameters. The locale
  \<open>llm_triager\<close> is the contract of a classifier; both classifiers of the code are interpretations.
\<close>

section \<open>Severity values (severity/types.go)\<close>

definition SourceFiringAlert :: string where "SourceFiringAlert = ''firing_alert''"
definition SourcePendingAlert :: string where "SourcePendingAlert = ''pending_alert''"
definition SourceRuleEval :: string where "SourceRuleEval = ''rule_evaluation''"
definition SourceLLMRuleInform :: string where "SourceLLMRuleInform = ''llm_rule_informed''"
definition SourceLLMTriage :: string where "SourceLLMTriage = ''llm_triage''"

lemmas source_defs = SourceFiringAlert_def SourcePendingAlert_def SourceRuleEval_def SourceLLMRuleInform_def
  SourceLLMTriage_def

record TriageInput =
  ti_Namespace :: string
  ti_Kind :: string
  ti_Name :: string
  ti_Description :: string
  ti_Labels :: "(string \<times> string) list"

record TriageResult =
  tr_Severity :: string
  tr_Source :: string
  tr_AlertName :: string
  tr_RuleName :: string
  tr_Confidence :: f64

definition zero_result :: TriageResult where
  "zero_result = \<lparr>tr_Severity = [], tr_Source = [], tr_AlertName = [], tr_RuleName = [], tr_Confidence = Fin 0\<rparr>"

definition severityRank :: "(string \<times> int) list" where
  "severityRank = [(''critical'', 5), (''high'', 4), (''medium'', 3), (''low'', 2), (''info'', 1)]"

definition rank_of :: "string \<Rightarrow> int" where
  "rank_of s = (case map_of severityRank s of None \<Rightarrow> 0 | Some r \<Rightarrow> r)"

definition validSeverities :: "string list" where
  "validSeverities = [''critical'', ''high'', ''medium'', ''low'', ''info'']"

definition ValidateSeverity :: "string \<Rightarrow> bool" where
  "ValidateSeverity s \<longleftrightarrow> s \<in> set validSeverities"

definition NormalizeSeverity :: "(rune \<Rightarrow> rune) \<Rightarrow> string \<Rightarrow> string" where
  "NormalizeSeverity lo s = (let lower = trim_space (to_lower lo s) in
     if lower \<in> set validSeverities then lower else ''medium'')"

definition CompareSeverity :: "string \<Rightarrow> string \<Rightarrow> int" where
  "CompareSeverity a b = rank_of a - rank_of b"

text \<open>One iteration of the loop of \<open>HighestSeverity\<close>.\<close>

definition higher :: "string \<Rightarrow> string \<Rightarrow> string" where
  "higher s best = (if CompareSeverity s best > 0 then s else best)"

definition HighestSeverity :: "string list \<Rightarrow> string" where
  "HighestSeverity severities = (case severities of
     [] \<Rightarrow> []
   | s0 # rest \<Rightarrow> fold higher rest s0)"

text \<open>The order the ranks stand for, as a linear order on levels.\<close>

datatype level = Unranked | Info | Low | Medium | High | Critical

fun level_rank :: "level \<Rightarrow> int" where
  "level_rank Unranked = 0"
| "level_rank Info = 1"
| "level_rank Low = 2"
| "level_rank Medium = 3"
| "level_rank High = 4"
| "level_rank Critical = 5"

lemma level_rank_inj: "level_rank a = level_rank b \<longleftrightarrow> a = b"
  by (cases a; cases b) simp_all

instantiation level :: linorder
begin

definition less_eq_level :: "level \<Rightarrow> level \<Rightarrow> bool" where
  "less_eq_level a b \<longleftrightarrow> level_rank a \<le> level_rank b"

definition less_level :: "level \<Rightarrow> level \<Rightarrow> bool" where
  "less_level a b \<longleftrightarrow> level_rank a < level_rank b"

instance
  by standard (auto simp: less_eq_level_def less_level_def level_rank_inj)

end

definition level_of :: "string \<Rightarrow> level" where
  "level_of s = (if s = ''critical'' then Critical else if s = ''high'' then High else if s = ''medium'' then Medium
     else if s = ''low'' then Low else if s = ''info'' then Info else Unranked)"

lemma rank_level: "rank_of s = level_rank (level_of s)"
  by (simp add: rank_of_def severityRank_def level_of_def)

lemma CompareSeverity_level:
  "CompareSeverity a b > 0 \<longleftrightarrow> level_of b < level_of a"
  "CompareSeverity a b < 0 \<longleftrightarrow> level_of a < level_of b"
  "CompareSeverity a b = 0 \<longleftrightarrow> level_of a = level_of b"
  by (auto simp: CompareSeverity_def rank_level less_level_def level_rank_inj)

lemma ValidateSeverity_level: "ValidateSeverity s \<longleftrightarrow> level_of s \<noteq> Unranked"
  by (simp add: ValidateSeverity_def validSeverities_def level_of_def)

lemma level_higher: "level_of (higher s best) = max (level_of best) (level_of s)"
  by (auto simp: higher_def CompareSeverity_level max_def)

lemma fold_higher:
  "level_of (fold higher rest s0) = Max (level_of ` set (s0 # rest)) \<and> fold higher rest s0 \<in> set (s0 # rest)"
proof (induction rest arbitrary: s0)
  case (Cons s rest)
  have "Max (level_of ` set (higher s s0 # rest)) = Max (level_of ` set (s0 # s # rest))"
    by (cases "rest = []") (simp_all add: level_higher max.assoc)
  moreover have "higher s s0 \<in> {s0, s}" by (simp add: higher_def)
  ultimately show ?case using Cons [of "higher s s0"] by auto
qed simp

lemma NormalizeSeverity_valid: "ValidateSeverity (NormalizeSeverity lo s)"
  by (auto simp: NormalizeSeverity_def ValidateSeverity_def validSeverities_def Let_def)

text \<open>\<open>HighestSeverity\<close> is a maximum of the levels.\<close>

lemma HighestSeverity_max:
  assumes "xs \<noteq> []"
  shows "HighestSeverity xs \<in> set xs \<and> level_of (HighestSeverity xs) = Max (level_of ` set xs) \<and>
    sgn (CompareSeverity a b) = (if level_of a > level_of b then 1 else if level_of a < level_of b then -1 else 0)"
proof -
  obtain s0 rest where xs: "xs = s0 # rest" using assms by (cases xs) auto
  have "sgn (CompareSeverity a b) = (if level_of a > level_of b then 1 else if level_of a < level_of b then -1 else 0)"
    using CompareSeverity_level [of a b] by (auto simp: sgn_if)
  with fold_higher [of rest s0] xs show ?thesis by (simp add: HighestSeverity_def del: list.set)
qed

section \<open>Prometheus data (prometheus/types.go, rules.go)\<close>

record Alert =
  al_Labels :: "(string \<times> string) list"
  al_Annotations :: "(string \<times> string) list"
  al_State :: string
  al_ActiveAt :: gotime

record Rule =
  ru_Name :: string
  ru_Query :: string
  ru_Duration :: f64
  ru_Labels :: "(string \<times> string) list"
  ru_Annotations :: "(string \<times> string) list"
  ru_State :: string
  ru_Type :: string

record RuleGroup =
  rg_Name :: string
  rg_File :: string
  rg_Rules :: "Rule list"

record Sample =
  sm_Metric :: "(string \<times> string) list"
  sm_Value :: f64
  sm_Timestamp :: gotime

record QueryResult =
  qr_Samples :: "Sample list"

definition label_get :: "(string \<times> string) list \<Rightarrow> string \<Rightarrow> string" where
  "label_get m k = (case map_of m k of None \<Rightarrow> [] | Some v \<Rightarrow> v)"

text \<open>A label matcher of the PromQL library: its label and its (opaque) \<open>Matches\<close>.\<close>

record matcher =
  mt_Name :: string
  mt_Matches :: "string \<Rightarrow> bool"

text \<open>
  \<open>parse\<close> is the PromQL parser followed by \<open>parser.Inspect\<close>: the label matchers of each vector
  selector of the expression, in the order of the walk.
\<close>

definition ExtractLabelMatchers :: "(string \<Rightarrow> goerr + matcher list list) \<Rightarrow> string \<Rightarrow> goerr + matcher list" where
  "ExtractLabelMatchers parse expr = (case parse expr of
     Inl e \<Rightarrow> Inl (Wrapf ''parsing PromQL: %w'' [] e)
   | Inr selectors \<Rightarrow> Inr (concat (map (filter (\<lambda>m. mt_Name m \<noteq> ''__name__'')) selectors)))"

definition MatchesResource :: "matcher list \<Rightarrow> (string \<times> string) list \<Rightarrow> bool" where
  "MatchesResource matchers resourceLabels \<longleftrightarrow> matchers \<noteq> [] \<and>
     list_all (\<lambda>m. case map_of resourceLabels (mt_Name m) of None \<Rightarrow> False | Some val \<Rightarrow> mt_Matches m val) matchers"

section \<open>Rules cache (severity/cache.go)\<close>

record RulesCache =
  ca_groups :: "RuleGroup list option"
  ca_expireAt :: gotime
  ca_ttl :: duration

definition NewRulesCache :: "int \<Rightarrow> RulesCache" where
  "NewRulesCache ttlSeconds = \<lparr>ca_groups = None, ca_expireAt = 0, ca_ttl = wrap64 (ttlSeconds * ns_second)\<rparr>"

definition Cache_Get :: "RulesCache \<Rightarrow> gotime \<Rightarrow> RuleGroup list option" where
  "Cache_Get c now = (case ca_groups c of None \<Rightarrow> None | Some gs \<Rightarrow> if now > ca_expireAt c then None else Some gs)"

definition Cache_Set :: "RulesCache \<Rightarrow> RuleGroup list \<Rightarrow> gotime \<Rightarrow> RulesCache" where
  "Cache_Set c groups now = c\<lparr>ca_groups := Some groups, ca_expireAt := now + ca_ttl c\<rparr>"

definition Cache_Len :: "RulesCache \<Rightarrow> nat" where
  "Cache_Len c = (case ca_groups c of None \<Rightarrow> 0 | Some gs \<Rightarrow> length gs)"

lemma Cache_Get_Set: "Cache_Get (Cache_Set c gs t0) now = (if now \<le> t0 + ca_ttl c then Some gs else None)"
  by (simp add: Cache_Get_def Cache_Set_def)

lemma Cache_Len_Set [simp]: "Cache_Len (Cache_Set c gs t0) = length gs"
  by (simp add: Cache_Len_def Cache_Set_def)

section \<open>The prompt (severity/types.go)\<close>

definition severity_sensitiveKeys :: "string list" where
  "severity_sensitiveKeys = [''password'', ''token'', ''secret'', ''key'', ''credential'', ''bearer'']"

definition nl :: string where "nl = [CHR 0x0A]"

definition prompt_labels :: "(rune \<Rightarrow> rune) \<Rightarrow> (string \<times> string) list \<Rightarrow> string" where
  "prompt_labels lo labels = concat (map (\<lambda>(k, v).
     if to_lower lo k \<in> set severity_sensitiveKeys then [] else ''  '' @ k @ '': '' @ v @ nl) labels)"

definition prompt_rule :: "Rule \<Rightarrow> string" where
  "prompt_rule r = ''  - '' @ ru_Name r @ '': '' @ ru_Query r @ '' (configured severity: '' @
     label_get (ru_Labels r) ''severity'' @ '')'' @ nl @
     (case map_of (ru_Annotations r) ''summary'' of None \<Rightarrow> [] | Some summary \<Rightarrow> ''    Summary: '' @ summary @ nl)"

text \<open>\<open>rules\<close> is \<open>None\<close> when the argument is no slice of rules.\<close>

definition BuildTriagePrompt :: "(rune \<Rightarrow> rune) \<Rightarrow> TriageInput \<Rightarrow> Rule list option \<Rightarrow> string" where
  "BuildTriagePrompt lo input rules =
     ''Classify the severity of the following Kubernetes incident.'' @ nl @ nl @
     ''Resource: '' @ ti_Kind input @ ''/'' @ ti_Name input @ '' in namespace '' @ ti_Namespace input @ nl @
     ''Description: '' @ ti_Description input @ nl @ nl @
     ''Resource labels:'' @ nl @ prompt_labels lo (ti_Labels input) @
     (case rules of
        Some (r # rs) \<Rightarrow> nl @ ''Matching alerting rules (could not evaluate due to insufficient data):'' @ nl @
          concat (map prompt_rule (r # rs))
      | _ \<Rightarrow> []) @
     nl @ ''Respond with exactly one of: critical, high, medium, low, info'' @ nl"

section \<open>LLM classifiers (severity/llm.go)\<close>

record candidate =
  cd_Parts :: "string list option"

type_synonym gen_response = "candidate list"

text \<open>The model: \<open>generate model prompt\<close> over a state of its own, a nil response being \<open>Inr None\<close>.\<close>

type_synonym 'n generator = "string \<Rightarrow> string \<Rightarrow> 'n \<Rightarrow> (goerr + gen_response option) \<times> 'n"

record 'n GenAITriager =
  ga_generator :: "'n generator"
  ga_model :: string

definition NewGenAITriager :: "'n generator option \<Rightarrow> 'n generator option \<Rightarrow> string \<Rightarrow> goerr + 'n GenAITriager" where
  "NewGenAITriager client_models gen model =
    (let m = (if model = [] then ''gemini-2.0-flash'' else model) in
     case gen of
       Some g \<Rightarrow> Inr \<lparr>ga_generator = g, ga_model = m\<rparr>
     | None \<Rightarrow> (case client_models of
         None \<Rightarrow> Inl (Panicked ''NewGenAITriager: Client or Generator must not be nil'')
       | Some g \<Rightarrow> Inr \<lparr>ga_generator = g, ga_model = m\<rparr>))"

definition extractText :: "gen_response option \<Rightarrow> string" where
  "extractText resp = (case resp of
     None \<Rightarrow> []
   | Some [] \<Rightarrow> []
   | Some (cand # _) \<Rightarrow> (case cd_Parts cand of
       None \<Rightarrow> []
     | Some parts \<Rightarrow> (case find (\<lambda>t. t \<noteq> []) parts of None \<Rightarrow> [] | Some t \<Rightarrow> trim_space t)))"

definition classify :: "(rune \<Rightarrow> rune) \<Rightarrow> 'n GenAITriager \<Rightarrow> string \<Rightarrow> 'n \<Rightarrow> (goerr + TriageResult) \<times> 'n" where
  "classify lo g prompt n = (case ga_generator g (ga_model g) prompt n of
     (Inl e, n') \<Rightarrow> (Inl (Wrapf ''LLM call failed: %w'' [] e), n')
   | (Inr None, n') \<Rightarrow> (Inl (Errorf ''LLM returned nil response'' []), n')
   | (Inr (Some resp), n') \<Rightarrow>
      (let text = extractText (Some resp) in
       if text = [] then (Inl (Errorf ''LLM returned empty response'' []), n')
       else (Inr (zero_result\<lparr>tr_Severity := NormalizeSeverity lo text,
               tr_Confidence := (if ValidateSeverity (trim_space (to_lower lo text)) then Fin 1 else Fin (1 / 2))\<rparr>), n')))"

definition GenAI_TriageWithRules ::
  "(rune \<Rightarrow> rune) \<Rightarrow> 'n GenAITriager \<Rightarrow> Rule list \<Rightarrow> TriageInput \<Rightarrow> 'n \<Rightarrow> (goerr + TriageResult) \<times> 'n" where
  "GenAI_TriageWithRules lo g rules input = classify lo g (BuildTriagePrompt lo input (Some rules))"

definition GenAI_TriagePure ::
  "(rune \<Rightarrow> rune) \<Rightarrow> 'n GenAITriager \<Rightarrow> TriageInput \<Rightarrow> 'n \<Rightarrow> (goerr + TriageResult) \<times> 'n" where
  "GenAI_TriagePure lo g input = classify lo g (BuildTriagePrompt lo input None)"

definition Noop_TriageWithRules :: "Rule list \<Rightarrow> TriageInput \<Rightarrow> 'n \<Rightarrow> (goerr + TriageResult) \<times> 'n" where
  "Noop_TriageWithRules rules input n = (Inr (zero_result\<lparr>tr_Severity := ''medium'', tr_Confidence := Fin 1\<rparr>), n)"

definition Noop_TriagePure :: "TriageInput \<Rightarrow> 'n \<Rightarrow> (goerr + TriageResult) \<times> 'n" where
  "Noop_TriagePure input n = (Inr (zero_result\<lparr>tr_Severity := ''medium'', tr_Confidence := Fin 1\<rparr>), n)"

text \<open>
  The contract of \<open>LLMTriager\<close> the pipeline relies on: an answer is a canonical severity, and its
  prompt shows the labels of the input only through those that are not sensitive.
\<close>

definition visible_labels :: "(rune \<Rightarrow> rune) \<Rightarrow> TriageInput \<Rightarrow> TriageInput" where
  "visible_labels lo input = input\<lparr>ti_Labels := filter (\<lambda>p. to_lower lo (fst p) \<notin> set severity_sensitiveKeys) (ti_Labels input)\<rparr>"

locale llm_triager =
  fixes with_rules :: "Rule list \<Rightarrow> TriageInput \<Rightarrow> 'n \<Rightarrow> (goerr + TriageResult) \<times> 'n"
    and pure :: "TriageInput \<Rightarrow> 'n \<Rightarrow> (goerr + TriageResult) \<times> 'n"
    and lo :: "rune \<Rightarrow> rune"
  assumes with_rules_valid: "with_rules rules input n = (Inr r, n') \<Longrightarrow> ValidateSeverity (tr_Severity r)"
    and pure_valid: "pure input n = (Inr r, n') \<Longrightarrow> ValidateSeverity (tr_Severity r)"
    and with_rules_visible: "with_rules rules (visible_labels lo input) = with_rules rules input"
    and pure_visible: "pure (visible_labels lo input) = pure input"
begin

text \<open>Two inputs that differ in sensitive labels only are answered alike.\<close>

lemma secrets_do_not_matter:
  assumes "visible_labels lo i1 = visible_labels lo i2"
  shows "with_rules rules i1 n = with_rules rules i2 n \<and> pure i1 n = pure i2 n"
  by (metis assms with_rules_visible pure_visible)

end

lemma prompt_labels_visible:
  "prompt_labels lo (filter (\<lambda>p. to_lower lo (fst p) \<notin> set severity_sensitiveKeys) m) = prompt_labels lo m"
  by (induction m) (auto simp: prompt_labels_def)

lemma BuildTriagePrompt_visible: "BuildTriagePrompt lo (visible_labels lo input) rules = BuildTriagePrompt lo input rules"
  by (simp add: BuildTriagePrompt_def visible_labels_def prompt_labels_visible)

lemma classify_valid: "classify lo g prompt n = (Inr r, n') \<Longrightarrow> ValidateSeverity (tr_Severity r)"
  by (auto simp: classify_def Let_def NormalizeSeverity_valid split: prod.splits sum.splits option.splits if_splits)

lemma medium_valid: "ValidateSeverity ''medium''"
  by (simp add: ValidateSeverity_def validSeverities_def)

interpretation genai: llm_triager "GenAI_TriageWithRules lo g" "GenAI_TriagePure lo g" lo for lo g
  by unfold_locales (auto simp: GenAI_TriageWithRules_def GenAI_TriagePure_def BuildTriagePrompt_visible dest: classify_valid)

interpretation noop: llm_triager Noop_TriageWithRules Noop_TriagePure lo for lo
  by unfold_locales (auto simp: Noop_TriageWithRules_def Noop_TriagePure_def fun_eq_iff medium_valid)


text \<open>A model that repeats its prompt, so that a leak would show.\<close>

definition echo_model :: "unit generator" where
  "echo_model m prompt n = (Inr (Some [\<lparr>cd_Parts = Some [prompt]\<rparr>]), n)"

definition pod_input :: "(string \<times> string) list \<Rightarrow> TriageInput" where
  "pod_input ls = \<lparr>ti_Namespace = ''ns'', ti_Kind = ''Pod'', ti_Name = ''p'', ti_Description = ''d'', ti_Labels = ls\<rparr>"

lemma lower_token: "to_lower id ''Token'' = ''token''" "to_lower id ''app'' = ''app''" by code_simp+


end
