(* ===== verification/Triage.thy ===== *)
theory Triage
  imports Severity
begin

text \<open>
  The triage pipeline of \<open>internal/severity/triage.go\<close>: firing alerts, pending rules, evaluation of
  inactive rules, and the two LLM tiers. The state \<open>'n\<close> is the outside world of the pipeline
  (Prometheus, the model, the clock); \<open>Triager\<close> carries the rules cache and the metrics recorded.
\<close>

section \<open>The pipeline\<close>

record TriageConfig =
  tc_Enabled :: bool
  tc_MaxQueriesPerCall :: int
  tc_MaxRulesEvaluated :: int
  tc_CacheTTLSeconds :: int
  tc_LLMConfidence :: f64

definition triage_DefaultConfig :: TriageConfig where
  "triage_DefaultConfig = \<lparr>tc_Enabled = True, tc_MaxQueriesPerCall = 10, tc_MaxRulesEvaluated = 100,
     tc_CacheTTLSeconds = 30, tc_LLMConfidence = Fin (7 / 10)\<rparr>"

text \<open>The collaborators: context, clock, Prometheus client, PromQL parser and classifier.\<close>

record 'n triage_env =
  te_ctx_err :: "'n \<Rightarrow> goerr option"
  te_now :: "'n \<Rightarrow> gotime"
  te_GetAlerts :: "'n \<Rightarrow> (goerr + Alert list) \<times> 'n"
  te_GetRules :: "'n \<Rightarrow> (goerr + RuleGroup list) \<times> 'n"
  te_InstantQuery :: "string \<Rightarrow> 'n \<Rightarrow> (goerr + QueryResult) \<times> 'n"
  te_parse :: "string \<Rightarrow> goerr + matcher list list"
  te_TriageWithRules :: "Rule list \<Rightarrow> TriageInput \<Rightarrow> 'n \<Rightarrow> (goerr + TriageResult) \<times> 'n"
  te_TriagePure :: "TriageInput \<Rightarrow> 'n \<Rightarrow> (goerr + TriageResult) \<times> 'n"

text \<open>\<open>TriagerMetrics\<close>: which collectors are set; what was recorded is kept as a list.\<close>

record TriagerMetrics =
  tm_Total :: bool
  tm_Duration :: bool
  tm_Errors :: bool

datatype triage_metric =
    IncErrors string string
  | IncTotal string string
  | ObserveDuration string duration

record Triager =
  tg_config :: TriageConfig
  tg_cache :: RulesCache
  tg_metrics :: "TriagerMetrics option"
  tg_recorded :: "triage_metric list"

definition NewTriager :: "bool \<Rightarrow> TriageConfig \<Rightarrow> TriagerMetrics option list \<Rightarrow> goerr + Triager" where
  "NewTriager has_llm cfg m =
    (if \<not> has_llm
     then Inl (Panicked ''NewTriager: LLMTriager must not be nil - the triage pipeline requires an LLM fallback'')
     else Inr \<lparr>tg_config = cfg, tg_cache = NewRulesCache (tc_CacheTTLSeconds cfg),
       tg_metrics = (case m of [] \<Rightarrow> None | x # _ \<Rightarrow> x), tg_recorded = []\<rparr>)"

definition recordMetrics :: "goerr + TriageResult \<Rightarrow> duration \<Rightarrow> Triager \<Rightarrow> Triager" where
  "recordMetrics res elapsed t = (case tg_metrics t of
     None \<Rightarrow> t
   | Some m \<Rightarrow> (case res of
       Inl _ \<Rightarrow> (if tm_Errors m then t\<lparr>tg_recorded := tg_recorded t @ [IncErrors SourceLLMTriage ''llm_failure'']\<rparr> else t)
     | Inr r \<Rightarrow>
         (if tr_Source r = [] then t
          else t\<lparr>tg_recorded := tg_recorded t
            @ (if tm_Total m then [IncTotal (tr_Source r) (tr_Severity r)] else [])
            @ (if tm_Duration m then [ObserveDuration (tr_Source r) elapsed] else [])\<rparr>)))"

text \<open>The loop over the target labels, from the count of matches so far.\<close>

fun overlap_loop :: "(string \<times> string) list \<Rightarrow> (string \<times> string) list \<Rightarrow> nat \<Rightarrow> bool" where
  "overlap_loop alertLabels [] matched = (matched > 0)"
| "overlap_loop alertLabels ((k, v) # rest) matched =
    (case map_of alertLabels k of
       None \<Rightarrow> overlap_loop alertLabels rest matched
     | Some alertVal \<Rightarrow> if alertVal \<noteq> v then False else overlap_loop alertLabels rest (matched + 1))"

definition labelsOverlap :: "(string \<times> string) list \<Rightarrow> (string \<times> string) list \<Rightarrow> bool" where
  "labelsOverlap alertLabels targetLabels = overlap_loop alertLabels targetLabels 0"

text \<open>The comparison both alert tiers make: the best severity so far with the name it came from.\<close>

definition best_step :: "string \<times> string \<Rightarrow> string \<times> string \<Rightarrow> string \<times> string" where
  "best_step x best = (if fst best = [] \<or> CompareSeverity (fst x) (fst best) > 0 then x else best)"

definition firing_matches :: "TriageInput \<Rightarrow> Alert list \<Rightarrow> (string \<times> string) list" where
  "firing_matches input alerts = map (\<lambda>a. (label_get (al_Labels a) ''severity'', label_get (al_Labels a) ''alertname''))
     (filter (\<lambda>a. al_State a = ''firing'' \<and> labelsOverlap (al_Labels a) (ti_Labels input)) alerts)"

definition runTier1 :: "'n triage_env \<Rightarrow> TriageInput \<Rightarrow> 'n \<Rightarrow> TriageResult option \<times> 'n" where
  "runTier1 env input n =
    (if ti_Labels input = [] then (None, n)
     else (case te_GetAlerts env n of
       (Inl e, n') \<Rightarrow> (None, n')
     | (Inr alerts, n') \<Rightarrow>
        (let (bestSeverity, bestAlert) = fold best_step (firing_matches input alerts) ([], []) in
         if bestSeverity \<noteq> []
         then (Some (zero_result\<lparr>tr_Severity := bestSeverity, tr_Source := SourceFiringAlert, tr_AlertName := bestAlert\<rparr>), n')
         else (None, n'))))"

definition rule_matches :: "'n triage_env \<Rightarrow> TriageInput \<Rightarrow> string \<Rightarrow> Rule \<Rightarrow> bool" where
  "rule_matches env input state r \<longleftrightarrow> ru_State r = state \<and>
     (case ExtractLabelMatchers (te_parse env) (ru_Query r) of
        Inl _ \<Rightarrow> False | Inr matchers \<Rightarrow> MatchesResource matchers (ti_Labels input))"

definition all_rules :: "RuleGroup list \<Rightarrow> Rule list" where
  "all_rules gs = concat (map rg_Rules gs)"

definition runTier15 :: "'n triage_env \<Rightarrow> TriageInput \<Rightarrow> RuleGroup list \<Rightarrow> TriageResult option" where
  "runTier15 env input ruleGroups =
    (let (bestSeverity, bestRule) = fold best_step
       (map (\<lambda>r. (label_get (ru_Labels r) ''severity'', ru_Name r))
          (filter (rule_matches env input ''pending'') (all_rules ruleGroups))) ([], [])
     in if bestSeverity \<noteq> []
        then Some (zero_result\<lparr>tr_Severity := bestSeverity, tr_Source := SourcePendingAlert, tr_RuleName := bestRule\<rparr>)
        else None)"

text \<open>
  Tier 2 walks the groups. The \<open>break\<close> at the rule limit leaves the inner loop only, but the limit
  stays reached, so every later rule is passed over as well: the walk over the concatenated rules
  stops there.
\<close>

fun tier2_loop ::
  "'n triage_env \<Rightarrow> TriageConfig \<Rightarrow> TriageInput \<Rightarrow> Rule list \<Rightarrow> Rule list \<Rightarrow> int \<Rightarrow> 'n \<Rightarrow>
   (TriageResult option \<times> Rule list) \<times> 'n" where
  "tier2_loop env cfg input [] matched queries n = ((None, matched), n)"
| "tier2_loop env cfg input (r # rs) matched queries n =
    (if int (length matched) \<ge> tc_MaxRulesEvaluated cfg then ((None, matched), n)
     else if \<not> rule_matches env input ''inactive'' r then tier2_loop env cfg input rs matched queries n
     else if queries \<ge> tc_MaxQueriesPerCall cfg then tier2_loop env cfg input rs (matched @ [r]) queries n
     else (case te_InstantQuery env (ru_Query r) n of
         (Inl e, n') \<Rightarrow> tier2_loop env cfg input rs (matched @ [r]) (queries + 1) n'
       | (Inr qr, n') \<Rightarrow>
          (if qr_Samples qr \<noteq> []
           then ((Some (zero_result\<lparr>tr_Severity := label_get (ru_Labels r) ''severity'', tr_Source := SourceRuleEval,
                   tr_RuleName := ru_Name r\<rparr>), matched @ [r]), n')
           else tier2_loop env cfg input rs (matched @ [r]) (queries + 1) n')))"

definition runTier2 ::
  "'n triage_env \<Rightarrow> TriageConfig \<Rightarrow> TriageInput \<Rightarrow> RuleGroup list \<Rightarrow> 'n \<Rightarrow> (TriageResult option \<times> Rule list) \<times> 'n" where
  "runTier2 env cfg input ruleGroups n = tier2_loop env cfg input (all_rules ruleGroups) [] 0 n"

definition confidence_floor :: "TriageConfig \<Rightarrow> TriageResult \<Rightarrow> TriageResult" where
  "confidence_floor cfg r = (if f64_lt (Fin 0) (tr_Confidence r) \<and> f64_lt (tr_Confidence r) (tc_LLMConfidence cfg)
     then r\<lparr>tr_Severity := ''medium''\<rparr> else r)"

definition runTier25 ::
  "'n triage_env \<Rightarrow> TriageConfig \<Rightarrow> TriageInput \<Rightarrow> Rule list \<Rightarrow> 'n \<Rightarrow> TriageResult option \<times> 'n" where
  "runTier25 env cfg input matchedRules n = (case te_TriageWithRules env matchedRules input n of
     (Inl e, n') \<Rightarrow> (None, n')
   | (Inr r, n') \<Rightarrow> (Some (confidence_floor cfg (r\<lparr>tr_Source := SourceLLMRuleInform\<rparr>)), n'))"

definition runTier3 :: "'n triage_env \<Rightarrow> TriageConfig \<Rightarrow> TriageInput \<Rightarrow> 'n \<Rightarrow> (goerr + TriageResult) \<times> 'n" where
  "runTier3 env cfg input n = (case te_TriagePure env input n of
     (Inl e, n') \<Rightarrow> (Inl (Wrapf ''tier 3 LLM triage failed: %w'' [] e), n')
   | (Inr r, n') \<Rightarrow> (Inr (confidence_floor cfg (r\<lparr>tr_Source := SourceLLMTriage\<rparr>)), n'))"

definition fetchRules :: "'n triage_env \<Rightarrow> RulesCache \<Rightarrow> 'n \<Rightarrow> (goerr + RuleGroup list) \<times> RulesCache \<times> 'n" where
  "fetchRules env c n = (case Cache_Get c (te_now env n) of
     Some cached \<Rightarrow> (Inr cached, c, n)
   | None \<Rightarrow> (case te_GetRules env n of
       (Inl e, n') \<Rightarrow> (Inl e, c, n')
     | (Inr groups, n') \<Rightarrow> (Inr groups, (if groups \<noteq> [] then Cache_Set c groups (te_now env n') else c), n')))"

text \<open>From the rules on: tiers 1.5 and 2 when the rules could be read, then the LLM tiers.\<close>

definition llm_tiers ::
  "'n triage_env \<Rightarrow> TriageConfig \<Rightarrow> TriageInput \<Rightarrow> Rule list \<Rightarrow> 'n \<Rightarrow> (goerr + TriageResult) \<times> 'n" where
  "llm_tiers env cfg input matchedRules n =
    (if matchedRules \<noteq> []
     then (case runTier25 env cfg input matchedRules n of
         (Some r, n') \<Rightarrow> (Inr r, n')
       | (None, n') \<Rightarrow> runTier3 env cfg input n')
     else runTier3 env cfg input n)"

definition rule_tiers ::
  "'n triage_env \<Rightarrow> TriageConfig \<Rightarrow> TriageInput \<Rightarrow> goerr + RuleGroup list \<Rightarrow> 'n \<Rightarrow> (goerr + TriageResult) \<times> 'n" where
  "rule_tiers env cfg input rules n = (case rules of
     Inl _ \<Rightarrow> llm_tiers env cfg input [] n
   | Inr ruleGroups \<Rightarrow> (case runTier15 env input ruleGroups of
       Some r \<Rightarrow> (Inr r, n)
     | None \<Rightarrow> (case runTier2 env cfg input ruleGroups n of
         ((Some r, _), n') \<Rightarrow> (Inr r, n')
       | ((None, matchedRules), n') \<Rightarrow> llm_tiers env cfg input matchedRules n')))"

definition triagePipeline ::
  "'n triage_env \<Rightarrow> Triager \<Rightarrow> TriageInput \<Rightarrow> 'n \<Rightarrow> (goerr + TriageResult) \<times> Triager \<times> 'n" where
  "triagePipeline env t input n = (case te_ctx_err env n of
     Some e \<Rightarrow> (Inl e, t, n)
   | None \<Rightarrow> (case runTier1 env input n of
       (Some r, n1) \<Rightarrow> (Inr r, t, n1)
     | (None, n1) \<Rightarrow> (case te_ctx_err env n1 of
         Some e \<Rightarrow> (Inl e, t, n1)
       | None \<Rightarrow> (case fetchRules env (tg_cache t) n1 of (rules, c, n2) \<Rightarrow>
           (case rule_tiers env (tg_config t) input rules n2 of (res, n3) \<Rightarrow> (res, t\<lparr>tg_cache := c\<rparr>, n3))))))"

definition Triage ::
  "'n triage_env \<Rightarrow> Triager \<Rightarrow> TriageInput \<Rightarrow> 'n \<Rightarrow> (goerr + TriageResult) \<times> Triager \<times> 'n" where
  "Triage env t input n =
    (if \<not> tc_Enabled (tg_config t) then (Inr zero_result, t, n)
     else (let start = te_now env n in
       case triagePipeline env t input n of (res, t', n') \<Rightarrow>
         (res, recordMetrics res (since (te_now env n') start) t', n')))"

section \<open>Label overlap and the best match\<close>

lemma overlap_loop_iff:
  "overlap_loop al ts m \<longleftrightarrow> (\<forall>(k, v)\<in>set ts. map_of al k = None \<or> map_of al k = Some v) \<and>
     (m > 0 \<or> (\<exists>(k, v)\<in>set ts. map_of al k = Some v))"
  by (induction al ts m rule: overlap_loop.induct) (auto split: option.splits)

lemma labelsOverlap_iff:
  "labelsOverlap al ts \<longleftrightarrow> (\<forall>(k, v)\<in>set ts. map_of al k \<in> {None, Some v}) \<and> (\<exists>(k, v)\<in>set ts. map_of al k = Some v)"
  by (auto simp: labelsOverlap_def overlap_loop_iff)

lemma level_Nil [simp]: "level_of [] = Unranked" by (simp add: level_of_def)

lemma Unranked_least [simp]: "Unranked \<le> l" by (cases l) (simp_all add: less_eq_level_def)

lemma best_step_level:
  "level_of (fst (best_step x b)) = max (level_of (fst b)) (level_of (fst x))"
  by (auto simp: best_step_def CompareSeverity_level max_def not_less)

lemma fold_best:
  "let r = fold best_step xs b in
     (r = b \<or> r \<in> set xs) \<and> (\<forall>x\<in>insert b (set xs). level_of (fst x) \<le> level_of (fst r)) \<and>
     (fst r = [] \<longleftrightarrow> (\<forall>x\<in>insert b (set xs). fst x = []))"
proof (induction xs arbitrary: b)
  case (Cons x xs)
  have s: "best_step x b \<in> {x, b}" "fst (best_step x b) = [] \<longleftrightarrow> fst x = [] \<and> fst b = []"
    "level_of (fst x) \<le> level_of (fst (best_step x b))" "level_of (fst b) \<le> level_of (fst (best_step x b))"
    using best_step_level [of x b] by (auto simp: best_step_def CompareSeverity_level)
  show ?case using Cons [of "best_step x b"] s by (auto simp: Let_def intro: order_trans)
qed simp

lemma fold_best_Nil:
  assumes "fold best_step xs ([], []) = (sev, name)" "sev \<noteq> []"
  shows "(sev, name) \<in> set xs \<and> (\<forall>x\<in>set xs. level_of (fst x) \<le> level_of sev)"
  using fold_best [of xs "([], [])"] assms by (auto simp: Let_def)

lemma runTier1_some:
  assumes "runTier1 env input n = (Some r, n')"
  shows "\<exists>alerts. te_GetAlerts env n = (Inr alerts, n') \<and> tr_Source r = SourceFiringAlert \<and> tr_Severity r \<noteq> [] \<and>
    (tr_Severity r, tr_AlertName r) \<in> set (firing_matches input alerts) \<and>
    (\<forall>x\<in>set (firing_matches input alerts). level_of (fst x) \<le> level_of (tr_Severity r))"
  using assms fold_best_Nil
  by (fastforce simp: runTier1_def Let_def split: if_splits prod.splits sum.splits)

definition pending_matches :: "'n triage_env \<Rightarrow> TriageInput \<Rightarrow> RuleGroup list \<Rightarrow> (string \<times> string) list" where
  "pending_matches env input gs = map (\<lambda>r. (label_get (ru_Labels r) ''severity'', ru_Name r))
     (filter (rule_matches env input ''pending'') (all_rules gs))"

lemma runTier15_some:
  assumes "runTier15 env input gs = Some r"
  shows "tr_Source r = SourcePendingAlert \<and> tr_Severity r \<noteq> [] \<and>
    (tr_Severity r, tr_RuleName r) \<in> set (pending_matches env input gs) \<and>
    (\<forall>x\<in>set (pending_matches env input gs). level_of (fst x) \<le> level_of (tr_Severity r))"
proof -
  obtain sev name where f: "fold best_step (pending_matches env input gs) ([], []) = (sev, name)"
    by (rule prod.exhaust)
  with assms have "sev \<noteq> []" "r = zero_result\<lparr>tr_Severity := sev, tr_Source := SourcePendingAlert, tr_RuleName := name\<rparr>"
    by (auto simp: runTier15_def pending_matches_def split: if_splits)
  with fold_best_Nil [OF f] show ?thesis by simp
qed

lemma tier2_some:
  assumes "tier2_loop env cfg input rs matched q n = ((Some r, ms), n')"
  shows "\<exists>ru\<in>set rs. rule_matches env input ''inactive'' ru \<and> tr_Source r = SourceRuleEval \<and>
    tr_RuleName r = ru_Name ru \<and> tr_Severity r = label_get (ru_Labels ru) ''severity'' \<and>
    (\<exists>k qr. te_InstantQuery env (ru_Query ru) k = (Inr qr, n') \<and> qr_Samples qr \<noteq> [])"
  using assms
proof (induction env cfg input rs matched q n rule: tier2_loop.induct)
  case (2 env cfg input ru rs matched q n)
  show ?case
  proof (cases "te_InstantQuery env (ru_Query ru) n")
    case (Pair res m)
    with 2 show ?thesis
      by (cases res) (auto split: if_splits)
  qed
qed simp

lemma tier2_matched:
  assumes "tier2_loop env cfg input rs matched q n = ((res, ms), n')"
  shows "set ms \<subseteq> set matched \<union> {ru \<in> set rs. rule_matches env input ''inactive'' ru} \<and>
    int (length ms) \<le> max (int (length matched)) (tc_MaxRulesEvaluated cfg)"
  using assms
proof (induction env cfg input rs matched q n rule: tier2_loop.induct)
  case (2 env cfg input ru rs matched q n)
  obtain x m where qi: "te_InstantQuery env (ru_Query ru) n = (x, m)" by (rule prod.exhaust)
  consider "int (length matched) \<ge> tc_MaxRulesEvaluated cfg"
    | "int (length matched) < tc_MaxRulesEvaluated cfg" "\<not> rule_matches env input ''inactive'' ru"
    | (m) "int (length matched) < tc_MaxRulesEvaluated cfg" "rule_matches env input ''inactive'' ru" by linarith
  then show ?case
  proof cases
    case m
    consider (stop) "ms = matched @ [ru]" | (go) q' k where "tier2_loop env cfg input rs (matched @ [ru]) q' k = ((res, ms), n')"
      "set ms \<subseteq> set (matched @ [ru]) \<union> {ru \<in> set rs. rule_matches env input ''inactive'' ru} \<and>
       int (length ms) \<le> max (int (length (matched @ [ru]))) (tc_MaxRulesEvaluated cfg)"
      using 2 m qi by (cases x) (auto split: if_splits)
    then show ?thesis using m by cases auto
  qed (use 2 in auto)
qed auto

section \<open>Properties of the pipeline\<close>

lemma confidence_floor_simps [simp]: "tr_Source (confidence_floor cfg r) = tr_Source r"
  by (simp add: confidence_floor_def)

lemma confidence_floor_valid: "ValidateSeverity (tr_Severity r) \<Longrightarrow> ValidateSeverity (tr_Severity (confidence_floor cfg r))"
  by (simp add: confidence_floor_def medium_valid)

lemma llm_tiers_ok:
  assumes "llm_triager (te_TriageWithRules env) (te_TriagePure env) lo"
    and "llm_tiers env cfg input ms n = (Inr r, n')"
  shows "tr_Source r \<in> {SourceLLMRuleInform, SourceLLMTriage} \<and> ValidateSeverity (tr_Severity r)"
  using assms(2) llm_triager.with_rules_valid [OF assms(1)] llm_triager.pure_valid [OF assms(1)]
  by (auto simp: llm_tiers_def runTier25_def runTier3_def intro!: confidence_floor_valid
      split: if_splits prod.splits option.splits sum.splits)

lemma rule_tiers_ok:
  assumes "llm_triager (te_TriageWithRules env) (te_TriagePure env) lo"
    and "rule_tiers env cfg input rules n = (Inr r, n')"
  shows "(\<exists>gs. rules = Inr gs \<and> runTier15 env input gs = Some r) \<or>
    (\<exists>gs ms. rules = Inr gs \<and> runTier15 env input gs = None \<and> runTier2 env cfg input gs n = ((Some r, ms), n')) \<or>
    tr_Source r \<in> {SourceLLMRuleInform, SourceLLMTriage} \<and> ValidateSeverity (tr_Severity r)"
  using assms(2) llm_tiers_ok [OF assms(1)]
  by (fastforce simp: rule_tiers_def split: sum.splits option.splits prod.splits)

text \<open>What the severity of a result rests on, by its source.\<close>

definition justified :: "'n triage_env \<Rightarrow> TriageInput \<Rightarrow> TriageResult \<Rightarrow> bool" where
  "justified env input r \<longleftrightarrow>
     (\<exists>n n' alerts. te_GetAlerts env n = (Inr alerts, n') \<and> tr_Source r = SourceFiringAlert \<and>
        (tr_Severity r, tr_AlertName r) \<in> set (firing_matches input alerts) \<and> tr_Severity r \<noteq> [] \<and>
        (\<forall>x\<in>set (firing_matches input alerts). level_of (fst x) \<le> level_of (tr_Severity r))) \<or>
     (\<exists>gs. tr_Source r = SourcePendingAlert \<and> tr_Severity r \<noteq> [] \<and>
        (tr_Severity r, tr_RuleName r) \<in> set (pending_matches env input gs) \<and>
        (\<forall>x\<in>set (pending_matches env input gs). level_of (fst x) \<le> level_of (tr_Severity r))) \<or>
     (\<exists>ru n n' qr. tr_Source r = SourceRuleEval \<and> rule_matches env input ''inactive'' ru \<and> tr_RuleName r = ru_Name ru \<and>
        tr_Severity r = label_get (ru_Labels ru) ''severity'' \<and>
        te_InstantQuery env (ru_Query ru) n = (Inr qr, n') \<and> qr_Samples qr \<noteq> []) \<or>
     tr_Source r \<in> {SourceLLMRuleInform, SourceLLMTriage} \<and> ValidateSeverity (tr_Severity r)"


lemma llm_tiers_outcome:
  assumes "llm_tiers env cfg input ms n = (res, n')"
  shows "(\<exists>r. res = Inr r \<and> tr_Source r \<in> {SourceLLMRuleInform, SourceLLMTriage}) \<or>
    (\<exists>e k k'. te_TriagePure env input k = (Inl e, k') \<and> res = Inl (Wrapf ''tier 3 LLM triage failed: %w'' [] e))"
  using assms
  by (fastforce simp: llm_tiers_def runTier25_def runTier3_def split: if_splits prod.splits option.splits sum.splits)

definition sources :: "string set" where
  "sources = {SourceFiringAlert, SourcePendingAlert, SourceRuleEval, SourceLLMRuleInform, SourceLLMTriage}"

lemma rule_tiers_outcome:
  assumes "rule_tiers env cfg input rules n = (res, n')"
  shows "(\<exists>r. res = Inr r \<and> tr_Source r \<in> sources) \<or>
    (\<exists>e k k'. te_TriagePure env input k = (Inl e, k') \<and> res = Inl (Wrapf ''tier 3 LLM triage failed: %w'' [] e))"
proof -
  consider (t15) gs r where "runTier15 env input gs = Some r" "res = Inr r"
    | (t2) gs ms r where "runTier2 env cfg input gs n = ((Some r, ms), n')" "res = Inr r"
    | (llm) ms k where "llm_tiers env cfg input ms k = (res, n')"
    using assms by (auto simp: rule_tiers_def split: sum.splits option.splits prod.splits)
  then show ?thesis
  proof cases
    case t15 with runTier15_some [OF t15(1)] show ?thesis by (simp add: sources_def)
  next
    case t2 with tier2_some [OF t2(1) [unfolded runTier2_def]] show ?thesis by (auto simp: sources_def)
  next
    case llm with llm_tiers_outcome [OF llm] show ?thesis by (auto simp: sources_def)
  qed
qed

text \<open>
  The enabled pipeline always comes to one of three ends: a result that names the tier it comes
  from; the error of a cancelled context; or, with the rules and alerts exhausted, the wrapped error
  of the pure LLM classification. No failure of Prometheus or of the PromQL parser makes it fail,
  and every end is recorded in the metrics exactly once when all collectors are set.
\<close>
lemma Triage_outcome:
  assumes "tc_Enabled (tg_config t)" "Triage env t input n = (res, t', n')"
  shows "((\<exists>r. res = Inr r \<and> tr_Source r \<in> sources) \<or>
     (\<exists>e k. te_ctx_err env k = Some e \<and> res = Inl e) \<or>
     (\<exists>e k k'. te_TriagePure env input k = (Inl e, k') \<and> res = Inl (Wrapf ''tier 3 LLM triage failed: %w'' [] e))) \<and>
    (tg_metrics t = Some \<lparr>tm_Total = True, tm_Duration = True, tm_Errors = True\<rparr> \<longrightarrow>
      (\<exists>d. tg_recorded t' = tg_recorded t @ (case res of Inl _ \<Rightarrow> [IncErrors SourceLLMTriage ''llm_failure'']
         | Inr r \<Rightarrow> [IncTotal (tr_Source r) (tr_Severity r), ObserveDuration (tr_Source r) d])))"
proof -
  from assms obtain t1 d where p: "triagePipeline env t input n = (res, t1, n')" and t': "t' = recordMetrics res d t1"
    by (auto simp: Triage_def Let_def split: prod.splits)
  have t1: "tg_metrics t1 = tg_metrics t" "tg_recorded t1 = tg_recorded t"
    using p by (auto simp: triagePipeline_def split: option.splits prod.splits)
  consider (ctx) e k where "te_ctx_err env k = Some e" "res = Inl e"
    | (t1) r where "runTier1 env input n = (Some r, n')" "res = Inr r"
    | (rest) rules k where "rule_tiers env (tg_config t) input rules k = (res, n')"
    using p by (auto simp: triagePipeline_def split: option.splits prod.splits)
  then have o: "(\<exists>r. res = Inr r \<and> tr_Source r \<in> sources) \<or> (\<exists>e k. te_ctx_err env k = Some e \<and> res = Inl e) \<or>
     (\<exists>e k k'. te_TriagePure env input k = (Inl e, k') \<and> res = Inl (Wrapf ''tier 3 LLM triage failed: %w'' [] e))"
  proof cases
    case t1 with runTier1_some [OF t1(1)] show ?thesis by (auto simp: sources_def)
  next
    case rest with rule_tiers_outcome [OF rest] show ?thesis by blast
  qed blast
  have "[] \<notin> sources" by (simp add: sources_def source_defs)
  with o t' t1 show ?thesis by (auto simp: recordMetrics_def split: sum.splits)
qed

section \<open>The budget of a call\<close>

text \<open>\<open>queries\<close> counts the instant queries and \<open>fetches\<close> the reads of the rules Prometheus has answered.\<close>

definition counts_prometheus :: "'n triage_env \<Rightarrow> ('n \<Rightarrow> nat) \<Rightarrow> ('n \<Rightarrow> nat) \<Rightarrow> bool" where
  "counts_prometheus env queries fetches \<longleftrightarrow>
     (\<forall>q n. queries (snd (te_InstantQuery env q n)) = queries n + 1 \<and> fetches (snd (te_InstantQuery env q n)) = fetches n) \<and>
     (\<forall>n. queries (snd (te_GetRules env n)) = queries n \<and> fetches (snd (te_GetRules env n)) = fetches n + 1) \<and>
     (\<forall>n. queries (snd (te_GetAlerts env n)) = queries n \<and> fetches (snd (te_GetAlerts env n)) = fetches n) \<and>
     (\<forall>rs i n. queries (snd (te_TriageWithRules env rs i n)) = queries n \<and> fetches (snd (te_TriageWithRules env rs i n)) = fetches n) \<and>
     (\<forall>i n. queries (snd (te_TriagePure env i n)) = queries n \<and> fetches (snd (te_TriagePure env i n)) = fetches n)"

lemma tier2_queries:
  assumes "counts_prometheus env queries fetches" "tier2_loop env cfg input rs matched q n = (res, n')"
  shows "queries n' \<le> queries n + nat (tc_MaxQueriesPerCall cfg - q) \<and> fetches n' = fetches n"
  using assms(2)
proof (induction rs arbitrary: matched q n)
  case (Cons ru rs)
  obtain x m where qi: "te_InstantQuery env (ru_Query ru) n = (x, m)" by (rule prod.exhaust)
  have m: "queries m = queries n + 1" "fetches m = fetches n"
    using assms(1) qi unfolding counts_prometheus_def by (metis snd_conv)+
  consider (stop) "n' = n"
    | (skip) ms where "tier2_loop env cfg input rs ms q n = (res, n')"
    | (hit) "q < tc_MaxQueriesPerCall cfg" "n' = m"
    | (ask) ms where "q < tc_MaxQueriesPerCall cfg" "tier2_loop env cfg input rs ms (q + 1) m = (res, n')"
    using Cons.prems qi by (cases x) (auto split: if_splits)
  then show ?case
  proof cases
    case skip from Cons.IH [OF this] show ?thesis .
  next
    case ask from Cons.IH [OF ask(2)] m ask(1) show ?thesis by linarith
  qed (use m in auto)
qed simp

lemma llm_tiers_queries:
  assumes "counts_prometheus env queries fetches" "llm_tiers env cfg input ms n = (res, n')"
  shows "queries n' = queries n \<and> fetches n' = fetches n"
proof -
  have c: "te_TriageWithRules env rs i k = (x, k') \<Longrightarrow> queries k' = queries k \<and> fetches k' = fetches k"
    "te_TriagePure env i k = (x, k') \<Longrightarrow> queries k' = queries k \<and> fetches k' = fetches k" for rs i k x k'
    using assms(1) unfolding counts_prometheus_def by (metis snd_conv)+
  show ?thesis using assms(2)
    by (auto simp: llm_tiers_def runTier25_def runTier3_def c split: if_splits prod.splits option.splits sum.splits)
qed

lemma rule_tiers_queries:
  assumes "counts_prometheus env queries fetches" "rule_tiers env cfg input rules n = (res, n')"
  shows "queries n' \<le> queries n + nat (tc_MaxQueriesPerCall cfg) \<and> fetches n' = fetches n"
proof -
  consider "n' = n" | gs x where "runTier2 env cfg input gs n = (x, n')"
    | ms where "llm_tiers env cfg input ms n = (res, n')"
    | gs x k ms where "runTier2 env cfg input gs n = (x, k)" "llm_tiers env cfg input ms k = (res, n')"
    using assms(2) by (auto simp: rule_tiers_def split: sum.splits option.splits prod.splits)
  then show ?thesis
  proof cases
    case (2 gs x) from tier2_queries [OF assms(1) 2 [unfolded runTier2_def]] show ?thesis by simp
  next
    case (3 ms) from llm_tiers_queries [OF assms(1) 3] show ?thesis by simp
  next
    case (4 gs x k ms)
    from tier2_queries [OF assms(1) 4(1) [unfolded runTier2_def]] llm_tiers_queries [OF assms(1) 4(2)]
    show ?thesis by simp
  qed simp
qed

lemma runTier1_counts:
  assumes "counts_prometheus env queries fetches" "runTier1 env input n = (r, n1)"
  shows "queries n1 = queries n \<and> fetches n1 = fetches n"
proof -
  have "n1 = n \<or> n1 = snd (te_GetAlerts env n)"
    using assms(2) by (auto simp: runTier1_def Let_def split: if_splits prod.splits sum.splits)
  with assms(1) show ?thesis unfolding counts_prometheus_def by metis
qed


section \<open>A concrete Prometheus\<close>

text \<open>Two inactive rules match the pod, a low and a critical one; both expressions return data.\<close>

definition rule_of :: "string \<Rightarrow> string \<Rightarrow> string \<Rightarrow> Rule" where
  "rule_of name sev state = \<lparr>ru_Name = name, ru_Query = name, ru_Duration = Fin 0, ru_Labels = [(''severity'', sev)],
     ru_Annotations = [], ru_State = state, ru_Type = ''alerting''\<rparr>"

definition demo_rules :: "RuleGroup list" where
  "demo_rules = [\<lparr>rg_Name = ''g'', rg_File = ''f'', rg_Rules = [rule_of ''r1'' ''low'' ''inactive'', rule_of ''r2'' ''critical'' ''inactive'']\<rparr>]"

definition demo_alert :: "string \<Rightarrow> string \<Rightarrow> Alert" where
  "demo_alert name sev = \<lparr>al_Labels = [(''alertname'', name), (''severity'', sev), (''namespace'', ''ns'')],
     al_Annotations = [], al_State = ''firing'', al_ActiveAt = 0\<rparr>"

definition demo_env :: "Alert list \<Rightarrow> (nat \<times> nat) triage_env" where
  "demo_env alerts = \<lparr>te_ctx_err = (\<lambda>_. None), te_now = (\<lambda>_. 0), te_GetAlerts = (\<lambda>n. (Inr alerts, n)),
     te_GetRules = (\<lambda>(q, f). (Inr demo_rules, (q, f + 1))),
     te_InstantQuery = (\<lambda>_ (q, f). (Inr \<lparr>qr_Samples = [\<lparr>sm_Metric = [], sm_Value = Fin 1, sm_Timestamp = 0\<rparr>]\<rparr>, (q + 1, f))),
     te_parse = (\<lambda>_. Inr [[\<lparr>mt_Name = ''namespace'', mt_Matches = (\<lambda>v. v = ''ns'')\<rparr>]]),
     te_TriageWithRules = Noop_TriageWithRules, te_TriagePure = Noop_TriagePure\<rparr>"

definition demo_triager :: Triager where
  "demo_triager = \<lparr>tg_config = triage_DefaultConfig, tg_cache = NewRulesCache 30,
     tg_metrics = Some \<lparr>tm_Total = True, tm_Duration = True, tm_Errors = True\<rparr>, tg_recorded = []\<rparr>"

definition demo_input :: TriageInput where
  "demo_input = pod_input [(''namespace'', ''ns''), (''kind'', ''Pod'')]"

lemma demo_llm: "llm_triager (te_TriageWithRules (demo_env as)) (te_TriagePure (demo_env as)) id"
  by (simp add: demo_env_def noop.llm_triager_axioms)

lemma demo_counts: "counts_prometheus (demo_env as) fst snd"
  by (auto simp: counts_prometheus_def demo_env_def Noop_TriageWithRules_def Noop_TriagePure_def)

lemma demo_enabled: "tc_Enabled (tg_config demo_triager)" by (simp add: demo_triager_def triage_DefaultConfig_def)

definition demo_run :: "Alert list \<Rightarrow> (goerr + TriageResult) \<times> Triager \<times> (nat \<times> nat)" where
  "demo_run as = Triage (demo_env as) demo_triager demo_input (0, 0)"


lemma Triage_outcome_example:
  "\<exists>r t' n'. demo_run [] = (Inr r, t', n') \<and> tr_Source r = SourceRuleEval \<and> length (tg_recorded t') = 2"
proof -
  obtain r t' n' where e: "Triage (demo_env []) demo_triager demo_input (0, 0) = (r, t', n')" by (rule prod_cases3)
  have s: "isl (fst (demo_run [])) = False" "tr_Source (projr (fst (demo_run []))) = SourceRuleEval" by code_simp+
  then obtain r0 where r: "r = Inr r0" using e by (cases r) (auto simp: demo_run_def)
  from Triage_outcome [OF demo_enabled e [unfolded r]] have "length (tg_recorded t') = 2"
    by (auto simp: demo_triager_def)
  with e r s show ?thesis by (auto simp: demo_run_def)
qed


text \<open>
  When several inactive rules match and return data, the second tier takes the first in the
  order of the rules, not the most severe: with a low and a critical rule, both with data, the
  result is low.
\<close>
lemma tier2_first_not_highest:
  "tr_Severity (projr (fst (demo_run []))) = ''low'' \<and>
   list_all (rule_matches (demo_env []) demo_input ''inactive'') (all_rules demo_rules) \<and>
   list_ex (\<lambda>r. label_get (ru_Labels r) ''severity'' = ''critical'') (all_rules demo_rules)"
proof (intro conjI)
  show "tr_Severity (projr (fst (demo_run []))) = ''low''" by code_simp
  show "list_all (rule_matches (demo_env []) demo_input ''inactive'') (all_rules demo_rules)" by code_simp
  show "list_ex (\<lambda>r. label_get (ru_Labels r) ''severity'' = ''critical'') (all_rules demo_rules)" by code_simp
qed

end
