(* ===== verification/AppConfig.thy ===== *)
theory AppConfig
  imports Resilience Triage
begin

text \<open>
  \<open>internal/config/config.go\<close>: the configuration of the server, its defaults and its validation.
  YAML decoding, URL parsing, the file system and the environment are parameters. \<open>'t\<close> is the shared
  TLS configuration of another module, which the code embeds unread.
\<close>

section \<open>Data\<close>

record SessionConfig =
  se_Namespace :: string
  se_DisconnectTTL :: duration
  se_RetentionTTL :: duration

record SeverityTriageConfig =
  sg_Enabled :: bool
  sg_PrometheusURL :: string
  sg_PrometheusTLSCaFile :: string
  sg_PrometheusBearerTokenFile :: string
  sg_CacheTTLSeconds :: int
  sg_MaxQueriesPerCall :: int
  sg_MaxRulesEvaluated :: int
  sg_LLMConfidence :: f64

record ResilienceConfig =
  re_KA :: DependencyConfig
  re_DS :: DependencyConfig
  re_K8s :: DependencyConfig

record cfg_AuthConfig =
  ca_IssuerURL :: string
  ca_JWKSURL :: string
  ca_Audience :: string
  ca_EnableReplayProtection :: bool
  ca_AllowInsecureIssuers :: bool

record cfg_RateLimitConfig =
  cl_IPRequestsPerSec :: int
  cl_UserRequestsPerSec :: int
  cl_MaxConcurrentSessions :: int
  cl_ToolCallsPerMinute :: int

record 't ServerConfig =
  sc_Port :: int
  sc_TLS :: 't
  sc_TLSRequired :: bool
  sc_MaxSSEConnections :: int

record cfg_AgentConfig =
  ag_GCPProject :: string
  ag_GCPRegion :: string
  ag_KABaseURL :: string
  ag_KAMCPEndpoint :: string
  ag_DSBaseURL :: string
  ag_DSBearerTokenFile :: string
  ag_KATLSCaFile :: string
  ag_DSTLSCaFile :: string
  ag_LLMEndpoint :: string
  ag_LLMModel :: string
  ag_LLMAPIKey :: string

record cfg_MCPConfig =
  mc_Enabled :: bool
  mc_SessionIdleTimeout :: duration

record 't Config =
  cf_Server :: "'t ServerConfig"
  cf_Agent :: cfg_AgentConfig
  cf_MCP :: cfg_MCPConfig
  cf_AgentCardURL :: string
  cf_Auth :: cfg_AuthConfig
  cf_LoggingLevel :: string
  cf_RateLimit :: cfg_RateLimitConfig
  cf_DrainSeconds :: int
  cf_Resilience :: ResilienceConfig
  cf_GroupMapping :: "(string \<times> string) list"
  cf_SeverityTriage :: SeverityTriageConfig
  cf_Session :: SessionConfig

definition ns_ms :: int where "ns_ms = 1000000"

definition zero_dependency :: DependencyConfig where
  "zero_dependency = \<lparr>dc_ConnectTimeout = 0, dc_RequestTimeout = 0, dc_CBMaxRequests = 0, dc_CBInterval = 0, dc_CBTimeout = 0,
     dc_CBFailureThreshold = 0, dc_RetryMax = 0, dc_RetryInitBackoff = 0, dc_RetryMaxBackoff = 0, dc_RetryableStatuses = []\<rparr>"

text \<open>The zero value of the type, with \<open>t0\<close> the zero value of the shared TLS configuration.\<close>

definition zero_config :: "'t \<Rightarrow> 't Config" where
  "zero_config t0 = \<lparr>
     cf_Server = \<lparr>sc_Port = 0, sc_TLS = t0, sc_TLSRequired = False, sc_MaxSSEConnections = 0\<rparr>,
     cf_Agent = \<lparr>ag_GCPProject = [], ag_GCPRegion = [], ag_KABaseURL = [], ag_KAMCPEndpoint = [], ag_DSBaseURL = [],
       ag_DSBearerTokenFile = [], ag_KATLSCaFile = [], ag_DSTLSCaFile = [], ag_LLMEndpoint = [], ag_LLMModel = [],
       ag_LLMAPIKey = []\<rparr>,
     cf_MCP = \<lparr>mc_Enabled = False, mc_SessionIdleTimeout = 0\<rparr>, cf_AgentCardURL = [],
     cf_Auth = \<lparr>ca_IssuerURL = [], ca_JWKSURL = [], ca_Audience = [], ca_EnableReplayProtection = False,
       ca_AllowInsecureIssuers = False\<rparr>,
     cf_LoggingLevel = [],
     cf_RateLimit = \<lparr>cl_IPRequestsPerSec = 0, cl_UserRequestsPerSec = 0, cl_MaxConcurrentSessions = 0, cl_ToolCallsPerMinute = 0\<rparr>,
     cf_DrainSeconds = 0,
     cf_Resilience = \<lparr>re_KA = zero_dependency, re_DS = zero_dependency, re_K8s = zero_dependency\<rparr>,
     cf_GroupMapping = [],
     cf_SeverityTriage = \<lparr>sg_Enabled = False, sg_PrometheusURL = [], sg_PrometheusTLSCaFile = [], sg_PrometheusBearerTokenFile = [],
       sg_CacheTTLSeconds = 0, sg_MaxQueriesPerCall = 0, sg_MaxRulesEvaluated = 0, sg_LLMConfidence = Fin 0\<rparr>,
     cf_Session = \<lparr>se_Namespace = [], se_DisconnectTTL = 0, se_RetentionTTL = 0\<rparr>\<rparr>"

definition cfg_DefaultConfig :: "'t \<Rightarrow> 't Config" where
  "cfg_DefaultConfig t0 = (zero_config t0)\<lparr>
     cf_Server := (cf_Server (zero_config t0))\<lparr>sc_Port := 8443\<rparr>,
     cf_Agent := (cf_Agent (zero_config t0))\<lparr>ag_GCPRegion := ''us-central1'', ag_KABaseURL := ''http://localhost:8080'',
       ag_KAMCPEndpoint := ''http://localhost:8080/api/v1/mcp/'', ag_DSBaseURL := ''http://localhost:9090''\<rparr>,
     cf_LoggingLevel := ''INFO'',
     cf_RateLimit := (cf_RateLimit (zero_config t0))\<lparr>cl_IPRequestsPerSec := 100, cl_UserRequestsPerSec := 50\<rparr>,
     cf_DrainSeconds := 15,
     cf_Resilience := \<lparr>
       re_KA = \<lparr>dc_ConnectTimeout = 5 * ns_second, dc_RequestTimeout = 30 * ns_second, dc_CBMaxRequests = 3,
         dc_CBInterval = 10 * ns_second, dc_CBTimeout = 30 * ns_second, dc_CBFailureThreshold = 5, dc_RetryMax = 2,
         dc_RetryInitBackoff = 500 * ns_ms, dc_RetryMaxBackoff = 5 * ns_second, dc_RetryableStatuses = [502, 503, 504]\<rparr>,
       re_DS = \<lparr>dc_ConnectTimeout = 3 * ns_second, dc_RequestTimeout = 10 * ns_second, dc_CBMaxRequests = 3,
         dc_CBInterval = 10 * ns_second, dc_CBTimeout = 15 * ns_second, dc_CBFailureThreshold = 3, dc_RetryMax = 3,
         dc_RetryInitBackoff = 200 * ns_ms, dc_RetryMaxBackoff = 3 * ns_second, dc_RetryableStatuses = [502, 503, 504]\<rparr>,
       re_K8s = \<lparr>dc_ConnectTimeout = 5 * ns_second, dc_RequestTimeout = 30 * ns_second, dc_CBMaxRequests = 3,
         dc_CBInterval = 10 * ns_second, dc_CBTimeout = 30 * ns_second, dc_CBFailureThreshold = 5, dc_RetryMax = 0,
         dc_RetryInitBackoff = 0, dc_RetryMaxBackoff = 0, dc_RetryableStatuses = []\<rparr>\<rparr>\<rparr>"

text \<open>\<open>unmarshal data cfg\<close> is \<open>yaml.Unmarshal\<close> into an existing configuration.\<close>

definition Load :: "'t \<Rightarrow> (string \<Rightarrow> 't Config \<Rightarrow> goerr + 't Config) \<Rightarrow> string \<Rightarrow> goerr + 't Config" where
  "Load t0 unmarshal data =
    (if data = [] then Inr (cfg_DefaultConfig t0)
     else (case unmarshal data (cfg_DefaultConfig t0) of
         Inl e \<Rightarrow> Inl (Wrapf ''parsing config: %w'' [] e)
       | Inr cfg \<Rightarrow> Inr cfg))"

definition ResolveDefaults :: "(string \<Rightarrow> string) \<Rightarrow> 't Config \<Rightarrow> 't Config" where
  "ResolveDefaults getenv c =
    (let c = (if cf_AgentCardURL c = [] then c\<lparr>cf_AgentCardURL := ''https://localhost:'' @ show_int (sc_Port (cf_Server c))\<rparr> else c)
     in if ag_LLMAPIKey (cf_Agent c) = [] then c\<lparr>cf_Agent := (cf_Agent c)\<lparr>ag_LLMAPIKey := getenv ''LLM_API_KEY''\<rparr>\<rparr> else c)"

section \<open>Validation\<close>

text \<open>The collaborators of the validation: \<open>url.Parse\<close> down to the scheme, \<open>os.Stat\<close>, and the upper-case table.\<close>

record val_env =
  ve_parse :: "string \<Rightarrow> goerr + string"
  ve_stat :: "string \<Rightarrow> goerr option"
  ve_upper :: "rune \<Rightarrow> rune"

definition rune_upper :: "(rune \<Rightarrow> rune) \<Rightarrow> rune \<Rightarrow> rune" where
  "rune_upper up r = (if r < 128 then (if 97 \<le> r \<and> r \<le> 122 then r - 32 else r) else up r)"

definition to_upper :: "(rune \<Rightarrow> rune) \<Rightarrow> string \<Rightarrow> string" where
  "to_upper up s = strings_map (\<lambda>r. Some (rune_upper up r)) s"

text \<open>A chain of \<open>if err := ...; err != nil { return err }\<close>: the first error of the list.\<close>

fun first_err :: "goerr option list \<Rightarrow> goerr option" where
  "first_err [] = None"
| "first_err (None # es) = first_err es"
| "first_err (Some e # es) = Some e"

definition check_that :: "bool \<Rightarrow> goerr \<Rightarrow> goerr option" where
  "check_that ok e = (if ok then None else Some e)"

definition validateURL :: "val_env \<Rightarrow> string \<Rightarrow> string \<Rightarrow> goerr option" where
  "validateURL env field raw = (case ve_parse env raw of
     Inl e \<Rightarrow> Some (Wrapf ''%s is not a valid URL: %w'' [field] e)
   | Inr scheme \<Rightarrow> check_that (scheme \<noteq> [])
       (Errorf ''%s must include a scheme (http:// or https://), got %q'' [field, raw]))"

definition validateDependencyConfig :: "string \<Rightarrow> DependencyConfig \<Rightarrow> goerr option" where
  "validateDependencyConfig prefix c = first_err [
     check_that (\<not> dc_ConnectTimeout c < 0) (Errorf ''%s.connectTimeout must be non-negative, got %v'' [prefix, show_int (dc_ConnectTimeout c)]),
     check_that (\<not> dc_RequestTimeout c < 0) (Errorf ''%s.requestTimeout must be non-negative, got %v'' [prefix, show_int (dc_RequestTimeout c)]),
     check_that (\<not> (dc_ConnectTimeout c > 0 \<and> dc_RequestTimeout c > 0 \<and> dc_RequestTimeout c < dc_ConnectTimeout c))
       (Errorf ''%s.requestTimeout (%v) must be >= connectTimeout (%v)'' [prefix, show_int (dc_RequestTimeout c), show_int (dc_ConnectTimeout c)]),
     check_that (\<not> (dc_CBFailureThreshold c = 0 \<or> dc_CBFailureThreshold c > 100))
       (Errorf ''%s.cbFailureThreshold must be 1-100, got %d'' [prefix, show_nat (unat (dc_CBFailureThreshold c))]),
     check_that (\<not> dc_RetryMax c > 10) (Errorf ''%s.retryMax must be 0-10, got %d'' [prefix, show_int (dc_RetryMax c)]),
     first_err (map (\<lambda>status. check_that (\<not> (status < 400 \<or> status > 599))
       (Errorf ''%s.retryableStatuses values must be 400-599, got %d'' [prefix, show_int status])) (dc_RetryableStatuses c))]"

definition validateResilience :: "'t Config \<Rightarrow> goerr option" where
  "validateResilience c = first_err [
     validateDependencyConfig ''resilience.ka'' (re_KA (cf_Resilience c)),
     validateDependencyConfig ''resilience.ds'' (re_DS (cf_Resilience c)),
     validateDependencyConfig ''resilience.k8s'' (re_K8s (cf_Resilience c))]"

definition validateSession :: "'t Config \<Rightarrow> goerr option" where
  "validateSession c = check_that
     (\<not> (se_Namespace (cf_Session c) = [] \<and> (se_DisconnectTTL (cf_Session c) > 0 \<or> se_RetentionTTL (cf_Session c) > 0)))
     (Errorf ''session.namespace must be set when session TTLs are configured'' [])"

definition validateAuth :: "val_env \<Rightarrow> 't Config \<Rightarrow> goerr option" where
  "validateAuth env c =
    (if sc_TLSRequired (cf_Server c) \<and> ca_IssuerURL (cf_Auth c) = []
     then Some (Errorf ''auth.issuerURL is required when server.tls.required is true (production mode)'' [])
     else if ca_IssuerURL (cf_Auth c) = [] then None
     else first_err [
       validateURL env ''auth.issuerURL'' (ca_IssuerURL (cf_Auth c)),
       (if ca_JWKSURL (cf_Auth c) \<noteq> [] then validateURL env ''auth.jwksURL'' (ca_JWKSURL (cf_Auth c)) else None)])"

definition validLogLevels :: "string list" where
  "validLogLevels = [''DEBUG'', ''INFO'', ''WARN'', ''ERROR'']"

definition validateLogging :: "val_env \<Rightarrow> 't Config \<Rightarrow> goerr option" where
  "validateLogging env c = check_that (to_upper (ve_upper env) (cf_LoggingLevel c) \<in> set validLogLevels)
     (Errorf ''logging.level must be one of DEBUG, INFO, WARN, ERROR; got %q'' [cf_LoggingLevel c])"

definition validateRateLimit :: "'t Config \<Rightarrow> goerr option" where
  "validateRateLimit c = first_err [
     check_that (\<not> cl_IPRequestsPerSec (cf_RateLimit c) \<le> 0)
       (Errorf ''rateLimit.ipRequestsPerSec must be positive, got %d'' [show_int (cl_IPRequestsPerSec (cf_RateLimit c))]),
     check_that (\<not> cl_UserRequestsPerSec (cf_RateLimit c) \<le> 0)
       (Errorf ''rateLimit.userRequestsPerSec must be positive, got %d'' [show_int (cl_UserRequestsPerSec (cf_RateLimit c))])]"

definition validateShutdown :: "'t Config \<Rightarrow> goerr option" where
  "validateShutdown c = check_that (\<not> cf_DrainSeconds c \<le> 0)
     (Errorf ''shutdown.drainSeconds must be positive, got %d'' [show_int (cf_DrainSeconds c)])"

definition accessible :: "val_env \<Rightarrow> string \<Rightarrow> (goerr \<Rightarrow> goerr) \<Rightarrow> goerr option" where
  "accessible env path wrap = (if path = [] then None else map_option wrap (ve_stat env path))"

definition validateTLSPaths :: "val_env \<Rightarrow> 't Config \<Rightarrow> goerr option" where
  "validateTLSPaths env c = first_err (map (\<lambda>(field, path).
     accessible env path (Wrapf ''%s: CA file %q is not accessible: %w'' [field, path]))
     [(''agent.kaTlsCaFile'', ag_KATLSCaFile (cf_Agent c)), (''agent.dsTlsCaFile'', ag_DSTLSCaFile (cf_Agent c)),
      (''severityTriage.prometheusTlsCaFile'', sg_PrometheusTLSCaFile (cf_SeverityTriage c))])"

definition validateSeverityTriage :: "val_env \<Rightarrow> 't Config \<Rightarrow> goerr option" where
  "validateSeverityTriage env c =
    (let st = cf_SeverityTriage c in
     if \<not> sg_Enabled st then None
     else first_err [
       check_that (sg_PrometheusURL st \<noteq> []) (Errorf ''severityTriage.prometheusURL is required when triage is enabled'' []),
       validateURL env ''severityTriage.prometheusURL'' (sg_PrometheusURL st),
       check_that (\<not> (f64_lt (sg_LLMConfidence st) (Fin 0) \<or> f64_lt (Fin 1) (sg_LLMConfidence st)))
         (Errorf ''severityTriage.llmConfidence must be between 0.0 and 1.0, got %v'' []),
       accessible env (sg_PrometheusBearerTokenFile st)
         (Wrapf ''severityTriage.prometheusBearerTokenFile %q is not accessible: %w'' [sg_PrometheusBearerTokenFile st])])"

definition Config_Validate :: "val_env \<Rightarrow> 't Config \<Rightarrow> goerr option" where
  "Config_Validate env c = first_err [
     check_that (\<not> (sc_Port (cf_Server c) < 1 \<or> sc_Port (cf_Server c) > 65535))
       (Errorf ''server.port must be 1-65535, got %d'' [show_int (sc_Port (cf_Server c))]),
     check_that (ag_KABaseURL (cf_Agent c) \<noteq> []) (Errorf ''agent.kaBaseURL is required'' []),
     validateURL env ''agent.kaBaseURL'' (ag_KABaseURL (cf_Agent c)),
     check_that (ag_KAMCPEndpoint (cf_Agent c) \<noteq> []) (Errorf ''agent.kaMCPEndpoint is required'' []),
     validateURL env ''agent.kaMCPEndpoint'' (ag_KAMCPEndpoint (cf_Agent c)),
     check_that (ag_DSBaseURL (cf_Agent c) \<noteq> []) (Errorf ''agent.dsBaseURL is required'' []),
     validateURL env ''agent.dsBaseURL'' (ag_DSBaseURL (cf_Agent c)),
     accessible env (ag_DSBearerTokenFile (cf_Agent c))
       (Wrapf ''agent.dsBearerTokenFile %q is not accessible: %w'' [ag_DSBearerTokenFile (cf_Agent c)]),
     validateAuth env c, validateLogging env c, validateRateLimit c, validateShutdown c, validateResilience c,
     validateTLSPaths env c, validateSeverityTriage env c, validateSession c]"

section \<open>What an accepted configuration satisfies\<close>

named_theorems accept_iff \<open>when a check of the validation passes\<close>

lemma first_err_None [accept_iff]: "first_err es = None \<longleftrightarrow> (\<forall>e\<in>set es. e = None)"
  by (induction es rule: first_err.induct) auto

lemma check_that_None [accept_iff]: "check_that ok e = None \<longleftrightarrow> ok"
  by (simp add: check_that_def)

definition good_url :: "val_env \<Rightarrow> string \<Rightarrow> bool" where
  "good_url env raw \<longleftrightarrow> (\<exists>scheme. ve_parse env raw = Inr scheme \<and> scheme \<noteq> [])"

lemma validateURL_None [accept_iff]: "validateURL env field raw = None \<longleftrightarrow> good_url env raw"
  by (auto simp: validateURL_def good_url_def check_that_def split: sum.splits)

definition good_file :: "val_env \<Rightarrow> string \<Rightarrow> bool" where
  "good_file env path \<longleftrightarrow> path = [] \<or> ve_stat env path = None"

lemma accessible_None [accept_iff]: "accessible env path w = None \<longleftrightarrow> good_file env path"
  by (auto simp: accessible_def good_file_def)

definition dependency_ok :: "DependencyConfig \<Rightarrow> bool" where
  "dependency_ok c \<longleftrightarrow> 0 \<le> dc_ConnectTimeout c \<and> 0 \<le> dc_RequestTimeout c \<and>
     (dc_RequestTimeout c = 0 \<or> dc_ConnectTimeout c \<le> dc_RequestTimeout c) \<and>
     dc_CBFailureThreshold c \<in> {1..100} \<and> dc_RetryMax c \<le> 10 \<and> set (dc_RetryableStatuses c) \<subseteq> {400..599}"

lemma word_pos_iff: "(1 :: 32 word) \<le> x \<longleftrightarrow> x \<noteq> 0"
  by (simp add: word_le_nat_alt Suc_le_eq unat_gt_0)

lemma validateDependencyConfig_None [accept_iff]: "validateDependencyConfig p c = None \<longleftrightarrow> dependency_ok c"
  unfolding validateDependencyConfig_def dependency_ok_def
  by (auto simp: accept_iff word_pos_iff not_less subset_iff)

text \<open>The reference: what the configuration must be, as one condition.\<close>

definition config_ok :: "val_env \<Rightarrow> 't Config \<Rightarrow> bool" where
  "config_ok env c \<longleftrightarrow>
     sc_Port (cf_Server c) \<in> {1..65535} \<and>
     (\<forall>u\<in>{ag_KABaseURL (cf_Agent c), ag_KAMCPEndpoint (cf_Agent c), ag_DSBaseURL (cf_Agent c)}. u \<noteq> [] \<and> good_url env u) \<and>
     (\<forall>f\<in>{ag_DSBearerTokenFile (cf_Agent c), ag_KATLSCaFile (cf_Agent c), ag_DSTLSCaFile (cf_Agent c),
        sg_PrometheusTLSCaFile (cf_SeverityTriage c)}. good_file env f) \<and>
     (sc_TLSRequired (cf_Server c) \<longrightarrow> ca_IssuerURL (cf_Auth c) \<noteq> []) \<and>
     (ca_IssuerURL (cf_Auth c) \<noteq> [] \<longrightarrow> good_url env (ca_IssuerURL (cf_Auth c)) \<and>
        (ca_JWKSURL (cf_Auth c) \<noteq> [] \<longrightarrow> good_url env (ca_JWKSURL (cf_Auth c)))) \<and>
     to_upper (ve_upper env) (cf_LoggingLevel c) \<in> {''DEBUG'', ''INFO'', ''WARN'', ''ERROR''} \<and>
     0 < cl_IPRequestsPerSec (cf_RateLimit c) \<and> 0 < cl_UserRequestsPerSec (cf_RateLimit c) \<and> 0 < cf_DrainSeconds c \<and>
     (\<forall>d\<in>{re_KA (cf_Resilience c), re_DS (cf_Resilience c), re_K8s (cf_Resilience c)}. dependency_ok d) \<and>
     (sg_Enabled (cf_SeverityTriage c) \<longrightarrow>
        sg_PrometheusURL (cf_SeverityTriage c) \<noteq> [] \<and> good_url env (sg_PrometheusURL (cf_SeverityTriage c)) \<and>
        good_file env (sg_PrometheusBearerTokenFile (cf_SeverityTriage c)) \<and>
        (sg_LLMConfidence (cf_SeverityTriage c) = FNaN \<or>
         f64_le (Fin 0) (sg_LLMConfidence (cf_SeverityTriage c)) \<and> f64_le (sg_LLMConfidence (cf_SeverityTriage c)) (Fin 1))) \<and>
     (0 < se_DisconnectTTL (cf_Session c) \<or> 0 < se_RetentionTTL (cf_Session c) \<longrightarrow> se_Namespace (cf_Session c) \<noteq> [])"

lemma confidence_range:
  "\<not> (f64_lt x (Fin 0) \<or> f64_lt (Fin 1) x) \<longleftrightarrow> x = FNaN \<or> f64_le (Fin 0) x \<and> f64_le x (Fin 1)"
  by (cases x) auto

lemma validateAuth_None [accept_iff]:
  "validateAuth env c = None \<longleftrightarrow> (sc_TLSRequired (cf_Server c) \<longrightarrow> ca_IssuerURL (cf_Auth c) \<noteq> []) \<and>
     (ca_IssuerURL (cf_Auth c) \<noteq> [] \<longrightarrow> good_url env (ca_IssuerURL (cf_Auth c)) \<and>
        (ca_JWKSURL (cf_Auth c) \<noteq> [] \<longrightarrow> good_url env (ca_JWKSURL (cf_Auth c))))"
  by (auto simp: validateAuth_def accept_iff)

lemma validateSeverityTriage_None [accept_iff]:
  "validateSeverityTriage env c = None \<longleftrightarrow> (sg_Enabled (cf_SeverityTriage c) \<longrightarrow>
     sg_PrometheusURL (cf_SeverityTriage c) \<noteq> [] \<and> good_url env (sg_PrometheusURL (cf_SeverityTriage c)) \<and>
     good_file env (sg_PrometheusBearerTokenFile (cf_SeverityTriage c)) \<and>
     (sg_LLMConfidence (cf_SeverityTriage c) = FNaN \<or>
      f64_le (Fin 0) (sg_LLMConfidence (cf_SeverityTriage c)) \<and> f64_le (sg_LLMConfidence (cf_SeverityTriage c)) (Fin 1)))"
  using confidence_range [of "sg_LLMConfidence (cf_SeverityTriage c)"]
  by (simp add: validateSeverityTriage_def accept_iff Let_def) blast

lemma validateLogging_None [accept_iff]:
  "validateLogging env c = None \<longleftrightarrow> to_upper (ve_upper env) (cf_LoggingLevel c) \<in> {''DEBUG'', ''INFO'', ''WARN'', ''ERROR''}"
  by (simp add: validateLogging_def accept_iff validLogLevels_def)

lemma validate_config_ok: "Config_Validate env c = None \<longleftrightarrow> config_ok env c"
proof -
  have port: "\<not> (p < 1 \<or> p > 65535) \<longleftrightarrow> p \<in> {1..65535}" for p :: int by auto
  have sess: "\<not> (a \<and> (b \<or> d)) \<longleftrightarrow> (b \<or> d \<longrightarrow> \<not> a)" for a b d by blast
  show ?thesis
    unfolding Config_Validate_def config_ok_def validateRateLimit_def validateShutdown_def validateResilience_def
      validateTLSPaths_def validateSession_def
    by (simp add: accept_iff port sess not_le del: de_Morgan_disj de_Morgan_conj) blast
qed


lemma NaN_confidence_accepted:
  "validateSeverityTriage env c = None \<Longrightarrow>
   validateSeverityTriage env (c\<lparr>cf_SeverityTriage := (cf_SeverityTriage c)\<lparr>sg_LLMConfidence := FNaN\<rparr>\<rparr>) = None"
  by (simp add: accept_iff)

text \<open>The environment in which every URL is http and every file exists.\<close>

definition plain_val_env :: val_env where
  "plain_val_env = \<lparr>ve_parse = (\<lambda>_. Inr ''http''), ve_stat = (\<lambda>_. None), ve_upper = id\<rparr>"

lemma level_INFO: "to_upper id ''INFO'' = ''INFO''" by code_simp

lemma default_config_ok: "config_ok plain_val_env (cfg_DefaultConfig t0)"
  unfolding config_ok_def cfg_DefaultConfig_def zero_config_def plain_val_env_def
  by (simp add: good_url_def good_file_def dependency_ok_def level_INFO)

end
