(* ===== verification/HotReload.thy ===== *)
theory HotReload
  imports AuditTrail GoPath
begin

text \<open>
  \<open>internal/config/hotreload.go\<close>: the watcher of the mounted configuration file. The select loop is
  a step function over its inputs (file-system notifications, the debounce timer, cancellation), and
  a run is any sequence of inputs. The file system and the reload callback see a world \<open>'w\<close> that may
  differ at every step; the hash and the rendering of errors are parameters. Log lines are left out.

  The locale \<open>reload_contract\<close> is what the owner of a watcher relies on: when the callback only
  accepts good content, the active content of a started watcher is good.
\<close>

section \<open>Data\<close>

definition debounceDuration :: duration where "debounceDuration = 200 * 1000000"
definition maxConfigSize :: nat where "maxConfigSize = 1048576"

datatype watch_phase = NotWatching | Watching | Returned

text \<open>
  \<open>fw_deadline\<close> is when the pending debounce timer fires (\<open>None\<close>: \<open>debounceCh\<close> is nil); \<open>fw_audit\<close>
  are the events given to the auditor. The ghosts are \<open>fw_history\<close>, every content that was active, in
  order, \<open>fw_notified\<close>, the number of relevant notifications, and \<open>fw_checks\<close>, how often
  \<open>handleFileChange\<close> ran.
\<close>

record FileWatcher =
  fw_path :: string
  fw_auditor :: bool
  fw_lastContent :: string
  fw_lastHash :: string
  fw_lastReload :: gotime
  fw_started :: bool
  fw_stopped :: bool
  fw_loop :: watch_phase
  fw_deadline :: "gotime option"
  fw_audit :: "Event list"
  fw_history :: "string list"
  fw_notified :: nat
  fw_checks :: nat

text \<open>
  What opening and reading a file gives: an error on open, or the bytes read and the error that ended
  the read (\<open>None\<close> at the end of the file).
\<close>

type_synonym file_result = "goerr + string \<times> goerr option"

record 'w watch_env =
  we_file :: "'w \<Rightarrow> string \<Rightarrow> file_result"
  we_callback :: "'w \<Rightarrow> string \<Rightarrow> goerr option"
  we_hash :: "string \<Rightarrow> string"
  we_render :: "goerr \<Rightarrow> string"

section \<open>Operations\<close>

definition NewFileWatcher :: "string \<Rightarrow> bool \<Rightarrow> bool \<Rightarrow> goerr + FileWatcher" where
  "NewFileWatcher path has_callback has_auditor =
    (if path = [] then Inl (Errorf ''path is required'' [])
     else if \<not> has_callback then Inl (Errorf ''callback is required'' [])
     else Inr \<lparr>fw_path = path, fw_auditor = has_auditor, fw_lastContent = [], fw_lastHash = [], fw_lastReload = 0,
       fw_started = False, fw_stopped = False, fw_loop = NotWatching, fw_deadline = None, fw_audit = [],
       fw_history = [], fw_notified = 0, fw_checks = 0\<rparr>)"

text \<open>\<open>io.ReadAll\<close> of \<open>io.LimitReader\<close>: an error behind the limit is not reached.\<close>

definition read_limited :: "nat \<Rightarrow> string \<times> goerr option \<Rightarrow> goerr + string" where
  "read_limited n r = (case r of (bytes, err) \<Rightarrow>
    if n \<le> length bytes then Inr (take n bytes)
    else (case err of Some e \<Rightarrow> Inl e | None \<Rightarrow> Inr bytes))"

definition readFileLimited :: "'w watch_env \<Rightarrow> 'w \<Rightarrow> FileWatcher \<Rightarrow> goerr + string" where
  "readFileLimited env w fw = (case we_file env w (fw_path fw) of
     Inl e \<Rightarrow> Inl e
   | Inr f \<Rightarrow> (case read_limited (maxConfigSize + 1) f of
       Inl e \<Rightarrow> Inl e
     | Inr content \<Rightarrow>
         if length content > maxConfigSize
         then Inl (Errorf ''config file exceeds maximum size (%d bytes)'' [show_nat maxConfigSize])
         else Inr content))"

definition activate :: "'w watch_env \<Rightarrow> gotime \<Rightarrow> string \<Rightarrow> FileWatcher \<Rightarrow> FileWatcher" where
  "activate env now content fw = fw\<lparr>fw_lastContent := content, fw_lastHash := we_hash env content,
     fw_lastReload := now, fw_history := fw_history fw @ [content]\<rparr>"

definition loadInitial :: "'w watch_env \<Rightarrow> 'w \<Rightarrow> gotime \<Rightarrow> FileWatcher \<Rightarrow> goerr option \<times> FileWatcher" where
  "loadInitial env w now fw = (case readFileLimited env w fw of
     Inl e \<Rightarrow> (Some (Wrapf ''read file %s: %w'' [fw_path fw] e), fw)
   | Inr content \<Rightarrow> (case we_callback env w content of
       Some e \<Rightarrow> (Some (Wrapf ''callback rejected initial content: %w'' [] e), fw)
     | None \<Rightarrow> (None, activate env now content fw)))"

text \<open>\<open>new_watcher\<close> and \<open>add_dir\<close> are the results of \<open>fsnotify.NewWatcher\<close> and of adding the directory.\<close>

definition fw_Start ::
  "'w watch_env \<Rightarrow> 'w \<Rightarrow> gotime \<Rightarrow> goerr option \<Rightarrow> goerr option \<Rightarrow> FileWatcher \<Rightarrow> goerr option \<times> FileWatcher" where
  "fw_Start env w now new_watcher add_dir fw = (case loadInitial env w now fw of
     (Some e, fw) \<Rightarrow> (Some (Wrapf ''initial load: %w'' [] e), fw)
   | (None, fw) \<Rightarrow> (case new_watcher of
       Some e \<Rightarrow> (Some (Wrapf ''create fsnotify watcher: %w'' [] e), fw)
     | None \<Rightarrow> (case add_dir of
         Some e \<Rightarrow> (Some (Wrapf ''watch directory %s: %w'' [filepath_Dir (fw_path fw)] e), fw)
       | None \<Rightarrow> (None, fw\<lparr>fw_started := True, fw_loop := Watching\<rparr>))))"

definition emit_config :: "EventType \<Rightarrow> (string \<times> string) list \<Rightarrow> FileWatcher \<Rightarrow> FileWatcher" where
  "emit_config ty detail fw =
    (if fw_auditor fw then fw\<lparr>fw_audit := fw_audit fw @ [mk_event ty [] [] [] (Some detail)]\<rparr> else fw)"

definition handleFileChange :: "'w watch_env \<Rightarrow> 'w \<Rightarrow> gotime \<Rightarrow> FileWatcher \<Rightarrow> FileWatcher" where
  "handleFileChange env w now fw0 =
    (let fw = fw0\<lparr>fw_checks := fw_checks fw0 + 1\<rparr> in
     case readFileLimited env w fw of
       Inl e \<Rightarrow> fw
     | Inr content \<Rightarrow>
         (let newHash = we_hash env content in
          if newHash = fw_lastHash fw then fw
          else (case we_callback env w content of
              Some e \<Rightarrow> emit_config EventConfigRejected
                [(''path'', fw_path fw), (''hash'', newHash), (''reason'', RedactError (Some (we_render env e)))] fw
            | None \<Rightarrow> activate env now content
                (emit_config EventConfigReloaded [(''path'', fw_path fw), (''hash'', newHash)] fw))))"

definition GetLastContent :: "FileWatcher \<Rightarrow> string" where
  "GetLastContent fw = fw_lastContent fw"

definition GetLastHash :: "FileWatcher \<Rightarrow> string" where
  "GetLastHash fw = fw_lastHash fw"

text \<open>\<open>Stop\<close> closes \<open>stopCh\<close> once; the loop leaves at its next select, for which a started caller waits.\<close>

definition fw_Stop :: "FileWatcher \<Rightarrow> FileWatcher" where
  "fw_Stop fw = fw\<lparr>fw_stopped := True, fw_loop := (if fw_started fw then Returned else fw_loop fw), fw_deadline := None\<rparr>"

section \<open>The watch loop\<close>

datatype 'w watch_input =
    CtxDone
  | FsEvent gotime string bool
  | FsEventsClosed
  | FsError
  | FsErrorsClosed
  | TimerTick gotime 'w
  | StopCall

definition relevant :: "FileWatcher \<Rightarrow> string \<Rightarrow> bool \<Rightarrow> bool" where
  "relevant fw name has_create \<longleftrightarrow> filepath_Base name = filepath_Base (fw_path fw) \<or>
     (has_create \<and> filepath_Base name = ''..data'')"

definition leave :: "FileWatcher \<Rightarrow> FileWatcher" where
  "leave fw = fw\<lparr>fw_loop := Returned, fw_deadline := None\<rparr>"

text \<open>
  One turn of the loop. A tick before the deadline is no input of the select; the timer channel of a
  replaced or fired timer is gone. A \<open>Stop\<close> may come at any time, also before \<open>Start\<close>.
\<close>

fun watchLoop_turn :: "'w watch_env \<Rightarrow> 'w watch_input \<Rightarrow> FileWatcher \<Rightarrow> FileWatcher" where
  "watchLoop_turn env StopCall fw = fw_Stop fw"
| "watchLoop_turn env CtxDone fw = (if fw_loop fw = Watching then leave fw else fw)"
| "watchLoop_turn env FsEventsClosed fw = (if fw_loop fw = Watching then leave fw else fw)"
| "watchLoop_turn env FsErrorsClosed fw = (if fw_loop fw = Watching then leave fw else fw)"
| "watchLoop_turn env FsError fw = fw"
| "watchLoop_turn env (FsEvent now name has_create) fw =
    (if fw_loop fw = Watching \<and> relevant fw name has_create
     then fw\<lparr>fw_deadline := Some (now + debounceDuration), fw_notified := fw_notified fw + 1\<rparr> else fw)"
| "watchLoop_turn env (TimerTick now w) fw =
    (case fw_deadline fw of
       Some d \<Rightarrow> if fw_loop fw = Watching \<and> d \<le> now then handleFileChange env w now (fw\<lparr>fw_deadline := None\<rparr>) else fw
     | None \<Rightarrow> fw)"

primrec watchLoop :: "'w watch_env \<Rightarrow> 'w watch_input list \<Rightarrow> FileWatcher \<Rightarrow> FileWatcher" where
  "watchLoop env [] fw = fw"
| "watchLoop env (i # is) fw = watchLoop env is (watchLoop_turn env i fw)"

section \<open>Invariant\<close>

definition reloaded_hashes :: "FileWatcher \<Rightarrow> string list" where
  "reloaded_hashes fw = map (\<lambda>ev. the (map_of (the (ev_Detail ev)) ''hash''))
     (filter (\<lambda>ev. ev_Type ev = EventConfigReloaded) (fw_audit fw))"

definition watcher_inv :: "'w watch_env \<Rightarrow> FileWatcher \<Rightarrow> bool" where
  "watcher_inv env fw \<longleftrightarrow>
     fw_history fw \<noteq> [] \<and> last (fw_history fw) = fw_lastContent fw \<and> fw_lastHash fw = we_hash env (fw_lastContent fw) \<and>
     (\<forall>c\<in>set (fw_history fw). length c \<le> maxConfigSize \<and> (\<exists>w. we_callback env w c = None)) \<and>
     (fw_auditor fw \<longrightarrow> reloaded_hashes fw = map (we_hash env) (tl (fw_history fw))) \<and>
     fw_checks fw + (if fw_deadline fw = None then 0 else 1) \<le> fw_notified fw"

lemma readFileLimited_size: "readFileLimited env w fw = Inr c \<Longrightarrow> length c \<le> maxConfigSize"
  by (auto simp: readFileLimited_def split: sum.splits if_splits)

text \<open>The outcomes of \<open>handleFileChange\<close>, one per branch.\<close>

lemma handleFileChange_cases:
  obtains (unread) e where "readFileLimited env w fw = Inl e"
      "handleFileChange env w now fw = fw\<lparr>fw_checks := fw_checks fw + 1\<rparr>"
  | (same) c where "readFileLimited env w fw = Inr c" "we_hash env c = fw_lastHash fw"
      "handleFileChange env w now fw = fw\<lparr>fw_checks := fw_checks fw + 1\<rparr>"
  | (rejected) c e where "readFileLimited env w fw = Inr c" "we_hash env c \<noteq> fw_lastHash fw" "we_callback env w c = Some e"
      "handleFileChange env w now fw = emit_config EventConfigRejected
         [(''path'', fw_path fw), (''hash'', we_hash env c), (''reason'', RedactError (Some (we_render env e)))]
         (fw\<lparr>fw_checks := fw_checks fw + 1\<rparr>)"
  | (reloaded) c where "readFileLimited env w fw = Inr c" "we_hash env c \<noteq> fw_lastHash fw" "we_callback env w c = None"
      "handleFileChange env w now fw = activate env now c (emit_config EventConfigReloaded
         [(''path'', fw_path fw), (''hash'', we_hash env c)] (fw\<lparr>fw_checks := fw_checks fw + 1\<rparr>))"
proof -
  have r: "readFileLimited env w (fw\<lparr>fw_checks := n\<rparr>) = readFileLimited env w fw" for n
    by (simp add: readFileLimited_def)
  show thesis
  proof (cases "readFileLimited env w fw")
    case (Inl e) then show thesis by (intro unread) (auto simp: handleFileChange_def r)
  next
    case (Inr c)
    show thesis
    proof (cases "we_hash env c = fw_lastHash fw")
      case True then show thesis using Inr by (intro same) (auto simp: handleFileChange_def r)
    next
      case False
      show thesis
        by (cases "we_callback env w c")
          (use Inr False in \<open>auto intro: rejected reloaded simp: handleFileChange_def r\<close>)
    qed
  qed
qed

lemmas watcher_ops = emit_config_def activate_def leave_def fw_Stop_def reloaded_hashes_def

lemma handleFileChange_inv:
  assumes "watcher_inv env fw" "fw_checks fw + 1 \<le> fw_notified fw" "fw_deadline fw = None"
  shows "watcher_inv env (handleFileChange env w now fw)"
proof (cases rule: handleFileChange_cases [where env = env and w = w and fw = fw and now = now])
  case (reloaded c)
  with readFileLimited_size assms show ?thesis by (auto simp: watcher_inv_def watcher_ops)
qed (use assms in \<open>auto simp: watcher_inv_def watcher_ops\<close>)

lemma watchLoop_turn_inv: "watcher_inv env fw \<Longrightarrow> watcher_inv env (watchLoop_turn env i fw)"
proof (induction env i fw rule: watchLoop_turn.induct)
  case (7 env now w fw)
  show ?case
  proof (cases "\<exists>d. fw_deadline fw = Some d \<and> fw_loop fw = Watching \<and> d \<le> now")
    case True
    with 7 have "watcher_inv env (fw\<lparr>fw_deadline := None\<rparr>)" "fw_checks fw + 1 \<le> fw_notified fw"
      by (auto simp: watcher_inv_def reloaded_hashes_def)
    with True show ?thesis by (auto intro!: handleFileChange_inv)
  qed (use 7 in \<open>auto split: option.splits\<close>)
qed (auto simp: watcher_inv_def watcher_ops)

lemma watchLoop_inv: "watcher_inv env fw \<Longrightarrow> watcher_inv env (watchLoop env is fw)"
  by (induction "is" arbitrary: fw) (auto intro: watchLoop_turn_inv)

lemma fw_Start_inv:
  assumes "NewFileWatcher path cb aud = Inr fw0" "fw_Start env w now nw ad fw0 = (None, fw)"
  shows "watcher_inv env fw"
  using assms readFileLimited_size [of env w fw0]
  by (auto simp: NewFileWatcher_def fw_Start_def loadInitial_def activate_def watcher_inv_def reloaded_hashes_def
      split: if_splits option.splits sum.splits prod.splits)

section \<open>What the owner of a watcher relies on\<close>

locale reload_contract =
  fixes env :: "'w watch_env" and good :: "string \<Rightarrow> bool"
  assumes callback_good: "we_callback env w c = None \<Longrightarrow> good c"
begin

lemma inv_good: "watcher_inv env fw \<Longrightarrow> c \<in> set (fw_history fw) \<Longrightarrow> good c"
  by (auto simp: watcher_inv_def intro: callback_good)

lemma active_good:
  assumes "NewFileWatcher path cb aud = Inr fw0" "fw_Start env w now nw ad fw0 = (None, fw)"
  shows "good (GetLastContent (watchLoop env is fw))"
proof -
  have i: "watcher_inv env (watchLoop env is fw)"
    using fw_Start_inv [OF assms] by (rule watchLoop_inv)
  then have "GetLastContent (watchLoop env is fw) \<in> set (fw_history (watchLoop env is fw))"
    by (auto simp: watcher_inv_def GetLastContent_def dest: last_in_set)
  with i show ?thesis by (rule inv_good)
qed

end

lemma activated_by_callback: "reload_contract env (\<lambda>c. \<exists>w. we_callback env w c = None)"
  by unfold_locales auto

text \<open>
  C22: whatever notifications, timer ticks, stops and file contents a started watcher meets, its active
  content is at most 1 MiB, was accepted by the callback and is the one its hash belongs to; the
  configuration-reloaded events of the audit trail carry, in order, exactly the hashes of the contents
  activated after the start; and the file is read at most once per relevant notification.
\<close>
theorem hot_reload_invariant:
  assumes "NewFileWatcher path True aud = Inr fw0" "fw_Start env w now nw ad fw0 = (None, fw1)"
    and "fw = watchLoop env is fw1"
  shows "length (GetLastContent fw) \<le> maxConfigSize \<and> (\<exists>w. we_callback env w (GetLastContent fw) = None) \<and>
    GetLastHash fw = we_hash env (GetLastContent fw) \<and> last (fw_history fw) = GetLastContent fw \<and>
    (fw_auditor fw \<longrightarrow> reloaded_hashes fw = map (we_hash env) (tl (fw_history fw))) \<and>
    fw_checks fw \<le> fw_notified fw"
proof -
  have "watcher_inv env fw" unfolding assms(3) using fw_Start_inv [OF assms(1,2)] by (rule watchLoop_inv)
  then show ?thesis
    by (auto simp: watcher_inv_def GetLastContent_def GetLastHash_def split: if_splits dest: last_in_set)
qed

text \<open>A world is what the file holds; the callback refuses content that starts with a bang.\<close>

definition demo_watch_env :: "string watch_env" where
  "demo_watch_env = \<lparr>we_file = (\<lambda>w _. Inr (w, None)),
     we_callback = (\<lambda>_ c. if take 1 c = ''!'' then Some (Errorf ''bad'' []) else None),
     we_hash = (\<lambda>c. ''#'' @ c), we_render = (\<lambda>_. ''bad'')\<rparr>"

definition demo_inputs :: "string watch_input list" where
  "demo_inputs = [FsEvent 0 ''/etc/af/..data'' True, FsEvent 5 ''/etc/af/config.yaml'' False,
     TimerTick 1000000000 ''b'', FsEvent 1000000001 ''/etc/af/config.yaml'' False, TimerTick 3000000000 ''!c'', StopCall]"

definition demo_watcher :: FileWatcher where
  "demo_watcher = \<lparr>fw_path = ''/etc/af/config.yaml'', fw_auditor = True, fw_lastContent = [], fw_lastHash = [],
     fw_lastReload = 0, fw_started = False, fw_stopped = False, fw_loop = NotWatching, fw_deadline = None, fw_audit = [],
     fw_history = [], fw_notified = 0, fw_checks = 0\<rparr>"

lemma demo_watcher_new: "NewFileWatcher ''/etc/af/config.yaml'' True True = Inr demo_watcher"
  by (simp add: NewFileWatcher_def demo_watcher_def)

lemma demo_watcher_start:
  "fw_Start demo_watch_env ''a'' 0 None None demo_watcher =
    (None, (activate demo_watch_env 0 ''a'' demo_watcher)\<lparr>fw_started := True, fw_loop := Watching\<rparr>)"
  by (simp add: fw_Start_def loadInitial_def readFileLimited_def read_limited_def demo_watch_env_def maxConfigSize_def)

lemma demo_paths:
  "filepath_Base ''/etc/af/config.yaml'' = ''config.yaml''" "filepath_Base ''/etc/af/..data'' = ''..data''"
  by (code_simp, code_simp)

lemma demo_read: "length c < 10 \<Longrightarrow> readFileLimited demo_watch_env c fw = Inr c"
  by (simp add: readFileLimited_def read_limited_def demo_watch_env_def maxConfigSize_def)

lemma demo_watch_env_sel:
  "we_hash demo_watch_env c = ''#'' @ c"
  "we_callback demo_watch_env w c = (if take 1 c = ''!'' then Some (Errorf ''bad'' []) else None)"
  by (simp_all add: demo_watch_env_def)

lemma demo_run_value:
  "fw_history (watchLoop demo_watch_env demo_inputs (snd (fw_Start demo_watch_env ''a'' 0 None None demo_watcher))) = [''a'', ''b'']"
  unfolding demo_watcher_start snd_conv demo_inputs_def
  by (simp add: activate_def emit_config_def fw_Stop_def demo_watcher_def relevant_def demo_paths debounceDuration_def
      handleFileChange_def demo_read demo_watch_env_sel Let_def)

theorem hot_reload_invariant_witness:
  "fw_checks (watchLoop demo_watch_env demo_inputs (snd (fw_Start demo_watch_env ''a'' 0 None None demo_watcher)))
     \<le> fw_notified (watchLoop demo_watch_env demo_inputs (snd (fw_Start demo_watch_env ''a'' 0 None None demo_watcher))) \<and>
   last (fw_history (watchLoop demo_watch_env demo_inputs (snd (fw_Start demo_watch_env ''a'' 0 None None demo_watcher)))) = ''b''"
  using hot_reload_invariant [OF demo_watcher_new demo_watcher_start refl, of demo_inputs] demo_run_value
  by (simp add: demo_watcher_start)

text \<open>A rejected or unreadable file leaves the active content, its hash and its time as they were.\<close>

lemma rejected_keeps_previous:
  assumes "\<And>c. readFileLimited env w fw = Inr c \<Longrightarrow> we_callback env w c \<noteq> None"
  shows "fw_lastContent (handleFileChange env w now fw) = fw_lastContent fw \<and>
    fw_lastHash (handleFileChange env w now fw) = fw_lastHash fw \<and>
    fw_lastReload (handleFileChange env w now fw) = fw_lastReload fw"
  by (cases rule: handleFileChange_cases [where env = env and w = w and fw = fw and now = now])
    (use assms in \<open>auto simp: watcher_ops\<close>)

text \<open>While notifications keep arriving less than the debounce time apart, nothing is read.\<close>

lemma debounce_waits:
  assumes "fw_deadline fw = Some d" "now < d"
  shows "watchLoop_turn env (TimerTick now w) fw = fw"
  using assms by simp

end
