(* ===== verification/TlsWiring.thy ===== *)
theory TlsWiring
  imports GoPath AuditTrail
begin

text \<open>
  \<open>internal/tlswiring/tlswiring.go\<close>: the settings of the TLS listener, the check of partial TLS material,
  and the outbound transport whose trusted certificates follow a file. The shared TLS and file-watching
  packages, the file system and the parsing of PEM data are parameters: \<open>pem\<close> gives the pool of the
  certificates found, or \<open>None\<close> when there are none. A watcher calls back at any time; a request takes the
  transport under a read lock, so the order of reloads and requests is a list of events.
\<close>

section \<open>The listener\<close>

datatype tls_version = VersionTLS10 | VersionTLS11 | VersionTLS12 | VersionTLS13
datatype cipher_suite =
    TLS_ECDHE_RSA_WITH_AES_128_GCM_SHA256 | TLS_ECDHE_RSA_WITH_AES_256_GCM_SHA384
  | TLS_ECDHE_ECDSA_WITH_AES_128_GCM_SHA256 | TLS_ECDHE_ECDSA_WITH_AES_256_GCM_SHA384
  | TLS_ECDHE_RSA_WITH_CHACHA20_POLY1305_SHA256 | TLS_ECDHE_ECDSA_WITH_CHACHA20_POLY1305_SHA256
  | OtherSuite int

record server_tls =
  tl_MinVersion :: tls_version
  tl_CipherSuites :: "cipher_suite list"

text \<open>
  \<open>cond\<close> is \<open>sharedtls.ConfigureConditionalTLS\<close>: from the TLS configuration of the server and the directory
  it gives an error, or whether TLS is enabled, with the configuration it left in the server.
\<close>

definition ConfigureServer ::
  "(server_tls option \<Rightarrow> string \<Rightarrow> (goerr + bool) \<times> server_tls option) \<Rightarrow> string \<Rightarrow> server_tls option \<Rightarrow> (goerr + bool) \<times> server_tls option" where
  "ConfigureServer cond certDir server =
    (if certDir = [] then (Inr False, server)
     else (case cond server certDir of
         (Inl err, server) \<Rightarrow> (Inl err, server)
       | (Inr False, server) \<Rightarrow> (Inr False, server)
       | (Inr True, server) \<Rightarrow>
          (let c = (case server of None \<Rightarrow> \<lparr>tl_MinVersion = VersionTLS12, tl_CipherSuites = []\<rparr> | Some c \<Rightarrow> c)
           in (Inr True, Some (c\<lparr>tl_MinVersion := VersionTLS12,
             tl_CipherSuites := [TLS_ECDHE_RSA_WITH_AES_128_GCM_SHA256, TLS_ECDHE_RSA_WITH_AES_256_GCM_SHA384,
               TLS_ECDHE_ECDSA_WITH_AES_128_GCM_SHA256, TLS_ECDHE_ECDSA_WITH_AES_256_GCM_SHA384,
               TLS_ECDHE_RSA_WITH_CHACHA20_POLY1305_SHA256, TLS_ECDHE_ECDSA_WITH_CHACHA20_POLY1305_SHA256]\<rparr>)))))"

definition CheckPartialTLSMaterial :: "(string \<Rightarrow> bool) \<Rightarrow> string \<Rightarrow> string" where
  "CheckPartialTLSMaterial fileExists certDir =
    (if certDir = [] then []
     else (let certExists = fileExists (filepath_Join [certDir, ''tls.crt'']); keyExists = fileExists (filepath_Join [certDir, ''tls.key'']) in
       if certExists \<and> \<not> keyExists
       then ''tls.crt exists in '' @ certDir @ '' but tls.key is missing '' @ em_dash @ '' TLS will be disabled; provide both files or remove tls.crt''
       else if \<not> certExists \<and> keyExists
       then ''tls.key exists in '' @ certDir @ '' but tls.crt is missing '' @ em_dash @ '' TLS will be disabled; provide both files or remove tls.key''
       else []))"

definition ValidateCAFilePath :: "(string \<Rightarrow> goerr + string) \<Rightarrow> (string \<Rightarrow> 'p option) \<Rightarrow> string \<Rightarrow> string \<Rightarrow> goerr option" where
  "ValidateCAFilePath readFile pem field path =
    (if path = [] then None
     else (case readFile path of
         Inl err \<Rightarrow> Some (Wrapf ''%s: cannot read CA file %q: %w'' [field, path] err)
       | Inr data \<Rightarrow> (case pem data of None \<Rightarrow> Some (Errorf ''%s: no valid PEM certificates in %q'' [field, path]) | Some _ \<Rightarrow> None)))"

section \<open>Outbound transports\<close>

definition OutboundTransport :: "(string \<Rightarrow> goerr + 't) \<Rightarrow> string \<Rightarrow> goerr + 't option" where
  "OutboundTransport newTLSTransport caFile =
    (if caFile = [] then Inr None else (case newTLSTransport caFile of Inl e \<Rightarrow> Inl e | Inr t \<Rightarrow> Inr (Some t)))"

text \<open>The TLS settings of a client transport.\<close>

record 'p client_tls =
  cl_RootCAs :: 'p
  cl_MinVersion :: tls_version

record 'p reloadableCATransport =
  rc_caFile :: string
  rc_inner :: "'p client_tls option"

text \<open>\<open>std\<close> says whether \<open>http.DefaultTransport\<close> is the transport of the library.\<close>

definition ca_reload ::
  "bool \<Rightarrow> (string \<Rightarrow> 'p option) \<Rightarrow> goerr + string \<Rightarrow> 'p reloadableCATransport \<Rightarrow> goerr option \<times> 'p reloadableCATransport" where
  "ca_reload std pem read t =
    (case read of
       Inl err \<Rightarrow> (Some (Wrapf ''reading CA file: %w'' [] err), t)
     | Inr caPEM \<Rightarrow>
        (case pem caPEM of
           None \<Rightarrow> (Some (Errorf ''no valid certificates found in %s'' [rc_caFile t]), t)
         | Some pool \<Rightarrow>
            if \<not> std then (Some (Errorf ''http.DefaultTransport is not *http.Transport'' []), t)
            else (None, t\<lparr>rc_inner := Some \<lparr>cl_RootCAs = pool, cl_MinVersion = VersionTLS12\<rparr>\<rparr>)))"

text \<open>\<open>newWatcher\<close> is \<open>hotreload.NewFileWatcher\<close>; its callback is \<open>ca_reload\<close>.\<close>

definition CAReloadableTransport ::
  "bool \<Rightarrow> (string \<Rightarrow> 'p option) \<Rightarrow> (string \<Rightarrow> goerr + string) \<Rightarrow> (string \<Rightarrow> goerr + 'w) \<Rightarrow> string \<Rightarrow> goerr + ('p reloadableCATransport \<times> 'w) option" where
  "CAReloadableTransport std pem readFile newWatcher caFile =
    (if caFile = [] then Inr None
     else (case ca_reload std pem (readFile caFile) \<lparr>rc_caFile = caFile, rc_inner = None\<rparr> of
         (Some err, _) \<Rightarrow> Inl (Wrapf ''initial CA load from %s: %w'' [caFile] err)
       | (None, rt) \<Rightarrow> (case newWatcher caFile of Inl err \<Rightarrow> Inl err | Inr w \<Rightarrow> Inr (Some (rt, w)))))"

definition StartCertFileWatcher :: "(string \<Rightarrow> goerr + 'w) \<Rightarrow> ('w \<Rightarrow> goerr option) \<Rightarrow> string \<Rightarrow> bool \<Rightarrow> goerr + 'w option" where
  "StartCertFileWatcher newWatcher start certDir reloader =
    (if \<not> reloader \<or> certDir = [] then Inr None
     else (case newWatcher (filepath_Join [certDir, ''tls.crt'']) of
         Inl err \<Rightarrow> Inl err
       | Inr w \<Rightarrow> (case start w of Some err \<Rightarrow> Inl err | None \<Rightarrow> Inr (Some w))))"

section \<open>Requests and reloads\<close>

datatype ca_event = FileChanged "goerr + string" | SendRequest

text \<open>The settings every request was sent with, in order; a transport without settings would panic.\<close>

fun ca_run :: "bool \<Rightarrow> (string \<Rightarrow> 'p option) \<Rightarrow> ca_event list \<Rightarrow> 'p reloadableCATransport \<Rightarrow> 'p client_tls option list \<times> 'p reloadableCATransport" where
  "ca_run std pem [] t = ([], t)"
| "ca_run std pem (FileChanged read # es) t = ca_run std pem es (snd (ca_reload std pem read t))"
| "ca_run std pem (SendRequest # es) t = (case ca_run std pem es t of (used, t') \<Rightarrow> (rc_inner t # used, t'))"

text \<open>Reference: the pools of the readable contents with certificates, and what each request should use.\<close>

fun trusted :: "(string \<Rightarrow> 'p option) \<Rightarrow> ca_event list \<Rightarrow> 'p \<Rightarrow> 'p list" where
  "trusted pem [] cur = []"
| "trusted pem (FileChanged read # es) cur =
    trusted pem es (case read of Inl _ \<Rightarrow> cur | Inr data \<Rightarrow> (case pem data of None \<Rightarrow> cur | Some pool \<Rightarrow> pool))"
| "trusted pem (SendRequest # es) cur = cur # trusted pem es cur"

abbreviation "tls12 pool \<equiv> Some \<lparr>cl_RootCAs = pool, cl_MinVersion = VersionTLS12\<rparr>"

lemma ca_run_trusted: "rc_inner t = tls12 cur \<Longrightarrow> fst (ca_run True pem es t) = map (\<lambda>p. tls12 p) (trusted pem es cur)"
proof (induction es arbitrary: t cur)
  case (Cons e es)
  obtain used t' where "ca_run True pem es t = (used, t')" by (rule prod.exhaust)
  with Cons show ?case by (cases e) (auto simp: ca_reload_def dest: Cons.IH split: sum.split option.split)
qed simp

lemma CAReloadableTransport_loaded:
  assumes "CAReloadableTransport True pem readFile newWatcher caFile = Inr (Some (t, w))"
  shows "\<exists>data pool. readFile caFile = Inr data \<and> pem data = Some pool \<and> rc_inner t = tls12 pool"
  using assms by (auto simp: CAReloadableTransport_def ca_reload_def split: if_splits sum.splits option.splits prod.splits)

text \<open>
  C30: an outbound transport with a CA file starts only with at least one certificate from that file,
  and every request it ever sends uses TLS 1.2 or later with exactly the certificates of the last
  content of the file that could be read and held any: a reload that fails keeps the trust of before,
  and no request is sent with no trust or with the system's.
\<close>
theorem ca_trust_follows_file:
  assumes "CAReloadableTransport True pem readFile newWatcher caFile = Inr (Some (t, w))"
  shows "\<exists>data pool. readFile caFile = Inr data \<and> pem data = Some pool \<and>
    fst (ca_run True pem es t) = map (\<lambda>p. tls12 p) (trusted pem es pool)"
  using CAReloadableTransport_loaded [OF assms] ca_run_trusted by metis

definition demo_pem :: "string \<Rightarrow> string option" where
  "demo_pem s = (if take 4 s = ''CERT'' then Some (drop 4 s) else None)"

theorem ca_trust_follows_file_witness:
  "\<exists>t w. CAReloadableTransport True demo_pem (\<lambda>_. Inr ''CERTa'') (\<lambda>_. Inr ()) ''ca.crt'' = Inr (Some (t, w)) \<and>
     fst (ca_run True demo_pem [SendRequest, FileChanged (Inr ''junk''), SendRequest, FileChanged (Inr ''CERTb''), SendRequest] t) =
       [tls12 ''a'', tls12 ''a'', tls12 ''b'']"
proof -
  let ?es = "[SendRequest, FileChanged (Inr ''junk''), SendRequest, FileChanged (Inr ''CERTb''), SendRequest]"
  obtain t where t: "CAReloadableTransport True demo_pem (\<lambda>_. Inr ''CERTa'') (\<lambda>_. Inr ()) ''ca.crt'' = Inr (Some (t, ()))"
    by (simp add: CAReloadableTransport_def ca_reload_def demo_pem_def)
  from ca_trust_follows_file [OF t, of ?es] show ?thesis using t by (intro exI [of _ t] exI [of _ "()"]) (auto simp: demo_pem_def)
qed

text \<open>A server with TLS enabled speaks TLS 1.2 or later, with authenticated encryption and forward secrecy only.\<close>

definition aead_suites :: "cipher_suite set" where
  "aead_suites = {s. \<nexists>n. s = OtherSuite n}"

lemma ConfigureServer_hardened:
  "ConfigureServer cond certDir server = (Inr True, server') \<Longrightarrow>
     \<exists>c. server' = Some c \<and> tl_MinVersion c = VersionTLS12 \<and> tl_CipherSuites c \<noteq> [] \<and> set (tl_CipherSuites c) \<subseteq> aead_suites"
  by (auto simp: ConfigureServer_def aead_suites_def Let_def split: if_splits sum.splits bool.splits prod.splits)

end
