(* ===== verification/Wiring.thy ===== *)
theory Wiring
  imports McpBridge AppConfig HotReload TlsWiring
begin

text \<open>
  \<open>cmd/apifrontend/main.go\<close>: how the server is put together from its configuration, and the sequence of
  checks \<open>run\<close> makes before it serves. Reading files, YAML, TLS set-up, the constructors of the service
  clients and of the A2A handler are parameters (their results); log lines are left out.
\<close>

section \<open>Loading\<close>

datatype read_error = ReadNotExist | ReadOther goerr

definition configPath :: string where "configPath = ''/etc/apifrontend/config.yaml''"
definition rbacRolesPath :: string where "rbacRolesPath = ''/etc/apifrontend/rbac_roles.yaml''"

definition loadConfig :: "(string \<Rightarrow> read_error + string) \<Rightarrow> 't \<Rightarrow> (string \<Rightarrow> 't Config \<Rightarrow> goerr + 't Config) \<Rightarrow> goerr + 't Config" where
  "loadConfig readFile t0 unmarshal =
    (case readFile configPath of
       Inl ReadNotExist \<Rightarrow> Inl (Errorf (''config file not found at %s '' @ em_dash @ '' explicit configuration required'') [configPath])
     | Inl (ReadOther e) \<Rightarrow> Inl e
     | Inr dt \<Rightarrow> Load t0 unmarshal dt)"

text \<open>\<open>unmarshal_roles\<close> decodes the file to the entries of its \<open>roles\<close> map, with distinct names.\<close>

definition loadRBACRoles ::
  "(string \<Rightarrow> read_error + string) \<Rightarrow> (string \<Rightarrow> goerr + (string \<times> string list) list) \<Rightarrow> goerr + (string \<times> string list) list" where
  "loadRBACRoles readFile unmarshal_roles =
    (case readFile rbacRolesPath of
       Inl ReadNotExist \<Rightarrow> Inl (Errorf (''rbac_roles.yaml not found at %s '' @ em_dash @ '' RBAC policy is required'') [rbacRolesPath])
     | Inl (ReadOther e) \<Rightarrow> Inl e
     | Inr dt \<Rightarrow> (case unmarshal_roles dt of
         Inl e \<Rightarrow> Inl (Wrapf ''parsing rbac_roles.yaml: %w'' [] e)
       | Inr roles \<Rightarrow> if roles = [] then Inl (Errorf ''rbac_roles.yaml must define at least one role'' []) else Inr roles))"

datatype log_level = DebugLevel | InfoLevel | WarnLevel | ErrorLevel

definition parseLogLevel :: "(rune \<Rightarrow> rune) \<Rightarrow> string \<Rightarrow> log_level \<times> goerr option" where
  "parseLogLevel lo s =
    (let l = to_lower lo (trim_space s) in
     if l \<in> {[], ''info''} then (InfoLevel, None)
     else if l = ''debug'' then (DebugLevel, None)
     else if l \<in> {''warn'', ''warning''} then (WarnLevel, None)
     else if l = ''error'' then (ErrorLevel, None)
     else (InfoLevel, Some (Errorf ''unsupported log level: %q'' [s])))"

section \<open>Settings derived from the configuration\<close>

text \<open>\<open>int\<close> products wrap; the conversion of a rate to a float is exact up to \<open>2^53\<close>.\<close>

definition wire_rate_limits :: "'t Config \<Rightarrow> RateLimitConfig" where
  "wire_rate_limits cfg =
    (let rl = cf_RateLimit cfg; d = ratelimit_DefaultConfig;
         ip = (rl_PerIP d)\<lparr>ip_RequestsPerSecond := Fin (of_int (cl_IPRequestsPerSec rl)), ip_Burst := wrap64 (cl_IPRequestsPerSec rl * 2)\<rparr>;
         us = rl_PerUser d;
         us = (if cl_UserRequestsPerSec rl > 0 then us\<lparr>us_RequestsPerMinute := wrap64 (cl_UserRequestsPerSec rl * 60)\<rparr> else us);
         us = (if cl_MaxConcurrentSessions rl > 0 then us\<lparr>us_MaxConcurrentSessions := cl_MaxConcurrentSessions rl\<rparr> else us);
         us = (if cl_ToolCallsPerMinute rl > 0 then us\<lparr>us_ToolCallsPerMinute := cl_ToolCallsPerMinute rl\<rparr> else us)
     in d\<lparr>rl_PerIP := ip, rl_PerUser := us\<rparr>)"

definition wire_severity :: "SeverityTriageConfig \<Rightarrow> TriageConfig" where
  "wire_severity st =
    \<lparr>tc_Enabled = True,
     tc_MaxQueriesPerCall = (if sg_MaxQueriesPerCall st = 0 then 10 else sg_MaxQueriesPerCall st),
     tc_MaxRulesEvaluated = (if sg_MaxRulesEvaluated st = 0 then 100 else sg_MaxRulesEvaluated st),
     tc_CacheTTLSeconds = (if sg_CacheTTLSeconds st = 0 then 30 else sg_CacheTTLSeconds st),
     tc_LLMConfidence = (if sg_LLMConfidence st = Fin 0 then Fin (7 / 10) else sg_LLMConfidence st)\<rparr>"

definition shutdownTimeout :: "'t Config \<Rightarrow> duration" where
  "shutdownTimeout cfg = (if cf_DrainSeconds cfg > 0 then wrap64 (cf_DrainSeconds cfg * ns_second) else 15 * ns_second)"

definition buildSSETracker :: "'t Config \<Rightarrow> ConnectionTracker" where
  "buildSSETracker cfg =
    (let tracker = NewConnectionTracker True (5 * ns_second)
     in if sc_MaxSSEConnections (cf_Server cfg) > 0 then tracker\<lparr>tk_MaxConnections := sc_MaxSSEConnections (cf_Server cfg)\<rparr> else tracker)"

definition bridgeMetricsFrom :: MCPBridgeMetrics where
  "bridgeMetricsFrom = \<lparr>mm_ToolCallsTotal = True, mm_ToolCallDuration = True, mm_RBACDeniedTotal = True\<rparr>"

text \<open>The configuration \<open>buildMCPHandler\<close> passes on.\<close>

definition bridge_config :: "(string \<times> string list) list \<Rightarrow> MCPBridgeConfig" where
  "bridge_config rbacRoles =
    \<lparr>mb_RBACRoles = Some (map_of rbacRoles), mb_Auditor = True, mb_Metrics = Some bridgeMetricsFrom,
     mb_ToolTimeout = 30 * ns_second, mb_MaxConcurrentTools = 10\<rparr>"

definition mcp_config :: "string \<Rightarrow> (string \<times> string list) list \<Rightarrow> 't Config \<Rightarrow> MCPConfig" where
  "mcp_config version rbacRoles cfg =
    \<lparr>mk_ServerName = ''kubernaut-apifrontend'', mk_ServerVersion = version, mk_Tools = None, mk_Auditor = True,
     mk_Enabled = mc_Enabled (cf_MCP cfg), mk_Bridge = Some (bridge_config rbacRoles),
     mk_SessionTimeout = (if mc_SessionIdleTimeout (cf_MCP cfg) = 0 then 30 * ns_minute else mc_SessionIdleTimeout (cf_MCP cfg))\<rparr>"

definition card_config :: "string \<Rightarrow> 't Config \<Rightarrow> AgentCardConfig" where
  "card_config version cfg =
    \<lparr>gc_Name = ''kubernaut-apifrontend'', gc_Description = ''Kubernaut AI-driven remediation API Frontend'',
     gc_URL = cf_AgentCardURL cfg, gc_Version = version, gc_Skills = Some DefaultAgentSkills\<rparr>"

section \<open>Authentication\<close>

definition buildAuthConfig :: "'t Config \<Rightarrow> ProviderConfig list" where
  "buildAuthConfig cfg =
    (if ca_IssuerURL (cf_Auth cfg) = [] then []
     else [\<lparr>pc_Issuer = \<lparr>ic_URL = ca_IssuerURL (cf_Auth cfg), ic_JWKSURL = ca_JWKSURL (cf_Auth cfg), ic_Audiences = [ca_Audience (cf_Auth cfg)]\<rparr>,
             pc_UsernameMapping = [], pc_GroupsMapping = [], pc_UserValidationRules = []\<rparr>])"

datatype ('b, 'ks, 'p) auth_mode = PassThrough | DenyAll | Validating "('b, 'ks, 'p) JWTValidator"

definition buildAuthMiddleware :: "('t1, 'key, 'ks, 'p, 'n) auth_env \<Rightarrow> 'b \<Rightarrow> 't Config \<Rightarrow> ('b, 'ks, 'p) auth_mode" where
  "buildAuthMiddleware env fresh cfg =
    (let jwt = buildAuthConfig cfg in
     if jwt = [] \<or> ic_URL (pc_Issuer (hd jwt)) = [] then PassThrough
     else (let replay = (if ca_EnableReplayProtection (cf_Auth cfg) then Some (NewReplayCache (10 * ns_minute)) else None)
           in case NewJWTValidator env fresh
                \<lparr>ac_JWT = jwt, ac_KubernetesEnabled = False, ac_AllowInsecureIssuers = ca_AllowInsecureIssuers (cf_Auth cfg)\<rparr> None replay of
                Inl e \<Rightarrow> DenyAll
              | Inr v \<Rightarrow> Validating v))"

definition deny_all_mw :: "'a handler \<Rightarrow> 'a handler" where
  "deny_all_mw next w r c s = returns (http_Error w ''authentication system unavailable'' 503 c) s"

definition unavailable :: "header \<Rightarrow> HttpRequest \<Rightarrow> 'a server \<Rightarrow> mw_result \<times> 'a server" where
  "unavailable h r s = (Denied \<lparr>rs_Status = 503,
     rs_Header = header_set ''X-Content-Type-Options'' ''nosniff'' (header_set ''Content-Type'' ''text/plain; charset=utf-8'' (h(''Content-Length'' := []))),
     rs_Body = ''authentication system unavailable'' @ [CHR 0x0A]\<rparr>, s)"

interpretation denier: gate deny_all_mw unavailable
  by unfold_locales (auto simp: deny_all_mw_def unavailable_def http_Error_def respond_def set_header_def)

interpretation passing: gate "\<lambda>next. next" "\<lambda>h r s. (Next r, s)"
  by unfold_locales simp_all

section \<open>Clients\<close>

text \<open>\<open>buildDynFactory\<close>: \<open>get_config\<close> is the result of \<open>ctrl.GetConfig\<close>.\<close>

definition buildDynFactory :: "(goerr + 'c rest_config) \<Rightarrow> ('c rest_config \<Rightarrow> goerr + 'cl) \<Rightarrow> Ctx \<Rightarrow> goerr + 'cl" where
  "buildDynFactory get_config NewForConfig ctx =
    (case get_config of
       Inl e \<Rightarrow> Inl (Wrapf ''kubernetes config unavailable: %w'' [] e)
     | Inr restCfg \<Rightarrow>
        if UserIdentityFromContext ctx = None
        then Inl (Errorf ''authenticated user identity required for kubernetes operations'' [])
        else NewImpersonatingDynamicFactory NewForConfig restCfg [] ctx)"

definition bearerToken_RoundTrip ::
  "(goerr + string) \<Rightarrow> (HttpRequest \<Rightarrow> 'n \<Rightarrow> (goerr + 'a) \<times> 'n) \<Rightarrow> HttpRequest \<Rightarrow> 'n \<Rightarrow> (goerr + 'a) \<times> 'n" where
  "bearerToken_RoundTrip tokenFile base req n =
    (case tokenFile of
       Inl e \<Rightarrow> (Inl (Wrapf ''reading bearer token: %w'' [] e), n)
     | Inr token \<Rightarrow> base (req\<lparr>rq_Header := header_set ''Authorization'' (''Bearer '' @ trim_space token) (rq_Header req)\<rparr>) n)"

interpretation token_tr: header_transport "bearerToken_RoundTrip tokenFile" "''Authorization''" for tokenFile
proof
  fix req :: HttpRequest and n :: 'x
  show "(\<exists>e. \<forall>base. bearerToken_RoundTrip tokenFile base req n = (Inl e, n)) \<or>
    (\<exists>req'. same_but ''Authorization'' req req' \<and> (\<forall>base. bearerToken_RoundTrip tokenFile base req n = base req' n))"
    by (cases tokenFile) (auto simp: bearerToken_RoundTrip_def intro: same_but_set)
qed

text \<open>
  The audit writers: \<open>write\<close> is the data store's answer; a failed batch is logged and the error returned,
  so that the emitter also logs it.
\<close>

definition log_WriteAuditEvents :: "Event list \<Rightarrow> goerr option \<times> Event list" where
  "log_WriteAuditEvents events = (None, events)"

definition ds_WriteAuditEvents :: "(Event list \<Rightarrow> goerr option) \<Rightarrow> Event list \<Rightarrow> goerr option \<times> Event list" where
  "ds_WriteAuditEvents write events = (case write events of Some e \<Rightarrow> (Some e, events) | None \<Rightarrow> (None, []))"

definition buildHealthMux :: "('a server \<Rightarrow> bool) option \<Rightarrow> bool \<Rightarrow> 'a mux" where
  "buildHealthMux depsReady draining =
    [([], ''/healthz'', \<lambda>w r c s. returns (write_body (''{'' @ [CHR 0x22] @ ''status'' @ [CHR 0x22, CHR '':'', CHR 0x22] @ ''healthy'' @ [CHR 0x22] @ ''}'')
        (WriteHeader w 200 c)) s),
     ([], ''/readyz'', ReadyzHandlerFunc (case depsReady of None \<Rightarrow> (\<lambda>_. True) | Some f \<Rightarrow> f) draining)]"

text \<open>\<open>build\<close> is the construction of model, agent and A2A handler by the libraries.\<close>

definition buildA2AHandler :: "(unit \<Rightarrow> goerr + 'a handler) \<Rightarrow> 't Config \<Rightarrow> goerr + 'a handler" where
  "buildA2AHandler build cfg =
    (if ag_LLMEndpoint (cf_Agent cfg) = []
     then Inr (\<lambda>w r c s. returns (http_Error w ''A2A not configured'' 501 c) s)
     else build ())"

section \<open>Start-up\<close>

text \<open>The results of everything outside the repository that \<open>run\<close> calls before it serves.\<close>

record 't start_env =
  st_readFile :: "string \<Rightarrow> read_error + string"
  st_unmarshal :: "string \<Rightarrow> 't Config \<Rightarrow> goerr + 't Config"
  st_unmarshalRoles :: "string \<Rightarrow> goerr + (string \<times> string list) list"
  st_tls0 :: 't
  st_certDir :: "'t \<Rightarrow> string"
  st_getenv :: "string \<Rightarrow> string"
  st_val :: val_env
  st_version :: string
  st_auditTransport :: "goerr option"
  st_auditWatcher :: "goerr option"
  st_auditClient :: "goerr option"
  st_deps :: "goerr option"
  st_a2a :: "goerr option"
  st_conditionalTLS :: "server_tls option \<Rightarrow> string \<Rightarrow> (goerr + bool) \<times> server_tls option"
  st_certWatcher :: "goerr option"
  st_caWatcher :: "goerr option"

record ('b, 'ks, 'p, 't) serving =
  sp_cfg :: "'t Config"
  sp_roles :: "(string \<times> string list) list"
  sp_auth :: "('b, 'ks, 'p) auth_mode"
  sp_limits :: RateLimitConfig
  sp_tls :: bool
  sp_tlsConfig :: "server_tls option"

text \<open>The fatal steps in order: the first error ends the process with code 1.\<close>

definition run_steps :: "'t start_env \<Rightarrow> (string \<times> string list) list \<Rightarrow> 't Config \<Rightarrow> goerr option list" where
  "run_steps e roles cfg =
    (if ag_DSBaseURL (cf_Agent cfg) \<noteq> [] then [st_auditTransport e, st_auditWatcher e, st_auditClient e] else []) @
    [st_deps e,
     MCPConfig_validate (mcp_config (st_version e) roles cfg),
     AgentCardConfig_validate (card_config (st_version e) cfg),
     (if ag_LLMEndpoint (cf_Agent cfg) = [] then None else st_a2a e)]"

text \<open>The server starts with no TLS configuration of its own.\<close>

definition run_tls :: "'t start_env \<Rightarrow> 't Config \<Rightarrow> goerr + bool \<times> server_tls option" where
  "run_tls e cfg =
    (case ConfigureServer (st_conditionalTLS e) (st_certDir e (sc_TLS (cf_Server cfg))) None of
       (Inl err, _) \<Rightarrow> Inl err
     | (Inr enabled, server) \<Rightarrow>
         if \<not> enabled \<and> sc_TLSRequired (cf_Server cfg) then Inl (Errorf ''TLS required but no certificates found'' [])
         else (case first_err [st_certWatcher e, st_caWatcher e] of Some err \<Rightarrow> Inl err | None \<Rightarrow> Inr (enabled, server)))"

definition run ::
  "('t1, 'key, 'ks, 'p, 'n) auth_env \<Rightarrow> 'b \<Rightarrow> 't start_env \<Rightarrow> goerr + ('b, 'ks, 'p, 't) serving" where
  "run env fresh e =
    (case loadConfig (st_readFile e) (st_tls0 e) (st_unmarshal e) of
       Inl err \<Rightarrow> Inl err
     | Inr cfg0 \<Rightarrow>
       (let cfg = ResolveDefaults (st_getenv e) cfg0 in
        case Config_Validate (st_val e) cfg of
          Some err \<Rightarrow> Inl err
        | None \<Rightarrow> (case loadRBACRoles (st_readFile e) (st_unmarshalRoles e) of
            Inl err \<Rightarrow> Inl err
          | Inr roles \<Rightarrow> (case first_err (run_steps e roles cfg) of
              Some err \<Rightarrow> Inl err
            | None \<Rightarrow> (case run_tls e cfg of
                Inl err \<Rightarrow> Inl err
              | Inr (tls, server) \<Rightarrow> Inr \<lparr>sp_cfg = cfg, sp_roles = roles, sp_auth = buildAuthMiddleware env fresh cfg,
                  sp_limits = wire_rate_limits cfg, sp_tls = tls, sp_tlsConfig = server\<rparr>)))))"

section \<open>What a serving process has established\<close>

lemma run_Inr:
  assumes "run env fresh e = Inr s"
  shows "config_ok (st_val e) (sp_cfg s) \<and> sp_roles s \<noteq> [] \<and> sp_auth s = buildAuthMiddleware env fresh (sp_cfg s) \<and>
    sp_limits s = wire_rate_limits (sp_cfg s) \<and> run_tls e (sp_cfg s) = Inr (sp_tls s, sp_tlsConfig s)"
proof -
  have v: "Config_Validate (st_val e) c = None \<Longrightarrow> config_ok (st_val e) c" for c
    by (simp add: validate_config_ok)
  show ?thesis using assms
    by (auto simp: run_def loadRBACRoles_def Let_def dest!: v split: sum.splits option.splits read_error.splits if_splits)
qed

lemma PassThrough_iff: "buildAuthMiddleware env fresh cfg = PassThrough \<longleftrightarrow> ca_IssuerURL (cf_Auth cfg) = []"
  by (auto simp: buildAuthMiddleware_def buildAuthConfig_def Let_def split: sum.splits)

text \<open>
  C5: a process that reaches the point of serving has a configuration that satisfies the reference
  condition and at least one role; requests pass unauthenticated only if no issuer is configured (a
  validator that cannot be built denies everything instead), and when TLS is required by the
  configuration it serves TLS and authenticates or denies every protected request. A listener with
  TLS speaks version 1.2 or later with authenticated encryption and forward secrecy only.
\<close>
theorem startup_secure:
  assumes "run env fresh e = Inr s"
  shows "config_ok (st_val e) (sp_cfg s) \<and> sp_roles s \<noteq> [] \<and>
    (sp_auth s = PassThrough \<longleftrightarrow> ca_IssuerURL (cf_Auth (sp_cfg s)) = []) \<and>
    (sc_TLSRequired (cf_Server (sp_cfg s)) \<longrightarrow> sp_tls s \<and> sp_auth s \<noteq> PassThrough) \<and>
    (sp_tls s \<longrightarrow> (\<exists>c. sp_tlsConfig s = Some c \<and> tl_MinVersion c = VersionTLS12 \<and> tl_CipherSuites c \<noteq> [] \<and>
       set (tl_CipherSuites c) \<subseteq> aead_suites))"
proof -
  note r = run_Inr [OF assms]
  have "sc_TLSRequired (cf_Server (sp_cfg s)) \<longrightarrow> ca_IssuerURL (cf_Auth (sp_cfg s)) \<noteq> []"
    using r by (simp add: config_ok_def)
  moreover have t: "ConfigureServer (st_conditionalTLS e) (st_certDir e (sc_TLS (cf_Server (sp_cfg s)))) None = (Inr (sp_tls s), sp_tlsConfig s)"
    "sc_TLSRequired (cf_Server (sp_cfg s)) \<longrightarrow> sp_tls s"
    using r by (auto simp: run_tls_def split: sum.splits if_splits option.splits prod.splits)
  moreover have "sp_tls s \<longrightarrow> (\<exists>c. sp_tlsConfig s = Some c \<and> tl_MinVersion c = VersionTLS12 \<and> tl_CipherSuites c \<noteq> [] \<and>
       set (tl_CipherSuites c) \<subseteq> aead_suites)"
    using t(1) ConfigureServer_hardened by metis
  ultimately show ?thesis using r by (simp add: PassThrough_iff)
qed

text \<open>A machine on which every outside step succeeds, with the given configuration decoded from its file.\<close>

definition demo_start :: "unit Config \<Rightarrow> unit start_env" where
  "demo_start cfg = \<lparr>st_readFile = (\<lambda>_. Inr ''x''), st_unmarshal = (\<lambda>_ _. Inr cfg), st_unmarshalRoles = (\<lambda>_. Inr [(''sre'', [''*''])]),
     st_tls0 = (), st_certDir = (\<lambda>_. ''/certs''), st_getenv = (\<lambda>_. []), st_val = plain_val_env, st_version = ''v1'',
     st_auditTransport = None, st_auditWatcher = None, st_auditClient = None, st_deps = None, st_a2a = None,
     st_conditionalTLS = (\<lambda>c _. (Inr True, c)), st_certWatcher = None, st_caWatcher = None\<rparr>"

definition secure_config :: "unit Config" where
  "secure_config = (cfg_DefaultConfig ())\<lparr>cf_Server := (cf_Server (cfg_DefaultConfig ()))\<lparr>sc_TLSRequired := True\<rparr>,
     cf_Auth := (cf_Auth (cfg_DefaultConfig ()))\<lparr>ca_IssuerURL := ''https://idp''\<rparr>\<rparr>"

lemma secure_config_ok: "config_ok plain_val_env (ResolveDefaults getenv secure_config)"
  using default_config_ok [of "()"]
  by (simp add: config_ok_def secure_config_def ResolveDefaults_def good_url_def plain_val_env_def Let_def)

lemma demo_start_runs: "\<exists>s. run sample_env (0 :: nat) (demo_start secure_config) = Inr s \<and> sc_TLSRequired (cf_Server (sp_cfg s))"
proof -
  let ?c = "ResolveDefaults (\<lambda>_. []) secure_config"
  have v: "Config_Validate plain_val_env ?c = None" using secure_config_ok by (simp add: validate_config_ok)
  have u: "cf_AgentCardURL ?c \<noteq> []" by (simp add: ResolveDefaults_def Let_def)
  have t: "sc_TLSRequired (cf_Server ?c)" by (simp add: ResolveDefaults_def secure_config_def Let_def)
  have "run sample_env (0 :: nat) (demo_start secure_config) = Inr \<lparr>sp_cfg = ?c, sp_roles = [(''sre'', [''*''])],
      sp_auth = buildAuthMiddleware sample_env 0 ?c, sp_limits = wire_rate_limits ?c, sp_tls = True, sp_tlsConfig = snd (ConfigureServer (\<lambda>c _. (Inr True, c)) ''/certs'' None)\<rparr>"
    using v u by (simp add: run_def loadConfig_def Load_def loadRBACRoles_def run_steps_def run_tls_def ConfigureServer_def
        demo_start_def MCPConfig_validate_def mcp_config_def AgentCardConfig_validate_def card_config_def Let_def)
  with t show ?thesis by auto
qed

theorem startup_secure_witness:
  "\<exists>s. run sample_env (0 :: nat) (demo_start secure_config) = Inr s \<and> sp_tls s \<and> sp_auth s \<noteq> PassThrough"
  using demo_start_runs startup_secure [of sample_env "0 :: nat" "demo_start secure_config"] by blast

section \<open>The configuration watcher\<close>

text \<open>
  The callback \<open>run\<close> gives to the watcher. It decodes into the zero value of the type, where \<open>Load\<close>
  decodes into the defaults.
\<close>

definition watch_callback ::
  "'t \<Rightarrow> (string \<Rightarrow> 't Config \<Rightarrow> goerr + 't Config) \<Rightarrow> (string \<Rightarrow> string) \<Rightarrow> ('w \<Rightarrow> val_env) \<Rightarrow> 'w \<Rightarrow> string \<Rightarrow> goerr option" where
  "watch_callback t0 unmarshal getenv val w newContent =
    (case unmarshal newContent (zero_config t0) of
       Inl e \<Rightarrow> Some (Wrapf ''parse config: %w'' [] e)
     | Inr newCfg \<Rightarrow> Config_Validate (val w) (ResolveDefaults getenv newCfg))"

definition valid_content ::
  "'t \<Rightarrow> (string \<Rightarrow> 't Config \<Rightarrow> goerr + 't Config) \<Rightarrow> (string \<Rightarrow> string) \<Rightarrow> ('w \<Rightarrow> val_env) \<Rightarrow> string \<Rightarrow> bool" where
  "valid_content t0 unmarshal getenv val content \<longleftrightarrow>
    (\<exists>w cfg. unmarshal content (zero_config t0) = Inr cfg \<and> config_ok (val w) (ResolveDefaults getenv cfg))"

definition config_watch ::
  "('w \<Rightarrow> string \<Rightarrow> file_result) \<Rightarrow> (string \<Rightarrow> string) \<Rightarrow> (goerr \<Rightarrow> string) \<Rightarrow> 't \<Rightarrow> (string \<Rightarrow> 't Config \<Rightarrow> goerr + 't Config) \<Rightarrow>
   (string \<Rightarrow> string) \<Rightarrow> ('w \<Rightarrow> val_env) \<Rightarrow> 'w watch_env" where
  "config_watch rd hash render t0 unmarshal getenv val =
    \<lparr>we_file = rd, we_callback = watch_callback t0 unmarshal getenv val, we_hash = hash, we_render = render\<rparr>"

interpretation cfg_watch: reload_contract "config_watch rd hash render t0 unmarshal getenv val" "valid_content t0 unmarshal getenv val"
  for rd hash render t0 unmarshal getenv val
  by unfold_locales
    (auto simp: config_watch_def watch_callback_def valid_content_def validate_config_ok split: sum.splits)

text \<open>
  Whatever happens to the mounted file, the content the configuration watcher holds as active always
  decodes to a configuration that passed the validation in some state of the machine; invalid content
  never replaces it.
\<close>
lemma watched_config_valid:
  assumes "NewFileWatcher configPath True True = Inr fw0"
    and "fw_Start (config_watch rd hash render t0 unmarshal getenv val) w now None None fw0 = (None, fw)"
  shows "valid_content t0 unmarshal getenv val
    (GetLastContent (watchLoop (config_watch rd hash render t0 unmarshal getenv val) inputs fw))"
  using assms by (rule cfg_watch.active_good)

definition demo_config_watch :: "string watch_env" where
  "demo_config_watch = config_watch (\<lambda>w _. Inr (w, None)) (\<lambda>c. c) (\<lambda>_. ''bad'') ()
     (\<lambda>c z. if c = ''good'' then Inr secure_config else Inr z) (\<lambda>_. []) (\<lambda>_. plain_val_env)"

lemma demo_config_start:
  assumes "NewFileWatcher configPath True True = Inr fw0"
  shows "fw_Start demo_config_watch ''good'' 0 None None fw0 =
    (None, (activate demo_config_watch 0 ''good'' fw0)\<lparr>fw_started := True, fw_loop := Watching\<rparr>)"
proof -
  have "Config_Validate plain_val_env (ResolveDefaults (\<lambda>_. []) secure_config) = None"
    using secure_config_ok by (simp add: validate_config_ok)
  then show ?thesis
    by (simp add: fw_Start_def loadInitial_def readFileLimited_def read_limited_def demo_config_watch_def config_watch_def
        watch_callback_def maxConfigSize_def)
qed

lemma watched_config_valid_example:
  "\<exists>fw. valid_content () (\<lambda>c z. if c = ''good'' then Inr secure_config else Inr z) (\<lambda>_. []) (\<lambda>_ :: string. plain_val_env)
    (GetLastContent (watchLoop demo_config_watch
       [FsEvent 0 ''/etc/apifrontend/..data'' True, TimerTick 1000000000 ''broken''] fw))"
proof -
  obtain fw0 where n: "NewFileWatcher configPath True True = Inr fw0" by (simp add: NewFileWatcher_def configPath_def)
  from watched_config_valid [OF n demo_config_start [OF n, unfolded demo_config_watch_def]]
  show ?thesis unfolding demo_config_watch_def by blast
qed

text \<open>
  A document that sets nothing: the server starts with the defaults, but the watcher, which validates the
  zero value instead, refuses the same file, so it never starts watching.
\<close>

lemma watcher_rejects_defaults:
  assumes "\<And>cfg. unmarshal doc cfg = Inr cfg" "doc \<noteq> []"
  shows "\<exists>cfg. Load t0 unmarshal doc = Inr cfg \<and> config_ok plain_val_env cfg"
    and "watch_callback t0 unmarshal getenv val w doc \<noteq> None"
proof -
  show "\<exists>cfg. Load t0 unmarshal doc = Inr cfg \<and> config_ok plain_val_env cfg"
    using assms default_config_ok by (simp add: Load_def)
  have "\<not> config_ok (val w) (ResolveDefaults getenv (zero_config t0))"
    by (simp add: config_ok_def ResolveDefaults_def zero_config_def Let_def)
  then show "watch_callback t0 unmarshal getenv val w doc \<noteq> None"
    using assms by (simp add: watch_callback_def validate_config_ok)
qed

section \<open>Bounds a valid configuration gives\<close>

text \<open>
  Under a configuration that passed validation, one request to any backend through the transport
  chain built for it reaches the network at most eleven times, whatever the backend answers.
\<close>
lemma validated_retry_bound:
  assumes "config_ok venv cfg" and "dep \<in> {re_KA (cf_Resilience cfg), re_DS (cf_Resilience cfg), re_K8s (cf_Resilience cfg)}"
    and "breaker_law ops" "counts_calls net calls" "keeps_calls env calls"
    and "min_int64 \<le> dc_RetryMax dep"
    and "buildResilientTransport env ops net dep name req b n = (r, b', n')"
  shows "calls n' \<le> calls n + 11"
proof -
  define rc where "rc = \<lparr>rt_MaxAttempts = wrap64 (dc_RetryMax dep + 1), rt_InitialBackoff = dc_RetryInitBackoff dep,
      rt_MaxBackoff = dc_RetryMaxBackoff dep, rt_RetryableStatuses = dc_RetryableStatuses dep,
      rt_RetryCounter = True, rt_DependencyName = name, rt_IdempotentOnly = False\<rparr>"
  have c: "chain_retry dep name = NewRetryTransport rc" by (simp add: chain_retry_def rc_def)
  have "dc_RetryMax dep \<le> 10" using assms(1,2) by (auto simp: config_ok_def dependency_ok_def)
  then have m: "nat (max 1 (rt_MaxAttempts rc)) \<le> 11"
    using assms(6) by (simp add: rc_def wrap64_def min_int64_def)
  from CircuitBreaker_RoundTrip_cases [OF assms(3,5) assms(7) [unfolded buildResilientTransport_def c]]
  show ?thesis
  proof (elim disjE exE conjE)
    fix x k assume "retry_rt net (NewRetryTransport rc) req n = (x, k)" "calls n' = calls k"
    with retry_rt_bound [OF assms(4) this(1)] m show ?thesis by linarith
  qed simp_all
qed

lemma validated_retry_bound_example:
  "fst (snd (snd (buildResilientTransport plain_env trip3 flaky_net (re_KA (cf_Resilience (cfg_DefaultConfig ()))) ''ka'' (flaky_req ''GET'') 0 (0, [], []))))
     \<le> (11 :: nat)"
proof -
  obtain r b' n' where e: "buildResilientTransport plain_env trip3 flaky_net (re_KA (cf_Resilience (cfg_DefaultConfig ()))) ''ka'' (flaky_req ''GET'') 0 (0, [], [])
      = (r, b', n')" by (rule prod_cases3)
  have l: "breaker_law trip3" "counts_calls flaky_net fst" "keeps_calls plain_env fst"
    "min_int64 \<le> dc_RetryMax (re_KA (cf_Resilience (cfg_DefaultConfig ())))"
    by (simp_all add: trip3_law flaky_counts keeps_calls_def plain_env_def cfg_DefaultConfig_def min_int64_def)
  from validated_retry_bound [OF default_config_ok [of "()"] _ l e] e show ?thesis by simp
qed

text \<open>The limits of a valid configuration are positive as long as the products stay in range.\<close>

lemma wired_limits_positive:
  assumes "config_ok venv cfg" "cl_IPRequestsPerSec (cf_RateLimit cfg) < 2 ^ 62" "cl_UserRequestsPerSec (cf_RateLimit cfg) < 2 ^ 57"
  shows "ip_Burst (rl_PerIP (wire_rate_limits cfg)) = 2 * cl_IPRequestsPerSec (cf_RateLimit cfg) \<and> 0 < ip_Burst (rl_PerIP (wire_rate_limits cfg)) \<and>
    us_RequestsPerMinute (rl_PerUser (wire_rate_limits cfg)) = 60 * cl_UserRequestsPerSec (cf_RateLimit cfg) \<and>
    0 < us_MaxConcurrentSessions (rl_PerUser (wire_rate_limits cfg)) \<and> 0 < us_ToolCallsPerMinute (rl_PerUser (wire_rate_limits cfg))"
  using assms by (auto simp: config_ok_def wire_rate_limits_def wrap64_def ratelimit_DefaultConfig_def Let_def)

text \<open>A positive rate above the range passes validation and becomes a negative limit.\<close>

lemma user_rate_overflow:
  "us_RequestsPerMinute (rl_PerUser (wire_rate_limits (cfg\<lparr>cf_RateLimit := (cf_RateLimit cfg)\<lparr>cl_UserRequestsPerSec := 153722867280912931\<rparr>\<rparr>))) < 0"
  by (simp add: wire_rate_limits_def wrap64_def ratelimit_DefaultConfig_def Let_def)

text \<open>A Kubernetes client for a tool call always impersonates the caller of the request.\<close>

lemma dyn_factory_impersonates:
  assumes "buildDynFactory get_config NewForConfig ctx = Inr client"
  shows "\<exists>i base. UserIdentityFromContext ctx = Some i \<and> ui_Username i \<noteq> [] \<and> get_config = Inr base \<and>
    NewForConfig (base\<lparr>cf_UserName := ui_Username i, cf_Groups := ui_Groups i\<rparr>) = Inr client"
  using assms
  by (auto simp: buildDynFactory_def NewImpersonatingDynamicFactory_def NewImpersonatedConfig_def split: sum.splits if_splits option.splits)

text \<open>An empty audience is wired as the audience list with one empty name.\<close>

lemma empty_audience_wired:
  "ca_IssuerURL (cf_Auth cfg) \<noteq> [] \<Longrightarrow> ca_Audience (cf_Auth cfg) = [] \<Longrightarrow>
   map (ic_Audiences \<circ> pc_Issuer) (buildAuthConfig cfg) = [[[]]]"
  by (simp add: buildAuthConfig_def)

lemma tracker_limit_wired:
  "0 < tk_MaxConnections (buildSSETracker cfg)"
  "sc_MaxSSEConnections (cf_Server cfg) > 0 \<Longrightarrow> tk_MaxConnections (buildSSETracker cfg) = sc_MaxSSEConnections (cf_Server cfg)"
  by (simp_all add: buildSSETracker_def NewConnectionTracker_def Let_def)

lemma drain_wait_positive:
  "config_ok venv cfg \<Longrightarrow> cf_DrainSeconds cfg < 2 ^ 33 \<Longrightarrow> shutdownTimeout cfg = cf_DrainSeconds cfg * ns_second \<and> 0 < shutdownTimeout cfg"
  by (simp add: config_ok_def shutdownTimeout_def wrap64_def)

end
