(* ===== verification/ToolsBase.thy ===== *)
theory ToolsBase
  imports AuthMiddleware
begin

text \<open>
  What the tools share: \<open>internal/tools/helpers.go\<close>, and the reading of unstructured Kubernetes objects
  (\<open>apimachinery\<close>'s \<open>unstructured\<close>) the tools do. The Kubernetes client is a parameter (the record
  \<open>kube\<close>, one function per call the tools make, over a world \<open>'w\<close>), as are the clock, the rendering of
  errors and times, the case tables and the name checks of \<open>apimachinery\<close>.
\<close>

section \<open>Errors\<close>

definition ErrNotFound :: goerr where "ErrNotFound = ErrVar ''tools.ErrNotFound''"
definition ErrForbidden :: goerr where "ErrForbidden = ErrVar ''tools.ErrForbidden''"
definition ErrAlreadyTerminal :: goerr where "ErrAlreadyTerminal = ErrVar ''tools.ErrAlreadyTerminal''"
definition ErrK8sUnavailable :: goerr where "ErrK8sUnavailable = ErrVar ''tools.ErrK8sUnavailable''"
definition ErrInvalidInput :: goerr where "ErrInvalidInput = ErrVar ''tools.ErrInvalidInput''"

record 'w tool_conf =
  kf_now :: "'w \<Rightarrow> gotime"
  kf_format :: "gotime \<Rightarrow> string"
  kf_render :: "goerr \<Rightarrow> string"
  kf_lower :: "rune \<Rightarrow> rune"
  kf_upper :: "rune \<Rightarrow> rune"
  kf_label :: "string \<Rightarrow> string list"
  kf_subdomain :: "string \<Rightarrow> string list"
  kf_code :: "string \<Rightarrow> int"
  kf_sha256 :: "string \<Rightarrow> string"

definition invalid_input :: "'w tool_conf \<Rightarrow> goerr \<Rightarrow> goerr" where
  "invalid_input cf e = Wrapf ''%w: %v'' [kf_render cf e] ErrInvalidInput"

text \<open>The HTTP code of a status error; \<open>kf_code\<close> gives it for the reasons not told apart here.\<close>

fun api_code :: "'w tool_conf \<Rightarrow> api_reason \<Rightarrow> int" where
  "api_code cf NotFound = 404"
| "api_code cf Conflict = 409"
| "api_code cf AlreadyExists = 409"
| "api_code cf Forbidden = 403"
| "api_code cf (OtherReason s) = kf_code cf s"

definition str_after :: "string \<Rightarrow> string \<Rightarrow> string option" where
  "str_after s sep = map_option (\<lambda>i. drop (i + length sep) s) (str_index s sep)"

definition buildForbiddenMsg :: "string \<Rightarrow> string" where
  "buildForbiddenMsg msg =
    (case str_after msg ''cannot'' of
       Some rest \<Rightarrow>
         (let action = trim_space rest;
              action = (case str_index action ''in API group'' of
                  Some idx \<Rightarrow> if idx > 0 then trim_space (take idx action) else action | None \<Rightarrow> action)
          in ''you lack access to '' @ action @ '' -- contact your cluster administrator for RBAC permissions'')
     | None \<Rightarrow> ''you lack access to this resource -- contact your cluster administrator for RBAC permissions'')"

definition tools_ToUserFriendlyError :: "'w tool_conf \<Rightarrow> goerr \<Rightarrow> goerr" where
  "tools_ToUserFriendlyError cf err =
    (case status_error err of
       Some (r, m) \<Rightarrow>
         (let code = api_code cf r in
          if code = 403 then Wrapf ''%w: %s'' [buildForbiddenMsg m] ErrForbidden
          else if code = 404 then Wrapf ''%w: the requested resource does not exist'' [] ErrNotFound
          else if code = 409 then Errorf (''operation conflict '' @ em_dash @ '' the resource was modified concurrently, please retry'') []
          else Errorf ''operation failed (code %d): %s'' [show_int code, m])
     | None \<Rightarrow> err)"

section \<open>Identifiers, phases, trimming\<close>

definition split_once :: "char \<Rightarrow> string \<Rightarrow> string \<times> string option" where
  "split_once c s = (takeWhile (\<lambda>x. x \<noteq> c) s, (case dropWhile (\<lambda>x. x \<noteq> c) s of [] \<Rightarrow> None | _ # rest \<Rightarrow> Some rest))"

definition ParseRRID :: "string \<Rightarrow> string \<Rightarrow> string \<Rightarrow> goerr + string \<times> string" where
  "ParseRRID rrID namespace name =
    (if rrID \<noteq> [] then
       (case split_once CHR ''/'' rrID of
          (ns, Some n) \<Rightarrow> if ns = [] \<or> n = [] then Inl (Errorf ''invalid rr_id format %q: expected namespace/name'' [rrID]) else Inr (ns, n)
        | (_, None) \<Rightarrow> Inl (Errorf ''invalid rr_id format %q: expected namespace/name'' [rrID]))
     else if namespace = [] \<or> name = []
     then Inl (Errorf ''namespace and name are required when rr_id is not provided'' [])
     else Inr (namespace, name))"

definition IsTerminalPhase :: "string \<Rightarrow> bool" where
  "IsTerminalPhase phase \<longleftrightarrow> phase \<in> {''Completed'', ''Failed'', ''Cancelled''}"

definition maxToolOutputBytes :: nat where "maxToolOutputBytes = 4096"

text \<open>\<open>sz\<close> is the length of the JSON text of a slice (0 when it does not serialise).\<close>

function trim_loop :: "('a list \<Rightarrow> nat) \<Rightarrow> 'a list \<Rightarrow> 'a list" where
  "trim_loop sz items =
    (if length items > 1
     then (let items = butlast items in if sz items \<le> maxToolOutputBytes then items else trim_loop sz items)
     else items)"
  by auto
termination by (relation "measure (length \<circ> snd)") auto

declare trim_loop.simps [simp del]

definition TrimSliceToFit :: "('a list \<Rightarrow> nat) \<Rightarrow> 'a list \<Rightarrow> 'a list \<times> bool" where
  "TrimSliceToFit sz items = (if sz items \<le> maxToolOutputBytes then (items, False) else (trim_loop sz items, True))"

section \<open>Unstructured objects\<close>

type_synonym kobj = "(string \<times> jv) list"

fun nested :: "kobj \<Rightarrow> string list \<Rightarrow> jv option" where
  "nested obj [] = Some (JObj obj)"
| "nested obj [k] = map_of obj k"
| "nested obj (k # ks) = (case map_of obj k of Some (JObj sub) \<Rightarrow> nested sub ks | _ \<Rightarrow> None)"

definition NestedString :: "kobj \<Rightarrow> string list \<Rightarrow> string" where
  "NestedString obj ks = (case nested obj ks of Some (JStr s) \<Rightarrow> s | _ \<Rightarrow> [])"

definition NestedInt64 :: "kobj \<Rightarrow> string list \<Rightarrow> int" where
  "NestedInt64 obj ks = (case nested obj ks of Some (JInt i) \<Rightarrow> i | _ \<Rightarrow> 0)"

definition NestedBool :: "kobj \<Rightarrow> string list \<Rightarrow> bool" where
  "NestedBool obj ks = (case nested obj ks of Some (JBool b) \<Rightarrow> b | _ \<Rightarrow> False)"

definition NestedSlice :: "kobj \<Rightarrow> string list \<Rightarrow> jv list option" where
  "NestedSlice obj ks = (case nested obj ks of Some (JArr xs) \<Rightarrow> Some xs | _ \<Rightarrow> None)"

definition NestedMap :: "kobj \<Rightarrow> string list \<Rightarrow> kobj option" where
  "NestedMap obj ks = (case nested obj ks of Some (JObj m) \<Rightarrow> Some m | _ \<Rightarrow> None)"

definition GetName :: "kobj \<Rightarrow> string" where "GetName obj = NestedString obj [''metadata'', ''name'']"
definition GetNamespace :: "kobj \<Rightarrow> string" where "GetNamespace obj = NestedString obj [''metadata'', ''namespace'']"

text \<open>The elements of a slice that are maps.\<close>

definition maps_of :: "jv list \<Rightarrow> kobj list" where
  "maps_of xs = List.map_filter (\<lambda>x. case x of JObj m \<Rightarrow> Some m | _ \<Rightarrow> None) xs"

type_synonym gvr = "string \<times> string \<times> string"

record 'w kube =
  kb_list :: "gvr \<Rightarrow> string \<Rightarrow> string \<Rightarrow> 'w \<Rightarrow> (goerr + kobj list) \<times> 'w"
  kb_get :: "gvr \<Rightarrow> string \<Rightarrow> string \<Rightarrow> 'w \<Rightarrow> (goerr + kobj) \<times> 'w"
  kb_create :: "gvr \<Rightarrow> string \<Rightarrow> kobj \<Rightarrow> 'w \<Rightarrow> (goerr + kobj) \<times> 'w"
  kb_patch :: "gvr \<Rightarrow> string \<Rightarrow> string \<Rightarrow> string \<Rightarrow> string \<Rightarrow> 'w \<Rightarrow> (goerr + kobj) \<times> 'w"

text \<open>What the constructor of a tool gives to the agent library: a configuration and a function.\<close>

record 'r function_tool =
  ft_Name :: string
  ft_Description :: string
  ft_IsLongRunning :: bool
  ft_Run :: "Ctx \<Rightarrow> 'r"

section \<open>Properties of the helpers\<close>

lemma split_once_app: "c \<notin> set a \<Longrightarrow> split_once c (a @ c # b) = (a, Some b)"
  by (simp add: split_once_def takeWhile_tail dropWhile_append)

text \<open>Printing a remediation as namespace/name and parsing it again gives both parts back.\<close>

lemma ParseRRID_roundtrip:
  "ns \<noteq> [] \<Longrightarrow> n \<noteq> [] \<Longrightarrow> CHR ''/'' \<notin> set ns \<Longrightarrow> ParseRRID (ns @ ''/'' @ n) a b = Inr (ns, n)"
  by (simp add: ParseRRID_def split_once_app)

lemma ParseRRID_Inr:
  assumes "ParseRRID rrID a b = Inr (ns, n)"
  shows "ns \<noteq> [] \<and> n \<noteq> [] \<and> (rrID \<noteq> [] \<longrightarrow> rrID = ns @ ''/'' @ n \<and> CHR ''/'' \<notin> set ns)"
proof (cases "rrID = []")
  case True
  with assms show ?thesis by (auto simp: ParseRRID_def split: if_splits)
next
  case False
  then obtain c where d: "dropWhile (\<lambda>x. x \<noteq> CHR ''/'') rrID = c # n" "ns = takeWhile (\<lambda>x. x \<noteq> CHR ''/'') rrID" "ns \<noteq> []" "n \<noteq> []"
    using assms by (auto simp: ParseRRID_def split_once_def split: list.splits if_splits)
  have "c = CHR ''/''" using hd_dropWhile [of "\<lambda>x. x \<noteq> CHR ''/''" rrID] d(1) by simp
  have "rrID = ns @ ''/'' @ n"
    using takeWhile_dropWhile_id [of "\<lambda>x. x \<noteq> CHR ''/''" rrID] d \<open>c = CHR ''/''\<close> by simp
  then show ?thesis using d by (auto dest: set_takeWhileD)
qed

text \<open>Reference: the longest prefix of at least one element that fits, or the first element alone.\<close>

definition longest_fit :: "('a list \<Rightarrow> nat) \<Rightarrow> 'a list \<Rightarrow> nat \<Rightarrow> bool" where
  "longest_fit sz items n \<longleftrightarrow> 1 \<le> n \<and> n \<le> length items \<and> (sz (take n items) \<le> maxToolOutputBytes \<or> n = 1) \<and>
     (\<forall>k. n < k \<and> k \<le> length items \<longrightarrow> sz (take k items) > maxToolOutputBytes)"

lemma trim_loop_fit:
  assumes "items \<noteq> []" "sz items > maxToolOutputBytes"
  shows "\<exists>n. longest_fit sz items n \<and> trim_loop sz items = take n items"
  using assms
proof (induction sz items rule: trim_loop.induct)
  case (1 sz items)
  show ?case
  proof (cases "length items > 1")
    case False
    with 1 have l: "length items = 1" by (cases items) auto
    then show ?thesis using 1
      by (intro exI [of _ 1]) (auto simp: longest_fit_def trim_loop.simps)
  next
    case True
    define b where "b = butlast items"
    have b: "b = take (length items - 1) items" "b \<noteq> []" "length b = length items - 1"
      using True by (auto simp: b_def butlast_conv_take)
    have tk: "take k items = take k b" if "k \<le> length items - 1" for k using that b by (simp add: min_absorb1)
    show ?thesis
    proof (cases "sz b \<le> maxToolOutputBytes")
      case fits: True
      have "longest_fit sz items (length items - 1)"
      proof -
        have "sz (take k items) > maxToolOutputBytes" if "length items - 1 < k" "k \<le> length items" for k
        proof -
          from that have "k = length items" by linarith
          then show ?thesis using 1(3) by simp
        qed
        then show ?thesis using True fits b(1) by (auto simp: longest_fit_def)
      qed
      moreover have "trim_loop sz items = b"
        using True fits by (simp add: trim_loop.simps [of sz items] b_def Let_def)
      ultimately show ?thesis using b(1) by metis
    next
      case False
      have tl: "trim_loop sz items = trim_loop sz b"
        using True False by (subst trim_loop.simps) (simp add: b_def Let_def)
      from 1(1) [OF True b_def] obtain n where n: "longest_fit sz b n" "trim_loop sz b = take n b"
        using False b by auto
      have "sz (take k items) > maxToolOutputBytes" if "n < k" "k \<le> length items" for k
      proof (cases "k = length items")
        case True then show ?thesis using 1(3) by simp
      next
        case False
        then have "k \<le> length b" using that b(3) by simp
        then show ?thesis using n(1) that tk [of k] b(3) by (simp add: longest_fit_def)
      qed
      moreover have "n \<le> length items - 1" using n(1) b(3) by (simp add: longest_fit_def)
      ultimately have "longest_fit sz items n" using n(1) tk [of n] b(3) by (auto simp: longest_fit_def)
      then show ?thesis using tl n tk [of n] \<open>n \<le> length items - 1\<close> by auto
    qed
  qed
qed



end
