(* ===== verification/CrdTools.thy ===== *)
theory CrdTools
  imports ToolsBase Triage "HOL-Library.Multiset"
begin

text \<open>
  The tools on remediation resources: \<open>internal/tools/crd_tools.go\<close>, \<open>af_check_existing_rr.go\<close> and
  \<open>af_create_rr.go\<close>. The constructors \<open>New...Tool\<close> give the name,
  the description and the function the agent library gets. A creation is one step for its fingerprint, as the single-flight group makes it.
\<close>

definition rrGVR :: gvr where "rrGVR = (''kubernaut.ai'', ''v1alpha1'', ''remediationrequests'')"
definition rarGVR :: gvr where "rarGVR = (''kubernaut.ai'', ''v1alpha1'', ''remediationapprovalrequests'')"

abbreviation "phase_of obj \<equiv> NestedString obj [''status'', ''overallPhase'']"
abbreviation "target_kind obj \<equiv> NestedString obj [''spec'', ''targetResource'', ''kind'']"
abbreviation "target_name obj \<equiv> NestedString obj [''spec'', ''targetResource'', ''name'']"

text \<open>A nil client is \<open>None\<close>; the first failing check of a list ends a handler before it acts.\<close>

definition guarded :: "'w kube option \<Rightarrow> goerr option list \<Rightarrow> ('w kube \<Rightarrow> 'w \<Rightarrow> (goerr + 'r) \<times> 'w) \<Rightarrow> 'w \<Rightarrow> (goerr + 'r) \<times> 'w" where
  "guarded client checks body w =
    (case client of None \<Rightarrow> (Inl ErrK8sUnavailable, w)
     | Some k \<Rightarrow> (case List.map_filter id checks of e # _ \<Rightarrow> (Inl e, w) | [] \<Rightarrow> body k w))"

definition check_namespace :: "'w tool_conf \<Rightarrow> string \<Rightarrow> goerr option" where
  "check_namespace cf ns = map_option (invalid_input cf) (validate_Namespace (kf_label cf) ns)"

definition check_name :: "'w tool_conf \<Rightarrow> string \<Rightarrow> goerr option" where
  "check_name cf n = map_option (invalid_input cf) (validate_ResourceName (kf_subdomain cf) n)"

definition check_filled :: "string \<Rightarrow> string \<Rightarrow> goerr option" where
  "check_filled field v = (if v = [] then Some (Wrapf (''%w: '' @ field @ '' must not be empty'') [] ErrInvalidInput) else None)"

section \<open>Listing and reading\<close>

record ListRemediationsArgs =
  lr_Namespace :: string
  lr_Phase :: string
  lr_Kind :: string
  lr_Name :: string

record RemediationSummary =
  rm_ID :: string
  rm_Namespace :: string
  rm_Name :: string
  rm_Phase :: string
  rm_Kind :: string
  rm_Target :: string

fun list_loop :: "ListRemediationsArgs \<Rightarrow> kobj list \<Rightarrow> RemediationSummary list \<Rightarrow> RemediationSummary list" where
  "list_loop args [] result = result"
| "list_loop args (item # items) result =
    (let phase = phase_of item; kind = target_kind item; target = target_name item in
     if lr_Phase args \<noteq> [] \<and> phase \<noteq> lr_Phase args then list_loop args items result
     else if lr_Kind args \<noteq> [] \<and> kind \<noteq> lr_Kind args then list_loop args items result
     else if lr_Name args \<noteq> [] \<and> target \<noteq> lr_Name args then list_loop args items result
     else list_loop args items (result @ [\<lparr>rm_ID = GetNamespace item @ ''/'' @ GetName item, rm_Namespace = GetNamespace item,
            rm_Name = GetName item, rm_Phase = phase, rm_Kind = kind, rm_Target = target\<rparr>]))"

definition HandleListRemediations ::
  "'w tool_conf \<Rightarrow> 'w kube option \<Rightarrow> ListRemediationsArgs \<Rightarrow> 'w \<Rightarrow> (goerr + RemediationSummary list \<times> nat) \<times> 'w" where
  "HandleListRemediations cf client args = guarded client [check_namespace cf (lr_Namespace args)] (\<lambda>k w.
     case kb_list k rrGVR (lr_Namespace args) [] w of
       (Inl err, w) \<Rightarrow> (Inl (tools_ToUserFriendlyError cf err), w)
     | (Inr items, w) \<Rightarrow> (let result = list_loop args items [] in (Inr (result, length result), w)))"

definition NewListRemediationsTool :: "'w tool_conf \<Rightarrow> 'w kube option \<Rightarrow>
    (ListRemediationsArgs \<Rightarrow> 'w \<Rightarrow> (goerr + RemediationSummary list \<times> nat) \<times> 'w) function_tool" where
  "NewListRemediationsTool cf client = \<lparr>ft_Name = ''kubernaut_list_remediations'',
     ft_Description = ''List active remediations with optional filtering by namespace, phase, kind, or name'', ft_IsLongRunning = False,
     ft_Run = (\<lambda>ctx args. HandleListRemediations cf client args)\<rparr>"

record RRRef =
  rf_Namespace :: string
  rf_Name :: string
  rf_RRID :: string

definition HandleGetRemediation :: "'w tool_conf \<Rightarrow> 'w kube option \<Rightarrow> RRRef \<Rightarrow> 'w \<Rightarrow> (goerr + RemediationSummary) \<times> 'w" where
  "HandleGetRemediation cf client args = guarded client [] (\<lambda>k w.
     case ParseRRID (rf_RRID args) (rf_Namespace args) (rf_Name args) of
       Inl err \<Rightarrow> (Inl err, w)
     | Inr (ns, name) \<Rightarrow>
        (case kb_get k rrGVR ns name w of
           (Inl err, w) \<Rightarrow> (Inl (tools_ToUserFriendlyError cf err), w)
         | (Inr obj, w) \<Rightarrow> (Inr \<lparr>rm_ID = ns @ ''/'' @ name, rm_Namespace = ns, rm_Name = name, rm_Phase = phase_of obj,
              rm_Kind = target_kind obj, rm_Target = target_name obj\<rparr>, w)))"

definition NewGetRemediationTool :: "'w tool_conf \<Rightarrow> 'w kube option \<Rightarrow> (RRRef \<Rightarrow> 'w \<Rightarrow> (goerr + RemediationSummary) \<times> 'w) function_tool" where
  "NewGetRemediationTool cf client = \<lparr>ft_Name = ''kubernaut_get_remediation'',
     ft_Description = ''Get detailed information about a specific remediation by namespace/name or rr_id'', ft_IsLongRunning = False,
     ft_Run = (\<lambda>ctx args. HandleGetRemediation cf client args)\<rparr>"

section \<open>Approval and cancellation\<close>

record ApproveArgs =
  ap_Namespace :: string
  ap_RARName :: string
  ap_Decision :: string
  ap_Reason :: string
  ap_WorkflowOverride :: string

definition tools_to_upper :: "(rune \<Rightarrow> rune) \<Rightarrow> string \<Rightarrow> string" where
  "tools_to_upper up s = strings_map (\<lambda>r. Some (if r < 128 then (if 97 \<le> r \<and> r \<le> 122 then r - 32 else r) else up r)) s"

definition normalizedDecision :: "'w tool_conf \<Rightarrow> string \<Rightarrow> string" where
  "normalizedDecision cf d = tools_to_upper (kf_upper cf) (take 1 d) @ to_lower (kf_lower cf) (drop 1 d)"

definition approve_patch :: "'w tool_conf \<Rightarrow> ApproveArgs \<Rightarrow> string \<Rightarrow> string \<Rightarrow> jv" where
  "approve_patch cf args username now = JObj [(''status'', JObj (
     [(''decision'', JStr (normalizedDecision cf (ap_Decision args))), (''decidedBy'', JStr username), (''decidedAt'', JStr now)] @
     (if ap_Reason args \<noteq> [] then [(''decisionMessage'', JStr (ap_Reason args))] else []) @
     (if ap_WorkflowOverride args \<noteq> []
      then [(''workflowOverride'', JObj [(''workflowName'', JStr (ap_WorkflowOverride args)),
              (''rationale'', JStr ''User override via kubernaut_approve'')])] else [])))]"

definition HandleApprove :: "'w tool_conf \<Rightarrow> 'w kube option \<Rightarrow> ApproveArgs \<Rightarrow> string \<Rightarrow> 'w \<Rightarrow> (goerr + string \<times> string) \<times> 'w" where
  "HandleApprove cf client args username =
    guarded client [check_namespace cf (ap_Namespace args), check_name cf (ap_RARName args), check_filled ''decision'' (ap_Decision args)] (\<lambda>k w.
     case kb_get k rarGVR (ap_Namespace args) (ap_RARName args) w of
       (Inl err, w) \<Rightarrow> (Inl (tools_ToUserFriendlyError cf err), w)
     | (Inr _, w) \<Rightarrow>
        (case json_marshal (approve_patch cf args username (kf_format cf (kf_now cf w))) of
           None \<Rightarrow> (Inl (Wrapf ''marshaling patch: %w'' [] (ErrVar ''json.Marshal'')), w)
         | Some patchBytes \<Rightarrow>
            (case kb_patch k rarGVR (ap_Namespace args) (ap_RARName args) patchBytes ''status'' w of
               (Inl err, w) \<Rightarrow> (Inl (tools_ToUserFriendlyError cf err), w)
             | (Inr _, w) \<Rightarrow> (Inr (ap_Decision args, ''Remediation approval '' @ ap_Decision args @ '' by '' @ username), w))))"

text \<open>Without an identity in the context the decision is recorded as made by \<open>system\<close>.\<close>

definition usernameFromContext :: "Ctx \<Rightarrow> string" where
  "usernameFromContext ctx =
    (case UserIdentityFromContext ctx of
       Some i \<Rightarrow> if ui_Username i \<noteq> [] then ui_Username i else ''system''
     | None \<Rightarrow> ''system'')"

definition NewApproveTool :: "'w tool_conf \<Rightarrow> 'w kube option \<Rightarrow> (ApproveArgs \<Rightarrow> 'w \<Rightarrow> (goerr + string \<times> string) \<times> 'w) function_tool" where
  "NewApproveTool cf client = \<lparr>ft_Name = ''kubernaut_approve'',
     ft_Description = ''Approve or reject a pending remediation approval request'', ft_IsLongRunning = False,
     ft_Run = (\<lambda>ctx args. HandleApprove cf client args (usernameFromContext ctx))\<rparr>"

definition cancel_patch :: "string \<Rightarrow> jv" where
  "cancel_patch now = JObj [(''status'', JObj [(''overallPhase'', JStr ''Cancelled''), (''completedAt'', JStr now),
     (''lastModifiedAt'', JStr now), (''message'', JStr ''Cancelled by user via kubernaut_cancel_remediation'')])]"

definition HandleCancelRemediation :: "'w tool_conf \<Rightarrow> 'w kube option \<Rightarrow> RRRef \<Rightarrow> 'w \<Rightarrow> (goerr + string \<times> string) \<times> 'w" where
  "HandleCancelRemediation cf client args = guarded client [] (\<lambda>k w.
     case ParseRRID (rf_RRID args) (rf_Namespace args) (rf_Name args) of
       Inl err \<Rightarrow> (Inl err, w)
     | Inr (ns, name) \<Rightarrow>
        (case kb_get k rrGVR ns name w of
           (Inl err, w) \<Rightarrow> (Inl (tools_ToUserFriendlyError cf err), w)
         | (Inr obj, w) \<Rightarrow>
            if IsTerminalPhase (phase_of obj)
            then (Inl (Wrapf ''%w: remediation %s/%s is in terminal state %q'' [ns, name, phase_of obj] ErrAlreadyTerminal), w)
            else (case json_marshal (cancel_patch (kf_format cf (kf_now cf w))) of
                None \<Rightarrow> (Inl (Wrapf ''marshaling patch: %w'' [] (ErrVar ''json.Marshal'')), w)
              | Some patchBytes \<Rightarrow>
                 (case kb_patch k rrGVR ns name patchBytes ''status'' w of
                    (Inl err, w) \<Rightarrow> (Inl (tools_ToUserFriendlyError cf err), w)
                  | (Inr _, w) \<Rightarrow> (Inr (''Cancelled'', ''Remediation '' @ ns @ ''/'' @ name @ '' cancelled''), w)))))"

definition NewCancelRemediationTool :: "'w tool_conf \<Rightarrow> 'w kube option \<Rightarrow> (RRRef \<Rightarrow> 'w \<Rightarrow> (goerr + string \<times> string) \<times> 'w) function_tool" where
  "NewCancelRemediationTool cf client = \<lparr>ft_Name = ''kubernaut_cancel_remediation'',
     ft_Description = ''Cancel an active remediation that has not yet reached a terminal state'', ft_IsLongRunning = False,
     ft_Run = (\<lambda>ctx args. HandleCancelRemediation cf client args)\<rparr>"

section \<open>Watching\<close>

record WatchEvent =
  wv_Timestamp :: string
  wv_Resource :: string
  wv_Phase :: string
  wv_Message :: string

datatype watch_type = WAdded | WModified | WOther

text \<open>
  What the select of the loop receives, in the order it takes it: the cancelled request, the closed
  channel (also after ten minutes), or an event with its object (\<open>None\<close>: not an unstructured object) and
  the time it is handled.
\<close>

datatype watch_item = WCancelled | WClosed | WEvent watch_type "kobj option" gotime

text \<open>\<open>None\<close>: the loop is still waiting when the inputs are used up.\<close>

fun watch_loop :: "'w tool_conf \<Rightarrow> WatchEvent list \<Rightarrow> watch_item list \<Rightarrow> (WatchEvent list \<times> string) option" where
  "watch_loop cf events [] = None"
| "watch_loop cf events (WCancelled # is) = Some (events, ''cancelled'')"
| "watch_loop cf events (WClosed # is) = Some (events, ''completed'')"
| "watch_loop cf events (WEvent ty obj now # is) =
    (if ty = WModified \<or> ty = WAdded then
       (case obj of None \<Rightarrow> watch_loop cf events is
        | Some ob \<Rightarrow>
           (let phase = phase_of ob;
                events = events @ [\<lparr>wv_Timestamp = kf_format cf now, wv_Resource = ''RemediationRequest'', wv_Phase = phase,
                  wv_Message = ''Phase changed to '' @ phase\<rparr>]
            in if IsTerminalPhase phase then Some (events, ''completed'') else watch_loop cf events is))
     else watch_loop cf events is)"

text \<open>\<open>start\<close> is the client's \<open>Watch\<close> call, which gives the stream.\<close>

definition HandleWatch ::
  "'w tool_conf \<Rightarrow> 'w kube option \<Rightarrow> (string \<Rightarrow> string \<Rightarrow> goerr + watch_item list) \<Rightarrow> string \<Rightarrow> string \<Rightarrow>
   (goerr + (WatchEvent list \<times> string)) option" where
  "HandleWatch cf client start ns name =
    (if client = None then Some (Inl ErrK8sUnavailable)
     else (case List.map_filter id [check_namespace cf ns, check_name cf name] of
         e # _ \<Rightarrow> Some (Inl e)
       | [] \<Rightarrow> (case start ns (''metadata.name='' @ name) of
           Inl err \<Rightarrow> Some (Inl (tools_ToUserFriendlyError cf err))
         | Inr is \<Rightarrow> map_option Inr (watch_loop cf [] is))))"

definition NewWatchTool :: "'w tool_conf \<Rightarrow> 'w kube option \<Rightarrow> (string \<Rightarrow> string \<Rightarrow> goerr + watch_item list) \<Rightarrow>
    (string \<Rightarrow> string \<Rightarrow> (goerr + (WatchEvent list \<times> string)) option) function_tool" where
  "NewWatchTool cf client start = \<lparr>ft_Name = ''kubernaut_watch'',
     ft_Description = ''Stream live status updates for a remediation and its related resources'', ft_IsLongRunning = False,
     ft_Run = (\<lambda>ctx ns name. HandleWatch cf client start ns name)\<rparr>"

section \<open>Creation\<close>

definition maxDescriptionLen :: nat where "maxDescriptionLen = 2048"

definition rr_validSeverities :: "string list" where
  "rr_validSeverities = [''critical'', ''high'', ''medium'', ''low'', ''info'']"

definition rrFingerprint :: "'w tool_conf \<Rightarrow> string \<Rightarrow> string \<Rightarrow> string \<Rightarrow> string" where
  "rrFingerprint cf namespace kind name = kf_sha256 cf (namespace @ ''/'' @ kind @ ''/'' @ name)"

record CheckExistingRRResult =
  ce_Exists :: bool
  ce_RRID :: string
  ce_Phase :: string

fun check_loop :: "string \<Rightarrow> kobj list \<Rightarrow> CheckExistingRRResult" where
  "check_loop fingerprint [] = \<lparr>ce_Exists = False, ce_RRID = [], ce_Phase = []\<rparr>"
| "check_loop fingerprint (item # items) =
    (if NestedString item [''spec'', ''signalFingerprint''] \<noteq> fingerprint then check_loop fingerprint items
     else if \<not> IsTerminalPhase (phase_of item)
     then \<lparr>ce_Exists = True, ce_RRID = GetNamespace item @ ''/'' @ GetName item, ce_Phase = phase_of item\<rparr>
     else check_loop fingerprint items)"

definition HandleCheckExistingRR ::
  "'w tool_conf \<Rightarrow> 'w kube option \<Rightarrow> string \<Rightarrow> string \<Rightarrow> string \<Rightarrow> 'w \<Rightarrow> (goerr + CheckExistingRRResult) \<times> 'w" where
  "HandleCheckExistingRR cf client ns kind name =
    guarded client [check_namespace cf ns, check_filled ''kind'' kind, map_option (invalid_input cf) (validate_Kind kind), check_filled ''name'' name] (\<lambda>k w.
     case kb_list k rrGVR ns [] w of
       (Inl err, w) \<Rightarrow> (Inl (tools_ToUserFriendlyError cf err), w)
     | (Inr items, w) \<Rightarrow> (Inr (check_loop (rrFingerprint cf ns kind name) items), w))"

definition NewCheckExistingRRTool :: "'w tool_conf \<Rightarrow> 'w kube option \<Rightarrow>
    (string \<Rightarrow> string \<Rightarrow> string \<Rightarrow> 'w \<Rightarrow> (goerr + CheckExistingRRResult) \<times> 'w) function_tool" where
  "NewCheckExistingRRTool cf client = \<lparr>ft_Name = ''af_check_existing_rr'',
     ft_Description = ''Check if a non-terminal RemediationRequest already exists for a target resource (deduplication check)'',
     ft_IsLongRunning = False, ft_Run = (\<lambda>ctx ns kind name. HandleCheckExistingRR cf client ns kind name)\<rparr>"

record CreateRRArgs =
  cr_Namespace :: string
  cr_Kind :: string
  cr_Name :: string
  cr_Severity :: string
  cr_Description :: string

record CreateRRResult =
  cw_RRID :: string
  cw_Message :: string
  cw_AlreadyExists :: bool
  cw_Severity :: string
  cw_SeveritySource :: string

definition rr_name :: "'w tool_conf \<Rightarrow> string \<Rightarrow> string \<Rightarrow> gotime \<Rightarrow> string" where
  "rr_name cf kind name now =
    (let rrName = ''rr-'' @ to_lower (kf_lower cf) kind @ ''-'' @ to_lower (kf_lower cf) name @ ''-'' @ show_int (now div 1000000)
     in if length rrName > 63 then take 63 rrName else rrName)"

definition rr_spec :: "'w tool_conf \<Rightarrow> CreateRRArgs \<Rightarrow> TriageResult option \<Rightarrow> string \<Rightarrow> kobj" where
  "rr_spec cf args triageResult now =
     [(''signalName'', JStr (''af-manual-'' @ cr_Kind args @ ''-'' @ cr_Name args)), (''signalType'', JStr ''alert''),
      (''signalFingerprint'', JStr (rrFingerprint cf (cr_Namespace args) (cr_Kind args) (cr_Name args))),
      (''severity'', JStr (cr_Severity args)), (''firingTime'', JStr now), (''receivedTime'', JStr now),
      (''targetType'', JStr ''kubernetes''),
      (''targetResource'', JObj [(''kind'', JStr (cr_Kind args)), (''name'', JStr (cr_Name args)), (''namespace'', JStr (cr_Namespace args))])] @
     (case triageResult of None \<Rightarrow> [] | Some t \<Rightarrow>
        [(''signalLabels'', JObj ([(''severity_source'', JStr (tr_Source t))] @
           (if tr_AlertName t \<noteq> [] then [(''severity_alert_name'', JStr (tr_AlertName t))] else []) @
           (if tr_RuleName t \<noteq> [] then [(''severity_rule_name'', JStr (tr_RuleName t))] else [])))])"

definition rr_object :: "'w tool_conf \<Rightarrow> CreateRRArgs \<Rightarrow> TriageResult option \<Rightarrow> gotime \<Rightarrow> kobj" where
  "rr_object cf args triageResult now =
     [(''apiVersion'', JStr ''kubernaut.ai/v1alpha1''), (''kind'', JStr ''RemediationRequest''),
      (''metadata'', JObj [(''name'', JStr (rr_name cf (cr_Kind args) (cr_Name args) now)), (''namespace'', JStr (cr_Namespace args))]),
      (''spec'', JObj (rr_spec cf args triageResult (kf_format cf now)))]"

text \<open>The body of the flight: look for a live request of the same fingerprint, otherwise create one.\<close>

definition flight_create ::
  "'w tool_conf \<Rightarrow> 'w kube \<Rightarrow> CreateRRArgs \<Rightarrow> TriageResult option \<Rightarrow> string \<Rightarrow> 'w \<Rightarrow> (goerr + CreateRRResult) \<times> 'w" where
  "flight_create cf k args triageResult username w =
    (case kb_create k rrGVR (cr_Namespace args) (rr_object cf args triageResult (kf_now cf w)) w of
       (Inl err, w) \<Rightarrow> (Inl (tools_ToUserFriendlyError cf err), w)
     | (Inr created, w) \<Rightarrow> (Inr \<lparr>cw_RRID = GetNamespace created @ ''/'' @ GetName created,
           cw_Message = ''RemediationRequest created for '' @ cr_Kind args @ ''/'' @ cr_Name args @ '' by '' @ username,
           cw_AlreadyExists = False,
           cw_Severity = (case triageResult of Some t \<Rightarrow> tr_Severity t | None \<Rightarrow> cr_Severity args),
           cw_SeveritySource = (case triageResult of Some t \<Rightarrow> tr_Source t | None \<Rightarrow> [])\<rparr>, w))"

definition create_flight ::
  "'w tool_conf \<Rightarrow> 'w kube \<Rightarrow> CreateRRArgs \<Rightarrow> TriageResult option \<Rightarrow> string \<Rightarrow> 'w \<Rightarrow> (goerr + CreateRRResult) \<times> 'w" where
  "create_flight cf k args triageResult username w =
    (case HandleCheckExistingRR cf (Some k) (cr_Namespace args) (cr_Kind args) (cr_Name args) w of
       (Inl err, w) \<Rightarrow> (Inl err, w)
     | (Inr existing, w) \<Rightarrow>
        if ce_Exists existing
        then (Inr \<lparr>cw_RRID = ce_RRID existing, cw_Message = ''RemediationRequest already exists ('' @ ce_Phase existing @ '')'',
                cw_AlreadyExists = True, cw_Severity = [], cw_SeveritySource = []\<rparr>, w)
        else flight_create cf k args triageResult username w)"

definition check_severity :: "string \<Rightarrow> goerr option" where
  "check_severity s = (if s \<noteq> [] \<and> s \<notin> set rr_validSeverities
     then Some (Wrapf ''%w: severity must be one of critical, high, medium, low, info'' [] ErrInvalidInput) else None)"

text \<open>\<open>triager\<close> is the triage pipeline on the same world; nil is \<open>None\<close>.\<close>

definition determine_severity ::
  "(TriageInput \<Rightarrow> 'w \<Rightarrow> (goerr + TriageResult) \<times> 'w) option \<Rightarrow> CreateRRArgs \<Rightarrow> 'w \<Rightarrow> (goerr + CreateRRArgs \<times> TriageResult option) \<times> 'w" where
  "determine_severity triager args w =
    (case (if cr_Severity args = [] then triager else None) of
       None \<Rightarrow> (Inr (if cr_Severity args = [] then args\<lparr>cr_Severity := ''medium''\<rparr> else args, None), w)
     | Some triage \<Rightarrow>
        (case triage \<lparr>ti_Namespace = cr_Namespace args, ti_Kind = cr_Kind args, ti_Name = cr_Name args,
             ti_Description = cr_Description args,
             ti_Labels = [(''namespace'', cr_Namespace args), (''kind'', cr_Kind args), (''name'', cr_Name args)]\<rparr> w of
           (Inl err, w) \<Rightarrow> (Inl (Wrapf ''severity triage failed: %w'' [] err), w)
         | (Inr t, w) \<Rightarrow> if tr_Severity t \<noteq> [] then (Inr (args\<lparr>cr_Severity := tr_Severity t\<rparr>, Some t), w)
             else (Inr (args\<lparr>cr_Severity := ''medium''\<rparr>, None), w)))"

definition HandleCreateRR ::
  "'w tool_conf \<Rightarrow> (TriageInput \<Rightarrow> 'w \<Rightarrow> (goerr + TriageResult) \<times> 'w) option \<Rightarrow> 'w kube option \<Rightarrow> CreateRRArgs \<Rightarrow> string \<Rightarrow> 'w \<Rightarrow>
   (goerr + CreateRRResult) \<times> 'w" where
  "HandleCreateRR cf triager client args username =
    guarded client [check_namespace cf (cr_Namespace args), check_filled ''kind'' (cr_Kind args), check_filled ''name'' (cr_Name args),
      check_severity (cr_Severity args)] (\<lambda>k w.
     let args = args\<lparr>cr_Description := take maxDescriptionLen (cr_Description args)\<rparr> in
     case determine_severity triager args w of
       (Inl err, w) \<Rightarrow> (Inl err, w)
     | (Inr (args, triageResult), w) \<Rightarrow> create_flight cf k args triageResult username w)"

definition NewCreateRRTool :: "'w tool_conf \<Rightarrow> (TriageInput \<Rightarrow> 'w \<Rightarrow> (goerr + TriageResult) \<times> 'w) option \<Rightarrow> 'w kube option \<Rightarrow>
    (CreateRRArgs \<Rightarrow> 'w \<Rightarrow> (goerr + CreateRRResult) \<times> 'w) function_tool" where
  "NewCreateRRTool cf triager client = \<lparr>ft_Name = ''af_create_rr'',
     ft_Description = ''Create a RemediationRequest for a target resource with deduplication. Checks for existing non-terminal RRs before creating.'',
     ft_IsLongRunning = False, ft_Run = (\<lambda>ctx args. HandleCreateRR cf triager client args (usernameFromContext ctx))\<rparr>"

section \<open>Listing is a filter\<close>

text \<open>Reference: which items a listing shows, and how.\<close>

definition matches :: "ListRemediationsArgs \<Rightarrow> kobj \<Rightarrow> bool" where
  "matches args item \<longleftrightarrow> (lr_Phase args = [] \<or> phase_of item = lr_Phase args) \<and>
     (lr_Kind args = [] \<or> target_kind item = lr_Kind args) \<and> (lr_Name args = [] \<or> target_name item = lr_Name args)"

definition summary :: "kobj \<Rightarrow> RemediationSummary" where
  "summary item = \<lparr>rm_ID = GetNamespace item @ ''/'' @ GetName item, rm_Namespace = GetNamespace item, rm_Name = GetName item,
     rm_Phase = phase_of item, rm_Kind = target_kind item, rm_Target = target_name item\<rparr>"

lemma list_loop_filter: "list_loop args items result = result @ List.map summary (List.filter (matches args) items)"
  by (induction items arbitrary: result) (simp_all add: matches_def summary_def Let_def)

lemma guarded_cases:
  assumes "guarded client checks body w = res"
  obtains (refused) e where "res = (Inl e, w)"
  | (run) k where "client = Some k" "\<forall>c\<in>set checks. c = None" "body k w = res"
proof (cases client)
  case None
  then have "res = (Inl ErrK8sUnavailable, w)" using assms by (simp add: guarded_def)
  then show thesis by (rule refused)
next
  case (Some k)
  show thesis
  proof (cases "List.map_filter id checks")
    case Nil
    then have "\<forall>c\<in>set checks. c = None"
      by (auto simp: List.map_filter_def filter_empty_conv)
    then show thesis using run [OF Some] assms Some Nil by (simp add: guarded_def)
  next
    case (Cons e es)
    then have "res = (Inl e, w)" using assms Some by (simp add: guarded_def)
    then show thesis by (rule refused)
  qed
qed

section \<open>At most one live request per target\<close>

abbreviation "fp_of obj \<equiv> NestedString obj [''spec'', ''signalFingerprint'']"

definition live :: "string \<Rightarrow> kobj \<Rightarrow> bool" where
  "live f obj \<longleftrightarrow> fp_of obj = f \<and> \<not> IsTerminalPhase (phase_of obj)"

definition live_count :: "string \<Rightarrow> kobj multiset \<Rightarrow> nat" where
  "live_count f M = size (filter_mset (live f) M)"

text \<open>
  What the API server promises of the remediation requests it stores, \<open>objs\<close> by namespace: a listing
  changes nothing and returns them in some order; a creation stores at most one object, one with the
  given spec and without a status, in that namespace, and it did store it when it reports success. A
  creation that reports a failure may still have stored it (a timeout).
\<close>

definition rr_store_law :: "'w kube \<Rightarrow> ('w \<Rightarrow> string \<Rightarrow> kobj multiset) \<Rightarrow> bool" where
  "rr_store_law k objs \<longleftrightarrow>
    (\<forall>ns sel w. objs (snd (kb_list k rrGVR ns sel w)) = objs w) \<and>
    (\<forall>ns w items. fst (kb_list k rrGVR ns [] w) = Inr items \<longrightarrow> mset items = objs w ns) \<and>
    (\<forall>ns ob w. let (r, w') = kb_create k rrGVR ns ob w in
        (\<not> isl r \<or> objs w' \<noteq> objs w) \<longrightarrow>
        (\<exists>c. fp_of c = fp_of ob \<and> phase_of c = [] \<and> objs w' = (objs w)(ns := add_mset c (objs w ns))))"

lemma check_loop_live: "ce_Exists (check_loop f items) \<longleftrightarrow> live_count f (mset items) \<noteq> 0"
  by (induction f items rule: check_loop.induct) (auto simp: live_count_def live_def)

lemma rr_object_fp [simp]: "fp_of (rr_object cf args t now) = rrFingerprint cf (cr_Namespace args) (cr_Kind args) (cr_Name args)"
  by (simp add: NestedString_def rr_object_def rr_spec_def)

lemma live_count_add:
  "live_count f (add_mset c M) = (if live f c then Suc (live_count f M) else live_count f M)"
  by (simp add: live_count_def)

lemma live_fresh: "phase_of c = [] \<Longrightarrow> live f c \<longleftrightarrow> fp_of c = f"
  by (simp add: live_def IsTerminalPhase_def)

text \<open>The check of the flight sees exactly whether a live request is stored.\<close>

lemma check_existing_law:
  assumes "rr_store_law k objs" "HandleCheckExistingRR cf (Some k) ns kind name w = (r, w')"
  shows "objs w' = objs w \<and> (\<forall>x. r = Inr x \<longrightarrow> (ce_Exists x \<longleftrightarrow> live_count (rrFingerprint cf ns kind name) (objs w ns) \<noteq> 0))"
  using assms(2) unfolding HandleCheckExistingRR_def
proof (cases rule: guarded_cases)
  case (run k')
  obtain l v where l: "kb_list k rrGVR ns [] w = (l, v)" by (rule prod.exhaust)
  have v: "objs v = objs w" "\<And>items. l = Inr items \<Longrightarrow> mset items = objs w ns"
    using assms(1) l unfolding rr_store_law_def by (metis snd_conv, metis fst_conv)
  show ?thesis using run l v by (cases l) (auto simp: check_loop_live)
qed auto

lemma flight_create_law:
  assumes law: "rr_store_law k objs" and run: "flight_create cf k args t username w = (r, w')"
    and none: "live_count f (objs w ns) = 0"
    and f: "f = rrFingerprint cf ns (cr_Kind args) (cr_Name args)" and ns: "ns = cr_Namespace args"
  shows "(\<forall>n g. live_count g (objs w' n) \<le> (if n = ns \<and> g = f then 1 else live_count g (objs w n))) \<and>
    (\<forall>x. r = Inr x \<longrightarrow> \<not> cw_AlreadyExists x \<and> live_count f (objs w' ns) = 1)"
proof -
  obtain c v where c: "kb_create k rrGVR ns (rr_object cf args t (kf_now cf w)) w = (c, v)" by (rule prod.exhaust)
  have w': "w' = v" "\<And>x. r = Inr x \<Longrightarrow> \<not> isl c \<and> \<not> cw_AlreadyExists x"
    using run c ns by (auto simp: flight_create_def split: sum.splits)
  have st: "\<exists>d. fp_of d = f \<and> phase_of d = [] \<and> objs v = (objs w)(ns := add_mset d (objs w ns))" if "\<not> isl c \<or> objs v \<noteq> objs w"
  proof -
    have "let (r, w') = kb_create k rrGVR ns (rr_object cf args t (kf_now cf w)) w in (\<not> isl r \<or> objs w' \<noteq> objs w) \<longrightarrow>
      (\<exists>d. fp_of d = fp_of (rr_object cf args t (kf_now cf w)) \<and> phase_of d = [] \<and> objs w' = (objs w)(ns := add_mset d (objs w ns)))"
      using law unfolding rr_store_law_def by blast
    then show ?thesis using that unfolding c by (simp add: f ns)
  qed
  show ?thesis
  proof (cases "\<not> isl c \<or> objs v \<noteq> objs w")
    case True
    from st [OF True] obtain d where d: "fp_of d = f" "phase_of d = []" "objs v = (objs w)(ns := add_mset d (objs w ns))" by blast
    then show ?thesis using w' none by (auto simp: live_count_add live_fresh)
  next
    case False
    then show ?thesis using w' none by auto
  qed
qed

lemma determine_severity_law:
  assumes "\<forall>t i w. triager = Some t \<longrightarrow> objs (snd (t i w)) = objs w" "determine_severity triager args w = (r, w')"
  shows "objs w' = objs w \<and> (\<forall>a t. r = Inr (a, t) \<longrightarrow>
     cr_Namespace a = cr_Namespace args \<and> cr_Kind a = cr_Kind args \<and> cr_Name a = cr_Name args \<and> cr_Severity a \<noteq> [])"
proof (cases "if cr_Severity args = [] then triager else None")
  case None
  then have "(r, w') = (Inr (if cr_Severity args = [] then args\<lparr>cr_Severity := ''medium''\<rparr> else args, None), w)"
    using assms(2) by (simp add: determine_severity_def)
  then show ?thesis by (cases "cr_Severity args = []") auto
next
  case (Some t)
  define i where "i = \<lparr>ti_Namespace = cr_Namespace args, ti_Kind = cr_Kind args, ti_Name = cr_Name args, ti_Description = cr_Description args,
             ti_Labels = [(''namespace'', cr_Namespace args), (''kind'', cr_Kind args), (''name'', cr_Name args)]\<rparr>"
  obtain x v where x: "t i w = (x, v)" by (rule prod.exhaust)
  have "objs v = objs w" using assms(1) Some x by (metis option.simps(3) snd_conv)
  then show ?thesis using assms(2) Some x by (cases x) (auto simp: determine_severity_def i_def [symmetric] split: if_splits)
qed

lemma create_flight_law:
  assumes law: "rr_store_law k objs" and one: "\<forall>n g. live_count g (objs v n) \<le> 1"
    and cfl: "create_flight cf k a t username v = (r, w')"
    and f: "f = rrFingerprint cf (cr_Namespace a) (cr_Kind a) (cr_Name a)"
  shows "(\<forall>n g. live_count g (objs w' n) \<le> 1) \<and>
    (\<forall>x. r = Inr x \<longrightarrow> live_count f (objs w' (cr_Namespace a)) = 1 \<and>
       (cw_AlreadyExists x \<longleftrightarrow> live_count f (objs v (cr_Namespace a)) = 1))"
proof -
  obtain h u where h: "HandleCheckExistingRR cf (Some k) (cr_Namespace a) (cr_Kind a) (cr_Name a) v = (h, u)" by (rule prod.exhaust)
  note hl = check_existing_law [OF law h, folded f]
  show ?thesis
  proof (cases h)
    case (Inl e)
    then show ?thesis using cfl h hl one by (auto simp: create_flight_def)
  next
    case (Inr x)
    show ?thesis
    proof (cases "ce_Exists x")
      case True
      then have "live_count f (objs v (cr_Namespace a)) = 1" using hl Inr one by (metis le_neq_implies_less less_one)
      then show ?thesis using True cfl h hl Inr one by (auto simp: create_flight_def)
    next
      case False
      then have fc: "flight_create cf k a t username u = (r, w')" using cfl h Inr by (simp add: create_flight_def)
      have z: "live_count f (objs u (cr_Namespace a)) = 0" using False hl Inr by simp
      note fl = conjunct1 [OF flight_create_law [OF law fc z f refl]] conjunct2 [OF flight_create_law [OF law fc z f refl]]
      have "objs u = objs v" using hl by simp
      then have "live_count g (objs w' n) \<le> 1" for n g
        using fl(1) [rule_format, of g n] one [rule_format, of g n] by (cases "n = cr_Namespace a \<and> g = f") simp_all
      then show ?thesis using fl(2) z \<open>objs u = objs v\<close> by auto
    qed
  qed
qed

text \<open>
  C6: creating a remediation request keeps the namespaces free of duplicates: when no target has two
  live (non-terminal) requests before the call, none has two after it, whatever fails on the way. A
  successful call leaves exactly one live request for the target, and reports it as already existing
  exactly when it was there before.
\<close>
theorem create_keeps_one_live:
  assumes law: "rr_store_law k objs"
    and triage: "\<forall>t i w. triager = Some t \<longrightarrow> objs (snd (t i w)) = objs w"
    and one: "\<forall>n g. live_count g (objs w n) \<le> 1"
    and run: "HandleCreateRR cf triager (Some k) args username w = (r, w')"
    and f: "f = rrFingerprint cf (cr_Namespace args) (cr_Kind args) (cr_Name args)"
  shows "(\<forall>n g. live_count g (objs w' n) \<le> 1) \<and>
    (\<forall>x. r = Inr x \<longrightarrow> live_count f (objs w' (cr_Namespace args)) = 1 \<and>
       (cw_AlreadyExists x \<longleftrightarrow> live_count f (objs w (cr_Namespace args)) = 1))"
  using run unfolding HandleCreateRR_def
proof (cases rule: guarded_cases)
  case (refused e)
  then show ?thesis using one by simp
next
  case (run k')
  define a where "a = args\<lparr>cr_Description := take maxDescriptionLen (cr_Description args)\<rparr>"
  obtain d v where d: "determine_severity triager a w = (d, v)" by (rule prod.exhaust)
  note dl = determine_severity_law [OF triage d]
  have b: "(case determine_severity triager a w of (Inl err, w) \<Rightarrow> (Inl err, w)
     | (Inr (args, triageResult), w) \<Rightarrow> create_flight cf k args triageResult username w) = (r, w')"
    using run(3) unfolding run(1) [THEN option.inject [THEN iffD1], symmetric] a_def Let_def .
  show ?thesis
  proof (cases d)
    case (Inl e)
    then show ?thesis using b d dl one by auto
  next
    case (Inr p)
    then obtain a' t where d': "d = Inr (a', t)" by (cases p) auto
    have a': "cr_Namespace a' = cr_Namespace args" "cr_Kind a' = cr_Kind args" "cr_Name a' = cr_Name args"
      using dl d' by (auto simp: a_def)
    have v: "objs v = objs w" using dl by simp
    from b d d' have "create_flight cf k a' t username v = (r, w')" by simp
    from create_flight_law [OF law one [folded v] this, of f] f show ?thesis unfolding a' v by simp
  qed
qed

text \<open>An API server in memory, whose creation drops a given status.\<close>

definition mem_kube :: "(string \<times> kobj) list kube" where
  "mem_kube = \<lparr>kb_list = (\<lambda>g ns sel w. (Inr (List.map snd (List.filter (\<lambda>p. fst p = ns) w)), w)),
     kb_get = (\<lambda>g ns name w. (case List.find (\<lambda>p. fst p = ns \<and> GetName (snd p) = name) w of
        Some p \<Rightarrow> Inr (snd p) | None \<Rightarrow> Inl (ApiError NotFound name), w)),
     kb_create = (\<lambda>g ns ob w. (Inr ob, (ns, List.filter (\<lambda>e. fst e \<noteq> ''status'') ob) # w)),
     kb_patch = (\<lambda>g ns name patch sub w. (Inr [], w))\<rparr>"

definition mem_objs :: "(string \<times> kobj) list \<Rightarrow> string \<Rightarrow> kobj multiset" where
  "mem_objs w ns = mset (List.map snd (List.filter (\<lambda>p. fst p = ns) w))"

definition mem_conf :: "(string \<times> kobj) list tool_conf" where
  "mem_conf = \<lparr>kf_now = (\<lambda>w. 0), kf_format = (\<lambda>t. ''t''), kf_render = (\<lambda>e. []), kf_lower = id, kf_upper = id,
     kf_label = (\<lambda>s. []), kf_subdomain = (\<lambda>s. []), kf_code = (\<lambda>s. 500), kf_sha256 = id\<rparr>"

lemma map_of_filter_other: "k \<noteq> j \<Longrightarrow> map_of (List.filter (\<lambda>e. fst e \<noteq> j) xs) k = map_of xs k"
  by (induction xs) auto

lemma map_of_filter_same: "map_of (List.filter (\<lambda>e. fst e \<noteq> j) xs) j = None"
  by (induction xs) auto

lemma mem_kube_law: "rr_store_law mem_kube mem_objs"
  unfolding rr_store_law_def
  by (auto simp: mem_kube_def mem_objs_def NestedString_def map_of_filter_other map_of_filter_same fun_eq_iff
      intro!: exI [of _ "List.filter (\<lambda>e. fst e \<noteq> ''status'') _"])

theorem create_keeps_one_live_witness:
  "let args = \<lparr>cr_Namespace = ''ns'', cr_Kind = ''Pod'', cr_Name = ''p'', cr_Severity = ''high'', cr_Description = []\<rparr>;
       (r, w') = HandleCreateRR mem_conf None (Some mem_kube) args ''ann'' [] in
   \<forall>n g. live_count g (mem_objs w' n) \<le> 1"
proof -
  define args where "args = \<lparr>cr_Namespace = ''ns'', cr_Kind = ''Pod'', cr_Name = ''p'', cr_Severity = ''high'', cr_Description = []\<rparr>"
  obtain r w' where h: "HandleCreateRR mem_conf None (Some mem_kube) args ''ann'' [] = (r, w')" by (rule prod.exhaust)
  have "\<forall>n g. live_count g (mem_objs w' n) \<le> 1"
    using create_keeps_one_live [OF mem_kube_law _ _ h refl] by (simp add: mem_objs_def live_count_def)
  then show ?thesis using h by (simp add: args_def)
qed

text \<open>
  The guarantee is per process: when two replicas of the service both find no live request before
  either creates one, both creations succeed and the target has two.
\<close>

lemma replicas_race:
  assumes law: "rr_store_law k objs" and f: "f = rrFingerprint cf ns (cr_Kind args) (cr_Name args)" and ns: "ns = cr_Namespace args"
    and a: "flight_create cf k args t u w = (Inr x, w1)" and b: "flight_create cf k args t u' w1 = (Inr y, w2)"
  shows "live_count f (objs w2 ns) = live_count f (objs w ns) + 2"
proof -
  have step: "live_count f (objs w' ns) = Suc (live_count f (objs w ns))" if "flight_create cf k args t u w = (Inr x, w')" for u w x w'
  proof -
    obtain c v where c: "kb_create k rrGVR ns (rr_object cf args t (kf_now cf w)) w = (c, v)" by (rule prod.exhaust)
    have "let (r, w') = kb_create k rrGVR ns (rr_object cf args t (kf_now cf w)) w in (\<not> isl r \<or> objs w' \<noteq> objs w) \<longrightarrow>
      (\<exists>d. fp_of d = fp_of (rr_object cf args t (kf_now cf w)) \<and> phase_of d = [] \<and> objs w' = (objs w)(ns := add_mset d (objs w ns)))"
      using law unfolding rr_store_law_def by blast
    then show ?thesis using that unfolding flight_create_def c ns [symmetric]
      by (auto simp: c f ns live_count_add live_fresh split: sum.splits)
  qed
  show ?thesis using step [OF a] step [OF b] by simp
qed

section \<open>Names\<close>

lemma rr_name_length: "length (rr_name cf kind name now) \<le> 63"
proof -
  have "length (let s = s in if length s > 63 then take 63 s else s) \<le> 63" for s :: string by (simp add: Let_def)
  then show ?thesis unfolding rr_name_def .
qed

text \<open>A name cut at 63 bytes no longer depends on the time, so a second creation gets the same name.\<close>

lemma rr_name_collides:
  assumes "59 \<le> length (to_lower (kf_lower cf) kind) + length (to_lower (kf_lower cf) name)"
  shows "rr_name cf kind name t1 = rr_name cf kind name t2"
proof -
  define p where "p = ''rr-'' @ to_lower (kf_lower cf) kind @ ''-'' @ to_lower (kf_lower cf) name"
  have "63 \<le> length p" using assms by (simp add: p_def)
  then have "rr_name cf kind name t = take 63 p" for t
    unfolding rr_name_def Let_def append_assoc [symmetric] p_def [unfolded append_assoc [symmetric], symmetric] by simp
  then show ?thesis by simp
qed

section \<open>Cancelling\<close>

text \<open>
  C17: cancelling a remediation reads it first; one that is Completed, Failed or Cancelled is refused
  and the resource is not patched. Otherwise exactly one status patch is sent, which sets the phase
  to Cancelled, and the call succeeds exactly when that patch does. (Between the read and the patch
  nothing prevents the remediation from completing: the patch carries no resource version.)
\<close>
theorem cancel_only_live:
  assumes "ParseRRID (rf_RRID args) (rf_Namespace args) (rf_Name args) = Inr (ns, name)"
    and "kb_get k rrGVR ns name w = (Inr ob, w1)"
    and "HandleCancelRemediation cf (Some k) args w = (r, w2)"
  shows "(IsTerminalPhase (phase_of ob) \<longrightarrow> w2 = w1 \<and>
      r = Inl (Wrapf ''%w: remediation %s/%s is in terminal state %q'' [ns, name, phase_of ob] ErrAlreadyTerminal)) \<and>
    (\<not> IsTerminalPhase (phase_of ob) \<longrightarrow> (\<exists>bytes p. json_marshal (cancel_patch (kf_format cf (kf_now cf w1))) = Some bytes \<and>
      kb_patch k rrGVR ns name bytes ''status'' w1 = (p, w2) \<and> (isl r \<longleftrightarrow> isl p) \<and>
      NestedString (case cancel_patch (kf_format cf (kf_now cf w1)) of JObj m \<Rightarrow> m | _ \<Rightarrow> []) [''status'', ''overallPhase''] = ''Cancelled''))"
proof -
  have "\<exists>bytes. json_marshal (cancel_patch t) = Some bytes" for t
    by (simp add: cancel_patch_def sort_key_def insort_key.simps)
  then obtain bytes where bytes: "json_marshal (cancel_patch (kf_format cf (kf_now cf w1))) = Some bytes" by blast
  obtain p v where p: "kb_patch k rrGVR ns name bytes ''status'' w1 = (p, v)" by (rule prod.exhaust)
  show ?thesis
    using assms bytes p by (cases p) (auto simp: HandleCancelRemediation_def guarded_def cancel_patch_def NestedString_def List.map_filter_def)
qed

theorem cancel_only_live_witness:
  "snd (HandleCancelRemediation mem_conf (Some mem_kube) \<lparr>rf_Namespace = [], rf_Name = [], rf_RRID = ''a/b''\<rparr>
      [(''a'', [(''metadata'', JObj [(''name'', JStr ''b'')]), (''status'', JObj [(''overallPhase'', JStr ''Failed'')])])]) =
    [(''a'', [(''metadata'', JObj [(''name'', JStr ''b'')]), (''status'', JObj [(''overallPhase'', JStr ''Failed'')])])]"
proof -
  define ob where "ob = [(''metadata'', JObj [(''name'', JStr ''b'')]), (''status'', JObj [(''overallPhase'', JStr ''Failed'')])]"
  define args where "args = \<lparr>rf_Namespace = [], rf_Name = [], rf_RRID = ''a/b''\<rparr>"
  obtain r w2 where h: "HandleCancelRemediation mem_conf (Some mem_kube) args [(''a'', ob)] = (r, w2)" by (rule prod.exhaust)
  have "ParseRRID (rf_RRID args) (rf_Namespace args) (rf_Name args) = Inr (''a'', ''b'')" by (simp add: args_def ParseRRID_def split_once_def)
  moreover have "kb_get mem_kube rrGVR ''a'' ''b'' [(''a'', ob)] = (Inr ob, [(''a'', ob)])"
    by (simp add: mem_kube_def ob_def GetName_def NestedString_def)
  moreover have "IsTerminalPhase (phase_of ob)" by (simp add: ob_def NestedString_def IsTerminalPhase_def)
  ultimately have "w2 = [(''a'', ob)]" using cancel_only_live [OF _ _ h] by blast
  then show ?thesis using h by (simp add: args_def ob_def)
qed

section \<open>Watching returns\<close>

text \<open>Reference: what an input adds to the report, and which inputs end the watch.\<close>

fun reported :: "'w tool_conf \<Rightarrow> watch_item \<Rightarrow> WatchEvent list" where
  "reported cf (WEvent ty (Some ob) now) =
    (if ty = WModified \<or> ty = WAdded
     then [\<lparr>wv_Timestamp = kf_format cf now, wv_Resource = ''RemediationRequest'', wv_Phase = phase_of ob,
            wv_Message = ''Phase changed to '' @ phase_of ob\<rparr>] else [])"
| "reported cf _ = []"

fun ends_watch :: "watch_item \<Rightarrow> bool" where
  "ends_watch (WEvent ty (Some ob) now) \<longleftrightarrow> (ty = WModified \<or> ty = WAdded) \<and> IsTerminalPhase (phase_of ob)"
| "ends_watch (WEvent ty None now) \<longleftrightarrow> False"
| "ends_watch _ \<longleftrightarrow> True"

lemma watch_loop_skip: "\<forall>i\<in>set pre. \<not> ends_watch i \<Longrightarrow>
    watch_loop cf events (pre @ rest) = watch_loop cf (events @ concat (List.map (reported cf) pre)) rest"
proof (induction pre arbitrary: events)
  case (Cons i pre)
  then obtain ty ob now where i: "i = WEvent ty ob now" by (cases i) auto
  with Cons show ?case by (cases ob) (auto simp: Let_def)
qed simp

lemma watch_loop_end: "ends_watch e \<Longrightarrow>
    watch_loop cf events (e # rest) = Some (events @ reported cf e, if e = WCancelled then ''cancelled'' else ''completed'')"
  by (cases e rule: ends_watch.cases) (auto simp: Let_def)

lemma watch_loop_waits: "\<forall>i\<in>set is. \<not> ends_watch i \<Longrightarrow> watch_loop cf events is = None"
  using watch_loop_skip [of "is" cf events "[]"] by simp

text \<open>
  C29: a watch on valid arguments returns as soon as the request is cancelled, the channel is closed
  or an added or modified object is in a terminal phase, and not before; it then reports one event
  for every added or modified object up to that point, in order, the terminal one included.
\<close>
theorem watch_returns:
  assumes "check_namespace cf ns = None" "check_name cf name = None"
    and "start ns (''metadata.name='' @ name) = Inr is" and "client \<noteq> None"
  shows "((\<exists>i\<in>set is. ends_watch i) \<longleftrightarrow> HandleWatch cf client start ns name \<noteq> None) \<and>
    (\<forall>pre e rest. is = pre @ e # rest \<and> ends_watch e \<and> (\<forall>i\<in>set pre. \<not> ends_watch i) \<longrightarrow>
      HandleWatch cf client start ns name =
        Some (Inr (concat (List.map (reported cf) (pre @ [e])), if e = WCancelled then ''cancelled'' else ''completed'')))"
proof -
  have h: "HandleWatch cf client start ns name = map_option Inr (watch_loop cf [] is)"
    using assms by (auto simp: HandleWatch_def List.map_filter_def)
  have hit: "HandleWatch cf client start ns name =
        Some (Inr (concat (List.map (reported cf) (pre @ [e])), if e = WCancelled then ''cancelled'' else ''completed''))"
    if "is = pre @ e # rest" "ends_watch e" "\<forall>i\<in>set pre. \<not> ends_watch i" for pre e rest
    using h that watch_loop_skip [of pre cf "[]" "e # rest"] watch_loop_end [of e cf _ rest] by simp
  have "(\<exists>i\<in>set is. ends_watch i) \<longleftrightarrow> HandleWatch cf client start ns name \<noteq> None"
  proof (cases "\<exists>i\<in>set is. ends_watch i")
    case True
    then obtain pre e rest where "is = pre @ e # rest" "ends_watch e" "\<forall>i\<in>set pre. \<not> ends_watch i"
      using split_list_first_prop by metis
    then show ?thesis using True hit by simp
  next
    case False
    then show ?thesis using h watch_loop_waits [of "is" cf "[]"] by simp
  qed
  then show ?thesis using hit by blast
qed

theorem watch_returns_witness:
  "HandleWatch mem_conf (Some mem_kube) (\<lambda>ns sel. Inr [WEvent WOther None 0, WClosed]) ''ns'' ''rr'' \<noteq> None"
  using watch_returns [of mem_conf "''ns''" "''rr''" "\<lambda>ns sel. Inr [WEvent WOther None 0, WClosed]" "[WEvent WOther None 0, WClosed]" "Some mem_kube"]
  by (simp add: check_namespace_def check_name_def validate_Namespace_def validate_ResourceName_def mem_conf_def)

section \<open>Approving\<close>

text \<open>
  An approval succeeds only with a well-formed namespace and name, a non-empty decision and an
  existing approval request; it then sent exactly one patch of the status of that request, whose
  content names the authenticated user as the one who decided.
\<close>
lemma approve_attributed:
  assumes "HandleApprove cf client args username w = (Inr res, w')"
  shows "\<exists>k ob w1 st bytes p. client = Some k \<and> check_namespace cf (ap_Namespace args) = None \<and> check_name cf (ap_RARName args) = None \<and>
    ap_Decision args \<noteq> [] \<and> kb_get k rarGVR (ap_Namespace args) (ap_RARName args) w = (Inr ob, w1) \<and>
    json_marshal (JObj [(''status'', JObj st)]) = Some bytes \<and>
    kb_patch k rarGVR (ap_Namespace args) (ap_RARName args) bytes ''status'' w1 = (Inr p, w') \<and>
    map_of st ''decidedBy'' = Some (JStr username) \<and> map_of st ''decision'' = Some (JStr (normalizedDecision cf (ap_Decision args)))"
  using assms unfolding HandleApprove_def
proof (cases rule: guarded_cases)
  case (run k)
  obtain g w1 where g: "kb_get k rarGVR (ap_Namespace args) (ap_RARName args) w = (g, w1)" by (rule prod.exhaust)
  obtain st where st: "approve_patch cf args username (kf_format cf (kf_now cf w1)) = JObj [(''status'', JObj st)]"
    "map_of st ''decidedBy'' = Some (JStr username)" "map_of st ''decision'' = Some (JStr (normalizedDecision cf (ap_Decision args)))"
    by (simp add: approve_patch_def)
  from run g obtain ob where ob: "g = Inr ob" by (cases g) auto
  from run g ob st(1) obtain bytes where bytes: "json_marshal (JObj [(''status'', JObj st)]) = Some bytes"
    by (cases "json_marshal (JObj [(''status'', JObj st)])") auto
  obtain p v where p: "kb_patch k rarGVR (ap_Namespace args) (ap_RARName args) bytes ''status'' w1 = (p, v)" by (rule prod.exhaust)
  from run(3) g ob st(1) bytes p obtain q where "p = Inr q" "v = w'" by (cases p) (auto simp del: json_marshal.simps)
  moreover have "check_namespace cf (ap_Namespace args) = None" "check_name cf (ap_RARName args) = None" "ap_Decision args \<noteq> []"
    using run(2) by (auto simp: check_filled_def split: if_splits)
  ultimately show ?thesis using run(1) g ob bytes p st by blast
qed simp

lemma approve_patch_marshals: "\<exists>bytes. json_marshal (approve_patch cf args username now) = Some bytes"
  by (cases "ap_Reason args = []"; cases "ap_WorkflowOverride args = []") (simp_all add: approve_patch_def)

lemma approve_example:
  "HandleApprove mem_conf (Some mem_kube)
     \<lparr>ap_Namespace = ''a'', ap_RARName = ''b'', ap_Decision = ''approved'', ap_Reason = [], ap_WorkflowOverride = []\<rparr> ''ann''
     [(''a'', [(''metadata'', JObj [(''name'', JStr ''b'')])])] =
   (Inr (''approved'', ''Remediation approval approved by ann''), [(''a'', [(''metadata'', JObj [(''name'', JStr ''b'')])])])"
proof -
  let ?args = "\<lparr>ap_Namespace = ''a'', ap_RARName = ''b'', ap_Decision = ''approved'', ap_Reason = [], ap_WorkflowOverride = []\<rparr>"
  obtain bytes where "json_marshal (approve_patch mem_conf ?args ''ann'' (kf_format mem_conf (kf_now mem_conf [(''a'', [(''metadata'', JObj [(''name'', JStr ''b'')])])]))) = Some bytes"
    using approve_patch_marshals by blast
  then show ?thesis
    by (simp add: HandleApprove_def guarded_def List.map_filter_def check_namespace_def check_name_def check_filled_def
        validate_Namespace_def validate_ResourceName_def mem_conf_def mem_kube_def GetName_def NestedString_def)
qed

lemma approve_attributed_example:
  "\<exists>st bytes p. json_marshal (JObj [(''status'', JObj st)]) = Some bytes \<and> map_of st ''decidedBy'' = Some (JStr ''ann'') \<and>
     kb_patch mem_kube rarGVR ''a'' ''b'' bytes ''status'' [(''a'', [(''metadata'', JObj [(''name'', JStr ''b'')])])] =
       (Inr p, [(''a'', [(''metadata'', JObj [(''name'', JStr ''b'')])])])"
proof -
  have "snd (kb_get mem_kube g n m v) = v" for g n m v by (simp add: mem_kube_def)
  then show ?thesis using approve_attributed [OF approve_example]
    by (simp del: json_marshal.simps) (metis snd_conv)
qed

text \<open>The decision is not checked against the values the resource allows.\<close>

lemma decision_unchecked: "normalizedDecision mem_conf ''whatever'' = ''Whatever''"
  by code_simp

end
