(* ===== verification/ClusterTools.thy ===== *)
theory ClusterTools
  imports CrdTools
begin

text \<open>
  The tools that read the cluster as the user: \<open>internal/tools/af_get_pods.go\<close>, \<open>af_get_workloads.go\<close>,
  \<open>af_list_events.go\<close> and \<open>af_resolve_owner.go\<close>. Their client comes from a factory for every request.
  The size of a slice is the length of its JSON text, which does not depend on the order of the keys.
\<close>

definition slice_size :: "('a \<Rightarrow> jv) \<Rightarrow> 'a list \<Rightarrow> nat" where
  "slice_size js xs = (case json_marshal (JArr (map js xs)) of Some t \<Rightarrow> length t | None \<Rightarrow> 0)"

abbreviation "omit_empty k s \<equiv> (if s = [] then [] else [(k, JStr s)])"
abbreviation "omit_nil k ss \<equiv> (if ss = [] then [] else [(k, JArr (map JStr ss))])"

text \<open>The client of a request: without one the tool reports that the cluster is not available.\<close>

definition with_factory ::
  "(Ctx \<Rightarrow> goerr + 'w kube) \<Rightarrow> ('w kube option \<Rightarrow> 'i \<Rightarrow> 'w \<Rightarrow> (goerr + 'r) \<times> 'w) \<Rightarrow> Ctx \<Rightarrow> 'i \<Rightarrow> 'w \<Rightarrow> (goerr + 'r) \<times> 'w" where
  "with_factory factory handle ctx args w =
    (case factory ctx of Inl err \<Rightarrow> (Inl (Wrapf ''%w'' [] ErrK8sUnavailable), w) | Inr client \<Rightarrow> handle (Some client) args w)"

section \<open>Pods\<close>

record GetPodsArgs =
  gp_Namespace :: string
  gp_LabelSelector :: string

record ContainerStatus =
  cs_Name :: string
  cs_Ready :: bool
  cs_State :: string
  cs_Reason :: string
  cs_Restarts :: int

text \<open>A nil list of containers is written as \<open>null\<close>.\<close>

record PodSummary =
  ps_Name :: string
  ps_Phase :: string
  ps_Conditions :: "string list"
  ps_Containers :: "ContainerStatus list option"
  ps_NodeName :: string

definition podsGVR :: gvr where "podsGVR = ([], ''v1'', ''pods'')"

definition parseContainerState :: "kobj \<Rightarrow> string \<times> string" where
  "parseContainerState cs =
    (case NestedMap cs [''state''] of
       None \<Rightarrow> (''unknown'', [])
     | Some stateMap \<Rightarrow>
        if map_of stateMap ''running'' \<noteq> None then (''running'', [])
        else (case map_of stateMap ''waiting'' of
           Some waiting \<Rightarrow> (case waiting of JObj w \<Rightarrow> (''waiting'', NestedString w [''reason'']) | _ \<Rightarrow> (''waiting'', []))
         | None \<Rightarrow>
            (case map_of stateMap ''terminated'' of
               Some terminated \<Rightarrow> (case terminated of JObj t \<Rightarrow> (''terminated'', NestedString t [''reason'']) | _ \<Rightarrow> (''terminated'', []))
             | None \<Rightarrow> (''unknown'', []))))"

definition extractContainerStatuses :: "kobj \<Rightarrow> ContainerStatus list option" where
  "extractContainerStatuses obj =
    map_option (\<lambda>statuses. map (\<lambda>cs. let (state, reason) = parseContainerState cs in
        \<lparr>cs_Name = NestedString cs [''name''], cs_Ready = NestedBool cs [''ready''], cs_State = state, cs_Reason = reason,
         cs_Restarts = NestedInt64 cs [''restartCount'']\<rparr>) (maps_of statuses))
      (NestedSlice obj [''status'', ''containerStatuses''])"

definition extractTrueConditions :: "kobj \<Rightarrow> string list" where
  "extractTrueConditions obj =
    (case NestedSlice obj [''status'', ''conditions''] of
       None \<Rightarrow> []
     | Some conditions \<Rightarrow> map (\<lambda>c. NestedString c [''type'']) (filter (\<lambda>c. NestedString c [''status''] = ''True'') (maps_of conditions)))"

definition pod_summary :: "kobj \<Rightarrow> PodSummary" where
  "pod_summary item = \<lparr>ps_Name = GetName item, ps_Phase = NestedString item [''status'', ''phase''],
     ps_Conditions = extractTrueConditions item, ps_Containers = extractContainerStatuses item,
     ps_NodeName = NestedString item [''spec'', ''nodeName'']\<rparr>"

definition container_json :: "ContainerStatus \<Rightarrow> jv" where
  "container_json c = JObj ([(''name'', JStr (cs_Name c)), (''ready'', JBool (cs_Ready c)), (''state'', JStr (cs_State c))] @
     omit_empty ''reason'' (cs_Reason c) @ [(''restarts'', JInt (cs_Restarts c))])"

definition pod_json :: "PodSummary \<Rightarrow> jv" where
  "pod_json p = JObj ([(''name'', JStr (ps_Name p)), (''phase'', JStr (ps_Phase p))] @ omit_nil ''conditions'' (ps_Conditions p) @
     [(''containers'', (case ps_Containers p of None \<Rightarrow> JNull | Some cs \<Rightarrow> JArr (map container_json cs)))] @
     omit_empty ''node_name'' (ps_NodeName p))"

type_synonym 'a listing = "'a list \<times> nat \<times> bool"

definition trimmed :: "('a \<Rightarrow> jv) \<Rightarrow> 'a list \<Rightarrow> 'a listing" where
  "trimmed js result = (let (result, truncated) = TrimSliceToFit (slice_size js) result in (result, length result, truncated))"

definition HandleGetPods :: "'w tool_conf \<Rightarrow> 'w kube option \<Rightarrow> GetPodsArgs \<Rightarrow> 'w \<Rightarrow> (goerr + PodSummary listing) \<times> 'w" where
  "HandleGetPods cf client args = guarded client [check_namespace cf (gp_Namespace args)] (\<lambda>k w.
     case kb_list k podsGVR (gp_Namespace args) (gp_LabelSelector args) w of
       (Inl err, w) \<Rightarrow> (Inl (tools_ToUserFriendlyError cf err), w)
     | (Inr items, w) \<Rightarrow> (Inr (trimmed pod_json (map pod_summary items)), w))"

definition NewGetPodsTool :: "'w tool_conf \<Rightarrow> (Ctx \<Rightarrow> goerr + 'w kube) \<Rightarrow>
    (GetPodsArgs \<Rightarrow> 'w \<Rightarrow> (goerr + PodSummary listing) \<times> 'w) function_tool" where
  "NewGetPodsTool cf factory = \<lparr>ft_Name = ''af_get_pods'',
     ft_Description = ''Get pod status summaries with container states in a namespace, optionally filtered by label selector'',
     ft_IsLongRunning = False, ft_Run = with_factory factory (HandleGetPods cf)\<rparr>"

section \<open>Workloads\<close>

record WorkloadSummary =
  wl_Name :: string
  wl_Kind :: string
  wl_Namespace :: string
  wl_Desired :: int
  wl_Ready :: int
  wl_Available :: int
  wl_Conditions :: "string list"

definition deploymentGVR :: gvr where "deploymentGVR = (''apps'', ''v1'', ''deployments'')"
definition statefulSetGVR :: gvr where "statefulSetGVR = (''apps'', ''v1'', ''statefulsets'')"

definition extractWorkloadConditions :: "kobj \<Rightarrow> string list" where
  "extractWorkloadConditions obj =
    (case NestedSlice obj [''status'', ''conditions''] of
       None \<Rightarrow> []
     | Some conditions \<Rightarrow> map (\<lambda>c. let line = NestedString c [''type''] @ ''='' @ NestedString c [''status''];
            reason = NestedString c [''reason''] in if reason \<noteq> [] then line @ '': '' @ reason else line) (maps_of conditions))"

definition workloadSummaryFromUnstructured :: "kobj \<Rightarrow> string \<Rightarrow> string \<Rightarrow> WorkloadSummary" where
  "workloadSummaryFromUnstructured item kind namespace =
    \<lparr>wl_Name = GetName item, wl_Kind = kind, wl_Namespace = namespace, wl_Desired = NestedInt64 item [''spec'', ''replicas''],
     wl_Ready = NestedInt64 item [''status'', ''readyReplicas''], wl_Available = NestedInt64 item [''status'', ''availableReplicas''],
     wl_Conditions = extractWorkloadConditions item\<rparr>"

definition workload_json :: "WorkloadSummary \<Rightarrow> jv" where
  "workload_json w = JObj ([(''name'', JStr (wl_Name w)), (''kind'', JStr (wl_Kind w)), (''namespace'', JStr (wl_Namespace w)),
     (''replicas'', JObj [(''desired'', JInt (wl_Desired w)), (''ready'', JInt (wl_Ready w)), (''available'', JInt (wl_Available w))])] @
     omit_nil ''conditions'' (wl_Conditions w))"

definition HandleGetWorkloads ::
  "'w tool_conf \<Rightarrow> 'w kube option \<Rightarrow> string \<times> string \<Rightarrow> 'w \<Rightarrow> (goerr + WorkloadSummary listing) \<times> 'w" where
  "HandleGetWorkloads cf client args = (case args of (ns, name) \<Rightarrow>
     guarded client [check_namespace cf ns, if name \<noteq> [] then check_name cf name else None] (\<lambda>k w.
       case kb_list k deploymentGVR ns [] w of
         (Inl err, w) \<Rightarrow> (Inl (tools_ToUserFriendlyError cf err), w)
       | (Inr deploys, w) \<Rightarrow>
          (case kb_list k statefulSetGVR ns [] w of
             (Inl err, w) \<Rightarrow> (Inl (tools_ToUserFriendlyError cf err), w)
           | (Inr sets, w) \<Rightarrow>
              (let wanted = filter (\<lambda>item. name = [] \<or> GetName item = name) in
               (Inr (trimmed workload_json
                  (map (\<lambda>item. workloadSummaryFromUnstructured item ''Deployment'' ns) (wanted deploys) @
                   map (\<lambda>item. workloadSummaryFromUnstructured item ''StatefulSet'' ns) (wanted sets))), w)))))"

definition NewGetWorkloadsTool :: "'w tool_conf \<Rightarrow> (Ctx \<Rightarrow> goerr + 'w kube) \<Rightarrow>
    (string \<times> string \<Rightarrow> 'w \<Rightarrow> (goerr + WorkloadSummary listing) \<times> 'w) function_tool" where
  "NewGetWorkloadsTool cf factory = \<lparr>ft_Name = ''af_get_workloads'',
     ft_Description = ''List Deployment and StatefulSet workloads in a namespace with replica status and conditions, optionally filtered by resource name'',
     ft_IsLongRunning = False, ft_Run = with_factory factory (HandleGetWorkloads cf)\<rparr>"

section \<open>Events\<close>

record ListEventsArgs =
  le_Namespace :: string
  le_Reason :: string
  le_Kind :: string

record EventSummary =
  es_Reason :: string
  es_Message :: string
  es_InvolvedKind :: string
  es_InvolvedName :: string
  es_Count :: int
  es_LastTimestamp :: string

definition eventsGVR :: gvr where "eventsGVR = ([], ''v1'', ''events'')"

fun events_loop :: "ListEventsArgs \<Rightarrow> kobj list \<Rightarrow> EventSummary list \<Rightarrow> EventSummary list" where
  "events_loop args [] result = result"
| "events_loop args (item # items) result =
    (let reason = NestedString item [''reason'']; involvedKind = NestedString item [''involvedObject'', ''kind''] in
     if le_Reason args \<noteq> [] \<and> reason \<noteq> le_Reason args then events_loop args items result
     else if le_Kind args \<noteq> [] \<and> involvedKind \<noteq> le_Kind args then events_loop args items result
     else events_loop args items (result @ [\<lparr>es_Reason = reason, es_Message = NestedString item [''message''],
       es_InvolvedKind = involvedKind, es_InvolvedName = NestedString item [''involvedObject'', ''name''],
       es_Count = NestedInt64 item [''count''], es_LastTimestamp = NestedString item [''lastTimestamp'']\<rparr>]))"

definition event_json :: "EventSummary \<Rightarrow> jv" where
  "event_json e = JObj ([(''reason'', JStr (es_Reason e)), (''message'', JStr (es_Message e)), (''involved_kind'', JStr (es_InvolvedKind e)),
     (''involved_name'', JStr (es_InvolvedName e)), (''count'', JInt (es_Count e))] @ omit_empty ''last_timestamp'' (es_LastTimestamp e))"

definition HandleListEvents :: "'w tool_conf \<Rightarrow> 'w kube option \<Rightarrow> ListEventsArgs \<Rightarrow> 'w \<Rightarrow> (goerr + EventSummary listing) \<times> 'w" where
  "HandleListEvents cf client args = guarded client [check_namespace cf (le_Namespace args)] (\<lambda>k w.
     case kb_list k eventsGVR (le_Namespace args) [] w of
       (Inl err, w) \<Rightarrow> (Inl (tools_ToUserFriendlyError cf err), w)
     | (Inr items, w) \<Rightarrow> (Inr (trimmed event_json (events_loop args items [])), w))"

definition NewListEventsTool :: "'w tool_conf \<Rightarrow> (Ctx \<Rightarrow> goerr + 'w kube) \<Rightarrow>
    (ListEventsArgs \<Rightarrow> 'w \<Rightarrow> (goerr + EventSummary listing) \<times> 'w) function_tool" where
  "NewListEventsTool cf factory = \<lparr>ft_Name = ''af_list_events'',
     ft_Description = ''List Kubernetes Events in a namespace, optionally filtered by reason or involved resource kind'',
     ft_IsLongRunning = False, ft_Run = with_factory factory (HandleListEvents cf)\<rparr>"

section \<open>Owners\<close>

definition maxOwnerDepth :: nat where "maxOwnerDepth = 10"

record ResolveOwnerArgs =
  ro_Namespace :: string
  ro_Kind :: string
  ro_Name :: string

record OwnerChainEntry =
  oc_Kind :: string
  oc_Name :: string
  oc_APIVersion :: string

record ResolveOwnerResult =
  rw_Chain :: "OwnerChainEntry list"
  rw_RootKind :: string
  rw_RootName :: string

definition kind_table :: "(string \<times> gvr) list" where
  "kind_table =
    [(''Pod'', ([], ''v1'', ''pods'')), (''ReplicationController'', ([], ''v1'', ''replicationcontrollers'')),
     (''ReplicaSet'', (''apps'', ''v1'', ''replicasets'')), (''Deployment'', (''apps'', ''v1'', ''deployments'')),
     (''StatefulSet'', (''apps'', ''v1'', ''statefulsets'')), (''DaemonSet'', (''apps'', ''v1'', ''daemonsets'')),
     (''Job'', (''batch'', ''v1'', ''jobs'')), (''CronJob'', (''batch'', ''v1'', ''cronjobs''))]"

definition kindToGVR :: "string \<Rightarrow> gvr option" where
  "kindToGVR kind = map_of kind_table kind"

definition pickOwnerRef :: "kobj \<Rightarrow> (string \<times> string) option" where
  "pickOwnerRef obj =
    (case NestedSlice obj [''metadata'', ''ownerReferences''] of
       None \<Rightarrow> None
     | Some refs \<Rightarrow>
        (let ms = maps_of refs;
             chosen = (case find (\<lambda>ref. NestedBool ref [''controller'']) ms of Some ref \<Rightarrow> Some ref
                       | None \<Rightarrow> (case ms of [] \<Rightarrow> None | first # _ \<Rightarrow> Some first))
         in case chosen of None \<Rightarrow> None
            | Some ref \<Rightarrow> (let kind = NestedString ref [''kind'']; name = NestedString ref [''name''] in
                if kind = [] \<or> name = [] then None else Some (kind, name))))"

definition chain_entry :: "kobj \<Rightarrow> OwnerChainEntry" where
  "chain_entry obj = \<lparr>oc_Kind = NestedString obj [''kind''], oc_Name = GetName obj, oc_APIVersion = NestedString obj [''apiVersion'']\<rparr>"

function owner_loop ::
  "'w tool_conf \<Rightarrow> 'w kube \<Rightarrow> string \<Rightarrow> string \<Rightarrow> string \<Rightarrow> string list \<Rightarrow> OwnerChainEntry list \<Rightarrow> 'w \<Rightarrow> (goerr + OwnerChainEntry list) \<times> 'w" where
  "owner_loop cf k ns currentKind currentName visited chain w =
    (if length chain < maxOwnerDepth then
       let key = currentKind @ ''/'' @ currentName in
       if key \<in> set visited then (Inr chain, w)
       else (case kindToGVR currentKind of
          None \<Rightarrow> (if chain = [] then Inl (Wrapf ''%w: unsupported kind %q'' [currentKind] ErrInvalidInput) else Inr chain, w)
        | Some gvr \<Rightarrow>
           (case kb_get k gvr ns currentName w of
              (Inl err, w) \<Rightarrow> (if chain \<noteq> [] then Inr chain else Inl (tools_ToUserFriendlyError cf err), w)
            | (Inr obj, w) \<Rightarrow>
               (let chain = chain @ [chain_entry obj] in
                case pickOwnerRef obj of
                  None \<Rightarrow> (Inr chain, w)
                | Some (nextKind, nextName) \<Rightarrow> owner_loop cf k ns nextKind nextName (key # visited) chain w)))
     else (Inr chain, w))"
  by pat_completeness auto
termination by (relation "measure (\<lambda>(_, _, _, _, _, _, chain, _). maxOwnerDepth - length chain)") auto

declare owner_loop.simps [simp del]

definition HandleResolveOwner :: "'w tool_conf \<Rightarrow> 'w kube option \<Rightarrow> ResolveOwnerArgs \<Rightarrow> 'w \<Rightarrow> (goerr + ResolveOwnerResult) \<times> 'w" where
  "HandleResolveOwner cf client args =
    guarded client [check_namespace cf (ro_Namespace args), check_name cf (ro_Name args), check_filled ''kind'' (ro_Kind args)] (\<lambda>k w.
     case owner_loop cf k (ro_Namespace args) (ro_Kind args) (ro_Name args) [] [] w of
       (Inl err, w) \<Rightarrow> (Inl err, w)
     | (Inr chain, w) \<Rightarrow> (Inr \<lparr>rw_Chain = chain, rw_RootKind = (if chain = [] then [] else oc_Kind (last chain)),
          rw_RootName = (if chain = [] then [] else oc_Name (last chain))\<rparr>, w))"

definition NewResolveOwnerTool :: "'w tool_conf \<Rightarrow> (Ctx \<Rightarrow> goerr + 'w kube) \<Rightarrow>
    (ResolveOwnerArgs \<Rightarrow> 'w \<Rightarrow> (goerr + ResolveOwnerResult) \<times> 'w) function_tool" where
  "NewResolveOwnerTool cf factory = \<lparr>ft_Name = ''af_resolve_owner'',
     ft_Description = ''Resolve the ownership chain of a Kubernetes resource up to the root workload (max 10 hops)'',
     ft_IsLongRunning = False, ft_Run = with_factory factory (HandleResolveOwner cf)\<rparr>"

section \<open>Listings are filters\<close>

text \<open>Reference: the events a listing shows, and how.\<close>

definition event_matches :: "ListEventsArgs \<Rightarrow> kobj \<Rightarrow> bool" where
  "event_matches args item \<longleftrightarrow> (le_Reason args = [] \<or> NestedString item [''reason''] = le_Reason args) \<and>
     (le_Kind args = [] \<or> NestedString item [''involvedObject'', ''kind''] = le_Kind args)"

definition event_summary :: "kobj \<Rightarrow> EventSummary" where
  "event_summary item = \<lparr>es_Reason = NestedString item [''reason''], es_Message = NestedString item [''message''],
     es_InvolvedKind = NestedString item [''involvedObject'', ''kind''], es_InvolvedName = NestedString item [''involvedObject'', ''name''],
     es_Count = NestedInt64 item [''count''], es_LastTimestamp = NestedString item [''lastTimestamp'']\<rparr>"

lemma events_loop_filter: "events_loop args items result = result @ map event_summary (filter (event_matches args) items)"
  by (induction items arbitrary: result) (simp_all add: event_matches_def event_summary_def Let_def)

text \<open>What a tool shows is a prefix of what it found, and its count is the number of entries shown.\<close>

lemma trimmed_prefix:
  "trimmed js xs = (kept, n, truncated) \<Longrightarrow> n = length kept \<and> kept = take n xs \<and> (\<not> truncated \<longrightarrow> kept = xs)"
proof (cases "xs = []")
  case True
  then show "trimmed js xs = (kept, n, truncated) \<Longrightarrow> ?thesis"
    by (cases "slice_size js [] \<le> maxToolOutputBytes") (auto simp: trimmed_def TrimSliceToFit_def trim_loop.simps)
next
  case False
  then show "trimmed js xs = (kept, n, truncated) \<Longrightarrow> ?thesis"
    using trim_loop_fit [OF False, of "slice_size js"]
    by (auto simp: trimmed_def TrimSliceToFit_def longest_fit_def Let_def not_le split: if_splits)
qed

section \<open>The walk along the owners ends\<close>

text \<open>The log of the requests to read an object is what the API server sees of the walk.\<close>

definition logs_gets :: "'w kube \<Rightarrow> ('w \<Rightarrow> (gvr \<times> string \<times> string) list) \<Rightarrow> bool" where
  "logs_gets k reads \<longleftrightarrow> (\<forall>g ns n w. reads (snd (kb_get k g ns n w)) = reads w @ [(g, ns, n)])"

lemma kind_table_distinct: "distinct (map snd kind_table)"
  by (simp add: kind_table_def)

lemma kindToGVR_inj: "kindToGVR a = Some g \<Longrightarrow> kindToGVR b = Some g \<Longrightarrow> a = b"
  using kind_table_distinct unfolding kindToGVR_def
  by (metis distinct_map fst_conv inj_onD map_of_SomeD snd_conv)

definition fresh_gets :: "string \<Rightarrow> string list \<Rightarrow> (gvr \<times> string \<times> string) list \<Rightarrow> bool" where
  "fresh_gets ns visited ys \<longleftrightarrow> distinct ys \<and>
     (\<forall>(g, n, m)\<in>set ys. n = ns \<and> (\<exists>kind. kindToGVR kind = Some g \<and> kind @ ''/'' @ m \<notin> set visited))"

lemma fresh_gets_Cons:
  assumes "fresh_gets ns ((kind @ ''/'' @ m) # visited) ys" "kindToGVR kind = Some g" "kind @ ''/'' @ m \<notin> set visited"
  shows "fresh_gets ns visited ((g, ns, m) # ys)"
proof -
  have "(g, ns, m) \<notin> set ys"
  proof
    assume "(g, ns, m) \<in> set ys"
    then obtain kind' where "kindToGVR kind' = Some g" "kind' @ ''/'' @ m \<noteq> kind @ ''/'' @ m"
      using assms(1) unfolding fresh_gets_def by fastforce
    then show False using kindToGVR_inj [OF assms(2)] by blast
  qed
  then show ?thesis using assms by (fastforce simp: fresh_gets_def)
qed

lemma fresh_gets_Nil [simp]: "fresh_gets ns visited []"
  by (simp add: fresh_gets_def)

text \<open>One turn of the loop: it stops before a read, or after the last one, or goes on to the next owner.\<close>

lemma owner_loop_turn:
  assumes "owner_loop cf k ns kind name visited chain w = (r, w')"
  obtains (stop) "w' = w" "\<And>c. r = Inr c \<Longrightarrow> c = chain \<and> (chain \<noteq> [] \<or> visited \<noteq> [])"
  | (last) gvr b where "length chain < maxOwnerDepth" "kind @ ''/'' @ name \<notin> set visited" "kindToGVR kind = Some gvr"
      "kb_get k gvr ns name w = (b, w')" "\<And>c. r = Inr c \<Longrightarrow> c \<noteq> [] \<and> (\<exists>xs. c = chain @ xs \<and> length xs \<le> 1)"
  | (onward) gvr obj v nk nn where "length chain < maxOwnerDepth" "kind @ ''/'' @ name \<notin> set visited" "kindToGVR kind = Some gvr"
      "kb_get k gvr ns name w = (Inr obj, v)" "pickOwnerRef obj = Some (nk, nn)"
      "owner_loop cf k ns nk nn ((kind @ ''/'' @ name) # visited) (chain @ [chain_entry obj]) v = (r, w')"
proof (cases "length chain < maxOwnerDepth \<and> kind @ ''/'' @ name \<notin> set visited")
  case False
  then have "(r, w') = (Inr chain, w)" using assms
    by (cases "length chain < maxOwnerDepth") (simp_all add: owner_loop.simps [of cf k ns kind name visited chain w] Let_def)
  moreover have "chain \<noteq> [] \<or> visited \<noteq> []" using False by (auto simp: maxOwnerDepth_def)
  ultimately show thesis by (intro stop) auto
next
  case True
  note step = owner_loop.simps [of cf k ns kind name visited chain w] and T = True [THEN conjunct1] True [THEN conjunct2, simplified]
  show thesis
  proof (cases "kindToGVR kind")
    case None
    then show thesis using assms by (intro stop) (simp_all add: step Let_def T split: if_splits)
  next
    case (Some gvr)
    obtain b v where g: "kb_get k gvr ns name w = (b, v)" by (rule prod.exhaust)
    note go = assms [unfolded step Let_def] and keep = last [OF True [THEN conjunct1] True [THEN conjunct2] Some]
    show thesis
    proof (cases b)
      case (Inl err)
      then have "(r, w') = (if chain \<noteq> [] then Inr chain else Inl (tools_ToUserFriendlyError cf err), v)" using go by (simp add: T Some g)
      then show thesis using g by (intro keep) (auto split: if_splits)
    next
      case (Inr obj)
      show thesis
      proof (cases "pickOwnerRef obj")
        case None
        then have "(r, w') = (Inr (chain @ [chain_entry obj]), v)" using go by (simp add: T Some g Inr)
        then show thesis using g by (intro keep) auto
      next
        case own: (Some p)
        obtain nk nn where p: "p = (nk, nn)" by (rule prod.exhaust)
        have "owner_loop cf k ns nk nn ((kind @ ''/'' @ name) # visited) (chain @ [chain_entry obj]) v = (r, w')"
          using go by (simp add: T Some g Inr own p)
        then show thesis using True Some g Inr own p by (intro onward) auto
      qed
    qed
  qed
qed

lemma owner_loop_walk:
  assumes "logs_gets k reads" "owner_loop cf k ns kind name visited chain w = (r, w')" "length chain \<le> maxOwnerDepth"
  shows "\<exists>ys. reads w' = reads w @ ys \<and> length ys \<le> maxOwnerDepth - length chain \<and> fresh_gets ns visited ys \<and>
    (\<forall>c. r = Inr c \<longrightarrow> length c \<le> maxOwnerDepth \<and> length chain \<le> length c \<and> (chain = [] \<longrightarrow> visited = [] \<longrightarrow> c \<noteq> []))"
  using assms
proof (induction "maxOwnerDepth - length chain" arbitrary: kind name visited chain w rule: less_induct)
  case less
  note law = less(2) and run = less(3) and len = less(4)
  have read: "reads v = reads w @ [(gvr, ns, name)]" if "kb_get k gvr ns name w = (b, v)" for gvr name w b v
    using law that unfolding logs_gets_def by (metis snd_conv)
  from run show ?case
  proof (cases rule: owner_loop_turn)
    case stop
    then show ?thesis using len by (intro exI [of _ "[]"]) auto
  next
    case (last gvr b)
    have "fresh_gets ns visited [(gvr, ns, name)]" using fresh_gets_Cons [OF fresh_gets_Nil last(3,2)] .
    moreover have "\<forall>c. r = Inr c \<longrightarrow> length c \<le> maxOwnerDepth \<and> length chain \<le> length c \<and> (chain = [] \<longrightarrow> visited = [] \<longrightarrow> c \<noteq> [])"
      using last(1,5) by fastforce
    ultimately show ?thesis using read [OF last(4)] last(1) by (intro exI [of _ "[(gvr, ns, name)]"]) (simp add: Suc_le_eq)
  next
    case (onward gvr obj v nk nn)
    have "maxOwnerDepth - length (chain @ [chain_entry obj]) < maxOwnerDepth - length chain" using onward(1) by simp
    from less(1) [OF this law onward(6)] onward(1) obtain ys where ys: "reads w' = reads v @ ys" "length ys \<le> maxOwnerDepth - Suc (length chain)"
      "fresh_gets ns ((kind @ ''/'' @ name) # visited) ys" "\<forall>c. r = Inr c \<longrightarrow> length c \<le> maxOwnerDepth \<and> Suc (length chain) \<le> length c"
      by auto
    have "fresh_gets ns visited ((gvr, ns, name) # ys)" using fresh_gets_Cons [OF ys(3) onward(3,2)] .
    then show ?thesis using read [OF onward(4)] ys onward(1) by (intro exI [of _ "(gvr, ns, name) # ys"]) auto
  qed
qed

text \<open>
  C19: resolving the owner of an object always ends, after at most ten reads, all in the given
  namespace and no object twice, also when the owner references form a cycle. A result has one to
  ten entries, and the root it names is the last of them.
\<close>
theorem resolve_owner_bounded:
  assumes "logs_gets k reads" and "HandleResolveOwner cf (Some k) args w = (r, w')"
  shows "\<exists>ys. reads w' = reads w @ ys \<and> length ys \<le> 10 \<and> distinct ys \<and> (\<forall>(g, n, m)\<in>set ys. n = ro_Namespace args) \<and>
    (\<forall>res. r = Inr res \<longrightarrow> 1 \<le> length (rw_Chain res) \<and> length (rw_Chain res) \<le> 10 \<and>
       rw_RootKind res = oc_Kind (last (rw_Chain res)) \<and> rw_RootName res = oc_Name (last (rw_Chain res)))"
  using assms(2) unfolding HandleResolveOwner_def
proof (cases rule: guarded_cases)
  case (refused e)
  then show ?thesis by auto
next
  case (run k')
  obtain c v where c: "owner_loop cf k (ro_Namespace args) (ro_Kind args) (ro_Name args) [] [] w = (c, v)" by (rule prod.exhaust)
  from owner_loop_walk [OF assms(1) c] obtain ys where ys: "reads v = reads w @ ys" "length ys \<le> maxOwnerDepth"
    "fresh_gets (ro_Namespace args) [] ys" "\<forall>d. c = Inr d \<longrightarrow> length d \<le> maxOwnerDepth \<and> d \<noteq> []" by auto
  have v: "w' = v" "\<And>res. r = Inr res \<Longrightarrow> \<exists>d. c = Inr d \<and> res = \<lparr>rw_Chain = d, rw_RootKind = (if d = [] then [] else oc_Kind (last d)),
          rw_RootName = (if d = [] then [] else oc_Name (last d))\<rparr>"
    using run c by (auto split: sum.splits)
  have "1 \<le> length (rw_Chain res) \<and> length (rw_Chain res) \<le> 10 \<and>
       rw_RootKind res = oc_Kind (last (rw_Chain res)) \<and> rw_RootName res = oc_Name (last (rw_Chain res))" if "r = Inr res" for res
    using v(2) [OF that] ys(4) by (auto simp: maxOwnerDepth_def Suc_le_eq)
  then show ?thesis using ys v(1) by (intro exI [of _ ys]) (auto simp: maxOwnerDepth_def fresh_gets_def)
qed

text \<open>A cluster in which two objects own each other.\<close>

definition cyclic_kube :: "(gvr \<times> string \<times> string) list kube" where
  "cyclic_kube = \<lparr>kb_list = (\<lambda>g ns sel w. (Inr [], w)),
     kb_get = (\<lambda>g ns n w. (Inr [(''kind'', JStr ''Pod''), (''metadata'', JObj [(''name'', JStr n),
        (''ownerReferences'', JArr [JObj [(''kind'', JStr ''Pod''), (''name'', JStr (if n = ''a'' then ''b'' else ''a''))]])])], w @ [(g, ns, n)])),
     kb_create = (\<lambda>g ns ob w. (Inr ob, w)), kb_patch = (\<lambda>g ns n p s w. (Inr [], w))\<rparr>"

definition cyclic_conf :: "(gvr \<times> string \<times> string) list tool_conf" where
  "cyclic_conf = \<lparr>kf_now = (\<lambda>w. 0), kf_format = (\<lambda>t. []), kf_render = (\<lambda>e. []), kf_lower = id, kf_upper = id,
     kf_label = (\<lambda>s. []), kf_subdomain = (\<lambda>s. []), kf_code = (\<lambda>s. 500), kf_sha256 = id\<rparr>"

lemma cyclic_logs: "logs_gets cyclic_kube id"
  by (simp add: logs_gets_def cyclic_kube_def)

theorem resolve_owner_bounded_witness:
  "length (snd (HandleResolveOwner cyclic_conf (Some cyclic_kube) \<lparr>ro_Namespace = ''n'', ro_Kind = ''Pod'', ro_Name = ''a''\<rparr> [])) \<le> 10"
proof -
  define args where "args = \<lparr>ro_Namespace = ''n'', ro_Kind = ''Pod'', ro_Name = ''a''\<rparr>"
  obtain r w' where h: "HandleResolveOwner cyclic_conf (Some cyclic_kube) args [] = (r, w')" by (rule prod.exhaust)
  from resolve_owner_bounded [OF cyclic_logs h] have "length w' \<le> 10" by auto
  then show ?thesis using h by (simp add: args_def)
qed

section \<open>The cluster is read as the user\<close>

text \<open>Reference: the client a request of the user gets, if any.\<close>

definition as_user :: "('c rest_config \<Rightarrow> goerr + 'cl) \<Rightarrow> 'c rest_config \<Rightarrow> ('cl \<Rightarrow> 'cl) list \<Rightarrow> Ctx \<Rightarrow> 'cl option" where
  "as_user NewForConfig base wrappers ctx =
    (case UserIdentityFromContext ctx of
       None \<Rightarrow> None
     | Some i \<Rightarrow> if ui_Username i = [] then None
         else (case NewForConfig (base\<lparr>cf_UserName := ui_Username i, cf_Groups := ui_Groups i\<rparr>) of
             Inl e \<Rightarrow> None | Inr raw \<Rightarrow> Some (fold (\<lambda>f c. f c) wrappers raw)))"

definition run_as :: "'w kube option \<Rightarrow> ('w kube option \<Rightarrow> 'i \<Rightarrow> 'w \<Rightarrow> (goerr + 'r) \<times> 'w) \<Rightarrow> 'i \<Rightarrow> 'w \<Rightarrow> (goerr + 'r) \<times> 'w" where
  "run_as client handle args w = (if client = None then (Inl (Wrapf ''%w'' [] ErrK8sUnavailable), w) else handle client args w)"

lemma with_factory_as_user:
  "with_factory (NewImpersonatingDynamicFactory NewForConfig base wrappers) handle ctx args w =
     run_as (as_user NewForConfig base wrappers ctx) handle args w"
  by (auto simp: with_factory_def run_as_def as_user_def NewImpersonatingDynamicFactory_def NewImpersonatedConfig_def
      split: option.splits sum.splits)


end
