(* ===== verification/JsonDecode.thy ===== *)
theory JsonDecode
  imports GoJson
begin

text \<open>
  Reading JSON as \<open>encoding/json\<close> does. The scanner is a push-down automaton as in the library: a
  mode, a stack of open arrays and objects (at most 10000 deep) and the input left; a step consumes
  input, so scanning ends. Strings are unquoted with ill-formed UTF-8 and lone surrogates replaced by
  U+FFFD, numbers keep their text (\<open>JFloat\<close>), members keep their order and duplicates. \<open>json_decode\<close> is
  \<open>Decoder.Decode\<close> (the first value of a stream, the rest is ignored), \<open>json_unmarshal\<close> is
  \<open>json.Unmarshal\<close> (one value and white space). Filling a struct takes the last member whose name
  matches the field up to case, skips \<open>null\<close> and reports a member of another type.
\<close>

section \<open>Strings\<close>

definition hexval :: "char \<Rightarrow> nat option" where
  "hexval c = (let b = byte c in
     if 48 \<le> b \<and> b \<le> 57 then Some (b - 48) else if 97 \<le> b \<and> b \<le> 102 then Some (b - 87)
     else if 65 \<le> b \<and> b \<le> 70 then Some (b - 55) else None)"

definition hex4 :: "char \<Rightarrow> char \<Rightarrow> char \<Rightarrow> char \<Rightarrow> nat option" where
  "hex4 a b c d = (case (hexval a, hexval b, hexval c, hexval d) of
     (Some x, Some y, Some z, Some t) \<Rightarrow> Some (x * 4096 + y * 256 + z * 16 + t) | _ \<Rightarrow> None)"

fun low_surrogate :: "string \<Rightarrow> nat option" where
  "low_surrogate (x # u # a # b # c # d # cs) =
    (if x = CHR 0x5C \<and> u = CHR ''u''
     then (case hex4 a b c d of Some r \<Rightarrow> if 56320 \<le> r \<and> r < 57344 then Some r else None | None \<Rightarrow> None) else None)"
| "low_surrogate _ = None"

text \<open>What follows a backslash: the bytes it stands for and the input left.\<close>

fun js_escape :: "string \<Rightarrow> (string \<times> string) option" where
  "js_escape [] = None"
| "js_escape (c # cs) =
    (if c \<in> {CHR 0x22, CHR 0x5C, CHR ''/''} then Some ([c], cs)
     else if c = CHR ''b'' then Some ([CHR 0x08], cs)
     else if c = CHR ''f'' then Some ([CHR 0x0C], cs)
     else if c = CHR ''n'' then Some ([CHR 0x0A], cs)
     else if c = CHR ''r'' then Some ([CHR 0x0D], cs)
     else if c = CHR ''t'' then Some ([CHR 0x09], cs)
     else if c = CHR ''u'' then
       (case cs of h1 # h2 # h3 # h4 # rest \<Rightarrow>
          (case hex4 h1 h2 h3 h4 of
             None \<Rightarrow> None
           | Some r \<Rightarrow>
              if 55296 \<le> r \<and> r < 57344 then
                (case (if r < 56320 then low_surrogate rest else None) of
                   Some lo \<Rightarrow> Some (encode_rune (65536 + (r - 55296) * 1024 + (lo - 56320)), drop 6 rest)
                 | None \<Rightarrow> Some (encode_rune RuneError, rest))
              else Some (encode_rune r, rest))
        | _ \<Rightarrow> None)
     else None)"

lemma js_escape_shorter: "js_escape s = Some (out, rest) \<Longrightarrow> length rest < length s"
  by (cases s) (auto split: if_splits list.splits option.splits)

text \<open>The input after an opening quote.\<close>

function js_string :: "string \<Rightarrow> (string \<times> string) option" where
  "js_string s =
    (case s of [] \<Rightarrow> None
     | c # cs \<Rightarrow>
        if c = CHR 0x22 then Some ([], cs)
        else if c = CHR 0x5C then
          (case js_escape cs of None \<Rightarrow> None | Some (out, rest) \<Rightarrow> map_option (apfst ((@) out)) (js_string rest))
        else if byte c < 32 then None
        else map_option (apfst ((@) (encode_rune (fst (decode_rune s))))) (js_string (drop (snd (decode_rune s)) s)))"
  by pat_completeness auto
termination
  by (relation "measure length") (auto dest: js_escape_shorter)

declare js_string.simps [simp del]

lemma js_string_Nil [simp]: "js_string [] = None"
  by (simp add: js_string.simps)

lemma js_string_quote [simp]: "js_string (CHR 0x22 # cs) = Some ([], cs)"
  by (simp add: js_string.simps [of "CHR 0x22 # cs"])

lemma js_string_escape:
  "js_string (CHR 0x5C # cs) =
    (case js_escape cs of None \<Rightarrow> None | Some (out, rest) \<Rightarrow> map_option (apfst ((@) out)) (js_string rest))"
  by (simp add: js_string.simps [of "CHR 0x5C # cs"])

lemma js_string_raw:
  "c \<noteq> CHR 0x22 \<Longrightarrow> c \<noteq> CHR 0x5C \<Longrightarrow> js_string (c # cs) =
    (if byte c < 32 then None
     else map_option (apfst ((@) (encode_rune (fst (decode_rune (c # cs)))))) (js_string (drop (snd (decode_rune (c # cs))) (c # cs))))"
  by (simp add: js_string.simps [of "c # cs"])

lemma js_string_shorter: "js_string s = Some (t, rest) \<Longrightarrow> length rest < length s"
proof (induction s arbitrary: t rest rule: length_induct)
  case (1 s)
  show ?case
  proof (cases s)
    case Nil then show ?thesis using 1(2) by simp
  next
    case (Cons c cs)
    have step: "length rest < length s" if "js_string u = Some (t', rest)" "length u < length s" for u t'
      using 1(1) that by (meson less_trans)
    consider "c = CHR 0x22" | "c = CHR 0x5C" | "c \<noteq> CHR 0x22" "c \<noteq> CHR 0x5C" by blast
    then show ?thesis
    proof cases
      case 1 then show ?thesis using \<open>js_string s = Some (t, rest)\<close> Cons by simp
    next
      case 2
      then obtain out u t' where "js_escape cs = Some (out, u)" "js_string u = Some (t', rest)"
        using \<open>js_string s = Some (t, rest)\<close> Cons by (auto simp: js_string_escape split: option.splits)
      then show ?thesis using step js_escape_shorter Cons by fastforce
    next
      case 3
      then obtain t' where "js_string (drop (snd (decode_rune s)) s) = Some (t', rest)"
        using \<open>js_string s = Some (t, rest)\<close> Cons by (auto simp: js_string_raw split: if_splits)
      then show ?thesis using step Cons by simp
    qed
  qed
qed

section \<open>Numbers\<close>

definition js_digit :: "char \<Rightarrow> bool" where
  "js_digit c \<longleftrightarrow> 48 \<le> byte c \<and> byte c \<le> 57"

definition js_fraction :: "string \<Rightarrow> (string \<times> string) option" where
  "js_fraction s = (case s of c # cs \<Rightarrow>
       if c = CHR ''.'' then (if takeWhile js_digit cs = [] then None else Some (c # takeWhile js_digit cs, dropWhile js_digit cs))
       else Some ([], s)
     | [] \<Rightarrow> Some ([], []))"

definition js_exponent :: "string \<Rightarrow> (string \<times> string) option" where
  "js_exponent s = (case s of c # cs \<Rightarrow>
       if c = CHR ''e'' \<or> c = CHR ''E'' then
         (let sign = (case cs of d # _ \<Rightarrow> if d = CHR ''+'' \<or> d = CHR ''-'' then [d] else [] | [] \<Rightarrow> []);
              ds = drop (length sign) cs
          in if takeWhile js_digit ds = [] then None else Some (c # sign @ takeWhile js_digit ds, dropWhile js_digit ds))
       else Some ([], s)
     | [] \<Rightarrow> Some ([], []))"

definition js_unsigned :: "string \<Rightarrow> (string \<times> string) option" where
  "js_unsigned s =
    (case s of [] \<Rightarrow> None
     | c # cs \<Rightarrow>
        if \<not> js_digit c then None
        else (let ip = (if c = CHR ''0'' then [c] else takeWhile js_digit s) in
          case js_fraction (drop (length ip) s) of None \<Rightarrow> None
          | Some (fp, rest) \<Rightarrow>
             (case js_exponent rest of None \<Rightarrow> None | Some (ep, rest) \<Rightarrow> Some (ip @ fp @ ep, rest))))"

definition js_number :: "string \<Rightarrow> (string \<times> string) option" where
  "js_number s =
    (case s of [] \<Rightarrow> None
     | c # cs \<Rightarrow> if c = CHR ''-'' then map_option (apfst (Cons c)) (js_unsigned cs) else js_unsigned s)"

section \<open>The scanner\<close>

definition is_ws :: "char \<Rightarrow> bool" where
  "is_ws c \<longleftrightarrow> c \<in> {CHR '' '', CHR 0x09, CHR 0x0A, CHR 0x0D}"

datatype jmode = WantValue | WantFirst | WantKey | WantFirstKey | GotValue jv
datatype jframe = InArr "jv list" | AtKey "(string \<times> jv) list" | AtVal "(string \<times> jv) list" string

type_synonym jconf = "jmode \<times> jframe list \<times> string"

definition maxNestingDepth :: int where "maxNestingDepth = 10000"

definition open_frame :: "jmode \<Rightarrow> jframe \<Rightarrow> jframe list \<Rightarrow> string \<Rightarrow> jconf option" where
  "open_frame m f st cs = (if int (length st) < maxNestingDepth then Some (m, f # st, cs) else None)"

definition js_literal :: "string \<Rightarrow> jv \<Rightarrow> jframe list \<Rightarrow> string \<Rightarrow> jconf option" where
  "js_literal l v st cs = (if has_prefix cs l then Some (GotValue v, st, drop (length l) cs) else None)"

definition js_value :: "jframe list \<Rightarrow> char \<Rightarrow> string \<Rightarrow> jconf option" where
  "js_value st c cs =
    (if c = CHR ''{'' then open_frame WantFirstKey (AtKey []) st cs
     else if c = CHR ''['' then open_frame WantFirst (InArr []) st cs
     else if c = CHR 0x22 then map_option (\<lambda>(t, rest). (GotValue (JStr t), st, rest)) (js_string cs)
     else if c = CHR ''t'' then js_literal ''rue'' (JBool True) st cs
     else if c = CHR ''f'' then js_literal ''alse'' (JBool False) st cs
     else if c = CHR ''n'' then js_literal ''ull'' JNull st cs
     else map_option (\<lambda>(t, rest). (GotValue (JFloat t), st, rest)) (js_number (c # cs)))"

definition js_key :: "(string \<times> jv) list \<Rightarrow> jframe list \<Rightarrow> string \<Rightarrow> jconf option" where
  "js_key acc st cs =
    (case js_string cs of None \<Rightarrow> None
     | Some (k, rest) \<Rightarrow> (case dropWhile is_ws rest of
          c # rest \<Rightarrow> if c = CHR '':'' then Some (WantValue, AtVal acc k # st, rest) else None
        | [] \<Rightarrow> None))"

fun js_closes :: "jv \<Rightarrow> jframe list \<Rightarrow> char \<Rightarrow> string \<Rightarrow> jconf option" where
  "js_closes v (InArr acc # st) c cs =
    (if c = CHR '','' then Some (WantValue, InArr (acc @ [v]) # st, cs)
     else if c = CHR '']'' then Some (GotValue (JArr (acc @ [v])), st, cs) else None)"
| "js_closes v (AtVal acc k # st) c cs =
    (if c = CHR '','' then Some (WantKey, AtKey (acc @ [(k, v)]) # st, cs)
     else if c = CHR ''}'' then Some (GotValue (JObj (acc @ [(k, v)])), st, cs) else None)"
| "js_closes v _ c cs = None"

definition jstep :: "jmode \<Rightarrow> jframe list \<Rightarrow> string \<Rightarrow> jconf option" where
  "jstep m st s =
    (case dropWhile is_ws s of [] \<Rightarrow> None
     | c # cs \<Rightarrow>
        (case m of
           GotValue v \<Rightarrow> js_closes v st c cs
         | WantValue \<Rightarrow> js_value st c cs
         | WantFirst \<Rightarrow> if c = CHR '']''
             then (case st of InArr acc # st' \<Rightarrow> Some (GotValue (JArr acc), st', cs) | _ \<Rightarrow> None) else js_value st c cs
         | WantKey \<Rightarrow> (case st of AtKey acc # st' \<Rightarrow> if c = CHR 0x22 then js_key acc st' cs else None | _ \<Rightarrow> None)
         | WantFirstKey \<Rightarrow> (case st of AtKey acc # st' \<Rightarrow>
               if c = CHR ''}'' then Some (GotValue (JObj acc), st', cs)
               else if c = CHR 0x22 then js_key acc st' cs else None
             | _ \<Rightarrow> None)))"

lemma dropWhile_ws_le: "length (dropWhile is_ws s) \<le> length s"
  by (rule length_dropWhile_le)

lemma js_unsigned_cases:
  assumes "js_unsigned s = Some (t, r)"
  obtains c cs ip fp r1 ep where "s = c # cs" "js_digit c" "ip = (if c = CHR ''0'' then [c] else takeWhile js_digit s)"
    "js_fraction (drop (length ip) s) = Some (fp, r1)" "js_exponent r1 = Some (ep, r)" "t = ip @ fp @ ep"
  using assms by (auto simp: js_unsigned_def Let_def split: list.splits if_splits option.splits)

lemma js_unsigned_intro:
  "s = c # cs \<Longrightarrow> js_digit c \<Longrightarrow> ip = (if c = CHR ''0'' then [c] else takeWhile js_digit s) \<Longrightarrow>
   js_fraction (drop (length ip) s) = Some (fp, r1) \<Longrightarrow> js_exponent r1 = Some (ep, r) \<Longrightarrow> js_unsigned s = Some (ip @ fp @ ep, r)"
  unfolding js_unsigned_def Let_def by (simp del: takeWhile.simps)

lemma js_unsigned_shorter: "js_unsigned s = Some (t, rest) \<Longrightarrow> length rest < length s"
proof (elim js_unsigned_cases)
  fix c cs ip fp r1 ep
  assume u: "s = c # cs" "js_digit c" "ip = (if c = CHR ''0'' then [c] else takeWhile js_digit s)"
    "js_fraction (drop (length ip) s) = Some (fp, r1)" "js_exponent r1 = Some (ep, rest)" "t = ip @ fp @ ep"
  have f: "length r \<le> length x" if "js_fraction x = Some (fp, r)" for x fp r
    using that length_dropWhile_le [of js_digit] by (auto simp: js_fraction_def split: list.splits if_splits intro: le_SucI)
  have e: "length r \<le> length x" if "js_exponent x = Some (ep, r)" for x ep r
  proof (cases x)
    case (Cons c cs)
    have "length (dropWhile js_digit (drop n cs)) \<le> length cs" for n
      by (rule order_trans [OF length_dropWhile_le]) simp
    then show ?thesis using that Cons by (auto simp: js_exponent_def Let_def split: if_splits intro: le_SucI)
  qed (use that in \<open>simp add: js_exponent_def\<close>)
  have "0 < length ip" using u by simp
  then have "length (drop (length ip) s) < length s" using u by simp
  then show ?thesis using f [OF u(4)] e [OF u(5)] by linarith
qed

lemma js_number_shorter: "js_number s = Some (t, rest) \<Longrightarrow> length rest < length s"
  by (auto simp: js_number_def dest: js_unsigned_shorter split: list.splits if_splits)

lemma js_value_shorter: "js_value st c cs = Some (m', st', s') \<Longrightarrow> length s' \<le> length cs"
  by (auto simp: js_value_def open_frame_def js_literal_def dest!: js_string_shorter js_number_shorter split: if_splits)

lemma js_key_shorter: "js_key acc st cs = Some (m', st', s') \<Longrightarrow> length s' \<le> length cs"
proof -
  assume "js_key acc st cs = Some (m', st', s')"
  then obtain k rest c where k: "js_string cs = Some (k, rest)" "dropWhile is_ws rest = c # s'"
    by (auto simp: js_key_def split: option.splits list.splits if_splits)
  have "length (c # s') \<le> length rest" unfolding k(2) [symmetric] by (rule length_dropWhile_le)
  then show ?thesis using js_string_shorter [OF k(1)] by simp
qed

lemma js_closes_shorter: "js_closes v st c cs = Some (m', st', s') \<Longrightarrow> length s' \<le> length cs"
  by (cases "(v, st, c, cs)" rule: js_closes.cases) (auto split: if_splits)

lemma jstep_shorter: "jstep m st s = Some (m', st', s') \<Longrightarrow> length s' < length s"
proof -
  assume a: "jstep m st s = Some (m', st', s')"
  then obtain c cs where c: "dropWhile is_ws s = c # cs" by (auto simp: jstep_def split: list.splits)
  have "length (c # cs) \<le> length s" unfolding c [symmetric] by (rule length_dropWhile_le)
  moreover have "length s' \<le> length cs"
    using a c by (auto simp: jstep_def dest: js_closes_shorter js_value_shorter js_key_shorter
        split: jmode.splits if_splits list.splits jframe.splits)
  ultimately show ?thesis by simp
qed

function jrun :: "jmode \<Rightarrow> jframe list \<Rightarrow> string \<Rightarrow> (jv \<times> string) option" where
  "jrun m st s =
    (case (m, st) of
       (GotValue v, []) \<Rightarrow> Some (v, s)
     | _ \<Rightarrow> (case jstep m st s of None \<Rightarrow> None | Some (m', st', s') \<Rightarrow> jrun m' st' s'))"
  by pat_completeness auto
termination
  by (relation "measure (\<lambda>(m, st, s). length s)") (auto dest: jstep_shorter)

declare jrun.simps [simp del]

definition json_decode :: "string \<Rightarrow> jv option" where
  "json_decode s = map_option fst (jrun WantValue [] s)"

definition json_unmarshal :: "string \<Rightarrow> jv option" where
  "json_unmarshal s = (case jrun WantValue [] s of Some (v, rest) \<Rightarrow> if dropWhile is_ws rest = [] then Some v else None | None \<Rightarrow> None)"

section \<open>Filling a struct\<close>

text \<open>
  Names match up to case; besides the ASCII letters only U+017F (long s) and U+212A (Kelvin sign) fold
  to a letter a field name can have.
\<close>

definition fold_rune :: "rune \<Rightarrow> rune" where
  "fold_rune r = (if 97 \<le> r \<and> r \<le> 122 then r - 32 else if r = 383 then 83 else if r = 8490 then 75 else r)"

definition same_name :: "string \<Rightarrow> string \<Rightarrow> bool" where
  "same_name a b \<longleftrightarrow> a = b \<or> map (fold_rune \<circ> fst) (runes a) = map (fold_rune \<circ> fst) (runes b)"

definition members :: "string \<Rightarrow> (string \<times> jv) list \<Rightarrow> jv list" where
  "members name obj = map snd (filter (\<lambda>(k, v). same_name k name) obj)"

text \<open>A string field: its value, and whether every member for it had the right type.\<close>

fun dec_strings :: "jv list \<Rightarrow> string \<Rightarrow> string option" where
  "dec_strings [] cur = Some cur"
| "dec_strings (JStr s # vs) cur = dec_strings vs s"
| "dec_strings (JNull # vs) cur = dec_strings vs cur"
| "dec_strings (v # vs) cur = None"

definition dec_string :: "string \<Rightarrow> (string \<times> jv) list \<Rightarrow> string option" where
  "dec_string name obj = dec_strings (members name obj) []"

text \<open>A struct is filled from an object; \<open>null\<close> leaves it as it is, another value is an error.\<close>

definition dec_object :: "((string \<times> jv) list \<Rightarrow> 'a option) \<Rightarrow> jv \<Rightarrow> 'a option" where
  "dec_object fields v = (case v of JObj obj \<Rightarrow> fields obj | JNull \<Rightarrow> fields [] | _ \<Rightarrow> None)"

definition ErrJson :: goerr where "ErrJson = ErrVar ''json''"

definition decode_body :: "(jv \<Rightarrow> 'a option) \<Rightarrow> string \<Rightarrow> goerr + 'a" where
  "decode_body dec body = (case Option.bind (json_decode body) dec of Some x \<Rightarrow> Inr x | None \<Rightarrow> Inl ErrJson)"

definition unmarshal_body :: "(jv \<Rightarrow> 'a option) \<Rightarrow> string \<Rightarrow> goerr + 'a" where
  "unmarshal_body dec body = (case Option.bind (json_unmarshal body) dec of Some x \<Rightarrow> Inr x | None \<Rightarrow> Inl ErrJson)"

section \<open>What is written is read back\<close>

lemma hexval_digit: "n < 16 \<Longrightarrow> hexval (hex_digit n) = Some n"
  by (auto simp: hexval_def hex_digit_def Let_def)

lemma hex_parts: "n < 65536 \<Longrightarrow>
  n div 4096 mod 16 * 4096 + n div 256 mod 16 * 256 + n div 16 mod 16 * 16 + n mod 16 = (n :: nat)"
proof -
  assume "n < 65536"
  then have "n div 4096 mod 16 = n div 4096" by simp
  moreover have "n div 256 = n div 4096 * 16 + n div 256 mod 16" using div_mult2_eq [of n 256 16] by simp
  moreover have "n div 16 = n div 256 * 16 + n div 16 mod 16" using div_mult2_eq [of n 16 16] by simp
  moreover have "n = n div 16 * 16 + n mod 16" by simp
  ultimately show ?thesis by linarith
qed

lemma hex4_digits: "n < 65536 \<Longrightarrow>
  hex4 (hex_digit (n div 4096 mod 16)) (hex_digit (n div 256 mod 16)) (hex_digit (n div 16 mod 16)) (hex_digit (n mod 16)) = Some n"
proof -
  assume n: "n < 65536"
  have m: "k mod 16 < 16" for k :: nat by simp
  show ?thesis by (simp only: hex4_def hexval_digit [OF m] prod.case option.case hex_parts [OF n])
qed

lemma js_escape_u: "hex4 a b c d = Some n \<Longrightarrow> n < 55296 \<or> 57344 \<le> n \<Longrightarrow>
    js_escape (CHR ''u'' # a # b # c # d # s) = Some (encode_rune n, s)"
  by auto

lemma js_string_esc_u:
  assumes "n < 55296 \<or> 57344 \<le> n" "n < 65536"
  shows "js_string (esc_u n @ s) = map_option (apfst ((@) (encode_rune n))) (js_string s)"
  by (simp only: esc_u_def append_Cons append_Nil js_string_escape js_escape_u [OF hex4_digits [OF assms(2)] assms(1)]
      option.case prod.case)

lemma encode_ascii: "r < 128 \<Longrightarrow> encode_rune r = [char_of r]"
  by (simp add: encode_rune_def encode_bytes_def)

text \<open>A well-formed piece is decoded alike whatever follows it.\<close>

lemma decode_bytes_prefix:
  "decode_bytes bs = (r, w) \<Longrightarrow> \<not> (r = RuneError \<and> w = 1) \<Longrightarrow> bs \<noteq> [] \<Longrightarrow> decode_bytes (take w bs @ xs) = (r, w)"
  by (cases bs) (auto split: list.splits if_splits)

lemma decode_rune_prefix:
  assumes "decode_rune s = (r, w)" "\<not> (r = RuneError \<and> w = 1)" "s \<noteq> []"
  shows "decode_rune (take w s @ xs) = (r, w)"
proof -
  have w: "w \<le> 4" "w \<le> length s" using decode_rune_width_le [of s] decode_bytes_width_le [of "map of_char (take 4 s)"] assms(1)
    by (auto simp: decode_rune_def)
  have "take 4 (take w s @ xs) = take w s @ take (4 - w) xs" using w by (simp add: min_absorb2)
  then have "map of_char (take 4 (take w s @ xs)) = take w (map of_char (take 4 s)) @ map (of_char :: char \<Rightarrow> nat) (take (4 - w) xs)"
    using w by (simp add: take_map min_absorb1)
  then show ?thesis using decode_bytes_prefix [of "map of_char (take 4 s)" r w] assms by (simp add: decode_rune_def)
qed

lemma decode_rune_low: "decode_rune (c # cs) = (r, w) \<Longrightarrow> r < 128 \<Longrightarrow> byte c = r \<and> w = 1"
proof -
  assume a: "decode_rune (c # cs) = (r, w)" "r < 128"
  have "decode_rune (c # cs) = decode_bytes (byte c # map of_char (take 3 cs))" by (simp add: decode_rune_def)
  then have "byte c < 128" using decode_bytes_multibyte [of "byte c" "map of_char (take 3 cs)"] a by (metis fst_conv leD leI)
  then show ?thesis using a by (simp add: decode_rune_ascii)
qed

lemma escaped_chars:
  "char_of (34 :: nat) = CHR 0x22" "char_of (92 :: nat) = CHR 0x5C" "char_of (8 :: nat) = CHR 0x08" "char_of (9 :: nat) = CHR 0x09"
  "char_of (10 :: nat) = CHR 0x0A" "char_of (12 :: nat) = CHR 0x0C" "char_of (13 :: nat) = CHR 0x0D"
  by code_simp+

lemma js_string_piece:
  assumes d: "decode_rune s = (r, w)" and s: "s \<noteq> []"
  shows "js_string (esc_rune (r, take w s) @ x) = map_option (apfst ((@) (encode_rune r))) (js_string x)"
proof -
  from s obtain c cs where c: "s = c # cs" by (cases s) auto
  have w: "0 < w" using decode_rune_widthD [OF d [symmetric] s] .
  show ?thesis
  proof (cases "r < 128")
    case True
    then have b: "take w s = [char_of r]" using decode_rune_low d c by fastforce
    have e: "encode_rune r = [char_of r]" using True by (rule encode_ascii)
    consider "r = 34 \<or> r = 92" | "r \<in> {8, 9, 10, 12, 13}" | "r \<notin> {8, 9, 10, 12, 13}" "r < 32 \<or> r \<in> {38, 60, 62}"
      | "r \<notin> {34, 92, 38, 60, 62}" "32 \<le> r" by (cases "r < 32") auto
    then show ?thesis
    proof cases
      case 1
      then show ?thesis unfolding b e by (auto simp: esc_rune_def js_string_escape escaped_chars)
    next
      case 2
      then show ?thesis unfolding b e by (auto simp: esc_rune_def js_string_escape escaped_chars)
    next
      case 3
      then have "esc_rune (r, take w s) = esc_u r" by (auto simp: esc_rune_def)
      then show ?thesis using js_string_esc_u [of r x] True by simp
    next
      case 4
      have k: "byte (char_of r :: char) = r" using True by simp
      then have "(char_of r :: char) \<noteq> CHR 0x22" "(char_of r :: char) \<noteq> CHR 0x5C"
        using 4 k by (auto dest: arg_cong [of _ _ "of_char :: char \<Rightarrow> nat"])
      then show ?thesis using 4 True k unfolding b by (simp add: esc_rune_def js_string_raw decode_rune_ascii)
    qed
  next
    case False
    have v: "valid_rune r" using runes_valid [of r "take w s" s] d s by (simp add: runes_step)
    show ?thesis
    proof (cases "r = RuneError \<and> w = 1 \<or> r \<in> {8232, 8233}")
      case True
      then have "esc_rune (r, take w s) = esc_u r" using False c w by (auto simp: esc_rune_def)
      then show ?thesis using js_string_esc_u [of r x] True by auto
    next
      case raw: False
      have l: "length (take w s) = w" using decode_rune_width_le [of s] d by simp
      then have e: "esc_rune (r, take w s) = take w s" using False raw by (auto simp: esc_rune_def)
      have dp: "decode_rune (take w s @ x) = (r, w)" using decode_rune_prefix [OF d] raw s by blast
      have hd: "take w s @ x = c # (take (w - 1) cs @ x)" using c w by (cases w) auto
      have "128 \<le> byte c"
        using d c False by (metis decode_rune_ascii linorder_not_le prod.inject)
      moreover have "c \<noteq> CHR 0x22" "c \<noteq> CHR 0x5C" using calculation by auto
      moreover have "drop w (take w s @ x) = x" using l by simp
      ultimately show ?thesis using dp unfolding e hd by (simp add: js_string_raw)
    qed
  qed
qed

text \<open>Ill-formed UTF-8 is replaced on the way.\<close>

definition utf8_repair :: "string \<Rightarrow> string" where
  "utf8_repair s = concat (map (encode_rune \<circ> fst) (runes s))"

lemma utf8_repair_ascii: "\<forall>c\<in>set s. byte c < 128 \<Longrightarrow> utf8_repair s = s"
  by (simp add: utf8_repair_def runes_ascii comp_def) (induction s, simp_all add: encode_ascii)

lemma js_string_json_string: "js_string (tl (json_string s) @ x) = Some (utf8_repair s, x)"
proof -
  have "js_string (concat (map esc_rune (runes s)) @ CHR 0x22 # x) = Some (utf8_repair s, x)"
  proof (induction s rule: length_induct)
    case (1 s)
    show ?case
    proof (cases "s = []")
      case True then show ?thesis by (simp add: utf8_repair_def)
    next
      case False
      obtain r w where d: "decode_rune s = (r, w)" by (rule prod.exhaust)
      have "length (drop w s) < length s" using False decode_rune_widthD [OF d [symmetric] False] by simp
      with 1 have ih: "js_string (concat (map esc_rune (runes (drop w s))) @ CHR 0x22 # x) = Some (utf8_repair (drop w s), x)" by blast
      show ?thesis using False d ih
        by (simp add: runes_step js_string_piece [OF d False] utf8_repair_def)
    qed
  qed
  then show ?thesis by (simp add: json_string_def)
qed

lemma json_string_Cons: "json_string s = CHR 0x22 # tl (json_string s)"
  by (simp add: json_string_def)

text \<open>Numbers: reading stops at a byte that cannot continue one.\<close>

definition stops :: "string \<Rightarrow> bool" where
  "stops rest \<longleftrightarrow> (case rest of [] \<Rightarrow> True | c # _ \<Rightarrow> \<not> js_digit c \<and> c \<notin> {CHR ''.'', CHR ''e'', CHR ''E''})"

lemma digits_append:
  "stops rest \<Longrightarrow> takeWhile js_digit (s @ rest) = takeWhile js_digit s"
  "stops rest \<Longrightarrow> dropWhile js_digit (s @ rest) = dropWhile js_digit s @ rest"
  by (induction s) (auto simp: stops_def split: list.splits)

lemma js_fraction_append: "js_fraction s = Some (f, r) \<Longrightarrow> stops rest \<Longrightarrow> js_fraction (s @ rest) = Some (f, r @ rest)"
  by (cases s) (auto simp: js_fraction_def digits_append stops_def split: list.splits if_splits)

lemma js_exponent_append: "js_exponent s = Some (f, r) \<Longrightarrow> stops rest \<Longrightarrow> js_exponent (s @ rest) = Some (f, r @ rest)"
proof (cases s)
  case Nil
  then show "js_exponent s = Some (f, r) \<Longrightarrow> stops rest \<Longrightarrow> ?thesis"
    by (auto simp: js_exponent_def stops_def split: list.splits)
next
  case (Cons c cs)
  then show "js_exponent s = Some (f, r) \<Longrightarrow> stops rest \<Longrightarrow> ?thesis"
    by (cases cs) (auto simp: js_exponent_def Let_def digits_append split: if_splits)
qed

lemma js_unsigned_append: "js_unsigned s = Some (t, r) \<Longrightarrow> stops rest \<Longrightarrow> js_unsigned (s @ rest) = Some (t, r @ rest)"
proof (elim js_unsigned_cases)
  fix c cs ip fp r1 ep
  assume u: "s = c # cs" "js_digit c" "ip = (if c = CHR ''0'' then [c] else takeWhile js_digit s)"
    "js_fraction (drop (length ip) s) = Some (fp, r1)" "js_exponent r1 = Some (ep, r)" "t = ip @ fp @ ep" and st: "stops rest"
  have ip: "(if c = CHR ''0'' then [c] else takeWhile js_digit (s @ rest)) = ip" using u st by (auto simp: digits_append)
  have "length ip \<le> length s" using u(1,3) length_takeWhile_le [of js_digit s] by auto
  then have "drop (length ip) (s @ rest) = drop (length ip) s @ rest" by simp
  then have "js_fraction (drop (length ip) (s @ rest)) = Some (fp, r1 @ rest)" using js_fraction_append [OF u(4) st] by simp
  then show ?thesis unfolding u(6) using js_exponent_append [OF u(5) st] u(1,2) ip
    by (intro js_unsigned_intro [of _ c "cs @ rest"]) simp_all
qed

lemma js_number_append: "js_number s = Some (t, r) \<Longrightarrow> stops rest \<Longrightarrow> js_number (s @ rest) = Some (t, r @ rest)"
  using js_unsigned_append by (fastforce simp: js_number_def split: list.splits if_splits)

lemma js_digit_digit: "n < 10 \<Longrightarrow> js_digit (digit n)"
  by (simp add: js_digit_def digit_def)

lemma digit_zero: "n < 10 \<Longrightarrow> digit n = CHR ''0'' \<longleftrightarrow> n = 0"
proof -
  assume "n < 10"
  then have "byte (digit n) = 48 + n" by (simp add: digit_def)
  moreover have "digit 0 = CHR ''0''" by code_simp
  ultimately show ?thesis by auto
qed

lemma show_nat_digits:
  "show_nat n \<noteq> [] \<and> list_all js_digit (show_nat n) \<and> (hd (show_nat n) = CHR ''0'' \<longleftrightarrow> n = 0)"
proof (induction n rule: show_nat.induct)
  case (1 n)
  show ?case
  proof (cases "n < 10")
    case True
    then show ?thesis by (subst (1 2 3) show_nat.simps) (simp add: js_digit_digit digit_zero)
  next
    case False
    then show ?thesis using 1 by (subst (1 2 3) show_nat.simps) (simp add: js_digit_digit)
  qed
qed

lemma js_unsigned_show_nat: "js_unsigned (show_nat n) = Some (show_nat n, [])"
proof -
  obtain c cs where s: "show_nat n = c # cs" using show_nat_digits [of n] by (cases "show_nat n") auto
  then have d: "js_digit c" "list_all js_digit cs" "c = CHR ''0'' \<Longrightarrow> n = 0" using show_nat_digits [of n] by auto
  have z: "c = CHR ''0'' \<Longrightarrow> cs = []" using s d(3) by (simp add: show_nat.simps)
  have "takeWhile js_digit (c # cs) = c # cs" using d(1,2) by (simp add: list_all_iff)
  then have "c # cs = (if c = CHR ''0'' then [c] else takeWhile js_digit (c # cs))" using z by (cases "c = CHR ''0''") simp_all
  then show ?thesis using d(1) unfolding s
    using js_unsigned_intro [of "c # cs" c cs "c # cs" "[]" "[]" "[]" "[]"] by (auto simp: js_fraction_def js_exponent_def)
qed

lemma js_number_show_int: "js_number (show_int i) = Some (show_int i, [])"
proof -
  obtain c cs where c: "show_nat (nat i) = c # cs" "js_digit c" using show_nat_digits [of "nat i"] by (cases "show_nat (nat i)") auto
  then have "c \<noteq> CHR ''-''" by (auto simp: js_digit_def)
  then show ?thesis using c js_unsigned_show_nat [of "nat i"] js_unsigned_show_nat [of "nat (- i)"]
    by (auto simp: js_number_def show_int_def)
qed

text \<open>Values: what is read is the value with numbers as text, members sorted and strings repaired.\<close>

fun jnorm :: "jv \<Rightarrow> jv" where
  "jnorm (JInt i) = JFloat (show_int i)"
| "jnorm (JStr s) = JStr (utf8_repair s)"
| "jnorm (JArr xs) = JArr (map jnorm xs)"
| "jnorm (JObj kvs) = JObj (map (\<lambda>(k, v). (utf8_repair k, v)) (sort_key fst (map (\<lambda>(k, v). (k, jnorm v)) kvs)))"
| "jnorm v = v"

fun json_clean :: "jv \<Rightarrow> bool" where
  "json_clean (JFloat t) \<longleftrightarrow> js_number t = Some (t, [])"
| "json_clean (JBad t) \<longleftrightarrow> False"
| "json_clean (JArr xs) \<longleftrightarrow> list_all json_clean xs"
| "json_clean (JObj kvs) \<longleftrightarrow> list_all json_clean (map snd kvs)"
| "json_clean v \<longleftrightarrow> True"

fun jdepth :: "jv \<Rightarrow> nat" where
  "jdepth (JArr xs) = Suc (fold max (map jdepth xs) 0)"
| "jdepth (JObj kvs) = Suc (fold max (map (jdepth \<circ> snd) kvs) 0)"
| "jdepth v = 0"

lemma fold_max_ge: "x \<in> set ns \<Longrightarrow> x \<le> fold max ns (m :: nat)" "m \<le> fold max ns m"
proof (induction ns arbitrary: m)
  case (Cons n ns)
  { case 1 then show ?case using Cons [of "max n m"] by (auto intro: order_trans) }
  { case 2 then show ?case using Cons(2) [of "max n m"] by simp }
qed simp_all

lemma jrun_step: "jstep m st s = Some (m', st', s') \<Longrightarrow> (\<And>v. m = GotValue v \<Longrightarrow> st \<noteq> []) \<Longrightarrow> jrun m st s = jrun m' st' s'"
  by (subst jrun.simps) (auto split: jmode.splits list.splits)

lemma jstep_Cons: "\<not> is_ws c \<Longrightarrow> jstep WantValue st (c # cs) = js_value st c cs"
  by (simp add: jstep_def)

text \<open>Reading \<open>t\<close> where a value is wanted gives \<open>v\<close>, whatever follows.\<close>

definition reads_as :: "string \<Rightarrow> jv \<Rightarrow> nat \<Rightarrow> bool" where
  "reads_as t v d \<longleftrightarrow> t \<noteq> [] \<and> \<not> is_ws (hd t) \<and> hd t \<noteq> CHR '']'' \<and>
    (\<forall>st rest. int (length st + d) \<le> maxNestingDepth \<longrightarrow> stops rest \<longrightarrow>
       jrun WantValue st (t @ rest) = jrun (GotValue v) st rest)"

lemma reads_as_first: "reads_as t v d \<Longrightarrow> int (length st + d) \<le> maxNestingDepth \<Longrightarrow> stops rest \<Longrightarrow>
    jrun WantFirst st (t @ rest) = jrun (GotValue v) st rest"
proof -
  assume a: "reads_as t v d" "int (length st + d) \<le> maxNestingDepth" "stops rest"
  then obtain c cs where c: "t = c # cs" "\<not> is_ws c" "c \<noteq> CHR '']''" by (cases t) (auto simp: reads_as_def)
  have "jstep WantFirst st (t @ rest) = jstep WantValue st (t @ rest)" using c by (simp add: jstep_def)
  then have "jrun WantFirst st (t @ rest) = jrun WantValue st (t @ rest)" by (subst (1 2) jrun.simps) simp
  then show ?thesis using a by (simp add: reads_as_def)
qed

lemma stops_delims [simp]: "stops (CHR '','' # s)" "stops (CHR '']'' # s)" "stops (CHR ''}'' # s)" "stops []"
  by (simp_all add: stops_def js_digit_def)

lemma not_ws_delims [simp]: "\<not> is_ws (CHR '','')" "\<not> is_ws (CHR '']'')" "\<not> is_ws (CHR ''}'')" "\<not> is_ws (CHR ''['')" "\<not> is_ws (CHR ''{'')"
  "\<not> is_ws (CHR 0x22)" "\<not> is_ws (CHR '':'')" "\<not> is_ws (CHR ''t'')" "\<not> is_ws (CHR ''f'')" "\<not> is_ws (CHR ''n'')"
  by (simp_all add: is_ws_def)

lemma reads_literals: "reads_as ''null'' JNull d" "reads_as ''true'' (JBool True) d" "reads_as ''false'' (JBool False) d"
  by (auto simp: reads_as_def js_value_def js_literal_def jstep_Cons intro!: jrun_step)

lemma reads_string: "reads_as (json_string s) (JStr (utf8_repair s)) d"
  unfolding reads_as_def
proof (intro conjI allI impI)
  fix st rest
  have "jstep WantValue st (json_string s @ rest) = Some (GotValue (JStr (utf8_repair s)), st, rest)"
    using js_string_json_string [of s rest] by (subst json_string_Cons) (simp add: jstep_Cons js_value_def)
  then show "jrun WantValue st (json_string s @ rest) = jrun (GotValue (JStr (utf8_repair s))) st rest" by (rule jrun_step) simp
qed (simp_all add: json_string_def)

lemma reads_number: "js_number t = Some (t, []) \<Longrightarrow> reads_as t (JFloat t) d"
  unfolding reads_as_def
proof (intro conjI allI impI)
  assume a: "js_number t = Some (t, [])"
  then obtain c cs where c: "t = c # cs" "c = CHR ''-'' \<or> js_digit c"
    by (auto simp: js_number_def js_unsigned_def split: list.splits if_splits)
  then show "t \<noteq> []" "\<not> is_ws (hd t)" "hd t \<noteq> CHR '']''" by (auto simp: is_ws_def js_digit_def)
  fix st rest assume r: "stops rest"
  have "jstep WantValue st (t @ rest) = Some (GotValue (JFloat t), st, rest)"
  proof -
    have "c \<noteq> CHR ''{''" "c \<noteq> CHR ''[''" "c \<noteq> CHR 0x22" "c \<noteq> CHR ''t''" "c \<noteq> CHR ''f''" "c \<noteq> CHR ''n''" "\<not> is_ws c"
      using c(2) by (auto simp: js_digit_def is_ws_def)
    then show ?thesis using js_number_append [OF a r] by (simp add: c(1) jstep_Cons js_value_def)
  qed
  then show "jrun WantValue st (t @ rest) = jrun (GotValue (JFloat t)) st rest" by (rule jrun_step) simp
qed

lemma reads_elements:
  assumes "list_all2 (\<lambda>t v. reads_as t v d) ts vs" "ts \<noteq> []" "int (Suc (length st + d)) \<le> maxNestingDepth"
  shows "jrun WantValue (InArr acc # st) (commas ts @ CHR '']'' # rest) = jrun (GotValue (JArr (acc @ vs))) st rest"
  using assms
proof (induction ts arbitrary: vs acc rule: commas.induct)
  case (2 t)
  then obtain v where v: "vs = [v]" "reads_as t v d" by (auto simp: list_all2_Cons1)
  have "jrun WantValue (InArr acc # st) (t @ CHR '']'' # rest) = jrun (GotValue v) (InArr acc # st) (CHR '']'' # rest)"
    using v(2) 2(3) by (simp add: reads_as_def)
  also have "\<dots> = jrun (GotValue (JArr (acc @ [v]))) st rest" by (rule jrun_step) (simp_all add: jstep_def)
  finally show ?case using v(1) by simp
next
  case (3 t u ts)
  then obtain v vs' where v: "vs = v # vs'" "reads_as t v d" "list_all2 (\<lambda>t v. reads_as t v d) (u # ts) vs'"
    by (auto simp: list_all2_Cons1)
  have "jrun WantValue (InArr acc # st) (t @ CHR '','' # commas (u # ts) @ CHR '']'' # rest) =
      jrun (GotValue v) (InArr acc # st) (CHR '','' # commas (u # ts) @ CHR '']'' # rest)"
    using v(2) 3(4) by (simp add: reads_as_def)
  also have "\<dots> = jrun WantValue (InArr (acc @ [v]) # st) (commas (u # ts) @ CHR '']'' # rest)" by (rule jrun_step) (simp_all add: jstep_def)
  also have "\<dots> = jrun (GotValue (JArr (acc @ vs))) st rest" using 3(1) [OF v(3) _ 3(4)] v(1) by simp
  finally show ?case by simp
qed simp

lemma reads_array:
  assumes "list_all2 (\<lambda>t v. reads_as t v d) ts vs"
  shows "reads_as (''['' @ commas ts @ '']'') (JArr vs) (Suc d)"
  unfolding reads_as_def
proof (intro conjI allI impI)
  fix st :: "jframe list" and rest assume l: "int (length st + Suc d) \<le> maxNestingDepth"
  have "jrun WantValue st ((''['' @ commas ts @ '']'') @ rest) = jrun WantFirst (InArr [] # st) (commas ts @ CHR '']'' # rest)"
    by (rule jrun_step) (use l in \<open>simp_all add: jstep_def js_value_def open_frame_def\<close>)
  also have "\<dots> = jrun (GotValue (JArr vs)) st rest"
  proof (cases ts)
    case Nil
    then show ?thesis using assms by (intro jrun_step) (simp_all add: jstep_def)
  next
    case (Cons t us)
    then have ne: "commas ts \<noteq> []" "hd (commas ts) = hd t" "\<not> is_ws (hd t)" "hd t \<noteq> CHR '']''"
      using assms by (cases us; force simp: reads_as_def list_all2_Cons1)+
    have "jstep WantFirst (InArr [] # st) (commas ts @ CHR '']'' # rest) = jstep WantValue (InArr [] # st) (commas ts @ CHR '']'' # rest)"
      using ne by (cases "commas ts") (simp_all add: jstep_def)
    then have "jrun WantFirst (InArr [] # st) (commas ts @ CHR '']'' # rest) = jrun WantValue (InArr [] # st) (commas ts @ CHR '']'' # rest)"
      by (subst (1 2) jrun.simps) simp
    then show ?thesis using reads_elements [OF assms, of st "[]" rest] Cons l by simp
  qed
  finally show "jrun WantValue st ((''['' @ commas ts @ '']'') @ rest) = jrun (GotValue (JArr vs)) st rest" .
qed simp_all

lemma jstep_key:
  "jstep WantKey (AtKey acc # st) (json_string k @ CHR '':'' # rest) = Some (WantValue, AtVal acc (utf8_repair k) # st, rest)"
  "jstep WantFirstKey (AtKey acc # st) (json_string k @ CHR '':'' # rest) = Some (WantValue, AtVal acc (utf8_repair k) # st, rest)"
  using js_string_json_string [of k "CHR '':'' # rest"] by (subst json_string_Cons, simp add: jstep_def js_key_def)+

definition member_text :: "string \<times> string \<Rightarrow> string" where
  "member_text m = json_string (fst m) @ '':'' @ snd m"

lemma reads_members:
  assumes "list_all2 (\<lambda>m kv. fst kv = utf8_repair (fst m) \<and> reads_as (snd m) (snd kv) d) ms kvs" "ms \<noteq> []"
    "int (Suc (length st + d)) \<le> maxNestingDepth" "mode = WantKey \<or> mode = WantFirstKey"
  shows "jrun mode (AtKey acc # st) (commas (map member_text ms) @ CHR ''}'' # rest) = jrun (GotValue (JObj (acc @ kvs))) st rest"
  using assms
proof (induction ms arbitrary: kvs acc mode)
  case (Cons m ms)
  note ih = Cons.IH and depth = Cons.prems(3)
  obtain k t where m: "m = (k, t)" by (rule prod.exhaust)
  from Cons(2) m obtain v kvs' where v: "kvs = (utf8_repair k, v) # kvs'" "reads_as t v d"
    "list_all2 (\<lambda>m kv. fst kv = utf8_repair (fst m) \<and> reads_as (snd m) (snd kv) d) ms kvs'"
    by (auto simp: list_all2_Cons1)
  have key: "jrun mode (AtKey acc # st) (member_text m @ x) = jrun WantValue (AtVal acc (utf8_repair k) # st) (t @ x)" for x
    using Cons(5) jstep_key [of acc st k "t @ x"] by (intro jrun_step) (auto simp: member_text_def m)
  have val: "jrun WantValue (AtVal acc (utf8_repair k) # st) (t @ x) = jrun (GotValue v) (AtVal acc (utf8_repair k) # st) x" if "stops x" for x
    using v(2) Cons(4) that by (simp add: reads_as_def)
  show ?case
  proof (cases ms)
    case Nil
    have "jrun (GotValue v) (AtVal acc (utf8_repair k) # st) (CHR ''}'' # rest) = jrun (GotValue (JObj (acc @ [(utf8_repair k, v)]))) st rest"
      by (rule jrun_step) (simp_all add: jstep_def)
    then show ?thesis using Nil v key val by simp
  next
    case (Cons m' ms')
    have c: "commas (map member_text (m # ms)) = member_text m @ '','' @ commas (map member_text ms)" using Cons by simp
    have "jrun (GotValue v) (AtVal acc (utf8_repair k) # st) (CHR '','' # commas (map member_text ms) @ CHR ''}'' # rest) =
        jrun WantKey (AtKey (acc @ [(utf8_repair k, v)]) # st) (commas (map member_text ms) @ CHR ''}'' # rest)"
      by (rule jrun_step) (simp_all add: jstep_def)
    also have "\<dots> = jrun (GotValue (JObj (acc @ kvs))) st rest"
      using ih [OF v(3) _ depth, of WantKey "acc @ [(utf8_repair k, v)]"] Cons v(1) by simp
    finally show ?thesis unfolding c using key val by simp
  qed
qed simp

lemma reads_object:
  assumes "list_all2 (\<lambda>m kv. fst kv = utf8_repair (fst m) \<and> reads_as (snd m) (snd kv) d) ms kvs"
  shows "reads_as (''{'' @ commas (map member_text ms) @ ''}'') (JObj kvs) (Suc d)"
  unfolding reads_as_def
proof (intro conjI allI impI)
  fix st :: "jframe list" and rest assume l: "int (length st + Suc d) \<le> maxNestingDepth"
  have "jrun WantValue st ((''{'' @ commas (map member_text ms) @ ''}'') @ rest) =
      jrun WantFirstKey (AtKey [] # st) (commas (map member_text ms) @ CHR ''}'' # rest)"
    by (rule jrun_step) (use l in \<open>simp_all add: jstep_def js_value_def open_frame_def\<close>)
  also have "\<dots> = jrun (GotValue (JObj kvs)) st rest"
  proof (cases "ms = []")
    case True
    then show ?thesis using assms by (intro jrun_step) (simp_all add: jstep_def)
  next
    case False
    then show ?thesis using reads_members [OF assms False, of st WantFirstKey "[]" rest] l by simp
  qed
  finally show "jrun WantValue st ((''{'' @ commas (map member_text ms) @ ''}'') @ rest) = jrun (GotValue (JObj kvs)) st rest" .
qed simp_all

lemma reads_as_mono: "reads_as t v d \<Longrightarrow> d \<le> d' \<Longrightarrow> reads_as t v d'"
  by (fastforce simp: reads_as_def)

lemma insort_key_snd:
  "insort_key fst (k, f v) (map (\<lambda>(k, v). (k, f v)) xs) = map (\<lambda>(k, v). (k, f v)) (insort_key fst (k, v) xs)"
  by (induction xs) auto

lemma sort_key_snd: "sort_key fst (map (\<lambda>(k, v). (k, f v)) kvs) = map (\<lambda>(k, v). (k, f v)) (sort_key fst kvs)"
  by (induction kvs) (auto simp: insort_key_snd)

lemma those_map_Some: "(\<And>x. x \<in> set xs \<Longrightarrow> f x = Some (g x)) \<Longrightarrow> those (map f xs) = Some (map g xs)"
  by (induction xs) auto

lemma json_marshal_reads: "json_clean v \<Longrightarrow> \<exists>t. json_marshal v = Some t \<and> reads_as t (jnorm v) (jdepth v)"
proof (induction v rule: json_marshal.induct)
  case (6 xs)
  define f where "f x = the (json_marshal x)" for x
  define d where "d = fold max (map jdepth xs) 0"
  have e: "json_marshal x = Some (f x)" "reads_as (f x) (jnorm x) d" if "x \<in> set xs" for x
  proof -
    from 6 that obtain t where t: "json_marshal x = Some t" "reads_as t (jnorm x) (jdepth x)" by (auto simp: list_all_iff)
    moreover have "jdepth x \<le> d" unfolding d_def using that by (intro fold_max_ge) simp
    ultimately show "json_marshal x = Some (f x)" "reads_as (f x) (jnorm x) d" by (auto simp: f_def intro: reads_as_mono)
  qed
  then have "json_marshal (JArr xs) = Some (''['' @ commas (map f xs) @ '']'')" using those_map_Some [of xs json_marshal f] by simp
  moreover have "list_all2 (\<lambda>t v. reads_as t v d) (map f xs) (map jnorm xs)" using e(2) by (simp add: list_all2_conv_all_nth)
  ultimately show ?case using reads_array by (fastforce simp: d_def [symmetric])
next
  case (7 kvs)
  define f where "f x = the (json_marshal x)" for x
  define d where "d = fold max (map (jdepth \<circ> snd) kvs) 0"
  define S where "S = sort_key fst kvs"
  have e: "json_marshal x = Some (f x)" "reads_as (f x) (jnorm x) d" if "(k, x) \<in> set S" for k x
  proof -
    have m: "(k, x) \<in> set kvs" using that by (simp add: S_def)
    with 7 obtain t where t: "json_marshal x = Some t" "reads_as t (jnorm x) (jdepth x)" by (fastforce simp: list_all_iff)
    moreover have "jdepth x \<le> d" unfolding d_def using m by (intro fold_max_ge) force
    ultimately show "json_marshal x = Some (f x)" "reads_as (f x) (jnorm x) d" by (auto simp: f_def intro: reads_as_mono)
  qed
  define ms where "ms = map (\<lambda>(k, v). (k, f v)) S"
  have "those (map (\<lambda>(k, t). map_option (\<lambda>t. json_string k @ '':'' @ t) t) (map (\<lambda>(k, v). (k, json_marshal v)) S)) = Some (map member_text ms)"
    unfolding ms_def map_map by (rule those_map_Some) (auto simp: e(1) member_text_def)
  then have "json_marshal (JObj kvs) = Some (''{'' @ commas (map member_text ms) @ ''}'')" by (simp add: sort_key_snd S_def)
  moreover have "jnorm (JObj kvs) = JObj (map (\<lambda>(k, v). (utf8_repair k, jnorm v)) S)"
    by (simp add: sort_key_snd S_def comp_def case_prod_beta)
  moreover have "list_all2 (\<lambda>m kv. fst kv = utf8_repair (fst m) \<and> reads_as (snd m) (snd kv) d) ms (map (\<lambda>(k, v). (utf8_repair k, jnorm v)) S)"
    unfolding ms_def list_all2_map1 list_all2_map2 using e(2) by (auto simp: list.rel_refl_strong intro!: list.rel_refl_strong)
  ultimately show ?case using reads_object by (fastforce simp: d_def [symmetric])
qed (auto intro: reads_literals reads_string reads_number js_number_show_int)

text \<open>
  Every value the encoder accepts is read back: for any nesting of objects and arrays up to
  10000 deep the text \<open>json.Marshal\<close> writes is one \<open>json.Unmarshal\<close> accepts, and it yields the same value,
  with the members in the order of their names, numbers as their text and ill-formed UTF-8 in strings
  replaced. The same text at the start of a stream gives the same value to a decoder.
\<close>
lemma json_roundtrip:
  assumes "json_clean v" and "jdepth v \<le> 10000"
  shows "\<exists>t. json_marshal v = Some t \<and> json_unmarshal t = Some (jnorm v) \<and>
    (\<forall>rest. stops rest \<longrightarrow> json_decode (t @ rest) = Some (jnorm v))"
proof -
  from json_marshal_reads [OF assms(1)] obtain t where t: "json_marshal v = Some t" "reads_as t (jnorm v) (jdepth v)" by blast
  have "jrun WantValue [] (t @ rest) = Some (jnorm v, rest)" if "stops rest" for rest
  proof -
    have "jrun WantValue [] (t @ rest) = jrun (GotValue (jnorm v)) [] rest"
      using t(2) assms(2) that by (simp add: reads_as_def maxNestingDepth_def)
    then show ?thesis by (simp add: jrun.simps)
  qed
  from this [of "[]"] this show ?thesis using t(1) by (auto simp: json_unmarshal_def json_decode_def)
qed

lemma json_roundtrip_example:
  "\<exists>t. json_marshal (JObj [(''b'', JArr [JInt 3, JNull]), (''a'', JStr ''x'')]) = Some t \<and>
     json_unmarshal t = Some (jnorm (JObj [(''b'', JArr [JInt 3, JNull]), (''a'', JStr ''x'')]))"
  using json_roundtrip [of "JObj [(''b'', JArr [JInt 3, JNull]), (''a'', JStr ''x'')]"] by auto

end
