(* ===== verification/KaClient.thy ===== *)
theory KaClient
  imports Resilience Streaming JsonDecode
begin

text \<open>
  Package \<open>internal/ka\<close>: the REST client of the analysis service (\<open>rest_client.go\<close>) with its transport
  chain, the data it exchanges (\<open>config.go\<close>) and the client of its MCP endpoint (\<open>mcp_sdk_client.go\<close>).
  \<open>http.Client.Do\<close>, the parsing of a request URL and the sessions of the MCP library are parameters over
  a network state \<open>'n\<close>; the URL of a request is its \<open>rq_Path\<close>. The mock client of \<open>mcp_client.go\<close> is a
  test double and left out.
\<close>

section \<open>The text of an error\<close>

text \<open>
  \<open>Error()\<close>: the verbs of the format take the wrapped error or the next argument; \<open>quote\<close> is
  \<open>strconv.Quote\<close>, \<open>leaf\<close> the text of errors that are not built by \<open>fmt\<close>.
\<close>

fun fmt_text :: "(string \<Rightarrow> string) \<Rightarrow> string \<Rightarrow> string \<Rightarrow> string list \<Rightarrow> string" where
  "fmt_text quote wrapped [] as = []"
| "fmt_text quote wrapped [c] as = [c]"
| "fmt_text quote wrapped (c # d # f) as =
    (if c \<noteq> CHR ''%'' then c # fmt_text quote wrapped (d # f) as
     else if d = CHR ''%'' then c # fmt_text quote wrapped f as
     else if d = CHR ''w'' then wrapped @ fmt_text quote wrapped f as
     else (case as of [] \<Rightarrow> fmt_text quote wrapped f []
           | a # as \<Rightarrow> (if d = CHR ''q'' then quote a else a) @ fmt_text quote wrapped f as))"

fun err_text :: "(string \<Rightarrow> string) \<Rightarrow> (goerr \<Rightarrow> string) \<Rightarrow> goerr \<Rightarrow> string" where
  "err_text quote leaf (Errorf f as) = fmt_text quote [] f as"
| "err_text quote leaf (Wrapf f as e) = fmt_text quote (err_text quote leaf e) f as"
| "err_text quote leaf e = leaf e"

section \<open>Data\<close>

record ka_Config =
  kg_BaseURL :: string
  kg_MCPEndpoint :: string
  kg_Token :: string
  kg_Timeout :: duration
  kg_CBMaxRequests :: "32 word"
  kg_CBInterval :: duration
  kg_CBTimeout :: duration
  kg_CBFailureThreshold :: "32 word"
  kg_RetryMax :: int
  kg_RetryInitBackoff :: duration
  kg_RetryMaxBackoff :: duration
  kg_RetryableStatuses :: "int list"

record AnalyzeRequest =
  aq_Namespace :: string
  aq_Kind :: string
  aq_Name :: string

record SessionStatus =
  ss_SessionID :: string
  ss_Status :: string
  ss_Error :: string

record IncidentResponse =
  ir_SessionID :: string
  ir_Summary :: string

record ka_SelectWorkflowArgs =
  sw_RRID :: string
  sw_WorkflowID :: string
  sw_Kind :: string
  sw_Name :: string
  sw_Namespace :: string

record ka_SelectWorkflowResult =
  sr_Status :: string
  sr_Message :: string

record InvestigateArgs =
  ia_Namespace :: string
  ia_Kind :: string
  ia_Name :: string

record InvestigateResult =
  iv_SessionID :: string
  iv_Status :: string
  iv_Summary :: string

abbreviation "omitted k s \<equiv> (if s = [] then [] else [(k, JStr s)])"

definition analyze_fields :: "AnalyzeRequest \<Rightarrow> (string \<times> jv) list" where
  "analyze_fields r = omitted ''namespace'' (aq_Namespace r) @ omitted ''kind'' (aq_Kind r) @ omitted ''name'' (aq_Name r)"

text \<open>
  The status is a raw message: the last member for it, whatever its type. A string is taken as it
  is, \<open>null\<close> is the empty string, a number is taken as its text.
\<close>

definition status_text :: "jv list \<Rightarrow> string option" where
  "status_text raw = (if raw = [] then Some [] else (case last raw of
       JStr s \<Rightarrow> Some s | JNull \<Rightarrow> Some [] | JFloat t \<Rightarrow> Some t | _ \<Rightarrow> None))"

definition SessionStatus_UnmarshalJSON :: "jv \<Rightarrow> SessionStatus option" where
  "SessionStatus_UnmarshalJSON = dec_object (\<lambda>obj.
     case (dec_string ''session_id'' obj, dec_string ''error'' obj, status_text (members ''status'' obj)) of
       (Some sid, Some err, Some st) \<Rightarrow> Some \<lparr>ss_SessionID = sid, ss_Status = st, ss_Error = err\<rparr>
     | _ \<Rightarrow> None)"

definition dec_session_id :: "jv \<Rightarrow> string option" where
  "dec_session_id = dec_object (dec_string ''session_id'')"

definition dec_incident :: "jv \<Rightarrow> IncidentResponse option" where
  "dec_incident = dec_object (\<lambda>obj. case (dec_string ''session_id'' obj, dec_string ''summary'' obj) of
     (Some sid, Some s) \<Rightarrow> Some \<lparr>ir_SessionID = sid, ir_Summary = s\<rparr> | _ \<Rightarrow> None)"

definition dec_selected :: "jv \<Rightarrow> ka_SelectWorkflowResult option" where
  "dec_selected = dec_object (\<lambda>obj. case (dec_string ''status'' obj, dec_string ''message'' obj) of
     (Some st, Some m) \<Rightarrow> Some \<lparr>sr_Status = st, sr_Message = m\<rparr> | _ \<Rightarrow> None)"

definition dec_investigated :: "jv \<Rightarrow> InvestigateResult option" where
  "dec_investigated = dec_object (\<lambda>obj. case (dec_string ''session_id'' obj, dec_string ''status'' obj, dec_string ''summary'' obj) of
     (Some sid, Some st, Some s) \<Rightarrow> Some \<lparr>iv_SessionID = sid, iv_Status = st, iv_Summary = s\<rparr> | _ \<Rightarrow> None)"

section \<open>The transport chain\<close>

record ClientMetrics =
  kq_StateGauge :: bool
  kq_DurationHist :: bool
  kq_RetryCounter :: bool

abbreviation "metric sel m \<equiv> (case m of None \<Rightarrow> False | Some x \<Rightarrow> sel x)"
abbreviation "default_if_zero x d \<equiv> (if x = 0 then d else x)"

definition lift_transport ::
  "((HttpRequest \<Rightarrow> 'n \<Rightarrow> (goerr + HttpResponse) \<times> 'n) \<Rightarrow> HttpRequest \<Rightarrow> 'n \<Rightarrow> (goerr + HttpResponse) \<times> 'n) \<Rightarrow>
   (OutReq \<Rightarrow> 'n \<Rightarrow> (goerr + HttpResponse) \<times> 'n) \<Rightarrow> OutReq \<Rightarrow> 'n \<Rightarrow> (goerr + HttpResponse) \<times> 'n" where
  "lift_transport tr base q = tr (\<lambda>r. base (q\<lparr>oq_req := r\<rparr>)) (oq_req q)"

definition ka_base :: "string \<Rightarrow> 'n net \<Rightarrow> 'n net" where
  "ka_base token net =
    (let base = lift_transport requestid_RoundTrip (nt_next net) in
     net\<lparr>nt_next := (if token \<noteq> [] then lift_transport (JWTDelegation_RoundTrip token) base else base)\<rparr>)"

definition ka_retry :: "ka_Config \<Rightarrow> ClientMetrics option \<Rightarrow> RetryConfig" where
  "ka_retry cfg m = NewRetryTransport
     \<lparr>rt_MaxAttempts = wrap64 (kg_RetryMax cfg + 1), rt_InitialBackoff = kg_RetryInitBackoff cfg,
      rt_MaxBackoff = kg_RetryMaxBackoff cfg, rt_RetryableStatuses = kg_RetryableStatuses cfg,
      rt_RetryCounter = metric kq_RetryCounter m, rt_DependencyName = ''ka'', rt_IdempotentOnly = True\<rparr>"

definition ka_breaker :: "ka_Config \<Rightarrow> ClientMetrics option \<Rightarrow> CircuitBreakerTransport \<times> breaker_effect list" where
  "ka_breaker cfg m = NewCircuitBreakerTransport
     \<lparr>cb_Name = ''ka-rest'', cb_MaxRequests = default_if_zero (kg_CBMaxRequests cfg) 5,
      cb_Interval = default_if_zero (kg_CBInterval cfg) (60 * ns_second),
      cb_Timeout = default_if_zero (kg_CBTimeout cfg) (30 * ns_second),
      cb_FailureThreshold = default_if_zero (kg_CBFailureThreshold cfg) 5, cb_FailureStatuses = [],
      cb_StateGauge = metric kq_StateGauge m, cb_DurationHist = metric kq_DurationHist m, cb_DependencyName = ''ka'',
      cb_OnStateChange = False, cb_AuditFunc = False\<rparr>"

record ('b, 'n) ka_Client =
  kc_baseURL :: string
  kc_timeout :: duration
  kc_transport :: "OutReq \<Rightarrow> 'b \<Rightarrow> 'n \<Rightarrow> (goerr + HttpResponse) \<times> 'b \<times> 'n"

definition ka_NewClient ::
  "'n cb_env \<Rightarrow> ('b, 'n, HttpResponse) breaker_ops \<Rightarrow> 'n net \<Rightarrow> ka_Config \<Rightarrow> ClientMetrics option \<Rightarrow> ('b, 'n) ka_Client" where
  "ka_NewClient env ops net cfg m =
    \<lparr>kc_baseURL = kg_BaseURL cfg, kc_timeout = default_if_zero (kg_Timeout cfg) (30 * ns_second),
     kc_transport = CircuitBreaker_RoundTrip env ops (fst (ka_breaker cfg m)) (retry_rt (ka_base (kg_Token cfg) net) (ka_retry cfg m))\<rparr>"

definition ka_Healthy :: "('b, 'n, HttpResponse) breaker_ops \<Rightarrow> 'b \<Rightarrow> 'n \<Rightarrow> bool" where
  "ka_Healthy ops b n \<longleftrightarrow> \<not> bo_open ops b n"

section \<open>The operations\<close>

record 'n ka_io =
  ki_baseURL :: string
  ki_newreq :: "string \<Rightarrow> goerr option"
  ki_do :: "OutReq \<Rightarrow> 'n \<Rightarrow> (goerr + HttpResponse) \<times> 'n"
  ki_text :: "goerr \<Rightarrow> string"

definition out_request :: "string \<Rightarrow> string \<Rightarrow> Ctx \<Rightarrow> header \<Rightarrow> string option \<Rightarrow> OutReq" where
  "out_request method url ctx h body =
    \<lparr>oq_req = \<lparr>rq_Method = method, rq_Path = url, rq_Header = h, rq_RemoteAddr = [], rq_Ctx = ctx\<rparr>, oq_body = body,
     oq_getbody = map_option Inr body\<rparr>"

definition doJSON :: "'n ka_io \<Rightarrow> Ctx \<Rightarrow> string \<Rightarrow> string \<Rightarrow> (string \<times> jv) list option \<Rightarrow> 'n \<Rightarrow> (goerr + HttpResponse) \<times> 'n" where
  "doJSON io ctx method path body n =
    (case (case body of None \<Rightarrow> Inr None
           | Some fs \<Rightarrow> (case marshal_struct fs of None \<Rightarrow> Inl (Wrapf ''encoding request body: %w'' [] ErrJson)
               | Some t \<Rightarrow> Inr (Some (t @ [CHR 0x0A])))) of
       Inl e \<Rightarrow> (Inl e, n)
     | Inr bytes \<Rightarrow>
        (case ki_newreq io (ki_baseURL io @ path) of
           Some e \<Rightarrow> (Inl (Wrapf ''creating request: %w'' [] e), n)
         | None \<Rightarrow> ki_do io (out_request method (ki_baseURL io @ path) ctx (header_set ''Content-Type'' ''application/json'' (\<lambda>_. [])) bytes) n))"

definition doGet :: "'n ka_io \<Rightarrow> Ctx \<Rightarrow> string \<Rightarrow> 'n \<Rightarrow> (goerr + HttpResponse) \<times> 'n" where
  "doGet io ctx path n =
    (case ki_newreq io (ki_baseURL io @ path) of
       Some e \<Rightarrow> (Inl (Wrapf ''creating request: %w'' [] e), n)
     | None \<Rightarrow> ki_do io (out_request ''GET'' (ki_baseURL io @ path) ctx (\<lambda>_. []) None) n)"

definition ka_unavailable :: goerr where
  "ka_unavailable = Errorf (''investigation service temporarily unavailable '' @ em_dash @ '' please retry shortly'') []"
definition ka_denied :: goerr where
  "ka_denied = Errorf ''access denied: you do not have permission to perform this investigation'' []"
definition ka_notfound :: goerr where
  "ka_notfound = Errorf ''not found: the requested investigation session does not exist'' []"
definition ka_internal :: goerr where
  "ka_internal = Errorf (''internal error in investigation service '' @ em_dash @ '' please retry or contact support'') []"
definition ka_other :: goerr where
  "ka_other = Errorf (''investigation service error '' @ em_dash @ '' please retry or contact support'') []"

definition kaToUserFriendlyError :: "(goerr \<Rightarrow> string) \<Rightarrow> goerr \<Rightarrow> goerr" where
  "kaToUserFriendlyError txt err =
    (let msg = txt err; has = str_contains msg in
     if has ''connection refused'' \<or> has ''no such host'' \<or> has ''circuit breaker is open'' then ka_unavailable
     else if has ''returned 403'' \<or> has ''Forbidden'' then ka_denied
     else if has ''returned 404'' \<or> has ''Not Found'' then ka_notfound
     else if has ''returned 5'' \<or> has ''server error'' then ka_internal
     else ka_other)"

definition ka_Analyze :: "'n ka_io \<Rightarrow> Ctx \<Rightarrow> AnalyzeRequest \<Rightarrow> 'n \<Rightarrow> (goerr + string) \<times> 'n" where
  "ka_Analyze io ctx req n =
    (case doJSON io ctx ''POST'' ''/api/v1/incident/analyze'' (Some (analyze_fields req)) n of
       (Inl err, n) \<Rightarrow> (Inl (kaToUserFriendlyError (ki_text io) err), n)
     | (Inr resp, n) \<Rightarrow>
        (if rs_Status resp \<noteq> 202 \<and> rs_Status resp \<noteq> 200
         then Inl (kaToUserFriendlyError (ki_text io) (Errorf ''KA analyze returned %d'' [show_int (rs_Status resp)]))
         else (case decode_body dec_session_id (rs_Body resp) of
             Inl err \<Rightarrow> Inl (Wrapf ''decoding analyze response: %w'' [] err) | Inr sid \<Rightarrow> Inr sid), n))"

definition ka_Status :: "'n ka_io \<Rightarrow> Ctx \<Rightarrow> string \<Rightarrow> 'n \<Rightarrow> (goerr + SessionStatus) \<times> 'n" where
  "ka_Status io ctx sessionID n =
    (case doGet io ctx (''/api/v1/incident/session/'' @ sessionID) n of
       (Inl err, n) \<Rightarrow> (Inl (kaToUserFriendlyError (ki_text io) err), n)
     | (Inr resp, n) \<Rightarrow> (case decode_body SessionStatus_UnmarshalJSON (rs_Body resp) of
           Inl err \<Rightarrow> Inl (Wrapf ''decoding status response: %w'' [] err) | Inr st \<Rightarrow> Inr st, n))"

definition ka_Result :: "'n ka_io \<Rightarrow> Ctx \<Rightarrow> string \<Rightarrow> 'n \<Rightarrow> (goerr + IncidentResponse) \<times> 'n" where
  "ka_Result io ctx sessionID n =
    (case doGet io ctx (''/api/v1/incident/session/'' @ sessionID @ ''/result'') n of
       (Inl err, n) \<Rightarrow> (Inl (kaToUserFriendlyError (ki_text io) err), n)
     | (Inr resp, n) \<Rightarrow> (case decode_body dec_incident (rs_Body resp) of
           Inl err \<Rightarrow> Inl (Wrapf ''decoding result response: %w'' [] err) | Inr r \<Rightarrow> Inr r, n))"

definition ka_Cancel :: "'n ka_io \<Rightarrow> Ctx \<Rightarrow> string \<Rightarrow> 'n \<Rightarrow> goerr option \<times> 'n" where
  "ka_Cancel io ctx sessionID n =
    (case doJSON io ctx ''POST'' (''/api/v1/incident/session/'' @ sessionID @ ''/cancel'') None n of
       (Inl err, n) \<Rightarrow> (Some (kaToUserFriendlyError (ki_text io) err), n)
     | (Inr resp, n) \<Rightarrow> (if rs_Status resp \<ge> 400
         then Some (kaToUserFriendlyError (ki_text io) (Errorf ''KA cancel returned %d'' [show_int (rs_Status resp)])) else None, n))"

section \<open>The MCP endpoint\<close>

text \<open>One call: a session is opened, the tool is called, the session is closed.\<close>

datatype mcp_content = TextContent string | OtherContent

record mcp_result =
  mr_IsError :: bool
  mr_Content :: "mcp_content list"

record 'n mcp_io =
  mi_connect :: "string \<Rightarrow> Ctx \<Rightarrow> 'n \<Rightarrow> goerr option \<times> 'n"
  mi_call :: "string \<Rightarrow> (string \<times> jv) list \<Rightarrow> Ctx \<Rightarrow> 'n \<Rightarrow> (goerr + mcp_result) \<times> 'n"
  mi_close :: "'n \<Rightarrow> 'n"
  mi_text :: "goerr \<Rightarrow> string"

definition mcp_outcome :: "mcp_result \<Rightarrow> goerr + string" where
  "mcp_outcome result =
    (if mr_IsError result then
       Inl (Errorf ''kubernaut agent: %s'' [case mr_Content result of
           TextContent t # _ \<Rightarrow> RedactError (Some t) | _ \<Rightarrow> ''tool call returned error''])
     else Inr (case mr_Content result of TextContent t # _ \<Rightarrow> t | _ \<Rightarrow> ''{}''))"

definition callTool :: "'n mcp_io \<Rightarrow> string \<Rightarrow> string \<Rightarrow> (string \<times> jv) list \<Rightarrow> Ctx \<Rightarrow> 'n \<Rightarrow> (goerr + string) \<times> 'n" where
  "callTool io endpoint name args ctx n =
    (case mi_connect io endpoint ctx n of
       (Some err, n) \<Rightarrow> (Inl (kaToUserFriendlyError (mi_text io) (Wrapf ''MCP connect: %w'' [] err)), n)
     | (None, n) \<Rightarrow>
        (case mi_call io name args ctx n of
           (Inl err, n) \<Rightarrow> (Inl (kaToUserFriendlyError (mi_text io) (Wrapf ''MCP call %s: %w'' [name] err)), mi_close io n)
         | (Inr result, n) \<Rightarrow> (mcp_outcome result, mi_close io n)))"

definition mcp_SelectWorkflow :: "'n mcp_io \<Rightarrow> string \<Rightarrow> Ctx \<Rightarrow> ka_SelectWorkflowArgs \<Rightarrow> 'n \<Rightarrow> (goerr + ka_SelectWorkflowResult) \<times> 'n" where
  "mcp_SelectWorkflow io endpoint ctx args n =
    (case callTool io endpoint ''kubernaut_select_workflow'' [(''rr_id'', JStr (sw_RRID args)), (''workflow_id'', JStr (sw_WorkflowID args))] ctx n of
       (Inl err, n) \<Rightarrow> (Inl err, n)
     | (Inr body, n) \<Rightarrow> (case unmarshal_body dec_selected body of
           Inl err \<Rightarrow> Inl (Wrapf ''parse select_workflow response: %w'' [] err) | Inr r \<Rightarrow> Inr r, n))"

definition mcp_Investigate :: "'n mcp_io \<Rightarrow> string \<Rightarrow> Ctx \<Rightarrow> InvestigateArgs \<Rightarrow> 'n \<Rightarrow> (goerr + InvestigateResult) \<times> 'n" where
  "mcp_Investigate io endpoint ctx args n =
    (case callTool io endpoint ''kubernaut_investigate''
        [(''namespace'', JStr (ia_Namespace args)), (''kind'', JStr (ia_Kind args)), (''name'', JStr (ia_Name args))] ctx n of
       (Inl err, n) \<Rightarrow> (Inl err, n)
     | (Inr body, n) \<Rightarrow> (case unmarshal_body dec_investigated body of
           Inl err \<Rightarrow> Inl (Wrapf ''parse investigate response: %w'' [] err) | Inr r \<Rightarrow> Inr r, n))"

section \<open>Properties\<close>

definition ka_messages :: "goerr set" where
  "ka_messages = {ka_unavailable, ka_denied, ka_notfound, ka_internal, ka_other}"

lemma friendly_known: "kaToUserFriendlyError txt e \<in> ka_messages"
  by (simp add: kaToUserFriendlyError_def ka_messages_def Let_def)

lemma decode_body_Inl: "decode_body dec b = Inl e \<Longrightarrow> e = ErrJson"
  by (auto simp: decode_body_def split: option.splits)

lemma unmarshal_body_Inl: "unmarshal_body dec b = Inl e \<Longrightarrow> e = ErrJson"
  by (auto simp: unmarshal_body_def split: option.splits)

lemma decoded_error:
  "(case decode_body dec b of Inl err \<Rightarrow> Inl (Wrapf m [] err) | Inr x \<Rightarrow> Inr x) = Inl e \<Longrightarrow> e = Wrapf m [] ErrJson"
  using decode_body_Inl by (cases "decode_body dec b") fastforce+

lemma Analyze_error: "fst (ka_Analyze io ctx req n) = Inl e \<Longrightarrow> e \<in> ka_messages \<or> e = Wrapf ''decoding analyze response: %w'' [] ErrJson"
proof (cases "doJSON io ctx ''POST'' ''/api/v1/incident/analyze'' (Some (analyze_fields req)) n" rule: prod.exhaust)
  case (Pair r n')
  assume "fst (ka_Analyze io ctx req n) = Inl e"
  with Pair friendly_known decoded_error show ?thesis by (cases r) (fastforce simp: ka_Analyze_def split: if_splits)+
qed

lemma Status_error: "fst (ka_Status io ctx sid n) = Inl e \<Longrightarrow> e \<in> ka_messages \<or> e = Wrapf ''decoding status response: %w'' [] ErrJson"
proof (cases "doGet io ctx (''/api/v1/incident/session/'' @ sid) n" rule: prod.exhaust)
  case (Pair r n')
  assume "fst (ka_Status io ctx sid n) = Inl e"
  with Pair friendly_known decoded_error show ?thesis by (cases r) (fastforce simp: ka_Status_def)+
qed

lemma Result_error: "fst (ka_Result io ctx sid n) = Inl e \<Longrightarrow> e \<in> ka_messages \<or> e = Wrapf ''decoding result response: %w'' [] ErrJson"
proof (cases "doGet io ctx (''/api/v1/incident/session/'' @ sid @ ''/result'') n" rule: prod.exhaust)
  case (Pair r n')
  assume "fst (ka_Result io ctx sid n) = Inl e"
  with Pair friendly_known decoded_error show ?thesis by (cases r) (fastforce simp: ka_Result_def)+
qed

lemma Cancel_error: "fst (ka_Cancel io ctx sid n) = Some e \<Longrightarrow> e \<in> ka_messages"
proof (cases "doJSON io ctx ''POST'' (''/api/v1/incident/session/'' @ sid @ ''/cancel'') None n" rule: prod.exhaust)
  case (Pair r n')
  assume "fst (ka_Cancel io ctx sid n) = Some e"
  with Pair friendly_known show ?thesis by (cases r) (fastforce simp: ka_Cancel_def split: if_splits)+
qed


text \<open>A call through the MCP endpoint closes the session it opened, and passes on at most a redacted text.\<close>

lemma callTool_error:
  assumes "fst (callTool io endpoint name args ctx n) = Inl e"
  shows "e \<in> ka_messages \<or> (\<exists>t. e = Errorf ''kubernaut agent: %s'' [t] \<and> length t \<le> 259)"
proof -
  have "length (case cs of TextContent t # _ \<Rightarrow> RedactError (Some t) | _ \<Rightarrow> ''tool call returned error'') \<le> 259" for cs
    using RedactError_length by (auto split: list.splits mcp_content.splits)
  then show ?thesis using assms friendly_known
    by (auto simp: callTool_def mcp_outcome_def split: prod.splits option.splits sum.splits if_splits)
qed

text \<open>The other arguments of the selection are not sent.\<close>

lemma select_workflow_drops_target:
  "mcp_SelectWorkflow io endpoint ctx args n = mcp_SelectWorkflow io endpoint ctx (args\<lparr>sw_Kind := k, sw_Name := m, sw_Namespace := ns\<rparr>) n"
  by (simp add: mcp_SelectWorkflow_def)

lemma ka_base_counts: "counts_calls net calls \<Longrightarrow> counts_calls (ka_base token net) calls"
  by (simp add: counts_calls_def ka_base_def lift_transport_def requestid_RoundTrip_def JWTDelegation_RoundTrip_def Let_def)

lemma ka_transport_bound:
  assumes "breaker_law ops" "counts_calls net calls" "keeps_calls env calls"
    and "0 \<le> kg_RetryMax cfg" "kg_RetryMax cfg < 2 ^ 63 - 1"
    and "kc_transport (ka_NewClient env ops net cfg m) req b n = (r, b', n')"
  shows "calls n' \<le> calls n + (if isIdempotent (rq_Method (oq_req req)) then nat (kg_RetryMax cfg + 1) else 1)"
proof -
  define rc where "rc = \<lparr>rt_MaxAttempts = wrap64 (kg_RetryMax cfg + 1), rt_InitialBackoff = kg_RetryInitBackoff cfg,
      rt_MaxBackoff = kg_RetryMaxBackoff cfg, rt_RetryableStatuses = kg_RetryableStatuses cfg,
      rt_RetryCounter = metric kq_RetryCounter m, rt_DependencyName = ''ka'', rt_IdempotentOnly = True\<rparr>"
  have w: "max 1 (rt_MaxAttempts rc) = kg_RetryMax cfg + 1" using assms(4,5) by (simp add: rc_def wrap64_def)
  have run: "CircuitBreaker_RoundTrip env ops (fst (ka_breaker cfg m)) (retry_rt (ka_base (kg_Token cfg) net) (NewRetryTransport rc)) req b n = (r, b', n')"
    using assms(6) by (simp add: ka_NewClient_def ka_retry_def rc_def)
  have c: "\<not> isIdempotent (rq_Method (oq_req req)) \<Longrightarrow> \<not> can_replay rc req" by (simp add: can_replay_def rc_def)
  from CircuitBreaker_RoundTrip_cases [OF assms(1,3) run] show ?thesis
  proof (elim disjE exE conjE)
    fix x k assume "retry_rt (ka_base (kg_Token cfg) net) (NewRetryTransport rc) req n = (x, k)" and k: "calls n' = calls k"
    from retry_rt_bound [OF ka_base_counts [OF assms(2)] this(1)] k c w show ?thesis by auto
  qed (use assms(4) in auto)
qed

text \<open>
  The transport of the REST client never repeats a request that is not idempotent: a POST, which
  starts or cancels an investigation, reaches the service at most once whatever the configuration of
  retries is; any other request reaches it at most \<open>RetryMax + 1\<close> times.
\<close>
lemma ka_post_once:
  assumes "breaker_law ops" "counts_calls net calls" "keeps_calls env calls"
    and "0 \<le> kg_RetryMax cfg" "kg_RetryMax cfg < 2 ^ 63 - 1"
    and "kc_transport (ka_NewClient env ops net cfg m) req b n = (r, b', n')"
  shows "calls n' \<le> calls n + (if isIdempotent (rq_Method (oq_req req)) then nat (kg_RetryMax cfg + 1) else 1)"
  using assms by (rule ka_transport_bound)

definition demo_ka_cfg :: ka_Config where
  "demo_ka_cfg = \<lparr>kg_BaseURL = ''http://ka'', kg_MCPEndpoint = [], kg_Token = ''t'', kg_Timeout = 0, kg_CBMaxRequests = 0, kg_CBInterval = 0,
     kg_CBTimeout = 0, kg_CBFailureThreshold = 0, kg_RetryMax = 4, kg_RetryInitBackoff = 10, kg_RetryMaxBackoff = 20, kg_RetryableStatuses = [503]\<rparr>"

lemma ka_post_once_example:
  "fst (snd (snd (kc_transport (ka_NewClient plain_env trip3 flaky_net demo_ka_cfg None) (flaky_req ''POST'') 0 (0, [], [])))) \<le> 1"
proof -
  obtain r b' n' where e: "kc_transport (ka_NewClient plain_env trip3 flaky_net demo_ka_cfg None) (flaky_req ''POST'') 0 (0, [], []) = (r, b', n')"
    by (metis prod.exhaust)
  have h: "breaker_law trip3" "counts_calls flaky_net fst" "keeps_calls plain_env fst" "0 \<le> kg_RetryMax demo_ka_cfg" "kg_RetryMax demo_ka_cfg < 2 ^ 63 - 1"
    by (simp_all add: trip3_law flaky_counts keeps_calls_def plain_env_def demo_ka_cfg_def)
  from ka_post_once [OF h e] have "fst n' \<le> 1" by (simp add: flaky_req_def isIdempotent_def)
  then show ?thesis using e by simp
qed

section \<open>Answers are read\<close>

lemma status_names:
  "same_name ''session_id'' ''session_id''" "same_name ''status'' ''status''" "same_name ''error'' ''error''"
  "\<not> same_name ''session_id'' ''status''" "\<not> same_name ''session_id'' ''error''" "\<not> same_name ''status'' ''session_id''"
  "\<not> same_name ''status'' ''error''" "\<not> same_name ''error'' ''session_id''" "\<not> same_name ''error'' ''status''"
  "utf8_repair ''session_id'' = ''session_id''" "utf8_repair ''status'' = ''status''" "utf8_repair ''error'' = ''error''"
  by (simp_all add: same_name_def runes_ascii fold_rune_def utf8_repair_ascii)

lemma status_object_norm:
  "jnorm (JObj [(''session_id'', JStr sid), (''status'', v), (''error'', JStr er)]) =
    JObj [(''error'', JStr (utf8_repair er)), (''session_id'', JStr (utf8_repair sid)), (''status'', jnorm v)]"
  by (simp add: status_names)



end
