(* ===== verification/DsClient.thy ===== *)
theory DsClient
  imports AuditTrail
begin

text \<open>
  Package \<open>internal/ds\<close>: the interface of the data store (\<open>client.go\<close>) and its implementation over the
  generated client (\<open>ogen_client.go\<close>). The generated client is a parameter, one function per operation
  the adapter calls, with \<open>ogenx.ToError\<close> already applied to its answer; an answer of another type than
  the expected one carries the name of its type. The mock client is a test double and left out.
\<close>

section \<open>Data\<close>

record Workflow =
  dw_ID :: string
  dw_Name :: string
  dw_Description :: string
  dw_Kind :: string

record HistoryOpts =
  ho_Namespace :: string
  ho_Kind :: string
  ho_Name :: string
  ho_Since :: string

record ds_HistoricalRemediation =
  dh_ID :: string
  dh_Namespace :: string
  dh_Phase :: string
  dh_CreatedAt :: string
  dh_Workflow :: string

record EffectivenessOpts =
  eo_WorkflowID :: string
  eo_Namespace :: string

record EffectivenessReport =
  er_WorkflowID :: string
  er_SuccessRate :: f64
  er_AvgDuration :: string
  er_SampleSize :: int

record AuditTrailOpts =
  ao_RRID :: string
  ao_EventType :: string

record ds_AuditEvent =
  da_Timestamp :: string
  da_EventType :: string
  da_Actor :: string
  da_Detail :: string

text \<open>The interface \<open>ds.Client\<close>.\<close>

record 'n ds_Client =
  dk_ListWorkflows :: "string \<Rightarrow> 'n \<Rightarrow> (goerr + Workflow list) \<times> 'n"
  dk_GetRemediationHistory :: "HistoryOpts \<Rightarrow> 'n \<Rightarrow> (goerr + ds_HistoricalRemediation list) \<times> 'n"
  dk_GetEffectiveness :: "EffectivenessOpts \<Rightarrow> 'n \<Rightarrow> (goerr + EffectivenessReport) \<times> 'n"
  dk_GetAuditTrail :: "AuditTrailOpts \<Rightarrow> 'n \<Rightarrow> (goerr + ds_AuditEvent list) \<times> 'n"
  dk_WriteAuditEvents :: "Event list \<Rightarrow> 'n \<Rightarrow> goerr option \<times> 'n"

section \<open>The generated client\<close>

datatype 'a answer = Expected 'a | Unexpected string

record wf_entry =
  we_WorkflowName :: string
  we_ActionType :: string
  we_WorkflowId :: "string option"

record hist_entry =
  he_RemediationUID :: string
  he_Outcome :: "string option"
  he_CompletedAt :: gotime
  he_ActionType :: "string option"

record audit_entry =
  ae_EventTimestamp :: gotime
  ae_EventType :: string
  ae_ActorID :: "string option"
  ae_EventAction :: string

datatype EventCategory = CategoryGateway
datatype EventOutcome = OutcomeSuccess | OutcomeFailure

record AuditEventRequest =
  ar_Version :: string
  ar_EventType :: string
  ar_EventTimestamp :: gotime
  ar_EventCategory :: EventCategory
  ar_EventAction :: string
  ar_EventOutcome :: EventOutcome
  ar_ActorID :: "string option"
  ar_ActorType :: "string option"
  ar_CorrelationID :: string

record 'n ogen =
  og_ListWorkflows :: "string option \<Rightarrow> 'n \<Rightarrow> (goerr + wf_entry list answer) \<times> 'n"
  og_History :: "string \<Rightarrow> string \<Rightarrow> string \<Rightarrow> string option \<Rightarrow> 'n \<Rightarrow> (goerr + hist_entry list answer) \<times> 'n"
  og_Score :: "string \<Rightarrow> 'n \<Rightarrow> (goerr + f64 option option answer) \<times> 'n"
  og_QueryAudit :: "string option \<Rightarrow> string option \<Rightarrow> 'n \<Rightarrow> (goerr + audit_entry list) \<times> 'n"
  og_CreateBatch :: "AuditEventRequest list \<Rightarrow> 'n \<Rightarrow> goerr option \<times> 'n"
  og_format :: "gotime \<Rightarrow> string"

abbreviation "opt_string s \<equiv> (if s = [] then None else Some s)"
abbreviation "opt_value v \<equiv> (case v of None \<Rightarrow> [] | Some s \<Rightarrow> s)"

text \<open>\<open>NewOgenClient\<close> checks the address and fills in a timeout; \<open>mk\<close> is the constructor of the generated client.\<close>

definition NewOgenClient :: "(string \<Rightarrow> duration \<Rightarrow> goerr + 'c) \<Rightarrow> string \<Rightarrow> duration \<Rightarrow> goerr + 'c" where
  "NewOgenClient mk baseURL timeout =
    (if baseURL = [] then Inl (Errorf ''ds: baseURL cannot be empty'' [])
     else (case mk baseURL (if timeout \<le> 0 then 10 * ns_second else timeout) of
         Inl e \<Rightarrow> Inl (Wrapf ''ds: create ogen client: %w'' [] e) | Inr c \<Rightarrow> Inr c))"

definition expect :: "string \<Rightarrow> (goerr + 'a answer) \<times> 'n \<Rightarrow> ('a \<Rightarrow> 'b) \<Rightarrow> (goerr + 'b) \<times> 'n" where
  "expect what r f =
    (case r of
       (Inl e, n) \<Rightarrow> (Inl (Wrapf (''ds: '' @ what @ '': %w'') [] e), n)
     | (Inr (Unexpected ty), n) \<Rightarrow> (Inl (Errorf ''ds: unexpected response type %T'' [ty]), n)
     | (Inr (Expected x), n) \<Rightarrow> (Inr (f x), n))"

definition ogen_ListWorkflows :: "'n ogen \<Rightarrow> string \<Rightarrow> 'n \<Rightarrow> (goerr + Workflow list) \<times> 'n" where
  "ogen_ListWorkflows og kind n = expect ''list workflows'' (og_ListWorkflows og (opt_string kind) n)
     (map (\<lambda>w. \<lparr>dw_ID = opt_value (we_WorkflowId w), dw_Name = we_WorkflowName w, dw_Description = [], dw_Kind = we_ActionType w\<rparr>))"

definition ogen_GetRemediationHistory :: "'n ogen \<Rightarrow> HistoryOpts \<Rightarrow> 'n \<Rightarrow> (goerr + ds_HistoricalRemediation list) \<times> 'n" where
  "ogen_GetRemediationHistory og opts n = expect ''get remediation history''
     (og_History og (ho_Kind opts) (ho_Name opts) (ho_Namespace opts) (opt_string (ho_Since opts)) n)
     (map (\<lambda>r. \<lparr>dh_ID = he_RemediationUID r, dh_Namespace = ho_Namespace opts, dh_Phase = opt_value (he_Outcome r),
        dh_CreatedAt = og_format og (he_CompletedAt r), dh_Workflow = opt_value (he_ActionType r)\<rparr>))"

text \<open>The score is unset (\<open>None\<close>), null (\<open>Some None\<close>) or a number.\<close>

definition ogen_GetEffectiveness :: "'n ogen \<Rightarrow> EffectivenessOpts \<Rightarrow> 'n \<Rightarrow> (goerr + EffectivenessReport) \<times> 'n" where
  "ogen_GetEffectiveness og opts n = expect ''get effectiveness'' (og_Score og (eo_WorkflowID opts) n)
     (\<lambda>score. \<lparr>er_WorkflowID = eo_WorkflowID opts, er_SuccessRate = (case score of Some (Some x) \<Rightarrow> x | _ \<Rightarrow> Fin 0),
        er_AvgDuration = [], er_SampleSize = 0\<rparr>)"

definition ogen_GetAuditTrail :: "'n ogen \<Rightarrow> AuditTrailOpts \<Rightarrow> 'n \<Rightarrow> (goerr + ds_AuditEvent list) \<times> 'n" where
  "ogen_GetAuditTrail og opts n =
    (case og_QueryAudit og (opt_string (ao_RRID opts)) (opt_string (ao_EventType opts)) n of
       (Inl e, n) \<Rightarrow> (Inl (Wrapf ''ds: query audit events: %w'' [] e), n)
     | (Inr es, n) \<Rightarrow> (Inr (map (\<lambda>e. \<lparr>da_Timestamp = og_format og (ae_EventTimestamp e), da_EventType = ae_EventType e,
          da_Actor = opt_value (ae_ActorID e), da_Detail = ae_EventAction e\<rparr>) es), n))"

section \<open>Writing audit events\<close>

fun event_type_text :: "EventType \<Rightarrow> string" where
  "event_type_text EventAuthSuccess = ''auth.success''"
| "event_type_text EventAuthFailure = ''auth.failure''"
| "event_type_text EventRateLimitDenied = ''ratelimit.denied''"
| "event_type_text EventCircuitBreakerTrip = ''circuitbreaker.trip''"
| "event_type_text EventImpersonation = ''impersonation.created''"
| "event_type_text EventJWTDelegation = ''jwt.delegation''"
| "event_type_text EventSessionCreated = ''session.created''"
| "event_type_text EventSessionDeleted = ''session.deleted''"
| "event_type_text EventSessionPhaseChanged = ''session.phase_changed''"
| "event_type_text EventSessionAutoCancelled = ''session.auto_cancelled''"
| "event_type_text EventSessionRetentionDeleted = ''session.retention_deleted''"
| "event_type_text EventA2ATaskStarted = ''a2a.task_started''"
| "event_type_text EventA2ATaskCompleted = ''a2a.task_completed''"
| "event_type_text EventA2ATaskFailed = ''a2a.task_failed''"
| "event_type_text EventMCPToolInvoked = ''mcp.tool_invoked''"
| "event_type_text EventMCPToolDenied = ''mcp.tool_denied''"
| "event_type_text EventMCPToolFailed = ''mcp.tool_failed''"
| "event_type_text EventMCPSessionInit = ''mcp.session_init''"
| "event_type_text EventSeverityTriageCompleted = ''severity_triage.completed''"
| "event_type_text EventSeverityTriageFailed = ''severity_triage.failed''"
| "event_type_text EventConfigReloaded = ''config.reloaded''"
| "event_type_text EventConfigRejected = ''config.rejected''"
| "event_type_text EventRBACDenied = ''rbac.denied''"
| "event_type_text EventToolInvoked = ''tool.invoked''"

definition eventOutcome :: "EventType \<Rightarrow> EventOutcome" where
  "eventOutcome t = (if t \<in> {EventAuthFailure, EventA2ATaskFailed, EventRateLimitDenied, EventCircuitBreakerTrip,
       EventConfigRejected, EventSessionAutoCancelled, EventRBACDenied} then OutcomeFailure else OutcomeSuccess)"

definition detailValue :: "detail \<Rightarrow> string \<Rightarrow> string \<Rightarrow> string" where
  "detailValue d key fallback = (case Option.bind d (\<lambda>m. map_of m key) of Some v \<Rightarrow> if v \<noteq> [] then v else fallback | None \<Rightarrow> fallback)"

definition audit_request :: "Event \<Rightarrow> AuditEventRequest" where
  "audit_request evt =
    \<lparr>ar_Version = ''1.0'', ar_EventType = event_type_text (ev_Type evt), ar_EventTimestamp = ev_Timestamp evt, ar_EventCategory = CategoryGateway,
     ar_EventAction = detailValue (ev_Detail evt) ''action'' (event_type_text (ev_Type evt)), ar_EventOutcome = eventOutcome (ev_Type evt),
     ar_ActorID = opt_string (ev_UserID evt), ar_ActorType = (if ev_UserID evt \<noteq> [] then Some ''user'' else None),
     ar_CorrelationID = ev_RequestID evt\<rparr>"

definition ogen_WriteAuditEvents :: "'n ogen \<Rightarrow> Event list \<Rightarrow> 'n \<Rightarrow> goerr option \<times> 'n" where
  "ogen_WriteAuditEvents og events n =
    (if events = [] then (None, n)
     else (case og_CreateBatch og (map audit_request events) n of
         (Some e, n) \<Rightarrow> (Some (Wrapf ''ds: write audit events batch: %w'' [] e), n) | (None, n) \<Rightarrow> (None, n)))"

definition OgenClient :: "'n ogen \<Rightarrow> 'n ds_Client" where
  "OgenClient og = \<lparr>dk_ListWorkflows = ogen_ListWorkflows og, dk_GetRemediationHistory = ogen_GetRemediationHistory og,
     dk_GetEffectiveness = ogen_GetEffectiveness og, dk_GetAuditTrail = ogen_GetAuditTrail og,
     dk_WriteAuditEvents = ogen_WriteAuditEvents og\<rparr>"

section \<open>What the store learns\<close>

definition event_types :: "EventType list" where
  "event_types = [EventAuthSuccess, EventAuthFailure, EventRateLimitDenied, EventCircuitBreakerTrip, EventImpersonation, EventJWTDelegation,
     EventSessionCreated, EventSessionDeleted, EventSessionPhaseChanged, EventSessionAutoCancelled, EventSessionRetentionDeleted,
     EventA2ATaskStarted, EventA2ATaskCompleted, EventA2ATaskFailed, EventMCPToolInvoked, EventMCPToolDenied, EventMCPToolFailed,
     EventMCPSessionInit, EventSeverityTriageCompleted, EventSeverityTriageFailed, EventConfigReloaded, EventConfigRejected,
     EventRBACDenied, EventToolInvoked]"

lemma event_types_all: "t \<in> set event_types"
  by (cases t) (simp_all add: event_types_def)

lemma event_texts_distinct: "distinct (map event_type_text event_types)"
  by code_simp

lemma event_type_text_inj: "event_type_text a = event_type_text b \<Longrightarrow> a = b"
  using event_texts_distinct event_types_all by (metis distinct_map inj_onD)

definition event_key :: "Event \<Rightarrow> EventType \<times> gotime \<times> string \<times> string" where
  "event_key e = (ev_Type e, ev_Timestamp e, ev_UserID e, ev_RequestID e)"

lemma audit_request_key: "audit_request a = audit_request b \<Longrightarrow> event_key a = event_key b"
proof -
  assume eq: "audit_request a = audit_request b"
  have "opt_string (ev_UserID a) = opt_string (ev_UserID b)" using arg_cong [OF eq, of ar_ActorID] by (simp add: audit_request_def)
  then have "ev_UserID a = ev_UserID b" by (simp split: if_splits)
  moreover have "ev_Type a = ev_Type b" using arg_cong [OF eq, of ar_EventType] event_type_text_inj by (simp add: audit_request_def)
  moreover have "ev_Timestamp a = ev_Timestamp b" using arg_cong [OF eq, of ar_EventTimestamp] by (simp add: audit_request_def)
  moreover have "ev_RequestID a = ev_RequestID b" using arg_cong [OF eq, of ar_CorrelationID] by (simp add: audit_request_def)
  ultimately show ?thesis by (simp add: event_key_def)
qed

lemma map_determined: "(\<And>a b. f a = f b \<Longrightarrow> g a = g b) \<Longrightarrow> map f xs = map f ys \<Longrightarrow> map g xs = map g ys"
proof (induction xs arbitrary: ys)
  case (Cons x xs)
  from Cons.prems(2) obtain y zs where y: "ys = y # zs" "f x = f y" "map f xs = map f zs" by (cases ys) auto
  then show ?case using Cons.prems(1) [OF y(2)] Cons.IH [OF Cons.prems(1) y(3)] by simp
qed simp


definition silent_ogen :: "AuditEventRequest list ogen" where
  "silent_ogen = \<lparr>og_ListWorkflows = (\<lambda>k n. (Inr (Expected []), n)), og_History = (\<lambda>a b c d n. (Inr (Expected []), n)),
     og_Score = (\<lambda>w n. (Inr (Expected None), n)), og_QueryAudit = (\<lambda>a b n. (Inr [], n)),
     og_CreateBatch = (\<lambda>b n. (None, n @ b)), og_format = (\<lambda>t. [])\<rparr>"


text \<open>Of the details only the action is sent, and the source address is not.\<close>

lemma audit_details_dropped:
  "k \<noteq> ''action'' \<Longrightarrow> audit_request (e\<lparr>ev_Detail := Some ((k, v) # m), ev_SourceIP := ip\<rparr>) = audit_request (e\<lparr>ev_Detail := Some m\<rparr>)"
  by (simp add: audit_request_def detailValue_def)

text \<open>Refused and failed tool calls and failed triages are recorded as successes.\<close>

lemma failures_recorded_as_success:
  "eventOutcome EventMCPToolDenied = OutcomeSuccess" "eventOutcome EventMCPToolFailed = OutcomeSuccess"
  "eventOutcome EventSeverityTriageFailed = OutcomeSuccess"
  by (simp_all add: eventOutcome_def)

end
