(* ===== verification/ServiceTools.thy ===== *)
theory ServiceTools
  imports ClusterTools KaClient DsClient
begin

text \<open>
  The tools over the analysis service and the data store: \<open>internal/tools/ka_tools.go\<close> and
  \<open>internal/tools/ds_tools.go\<close>. The REST client of the analysis service is its request interface
  \<open>ka_io\<close>; the MCP client is a function that may be absent; the data store is the interface
  \<open>ds_Client\<close>. Waiting between two polls is a parameter that gives the context's error when the
  context ends first.
\<close>

text \<open>A call on a nil client panics.\<close>

definition deref :: "'c option \<Rightarrow> ('c \<Rightarrow> 'n \<Rightarrow> (goerr + 'r) \<times> 'n) \<Rightarrow> 'n \<Rightarrow> (goerr + 'r) \<times> 'n" where
  "deref client f n = (case client of None \<Rightarrow> (Inl (Panicked ''nil pointer dereference''), n) | Some c \<Rightarrow> f c n)"

section \<open>Investigations\<close>

record StartInvestigationArgs =
  sa_Namespace :: string
  sa_Name :: string
  sa_Kind :: string

record StartInvestigationResult =
  st_SessionID :: string
  st_Status :: string
  st_Message :: string

definition HandleStartInvestigation ::
  "'n ka_io \<Rightarrow> Ctx \<Rightarrow> StartInvestigationArgs \<Rightarrow> 'n \<Rightarrow> (goerr + StartInvestigationResult) \<times> 'n" where
  "HandleStartInvestigation io ctx args n =
    (case ka_Analyze io ctx \<lparr>aq_Namespace = sa_Namespace args, aq_Kind = sa_Kind args, aq_Name = sa_Name args\<rparr> n of
       (Inl err, n) \<Rightarrow> (Inl (Wrapf ''starting investigation: %w'' [] err), n)
     | (Inr sid, n) \<Rightarrow> (Inr \<lparr>st_SessionID = sid, st_Status = ''started'',
          st_Message = ''Investigation started for '' @ sa_Namespace args @ ''/'' @ sa_Name args @ '' (session: '' @ sid @ '')''\<rparr>, n))"

definition NewStartInvestigationTool ::
  "'n ka_io option \<Rightarrow> (StartInvestigationArgs \<Rightarrow> 'n \<Rightarrow> (goerr + StartInvestigationResult) \<times> 'n) function_tool" where
  "NewStartInvestigationTool io = \<lparr>ft_Name = ''kubernaut_start_investigation'',
     ft_Description = ''Start an AI-powered investigation for an incident, returning a session ID for tracking'', ft_IsLongRunning = False,
     ft_Run = (\<lambda>ctx args. deref io (\<lambda>io. HandleStartInvestigation io ctx args))\<rparr>"

record PollInvestigationResult =
  pr_Status :: string
  pr_Progress :: string
  pr_Summary :: string
  pr_PollCount :: int

text \<open>One poll: an answer (an error or a final result), or \<open>None\<close> when the investigation still runs.\<close>

definition poll_once :: "'n ka_io \<Rightarrow> Ctx \<Rightarrow> string \<Rightarrow> int \<Rightarrow> 'n \<Rightarrow> (goerr + PollInvestigationResult) option \<times> 'n" where
  "poll_once io ctx sid i n =
    (case ka_Status io ctx sid n of
       (Inl err, n) \<Rightarrow> (Some (Inl (Wrapf ''polling investigation: %w'' [] err)), n)
     | (Inr status, n) \<Rightarrow>
        (if ss_Status status = ''completed'' then
           (case ka_Result io ctx sid n of
              (Inl err, n) \<Rightarrow> (Some (Inl (Wrapf ''fetching investigation result: %w'' [] err)), n)
            | (Inr result, n) \<Rightarrow> (Some (Inr \<lparr>pr_Status = ''completed'', pr_Progress = [], pr_Summary = ir_Summary result, pr_PollCount = i\<rparr>), n))
         else if ss_Status status = ''failed'' then
           (Some (Inr \<lparr>pr_Status = ''failed'', pr_Progress = ''Investigation failed. Please try again or contact support.'',
              pr_Summary = [], pr_PollCount = i\<rparr>), n)
         else if ss_Status status = ''cancelled'' then
           (Some (Inr \<lparr>pr_Status = ''cancelled'', pr_Progress = [], pr_Summary = [], pr_PollCount = i\<rparr>), n)
         else (None, n)))"

text \<open>The loop of \<open>HandlePollInvestigation\<close>, from poll \<open>i\<close> on.\<close>

function poll_loop :: "'n ka_io \<Rightarrow> (duration \<Rightarrow> 'n \<Rightarrow> goerr option \<times> 'n) \<Rightarrow> Ctx \<Rightarrow> string \<Rightarrow> int \<Rightarrow> duration \<Rightarrow> int \<Rightarrow> 'n \<Rightarrow>
    (goerr + PollInvestigationResult) \<times> 'n" where
  "poll_loop io wait ctx sid maxPolls interval i n =
    (if i \<le> maxPolls then
       (case poll_once io ctx sid i n of
          (Some r, n) \<Rightarrow> (r, n)
        | (None, n) \<Rightarrow>
           (if i < maxPolls then
              (case wait interval n of
                 (Some err, n) \<Rightarrow> (Inl err, n)
               | (None, n) \<Rightarrow> poll_loop io wait ctx sid maxPolls interval (i + 1) n)
            else poll_loop io wait ctx sid maxPolls interval (i + 1) n))
     else (Inr \<lparr>pr_Status = ''in_progress'', pr_Progress = ''Investigation is still running. Call kubernaut_poll_investigation again.'',
             pr_Summary = [], pr_PollCount = maxPolls\<rparr>, n))"
  by pat_completeness auto
termination by (relation "measure (\<lambda>(io, wait, ctx, sid, maxPolls, interval, i, n). nat (maxPolls + 1 - i))") auto

declare poll_loop.simps [simp del]

definition HandlePollInvestigation ::
  "'n ka_io \<Rightarrow> (duration \<Rightarrow> 'n \<Rightarrow> goerr option \<times> 'n) \<Rightarrow> Ctx \<Rightarrow> string \<Rightarrow> int \<Rightarrow> duration \<Rightarrow> 'n \<Rightarrow>
    (goerr + PollInvestigationResult) \<times> 'n" where
  "HandlePollInvestigation io wait ctx sid maxPolls interval n = poll_loop io wait ctx sid maxPolls interval 1 n"

definition NewPollInvestigationTool ::
  "'n ka_io option \<Rightarrow> (duration \<Rightarrow> 'n \<Rightarrow> goerr option \<times> 'n) \<Rightarrow> (string \<Rightarrow> 'n \<Rightarrow> (goerr + PollInvestigationResult) \<times> 'n) function_tool" where
  "NewPollInvestigationTool io wait = \<lparr>ft_Name = ''kubernaut_poll_investigation'',
     ft_Description = ''Check investigation progress. Blocks for up to 15 seconds polling every 3 seconds. Re-call if status is in_progress.'',
     ft_IsLongRunning = False, ft_Run = (\<lambda>ctx sid. deref io (\<lambda>io. HandlePollInvestigation io wait ctx sid 5 (3 * ns_second)))\<rparr>"

section \<open>Workflow selection and presentation\<close>

text \<open>The tool's arguments and result have the fields of the client's.\<close>

type_synonym 'n select_client = "Ctx \<Rightarrow> ka_SelectWorkflowArgs \<Rightarrow> 'n \<Rightarrow> (goerr + ka_SelectWorkflowResult) \<times> 'n"

definition HandleSelectWorkflow ::
  "'n select_client option \<Rightarrow> Ctx \<Rightarrow> ka_SelectWorkflowArgs \<Rightarrow> 'n \<Rightarrow> (goerr + ka_SelectWorkflowResult) \<times> 'n" where
  "HandleSelectWorkflow mcpClient ctx args n =
    (case mcpClient of
       None \<Rightarrow> (Inl (Errorf ''workflow selection is not available: MCP client not configured'' []), n)
     | Some select \<Rightarrow>
        (case select ctx \<lparr>sw_RRID = sw_RRID args, sw_WorkflowID = sw_WorkflowID args, sw_Kind = sw_Kind args, sw_Name = sw_Name args,
             sw_Namespace = sw_Namespace args\<rparr> n of
           (Inl err, n) \<Rightarrow> (Inl (Wrapf ''selecting workflow: %w'' [] err), n)
         | (Inr result, n) \<Rightarrow> (Inr \<lparr>sr_Status = sr_Status result, sr_Message = sr_Message result\<rparr>, n)))"

definition NewSelectWorkflowTool ::
  "'n select_client option \<Rightarrow> (ka_SelectWorkflowArgs \<Rightarrow> 'n \<Rightarrow> (goerr + ka_SelectWorkflowResult) \<times> 'n) function_tool" where
  "NewSelectWorkflowTool mcpClient = \<lparr>ft_Name = ''kubernaut_select_workflow'',
     ft_Description = ''Select a remediation workflow for execution. Triggers enrichment and workflow selection in the backend.'',
     ft_IsLongRunning = False, ft_Run = (\<lambda>ctx args. HandleSelectWorkflow mcpClient ctx args)\<rparr>"

record WorkflowOption =
  wo_WorkflowID :: string
  wo_Name :: string
  wo_Description :: string
  wo_Risk :: string

record PresentDecisionArgs =
  pd_SessionID :: string
  pd_Summary :: string
  pd_Options :: "WorkflowOption list"

record PresentDecisionResult =
  pt_Presented :: bool
  pt_Message :: string

fun option_lines :: "int \<Rightarrow> WorkflowOption list \<Rightarrow> string" where
  "option_lines i [] = []"
| "option_lines i (w # ws) =
    CHR 0x0A # ''  '' @ show_int (i + 1) @ ''. '' @ wo_Name w @ (if wo_Description w \<noteq> [] then '' - '' @ wo_Description w else []) @
    option_lines (i + 1) ws"

definition HandlePresentDecision :: "PresentDecisionArgs \<Rightarrow> PresentDecisionResult" where
  "HandlePresentDecision args =
    \<lparr>pt_Presented = True,
     pt_Message = ''Investigation complete.'' @ [CHR 0x0A, CHR 0x0A] @ ''Summary: '' @ pd_Summary args @ [CHR 0x0A, CHR 0x0A] @ ''Available actions:'' @
       option_lines 0 (pd_Options args)\<rparr>"

definition NewPresentDecisionTool :: "(PresentDecisionArgs \<Rightarrow> goerr + PresentDecisionResult) function_tool" where
  "NewPresentDecisionTool = \<lparr>ft_Name = ''present_decision'',
     ft_Description = ''Present investigation results and remediation options to the user for a decision'', ft_IsLongRunning = True,
     ft_Run = (\<lambda>ctx args. Inr (HandlePresentDecision args))\<rparr>"

section \<open>The data store\<close>

definition HandleListWorkflows :: "'n ds_Client \<Rightarrow> string \<Rightarrow> 'n \<Rightarrow> (goerr + Workflow list \<times> nat) \<times> 'n" where
  "HandleListWorkflows client kind n =
    (case dk_ListWorkflows client kind n of
       (Inl err, n) \<Rightarrow> (Inl (Wrapf ''querying workflow catalog: %w'' [] err), n)
     | (Inr workflows, n) \<Rightarrow>
        (let summaries = map (\<lambda>w. \<lparr>dw_ID = dw_ID w, dw_Name = dw_Name w, dw_Description = dw_Description w, dw_Kind = dw_Kind w\<rparr>) workflows
         in (Inr (summaries, length summaries), n)))"

definition NewListWorkflowsTool :: "'n ds_Client option \<Rightarrow> (string \<Rightarrow> 'n \<Rightarrow> (goerr + Workflow list \<times> nat) \<times> 'n) function_tool" where
  "NewListWorkflowsTool client = \<lparr>ft_Name = ''kubernaut_list_workflows'',
     ft_Description = ''List available remediation workflows from the catalog, optionally filtered by resource kind'', ft_IsLongRunning = False,
     ft_Run = (\<lambda>ctx kind. deref client (\<lambda>c. HandleListWorkflows c kind))\<rparr>"

definition HandleGetRemediationHistory ::
  "'n ds_Client \<Rightarrow> HistoryOpts \<Rightarrow> 'n \<Rightarrow> (goerr + ds_HistoricalRemediation list \<times> nat) \<times> 'n" where
  "HandleGetRemediationHistory client args n =
    (case dk_GetRemediationHistory client \<lparr>ho_Namespace = ho_Namespace args, ho_Kind = ho_Kind args, ho_Name = ho_Name args, ho_Since = ho_Since args\<rparr> n of
       (Inl err, n) \<Rightarrow> (Inl (Wrapf ''querying remediation history: %w'' [] err), n)
     | (Inr history, n) \<Rightarrow>
        (let items = map (\<lambda>h. \<lparr>dh_ID = dh_ID h, dh_Namespace = dh_Namespace h, dh_Phase = dh_Phase h, dh_CreatedAt = dh_CreatedAt h,
               dh_Workflow = dh_Workflow h\<rparr>) history
         in (Inr (items, length items), n)))"

definition NewGetRemediationHistoryTool ::
  "'n ds_Client option \<Rightarrow> (HistoryOpts \<Rightarrow> 'n \<Rightarrow> (goerr + ds_HistoricalRemediation list \<times> nat) \<times> 'n) function_tool" where
  "NewGetRemediationHistoryTool client = \<lparr>ft_Name = ''kubernaut_get_remediation_history'',
     ft_Description = ''Query historical remediations from the Data Store with optional filtering'', ft_IsLongRunning = False,
     ft_Run = (\<lambda>ctx args. deref client (\<lambda>c. HandleGetRemediationHistory c args))\<rparr>"

definition HandleGetEffectiveness :: "'n ds_Client \<Rightarrow> EffectivenessOpts \<Rightarrow> 'n \<Rightarrow> (goerr + EffectivenessReport) \<times> 'n" where
  "HandleGetEffectiveness client args n =
    (case dk_GetEffectiveness client \<lparr>eo_WorkflowID = eo_WorkflowID args, eo_Namespace = eo_Namespace args\<rparr> n of
       (Inl err, n) \<Rightarrow> (Inl (Wrapf ''querying effectiveness: %w'' [] err), n)
     | (Inr report, n) \<Rightarrow> (Inr \<lparr>er_WorkflowID = er_WorkflowID report, er_SuccessRate = er_SuccessRate report,
          er_AvgDuration = er_AvgDuration report, er_SampleSize = er_SampleSize report\<rparr>, n))"

definition NewGetEffectivenessTool :: "'n ds_Client option \<Rightarrow> (EffectivenessOpts \<Rightarrow> 'n \<Rightarrow> (goerr + EffectivenessReport) \<times> 'n) function_tool" where
  "NewGetEffectivenessTool client = \<lparr>ft_Name = ''kubernaut_get_effectiveness'',
     ft_Description = ''Get effectiveness scores and metrics for remediation workflows'', ft_IsLongRunning = False,
     ft_Run = (\<lambda>ctx args. deref client (\<lambda>c. HandleGetEffectiveness c args))\<rparr>"

definition HandleGetAuditTrail :: "'n ds_Client \<Rightarrow> AuditTrailOpts \<Rightarrow> 'n \<Rightarrow> (goerr + ds_AuditEvent list \<times> nat) \<times> 'n" where
  "HandleGetAuditTrail client args n =
    (case dk_GetAuditTrail client \<lparr>ao_RRID = ao_RRID args, ao_EventType = ao_EventType args\<rparr> n of
       (Inl err, n) \<Rightarrow> (Inl (Wrapf ''querying audit trail: %w'' [] err), n)
     | (Inr events, n) \<Rightarrow>
        (let items = map (\<lambda>e. \<lparr>da_Timestamp = da_Timestamp e, da_EventType = da_EventType e, da_Actor = da_Actor e, da_Detail = da_Detail e\<rparr>) events
         in (Inr (items, length items), n)))"

definition NewGetAuditTrailTool :: "'n ds_Client option \<Rightarrow> (AuditTrailOpts \<Rightarrow> 'n \<Rightarrow> (goerr + ds_AuditEvent list \<times> nat) \<times> 'n) function_tool" where
  "NewGetAuditTrailTool client = \<lparr>ft_Name = ''kubernaut_get_audit_trail'',
     ft_Description = ''Retrieve the audit trail for a remediation, showing all actions and decisions'', ft_IsLongRunning = False,
     ft_Run = (\<lambda>ctx args. deref client (\<lambda>c. HandleGetAuditTrail c args))\<rparr>"

section \<open>Polling\<close>

text \<open>\<open>reqs\<close> counts the requests to the analysis service and \<open>waited\<close> the time spent waiting.\<close>

definition poll_meters :: "'n ka_io \<Rightarrow> (duration \<Rightarrow> 'n \<Rightarrow> goerr option \<times> 'n) \<Rightarrow> ('n \<Rightarrow> int) \<Rightarrow> ('n \<Rightarrow> int) \<Rightarrow> bool" where
  "poll_meters io wait reqs waited \<longleftrightarrow>
     (\<forall>q n. reqs (snd (ki_do io q n)) = reqs n + 1 \<and> waited (snd (ki_do io q n)) = waited n) \<and>
     (\<forall>d n. reqs (snd (wait d n)) = reqs n \<and> waited (snd (wait d n)) \<le> waited n + d)"

lemma doGet_meters:
  assumes "poll_meters io wait reqs waited" "doGet io ctx path n = (r, n')"
  shows "reqs n' \<le> reqs n + 1 \<and> waited n' = waited n"
  using assms by (auto simp: doGet_def poll_meters_def split: option.splits) (metis order_refl snd_conv)+

lemma Status_meters:
  assumes "poll_meters io wait reqs waited" "ka_Status io ctx sid n = (r, n')"
  shows "reqs n' \<le> reqs n + 1 \<and> waited n' = waited n"
proof -
  obtain x k where "doGet io ctx (''/api/v1/incident/session/'' @ sid) n = (x, k)" by (rule prod.exhaust)
  with assms doGet_meters [OF assms(1) this] show ?thesis by (auto simp: ka_Status_def split: sum.splits)
qed

lemma Result_meters:
  assumes "poll_meters io wait reqs waited" "ka_Result io ctx sid n = (r, n')"
  shows "reqs n' \<le> reqs n + 1 \<and> waited n' = waited n"
proof -
  obtain x k where "doGet io ctx (''/api/v1/incident/session/'' @ sid @ ''/result'') n = (x, k)" by (rule prod.exhaust)
  with assms doGet_meters [OF assms(1) this] show ?thesis by (auto simp: ka_Result_def split: sum.splits)
qed

definition final_statuses :: "string set" where
  "final_statuses = {''completed'', ''failed'', ''cancelled''}"

text \<open>One poll costs one request, and a second one when the investigation has completed.\<close>

lemma poll_once_meters:
  assumes m: "poll_meters io wait reqs waited" and run: "poll_once io ctx sid i n = (r, n')"
  shows "waited n' = waited n \<and> reqs n' \<le> reqs n + (if r = None then 1 else 2) \<and>
    (\<forall>p. r = Some (Inr p) \<longrightarrow> pr_PollCount p = i \<and> pr_Status p \<in> final_statuses)"
proof -
  obtain s k where s: "ka_Status io ctx sid n = (s, k)" by (rule prod.exhaust)
  obtain x l where x: "ka_Result io ctx sid k = (x, l)" by (rule prod.exhaust)
  from Status_meters [OF m s] Result_meters [OF m x] run s x show ?thesis
    by (cases s; cases x) (auto simp: poll_once_def final_statuses_def split: if_splits)
qed

lemma poll_loop_meters:
  assumes "poll_meters io wait reqs waited" "0 \<le> interval" "i \<le> maxPolls"
    and "poll_loop io wait ctx sid maxPolls interval i n = (r, n')"
  shows "reqs n' \<le> reqs n + (maxPolls - i) + 2 \<and> waited n' \<le> waited n + (maxPolls - i) * interval \<and>
    (\<forall>p. r = Inr p \<longrightarrow> i \<le> pr_PollCount p \<and> pr_PollCount p \<le> maxPolls \<and>
       (pr_Status p \<in> final_statuses \<or> pr_Status p = ''in_progress'' \<and> pr_PollCount p = maxPolls))"
  using assms
proof (induction io wait ctx sid maxPolls interval i n rule: poll_loop.induct)
  case (1 io wait ctx sid maxPolls interval i n)
  obtain o1 k where once: "poll_once io ctx sid i n = (o1, k)" by (rule prod.exhaust)
  obtain w l where wt: "wait interval k = (w, l)" by (rule prod.exhaust)
  have wl: "reqs l = reqs k \<and> waited l \<le> waited k + interval" using 1(3) wt unfolding poll_meters_def by (metis snd_conv)
  note m = poll_once_meters [OF 1(3) once]
  note run = 1(6) [unfolded poll_loop.simps [of io wait ctx sid maxPolls interval i n] once]
  have le: "i \<le> maxPolls" by (rule 1(5))
  have nn: "0 \<le> (maxPolls - i) * interval" using le 1(4) by simp
  show ?case
  proof (cases o1)
    case (Some x)
    with run le have "r = x" "n' = k" by simp_all
    with m Some le nn show ?thesis by auto
  next
    case o: None
    show ?thesis
    proof (cases "i < maxPolls")
      case False
      with run le o have "r = Inr \<lparr>pr_Status = ''in_progress'', pr_Progress = ''Investigation is still running. Call kubernaut_poll_investigation again.'',
          pr_Summary = [], pr_PollCount = maxPolls\<rparr>" "n' = k" by (simp_all add: poll_loop.simps)
      with m o le nn show ?thesis by auto
    next
      case lt: True
      show ?thesis
      proof (cases w)
        case (Some err)
        with run le o lt wt have "r = Inl err" "n' = l" by simp_all
        moreover have "interval \<le> (maxPolls - i) * interval" using lt 1(4) mult_right_mono [of 1 "maxPolls - i" interval] by simp
        ultimately show ?thesis using m o wl lt by auto
      next
        case None
        with run le o lt wt have rec: "poll_loop io wait ctx sid maxPolls interval (i + 1) l = (r, n')" by simp
        from 1(1) [OF le once [symmetric] o lt wt [symmetric] None 1(3,4) _ rec] lt
        have ih: "reqs n' \<le> reqs l + (maxPolls - (i + 1)) + 2" "waited n' \<le> waited l + (maxPolls - (i + 1)) * interval"
          "\<forall>p. r = Inr p \<longrightarrow> i + 1 \<le> pr_PollCount p \<and> pr_PollCount p \<le> maxPolls \<and>
             (pr_Status p \<in> final_statuses \<or> pr_Status p = ''in_progress'' \<and> pr_PollCount p = maxPolls)" by simp_all
        have "(maxPolls - i) * interval = (maxPolls - (i + 1)) * interval + interval" by (simp add: algebra_simps)
        with ih m o wl show ?thesis by auto
      qed
    qed
  qed
qed


text \<open>A service that answers every request with status \<open>500\<close> and an empty object; the state counts requests and waits.\<close>

definition failing_ka :: "(int \<times> int) ka_io" where
  "failing_ka = \<lparr>ki_baseURL = ''http://ka'', ki_newreq = (\<lambda>_. None),
     ki_do = (\<lambda>q (k, w). (Inr \<lparr>rs_Status = 500, rs_Header = (\<lambda>_. []), rs_Body = ''{}''\<rparr>, (k + 1, w))), ki_text = (\<lambda>_. [])\<rparr>"

definition count_wait :: "duration \<Rightarrow> int \<times> int \<Rightarrow> goerr option \<times> (int \<times> int)" where
  "count_wait d n = (None, (fst n, snd n + d))"


section \<open>The HTTP status of an answer\<close>

text \<open>The same service with the status code of every answer changed.\<close>

definition recoded :: "(int \<Rightarrow> int) \<Rightarrow> 'n ka_io \<Rightarrow> 'n ka_io" where
  "recoded f io = io\<lparr>ki_do := (\<lambda>q n. case ki_do io q n of (Inl e, n) \<Rightarrow> (Inl e, n) | (Inr r, n) \<Rightarrow> (Inr (r\<lparr>rs_Status := f (rs_Status r)\<rparr>), n))\<rparr>"

lemma Status_recoded: "ka_Status (recoded f io) = ka_Status io"
  by (intro ext) (simp add: ka_Status_def doGet_def recoded_def split: option.split prod.split sum.split)

lemma Result_recoded: "ka_Result (recoded f io) = ka_Result io"
  by (intro ext) (simp add: ka_Result_def doGet_def recoded_def split: option.split prod.split sum.split)

lemma poll_loop_recoded: "poll_loop (recoded f io) wait ctx sid maxPolls interval i n = poll_loop io wait ctx sid maxPolls interval i n"
proof (induction io wait ctx sid maxPolls interval i n rule: poll_loop.induct)
  case (1 io wait ctx sid maxPolls interval i n)
  have once: "poll_once (recoded f io) = poll_once io"
    by (intro ext) (simp only: poll_once_def Status_recoded Result_recoded)
  show ?case
    unfolding poll_loop.simps [of "recoded f io" wait ctx sid maxPolls interval i n] poll_loop.simps [of io wait ctx sid maxPolls interval i n] once
    using 1 by (auto split: prod.split option.split)
qed

text \<open>
  A poll does not look at the HTTP status of the answers of the analysis service: with every status
  code replaced by another it gives the same result, so an answer 404 or 500 with a JSON object as its
  body is read as an investigation that still runs. (Starting and cancelling do check it.)
\<close>
lemma poll_blind_to_status:
  "HandlePollInvestigation (recoded f io) wait ctx sid maxPolls interval n = HandlePollInvestigation io wait ctx sid maxPolls interval n \<and>
   fst (HandlePollInvestigation failing_ka count_wait background sid 1 interval (0, 0)) =
     Inr \<lparr>pr_Status = ''in_progress'', pr_Progress = ''Investigation is still running. Call kubernaut_poll_investigation again.'',
          pr_Summary = [], pr_PollCount = 1\<rparr>"
proof -
  have "decode_body SessionStatus_UnmarshalJSON ''{}'' = Inr \<lparr>ss_SessionID = [], ss_Status = [], ss_Error = []\<rparr>" by code_simp
  then have "poll_once failing_ka background sid 1 (0, 0) = (None, (1, 0))"
    by (simp add: poll_once_def ka_Status_def doGet_def failing_ka_def)
  then have "fst (poll_loop failing_ka count_wait background sid 1 interval 1 (0, 0)) =
      Inr \<lparr>pr_Status = ''in_progress'', pr_Progress = ''Investigation is still running. Call kubernaut_poll_investigation again.'',
           pr_Summary = [], pr_PollCount = 1\<rparr>" by (simp add: poll_loop.simps)
  then show ?thesis by (simp add: HandlePollInvestigation_def poll_loop_recoded)
qed

end
