(* ===== verification/AgentRoot.thy ===== *)
theory AgentRoot
  imports ServiceTools McpBridge
begin

text \<open>
  Package \<open>internal/agent\<close>: the configuration of the root agent with its options (\<open>config.go\<close>), the
  prompt (\<open>prompt.go\<close>), and \<open>root.go\<close>: the list of tools, the role guard and the metric and audit
  callbacks around a tool call, and the filtering of tools by role. The agent library is a parameter:
  \<open>fe\<close> gives the error of \<open>functiontool.New\<close> for a tool of that name, \<open>mk\<close> is \<open>llmagent.New\<close>. The embedded
  role table is the parameter \<open>parsed\<close> where only its parsing matters, and \<open>embedded_roles\<close> is its text
  as a table. A \<open>CounterVec\<close> or \<open>HistogramVec\<close> is there or nil.
\<close>

section \<open>Configuration\<close>

record ('m, 'w) AgentConfig =
  ac_GCPProject :: string
  ac_GCPRegion :: string
  ac_Instruction :: string
  ac_SkipTools :: bool
  ac_KABaseURL :: string
  ac_KAMCPEndpoint :: string
  ac_DSBaseURL :: string
  ac_K8sClient :: "'w kube option"
  ac_DSClient :: "'w ds_Client option"
  ac_KAClient :: "'w ka_io option"
  ac_MCPClient :: "'w select_client option"
  ac_Auditor :: bool
  ac_ToolCallsTotal :: bool
  ac_ToolCallDuration :: bool
  ac_ImpersonatingClientFactory :: "(Ctx \<Rightarrow> goerr + 'w kube) option"
  ac_LLMModel :: "'m option"

type_synonym ('m, 'w) agent_option = "('m, 'w) AgentConfig \<Rightarrow> ('m, 'w) AgentConfig"

definition WithGCPProject :: "string \<Rightarrow> ('m, 'w) agent_option" where "WithGCPProject project = (\<lambda>c. c\<lparr>ac_GCPProject := project\<rparr>)"
definition WithGCPRegion :: "string \<Rightarrow> ('m, 'w) agent_option" where "WithGCPRegion region = (\<lambda>c. c\<lparr>ac_GCPRegion := region\<rparr>)"
definition WithInstruction :: "string \<Rightarrow> ('m, 'w) agent_option" where "WithInstruction instruction = (\<lambda>c. c\<lparr>ac_Instruction := instruction\<rparr>)"
definition WithKABaseURL :: "string \<Rightarrow> ('m, 'w) agent_option" where "WithKABaseURL url = (\<lambda>c. c\<lparr>ac_KABaseURL := url\<rparr>)"
definition WithKAMCPEndpoint :: "string \<Rightarrow> ('m, 'w) agent_option" where "WithKAMCPEndpoint url = (\<lambda>c. c\<lparr>ac_KAMCPEndpoint := url\<rparr>)"
definition WithDSBaseURL :: "string \<Rightarrow> ('m, 'w) agent_option" where "WithDSBaseURL url = (\<lambda>c. c\<lparr>ac_DSBaseURL := url\<rparr>)"

text \<open>\<open>prompt\<close> is the embedded file \<open>prompt.txt\<close>.\<close>

definition defaultInstruction :: "string \<Rightarrow> string" where
  "defaultInstruction prompt = trim_space prompt"

definition DefaultTestConfig :: "string \<Rightarrow> ('m, 'w) AgentConfig" where
  "DefaultTestConfig prompt =
    \<lparr>ac_GCPProject = ''test-project'', ac_GCPRegion = ''us-central1'', ac_Instruction = defaultInstruction prompt, ac_SkipTools = False,
     ac_KABaseURL = ''http://localhost:8080'', ac_KAMCPEndpoint = ''http://localhost:8080/api/v1/mcp/'', ac_DSBaseURL = ''http://localhost:9090'',
     ac_K8sClient = None, ac_DSClient = None, ac_KAClient = None, ac_MCPClient = None, ac_Auditor = False, ac_ToolCallsTotal = False,
     ac_ToolCallDuration = False, ac_ImpersonatingClientFactory = None, ac_LLMModel = None\<rparr>"

definition Apply :: "('m, 'w) AgentConfig \<Rightarrow> ('m, 'w) agent_option list \<Rightarrow> ('m, 'w) AgentConfig" where
  "Apply c opts = fold (\<lambda>opt c. opt c) opts c"

section \<open>The tools\<close>

text \<open>A tool of the agent, by the type of its function.\<close>

type_synonym ('a, 'r, 'w) tool_run = "('a \<Rightarrow> 'w \<Rightarrow> (goerr + 'r) \<times> 'w) function_tool"

datatype 'w agent_tool =
    ListRemediationsT "(ListRemediationsArgs, RemediationSummary list \<times> nat, 'w) tool_run"
  | GetRemediationT "(RRRef, RemediationSummary, 'w) tool_run"
  | ApproveT "(ApproveArgs, string \<times> string, 'w) tool_run"
  | CancelRemediationT "(RRRef, string \<times> string, 'w) tool_run"
  | WatchT "(string \<Rightarrow> string \<Rightarrow> (goerr + (WatchEvent list \<times> string)) option) function_tool"
  | StartInvestigationT "(StartInvestigationArgs, StartInvestigationResult, 'w) tool_run"
  | PollInvestigationT "(string, PollInvestigationResult, 'w) tool_run"
  | SelectWorkflowT "(ka_SelectWorkflowArgs, ka_SelectWorkflowResult, 'w) tool_run"
  | PresentDecisionT "(PresentDecisionArgs \<Rightarrow> goerr + PresentDecisionResult) function_tool"
  | ListWorkflowsT "(string, Workflow list \<times> nat, 'w) tool_run"
  | GetRemediationHistoryT "(HistoryOpts, ds_HistoricalRemediation list \<times> nat, 'w) tool_run"
  | GetEffectivenessT "(EffectivenessOpts, EffectivenessReport, 'w) tool_run"
  | GetAuditTrailT "(AuditTrailOpts, ds_AuditEvent list \<times> nat, 'w) tool_run"
  | ListEventsT "(ListEventsArgs, EventSummary listing, 'w) tool_run"
  | GetPodsT "(GetPodsArgs, PodSummary listing, 'w) tool_run"
  | GetWorkloadsT "(string \<times> string, WorkloadSummary listing, 'w) tool_run"
  | ResolveOwnerT "(ResolveOwnerArgs, ResolveOwnerResult, 'w) tool_run"
  | CheckExistingRRT "(string \<Rightarrow> string \<Rightarrow> string \<Rightarrow> 'w \<Rightarrow> (goerr + CheckExistingRRResult) \<times> 'w) function_tool"
  | CreateRRT "(CreateRRArgs, CreateRRResult, 'w) tool_run"

fun tool_Name :: "'w agent_tool \<Rightarrow> string" where
  "tool_Name (ListRemediationsT t) = ft_Name t"
| "tool_Name (GetRemediationT t) = ft_Name t"
| "tool_Name (ApproveT t) = ft_Name t"
| "tool_Name (CancelRemediationT t) = ft_Name t"
| "tool_Name (WatchT t) = ft_Name t"
| "tool_Name (StartInvestigationT t) = ft_Name t"
| "tool_Name (PollInvestigationT t) = ft_Name t"
| "tool_Name (SelectWorkflowT t) = ft_Name t"
| "tool_Name (PresentDecisionT t) = ft_Name t"
| "tool_Name (ListWorkflowsT t) = ft_Name t"
| "tool_Name (GetRemediationHistoryT t) = ft_Name t"
| "tool_Name (GetEffectivenessT t) = ft_Name t"
| "tool_Name (GetAuditTrailT t) = ft_Name t"
| "tool_Name (ListEventsT t) = ft_Name t"
| "tool_Name (GetPodsT t) = ft_Name t"
| "tool_Name (GetWorkloadsT t) = ft_Name t"
| "tool_Name (ResolveOwnerT t) = ft_Name t"
| "tool_Name (CheckExistingRRT t) = ft_Name t"
| "tool_Name (CreateRRT t) = ft_Name t"

text \<open>What the tools take from outside: the clock and rendering, the watch of the cluster and the timer between polls.\<close>

record 'w tool_world =
  tw_conf :: "'w tool_conf"
  tw_watch :: "string \<Rightarrow> string \<Rightarrow> goerr + watch_item list"
  tw_wait :: "duration \<Rightarrow> 'w \<Rightarrow> goerr option \<times> 'w"

definition triage_factory :: "('m, 'w) AgentConfig \<Rightarrow> Ctx \<Rightarrow> goerr + 'w kube" where
  "triage_factory cfg = (case ac_ImpersonatingClientFactory cfg of Some f \<Rightarrow> f | None \<Rightarrow> StaticDynamicFactory (ac_K8sClient cfg))"

definition toolConstructors :: "'w tool_world \<Rightarrow> ('m, 'w) AgentConfig \<Rightarrow> (string \<times> 'w agent_tool) list" where
  "toolConstructors tw cfg =
    (let cf = tw_conf tw; k8s = ac_K8sClient cfg; dsC = ac_DSClient cfg; kaC = ac_KAClient cfg; f = triage_factory cfg in
     [(''list_remediations'', ListRemediationsT (NewListRemediationsTool cf k8s)),
      (''get_remediation'', GetRemediationT (NewGetRemediationTool cf k8s)),
      (''approve'', ApproveT (NewApproveTool cf k8s)),
      (''cancel_remediation'', CancelRemediationT (NewCancelRemediationTool cf k8s)),
      (''watch'', WatchT (NewWatchTool cf k8s (tw_watch tw))),
      (''start_investigation'', StartInvestigationT (NewStartInvestigationTool kaC)),
      (''poll_investigation'', PollInvestigationT (NewPollInvestigationTool kaC (tw_wait tw))),
      (''select_workflow'', SelectWorkflowT (NewSelectWorkflowTool (ac_MCPClient cfg))),
      (''present_decision'', PresentDecisionT NewPresentDecisionTool),
      (''list_workflows'', ListWorkflowsT (NewListWorkflowsTool dsC)),
      (''get_remediation_history'', GetRemediationHistoryT (NewGetRemediationHistoryTool dsC)),
      (''get_effectiveness'', GetEffectivenessT (NewGetEffectivenessTool dsC)),
      (''get_audit_trail'', GetAuditTrailT (NewGetAuditTrailTool dsC)),
      (''list_events'', ListEventsT (NewListEventsTool cf f)),
      (''get_pods'', GetPodsT (NewGetPodsTool cf f)),
      (''get_workloads'', GetWorkloadsT (NewGetWorkloadsTool cf f)),
      (''resolve_owner'', ResolveOwnerT (NewResolveOwnerTool cf f)),
      (''check_existing_rr'', CheckExistingRRT (NewCheckExistingRRTool cf k8s)),
      (''create_rr'', CreateRRT (NewCreateRRTool cf None k8s))])"

fun collect_tools :: "(string \<Rightarrow> goerr option) \<Rightarrow> (string \<times> 'w agent_tool) list \<Rightarrow> goerr + 'w agent_tool list" where
  "collect_tools fe [] = Inr []"
| "collect_tools fe ((name, t) # cs) =
    (case fe (tool_Name t) of
       Some err \<Rightarrow> Inl (Wrapf ''creating tool %q: %w'' [name] err)
     | None \<Rightarrow> (case collect_tools fe cs of Inl e \<Rightarrow> Inl e | Inr ts \<Rightarrow> Inr (t # ts)))"

definition buildToolList :: "(string \<Rightarrow> goerr option) \<Rightarrow> 'w tool_world \<Rightarrow> ('m, 'w) AgentConfig \<Rightarrow> goerr + 'w agent_tool list" where
  "buildToolList fe tw cfg = (if ac_SkipTools cfg then Inr [] else collect_tools fe (toolConstructors tw cfg))"

section \<open>Roles\<close>

definition LoadRBACRoles :: "goerr + rbac_roles \<Rightarrow> goerr + rbac_roles" where
  "LoadRBACRoles parsed = (case parsed of Inl err \<Rightarrow> Inl (Wrapf ''load rbac_roles.yaml: %w'' [] err) | Inr roles \<Rightarrow> Inr roles)"

text \<open>What a callback answers: go on, or the error text the caller of the tool gets instead of a result.\<close>

datatype verdict = Proceed | Refuse goerr

definition grants :: "rbac_roles \<Rightarrow> string list \<Rightarrow> string \<Rightarrow> bool" where
  "grants roles groups toolName \<longleftrightarrow>
     list_ex (\<lambda>group. case roles group of None \<Rightarrow> False | Some allowed \<Rightarrow> list_ex (\<lambda>name. name = toolName) allowed) groups"

definition newRBACGuard :: "bool \<Rightarrow> goerr + rbac_roles \<Rightarrow> Ctx \<Rightarrow> string \<Rightarrow> Event list \<Rightarrow> verdict \<times> Event list" where
  "newRBACGuard auditor parsed ctx toolName audit =
    (case UserIdentityFromContext ctx of
       None \<Rightarrow> (Refuse (Errorf ''unauthorized: no identity in context'' []), audit)
     | Some identity \<Rightarrow>
        (case parsed of
           Inl err \<Rightarrow> (Refuse (Errorf ''rbac configuration error'' []), audit)
         | Inr roles \<Rightarrow>
            (if grants roles (ui_Groups identity) toolName then (Proceed, audit)
             else (Refuse (Errorf ''forbidden: role does not grant access to tool %q'' [toolName]),
               audit @ (if auditor then [mk_event EventRBACDenied [] (ui_Username identity) []
                  (Some [(''tool'', toolName), (''groups'', join '','' (ui_Groups identity))])] else [])))))"

definition FilterToolsByRoles :: "goerr + rbac_roles \<Rightarrow> string list \<Rightarrow> 'w agent_tool list \<Rightarrow> 'w agent_tool list" where
  "FilterToolsByRoles parsed roles allTools =
    (case parsed of Inl err \<Rightarrow> []
     | Inr rbac \<Rightarrow>
        (let allowSet = concat (map (\<lambda>role. case rbac role of None \<Rightarrow> [] | Some allowed \<Rightarrow> allowed) roles)
         in if allowSet = [] then [] else filter (\<lambda>t. tool_Name t \<in> set allowSet) allTools))"

definition FilterToolsByRole :: "goerr + rbac_roles \<Rightarrow> string \<Rightarrow> 'w agent_tool list \<Rightarrow> 'w agent_tool list" where
  "FilterToolsByRole parsed role allTools = FilterToolsByRoles parsed [role] allTools"

section \<open>Callbacks around a tool call\<close>

text \<open>\<open>am_starts\<close> is the map of the calls under way, by the id of the call; the collectors hold what was recorded.\<close>

record tool_metrics =
  am_starts :: "string \<rightharpoonup> gotime"
  am_calls :: "(string \<times> string) list"
  am_durations :: "(string \<times> duration) list"

definition metrics_before :: "bool \<Rightarrow> bool \<Rightarrow> gotime \<Rightarrow> string \<Rightarrow> tool_metrics \<Rightarrow> tool_metrics" where
  "metrics_before toolCalls toolDuration now callID m =
    (if \<not> toolCalls \<and> \<not> toolDuration then m else m\<lparr>am_starts := (am_starts m)(callID \<mapsto> now)\<rparr>)"

definition metrics_after :: "bool \<Rightarrow> bool \<Rightarrow> gotime \<Rightarrow> string \<Rightarrow> string \<Rightarrow> goerr option \<Rightarrow> tool_metrics \<Rightarrow> tool_metrics" where
  "metrics_after toolCalls toolDuration now callID toolName toolErr m =
    (let resultLabel = (if toolErr \<noteq> None then ''error'' else ''success'');
         m = (if toolCalls then m\<lparr>am_calls := am_calls m @ [(toolName, resultLabel)]\<rparr> else m)
     in if \<not> toolDuration then m
        else (case am_starts m callID of
            None \<Rightarrow> m
          | Some start \<Rightarrow> m\<lparr>am_starts := (am_starts m)(callID := None),
               am_durations := am_durations m @ [(toolName, since now start)]\<rparr>))"

text \<open>The goroutine that drops the calls begun more than five minutes ago.\<close>

definition metrics_sweep :: "gotime \<Rightarrow> tool_metrics \<Rightarrow> tool_metrics" where
  "metrics_sweep now m = m\<lparr>am_starts := (\<lambda>id. case am_starts m id of None \<Rightarrow> None
     | Some t \<Rightarrow> if t < now - 5 * ns_minute then None else Some t)\<rparr>"

text \<open>\<open>input\<close> is the map of the call's arguments, \<open>render\<close> the text of an error.\<close>

definition newAuditToolCallback ::
  "(goerr \<Rightarrow> string) \<Rightarrow> bool \<Rightarrow> Ctx \<Rightarrow> string \<Rightarrow> kobj \<Rightarrow> goerr option \<Rightarrow> Event list \<Rightarrow> Event list" where
  "newAuditToolCallback render auditor ctx toolName input toolErr audit =
    (if \<not> auditor then audit
     else audit @ [mk_event EventToolInvoked []
       (case UserIdentityFromContext ctx of None \<Rightarrow> [] | Some identity \<Rightarrow> ui_Username identity) []
       (Some ([(''tool'', toolName), (''result'', if toolErr \<noteq> None then ''error'' else ''success'')] @
          (case toolErr of None \<Rightarrow> [] | Some e \<Rightarrow> [(''error'', RedactError (Some (render e)))]) @
          (case map_of input ''namespace'' of Some (JStr ns) \<Rightarrow> if ns \<noteq> [] then [(''namespace'', ns)] else [] | _ \<Rightarrow> [])))])"

section \<open>The agent\<close>

record ('m, 'w) agent_spec =
  as_Name :: string
  as_Description :: string
  as_Model :: "'m option"
  as_Tools :: "'w agent_tool list"
  as_Instruction :: string
  as_Guard :: "Ctx \<Rightarrow> string \<Rightarrow> Event list \<Rightarrow> verdict \<times> Event list"
  as_Before :: "gotime \<Rightarrow> string \<Rightarrow> tool_metrics \<Rightarrow> tool_metrics"
  as_AfterMetrics :: "gotime \<Rightarrow> string \<Rightarrow> string \<Rightarrow> goerr option \<Rightarrow> tool_metrics \<Rightarrow> tool_metrics"
  as_AfterAudit :: "Ctx \<Rightarrow> string \<Rightarrow> kobj \<Rightarrow> goerr option \<Rightarrow> Event list \<Rightarrow> Event list"

definition NewRootAgent ::
  "(string \<Rightarrow> goerr option) \<Rightarrow> (('m, 'w) agent_spec \<Rightarrow> goerr + 'a) \<Rightarrow> (goerr \<Rightarrow> string) \<Rightarrow> goerr + rbac_roles \<Rightarrow> 'w tool_world \<Rightarrow>
    ('m, 'w) AgentConfig \<Rightarrow> ('m, 'w) agent_option list \<Rightarrow> goerr + 'a \<times> 'w agent_tool list" where
  "NewRootAgent fe mk render parsed tw cfg opts =
    (let cfg = Apply cfg opts in
     if ac_Instruction cfg = [] then Inl (Errorf ''agent instruction must not be empty'' [])
     else (case buildToolList fe tw cfg of
         Inl err \<Rightarrow> Inl (Wrapf ''building tool list: %w'' [] err)
       | Inr allTools \<Rightarrow>
          (if allTools = [] then Inl (Errorf ''tool list must not be empty: at least one tool is required'' [])
           else (case mk \<lparr>as_Name = ''kubernaut-apifrontend'', as_Description = ''Kubernaut API Frontend agent for incident triage and remediation'',
                   as_Model = ac_LLMModel cfg, as_Tools = allTools, as_Instruction = ac_Instruction cfg,
                   as_Guard = newRBACGuard (ac_Auditor cfg) parsed,
                   as_Before = metrics_before (ac_ToolCallsTotal cfg) (ac_ToolCallDuration cfg),
                   as_AfterMetrics = metrics_after (ac_ToolCallsTotal cfg) (ac_ToolCallDuration cfg),
                   as_AfterAudit = newAuditToolCallback render (ac_Auditor cfg)\<rparr> of
               Inl err \<Rightarrow> Inl (Wrapf ''creating agent: %w'' [] err)
             | Inr a \<Rightarrow> Inr (a, allTools)))))"

section \<open>The embedded roles\<close>

definition read_tools :: "string list" where
  "read_tools = [''kubernaut_list_remediations'', ''kubernaut_get_remediation'']"

definition cluster_reads :: "string list" where
  "cluster_reads = [''af_list_events'', ''af_get_pods'', ''af_get_workloads'']"

definition embedded_roles :: "(string \<times> string list) list" where
  "embedded_roles =
    [(''sre'', read_tools @ [''kubernaut_approve'', ''kubernaut_cancel_remediation'', ''kubernaut_watch'', ''kubernaut_start_investigation'',
        ''kubernaut_poll_investigation'', ''kubernaut_select_workflow'', ''present_decision'', ''kubernaut_list_workflows'',
        ''kubernaut_get_remediation_history'', ''kubernaut_get_effectiveness'', ''kubernaut_get_audit_trail''] @ cluster_reads @
        [''af_resolve_owner'', ''af_check_existing_rr'', ''af_create_rr'']),
     (''ai-orchestrator'', read_tools @ [''kubernaut_approve'', ''kubernaut_cancel_remediation'', ''kubernaut_watch'',
        ''kubernaut_start_investigation'', ''kubernaut_poll_investigation'', ''kubernaut_select_workflow'', ''present_decision''] @ cluster_reads @
        [''af_resolve_owner'', ''af_check_existing_rr'', ''af_create_rr'']),
     (''cicd'', read_tools @ [''kubernaut_watch'']),
     (''observability'', read_tools @ [''kubernaut_watch'', ''kubernaut_get_effectiveness'', ''kubernaut_list_workflows''] @ cluster_reads),
     (''l3-audit'', read_tools @ [''kubernaut_list_workflows'', ''kubernaut_get_remediation_history'', ''kubernaut_get_effectiveness'',
        ''kubernaut_get_audit_trail'']),
     (''remediation-approver'', [''kubernaut_approve''] @ read_tools @ [''kubernaut_watch''])]"

section \<open>The guard and the filter agree\<close>

lemma grants_iff: "grants roles groups toolName \<longleftrightarrow> (\<exists>g\<in>set groups. \<exists>allowed. roles g = Some allowed \<and> toolName \<in> set allowed)"
  by (auto simp: grants_def list_ex_iff split: option.splits)

lemma allow_set: "n \<in> set (concat (map (\<lambda>role. case rbac role of None \<Rightarrow> [] | Some allowed \<Rightarrow> allowed) roles)) \<longleftrightarrow> grants rbac roles n"
  by (induction roles) (auto simp: grants_def list_ex_iff split: option.split)

lemma FilterToolsByRoles_filter:
  "FilterToolsByRoles (Inr rbac) roles allTools = filter (\<lambda>t. grants rbac roles (tool_Name t)) allTools"
proof -
  define allowSet where "allowSet = concat (map (\<lambda>role. case rbac role of None \<Rightarrow> [] | Some allowed \<Rightarrow> allowed) roles)"
  have *: "n \<in> set allowSet \<longleftrightarrow> grants rbac roles n" for n unfolding allowSet_def by (rule allow_set)
  have "FilterToolsByRoles (Inr rbac) roles allTools = (if allowSet = [] then [] else filter (\<lambda>t. tool_Name t \<in> set allowSet) allTools)"
    by (simp add: FilterToolsByRoles_def allowSet_def Let_def)
  also have "\<dots> = filter (\<lambda>t. tool_Name t \<in> set allowSet) allTools" by simp
  finally show ?thesis by (simp add: *)
qed

lemma guard_Proceed:
  "fst (newRBACGuard auditor parsed ctx toolName audit) = Proceed \<longleftrightarrow>
     (\<exists>i roles. UserIdentityFromContext ctx = Some i \<and> parsed = Inr roles \<and> grants roles (ui_Groups i) toolName)"
  by (auto simp: newRBACGuard_def split: option.split sum.split)

interpretation agent_roles: role_policy "\<lambda>groups tool. fst (newRBACGuard auditor parsed (member u groups ctx) tool audit) = Proceed"
  for auditor parsed u ctx audit
  by unfold_locales (auto simp: guard_Proceed grants_iff WithUserIdentity_def UserIdentityFromContext_def)

text \<open>At neither entrance does a user lose a tool by joining a group, and the order of the groups does not matter.\<close>

lemma joining_loses_nothing:
  assumes "set groups \<subseteq> set groups'"
  shows "checkRBAC (member u groups ctx) cfg tool = None \<Longrightarrow> checkRBAC (member u groups' ctx) cfg tool = None"
    and "fst (newRBACGuard auditor parsed (member u groups ctx) tool audit) = Proceed \<Longrightarrow>
      fst (newRBACGuard auditor parsed (member u groups' ctx) tool audit) = Proceed"
  using assms bridge_roles.joining_keeps agent_roles.joining_keeps by blast+


section \<open>What the embedded roles allow\<close>

text \<open>The tools that change remediations or drive an investigation, with the roles that may call them.\<close>

definition reserved :: "(string \<times> string list) list" where
  "reserved =
    [(''kubernaut_approve'', [''sre'', ''ai-orchestrator'', ''remediation-approver'']),
     (''kubernaut_cancel_remediation'', [''sre'', ''ai-orchestrator'']), (''kubernaut_start_investigation'', [''sre'', ''ai-orchestrator'']),
     (''kubernaut_select_workflow'', [''sre'', ''ai-orchestrator'']), (''af_create_rr'', [''sre'', ''ai-orchestrator''])]"

definition may_call :: "string \<Rightarrow> string \<Rightarrow> bool" where
  "may_call tool role \<longleftrightarrow> (case map_of reserved tool of None \<Rightarrow> True | Some roles \<Rightarrow> list_ex (\<lambda>r. r = role) roles)"

lemma embedded_changes: "list_all (\<lambda>(role, ts). list_all (\<lambda>t. may_call t role) ts) embedded_roles"
  by code_simp

lemma embedded_grants:
  assumes "grants (map_of embedded_roles) groups tool"
  shows "\<exists>g\<in>set groups. may_call tool g"
proof -
  from assms obtain g ts where g: "g \<in> set groups" "map_of embedded_roles g = Some ts" "tool \<in> set ts" by (auto simp: grants_iff)
  from g(2) have "(g, ts) \<in> set embedded_roles" by (rule map_of_SomeD)
  with embedded_changes g(3) have "may_call tool g" by (auto simp: list_all_iff)
  with g(1) show ?thesis by blast
qed

lemma agent_tool_names:
  "map (\<lambda>(n, t). tool_Name t) (toolConstructors tw cfg) = snd (hd embedded_roles)"
  by (simp add: toolConstructors_def embedded_roles_def read_tools_def cluster_reads_def Let_def
      NewListRemediationsTool_def NewGetRemediationTool_def NewApproveTool_def NewCancelRemediationTool_def NewWatchTool_def
      NewStartInvestigationTool_def NewPollInvestigationTool_def NewSelectWorkflowTool_def NewPresentDecisionTool_def
      NewListWorkflowsTool_def NewGetRemediationHistoryTool_def NewGetEffectivenessTool_def NewGetAuditTrailTool_def
      NewListEventsTool_def NewGetPodsTool_def NewGetWorkloadsTool_def NewResolveOwnerTool_def NewCheckExistingRRTool_def NewCreateRRTool_def)

lemma embedded_known: "list_all (\<lambda>(role, ts). set ts \<subseteq> set (snd (hd embedded_roles)) \<and> distinct ts) embedded_roles"
  by code_simp



text \<open>
  The bridge of the MCP endpoint calls one of the tools by another name, which the embedded roles
  do not know.
\<close>

lemma present_decision_names_differ:
  "map fst mcpToolRegistry = map (\<lambda>n. if n = ''present_decision'' then ''kubernaut_present_decision'' else n) (snd (hd embedded_roles))"
  "\<not> grants (map_of embedded_roles) groups ''kubernaut_present_decision''"
proof -
  show "map fst mcpToolRegistry = map (\<lambda>n. if n = ''present_decision'' then ''kubernaut_present_decision'' else n) (snd (hd embedded_roles))"
    by (simp add: mcpToolRegistry_def embedded_roles_def read_tools_def cluster_reads_def)
  show "\<not> grants (map_of embedded_roles) groups ''kubernaut_present_decision''"
  proof
    assume "grants (map_of embedded_roles) groups ''kubernaut_present_decision''"
    then obtain g ts where "(g, ts) \<in> set embedded_roles" "''kubernaut_present_decision'' \<in> set ts"
      by (auto simp: grants_iff dest: map_of_SomeD)
    then have "''kubernaut_present_decision'' \<in> set (snd (hd embedded_roles))" using embedded_known by (auto simp: list_all_iff)
    then show False by (simp add: embedded_roles_def read_tools_def cluster_reads_def)
  qed
qed

section \<open>The table of running calls\<close>

text \<open>A call that ends leaves no entry, when durations are recorded; after a sweep only calls of the last five minutes are left.\<close>

lemma metrics_call_clean:
  "am_starts m callID = None \<Longrightarrow>
     am_starts (metrics_after c True t2 callID tool err (metrics_before c True t1 callID m)) = am_starts m \<and>
     am_durations (metrics_after c True t2 callID tool err (metrics_before c True t1 callID m)) = am_durations m @ [(tool, since t2 t1)]"
  by (auto simp: metrics_after_def metrics_before_def Let_def)

lemma metrics_swept: "am_starts (metrics_sweep now m) callID = Some t \<Longrightarrow> now - 5 * ns_minute \<le> t"
  by (auto simp: metrics_sweep_def split: option.splits if_splits)

text \<open>With the counter alone every call leaves its entry to the sweep.\<close>

lemma metrics_counter_leaks: "am_starts (metrics_after True False t2 callID tool err (metrics_before True False t1 callID m)) callID = Some t1"
  by (simp add: metrics_after_def metrics_before_def Let_def)

lemma collect_tools_all: "(\<And>n. fe n = None) \<Longrightarrow> collect_tools fe cs = Inr (map snd cs)"
  by (induction cs) auto

text \<open>With a prompt, and tools the library accepts, the agent gets all nineteen tools.\<close>

lemma NewRootAgent_tools:
  assumes "NewRootAgent fe mk render parsed tw cfg opts = Inr (a, tools)" "\<And>n. fe n = None"
  shows "map tool_Name tools = snd (hd embedded_roles) \<and> ac_Instruction (Apply cfg opts) \<noteq> []"
proof -
  have "tools = map snd (toolConstructors tw (Apply cfg opts))" "ac_Instruction (Apply cfg opts) \<noteq> []"
    using assms by (auto simp: NewRootAgent_def buildToolList_def collect_tools_all Let_def split: if_splits sum.splits)
  then show ?thesis using agent_tool_names [of tw "Apply cfg opts"] by (simp add: case_prod_unfold comp_def)
qed

end
