(* ===== verification/Launcher.thy ===== *)
theory Launcher
  imports SessionDecorator AuditTrail
begin

text \<open>
  Package \<open>internal/launcher\<close>: the handler of the A2A endpoint with its callbacks before and after an
  execution (\<open>launcher.go\<close>), and the model configuration (\<open>model.go\<close>). The executor, the request handler
  and the JSON-RPC transport of the A2A library are the parameter \<open>mk\<close>, which gets the configuration of
  the executor. Events given to the auditor are appended to a list; log lines are left out.
\<close>

section \<open>Configuration\<close>

record ('a, 's) A2AConfig =
  la_Agent :: "'a option"
  la_SessionService :: "'s option"
  la_AppName :: string
  la_Auditor :: bool
  la_BeforeExecute :: "(Ctx \<Rightarrow> goerr + Ctx) option"

definition A2AConfig_validate :: "('a, 's) A2AConfig \<Rightarrow> goerr option" where
  "A2AConfig_validate c =
    (if la_Agent c = None then Some (Errorf ''agent is required'' [])
     else if la_SessionService c = None then Some (Errorf ''session service is required'' [])
     else if la_AppName c = [] then Some (Errorf ''app name is required'' [])
     else None)"

section \<open>Callbacks\<close>

definition task_user :: "Ctx \<Rightarrow> string" where
  "task_user ctx = (case UserIdentityFromContext ctx of None \<Rightarrow> [] | Some user \<Rightarrow> ui_Username user)"

text \<open>\<open>reqCtx\<close> is the task id of the request context, when there is one.\<close>

definition buildBeforeExecuteCallback ::
  "(Ctx \<Rightarrow> goerr + Ctx) option \<Rightarrow> bool \<Rightarrow> Ctx \<Rightarrow> string option \<Rightarrow> Event list \<Rightarrow> (goerr + Ctx) \<times> Event list" where
  "buildBeforeExecuteCallback userCb auditor ctx reqCtx audit =
    (let audit = (if auditor then audit @ [mk_event EventA2ATaskStarted [] (task_user ctx) []
           (Some ([(''method'', ''message/send'')] @ (case reqCtx of None \<Rightarrow> [] | Some taskID \<Rightarrow> [(''task_id'', taskID)])))] else audit);
         ctx = (case reqCtx of None \<Rightarrow> ctx
           | Some taskID \<Rightarrow> WithCreateContext ctx (Some \<lparr>cx_TaskID = taskID, cx_RemediationRef = \<lparr>or_Name = [], or_Namespace = []\<rparr>\<rparr>))
     in (case userCb of Some cb \<Rightarrow> cb ctx | None \<Rightarrow> Inr ctx, audit))"

text \<open>\<open>finalEvent\<close> is the task id of the final event, when there is one; the callback always returns nil.\<close>

definition buildAfterExecuteCallback ::
  "(goerr \<Rightarrow> string) \<Rightarrow> bool \<Rightarrow> Ctx \<Rightarrow> string option \<Rightarrow> goerr option \<Rightarrow> Event list \<Rightarrow> goerr option \<times> Event list" where
  "buildAfterExecuteCallback render auditor ctx finalEvent err audit =
    (let taskID = (case finalEvent of None \<Rightarrow> [] | Some t \<Rightarrow> t) in
     case err of
       Some e \<Rightarrow> (None, if auditor then audit @ [mk_event EventA2ATaskFailed [] (task_user ctx) []
           (Some [(''task_id'', taskID), (''error'', RedactError (Some (render e)))])] else audit)
     | None \<Rightarrow> (None, if auditor then audit @ [mk_event EventA2ATaskCompleted [] (task_user ctx) [] (Some [(''task_id'', taskID)])] else audit))"

record ('a, 's) ExecutorConfig =
  xe_AppName :: string
  xe_Agent :: "'a option"
  xe_SessionService :: "'s option"
  xe_AutoCreateSession :: bool
  xe_Before :: "Ctx \<Rightarrow> string option \<Rightarrow> Event list \<Rightarrow> (goerr + Ctx) \<times> Event list"
  xe_After :: "Ctx \<Rightarrow> string option \<Rightarrow> goerr option \<Rightarrow> Event list \<Rightarrow> goerr option \<times> Event list"

definition NewA2AHandler :: "(goerr \<Rightarrow> string) \<Rightarrow> (('a, 's) ExecutorConfig \<Rightarrow> 'h) \<Rightarrow> ('a, 's) A2AConfig \<Rightarrow> goerr + 'h" where
  "NewA2AHandler render mk cfg =
    (case A2AConfig_validate cfg of
       Some err \<Rightarrow> Inl (Wrapf ''invalid A2A config: %w'' [] err)
     | None \<Rightarrow> Inr (mk \<lparr>xe_AppName = la_AppName cfg, xe_Agent = la_Agent cfg, xe_SessionService = la_SessionService cfg,
         xe_AutoCreateSession = True, xe_Before = buildBeforeExecuteCallback (la_BeforeExecute cfg) (la_Auditor cfg),
         xe_After = buildAfterExecuteCallback render (la_Auditor cfg)\<rparr>))"

section \<open>The model\<close>

definition ProviderVertexAI :: string where "ProviderVertexAI = ''vertexai''"
definition ProviderAnthropic :: string where "ProviderAnthropic = ''anthropic''"

record ModelConfig =
  mo_Provider :: string
  mo_Model :: string
  mo_JWTDelegation :: bool

definition DefaultModelConfig :: ModelConfig where
  "DefaultModelConfig = \<lparr>mo_Provider = ProviderVertexAI, mo_Model = ''claude-sonnet-4-20250514'', mo_JWTDelegation = True\<rparr>"

definition ModelConfig_Validate :: "ModelConfig \<Rightarrow> goerr option" where
  "ModelConfig_Validate c =
    (if mo_Model c = [] then Some (Errorf ''model must not be empty'' [])
     else if mo_Provider c = ProviderVertexAI \<or> mo_Provider c = ProviderAnthropic then None
     else Some (Errorf ''unsupported provider %q; must be %q or %q'' [mo_Provider c, ProviderVertexAI, ProviderAnthropic]))"

lemma DefaultModelConfig_valid: "ModelConfig_Validate DefaultModelConfig = None"
  by (simp add: ModelConfig_Validate_def DefaultModelConfig_def)

section \<open>A task and its session\<close>

lemma before_context:
  "buildBeforeExecuteCallback None auditor ctx (Some taskID) audit = (Inr ctx', audit') \<Longrightarrow>
     CreateContextFromContext ctx' = Some \<lparr>cx_TaskID = taskID, cx_RemediationRef = \<lparr>or_Name = [], or_Namespace = []\<rparr>\<rparr> \<and>
     UserIdentityFromContext ctx' = UserIdentityFromContext ctx"
  by (auto simp: buildBeforeExecuteCallback_def CreateContextFromContext_def WithCreateContext_def UserIdentityFromContext_def Let_def)

lemma Decorator_Create_config:
  assumes "Decorator_Create inner ctx req st = (Inr s, st')" "CreateContextFromContext ctx = Some sc"
  shows "\<exists>i m. UserIdentityFromContext ctx = Some i \<and> ui_Username i \<noteq> [] \<and>
    ss_Create inner ctx (req\<lparr>cr_State := Some m\<rparr>) st = (Inr s, st') \<and>
    map_of m StateKeyCreateConfig = Some (SVConfig (Some (decorator_config sc i)))"
  using assms by (auto simp: Decorator_Create_def update_conv' Let_def split: option.splits if_splits)

lemma task_session:
  assumes "buildBeforeExecuteCallback None auditor ctx (Some taskID) audit = (Inr ctx', audit')"
    and "ss_Create (ServiceDecorator inner) ctx' req st = (Inr s, st')"
  shows "\<exists>i m cfg. UserIdentityFromContext ctx = Some i \<and> ui_Username i \<noteq> [] \<and>
    ss_Create inner ctx' (req\<lparr>cr_State := Some m\<rparr>) st = (Inr s, st') \<and>
    map_of m StateKeyCreateConfig = Some (SVConfig (Some cfg)) \<and> cc_A2ATaskID cfg = taskID \<and>
    cc_UserIdentity cfg = \<lparr>su_Username = ui_Username i, su_Groups = ui_Groups i\<rparr> \<and>
    audit' = audit @ (if auditor then [mk_event EventA2ATaskStarted [] (ui_Username i) []
      (Some [(''method'', ''message/send''), (''task_id'', taskID)])] else [])"
proof -
  define sc where "sc = \<lparr>cx_TaskID = taskID, cx_RemediationRef = \<lparr>or_Name = [], or_Namespace = []\<rparr>\<rparr>"
  have c: "CreateContextFromContext ctx' = Some sc" "UserIdentityFromContext ctx' = UserIdentityFromContext ctx"
    using before_context [OF assms(1)] by (simp_all add: sc_def)
  have "Decorator_Create inner ctx' req st = (Inr s, st')" using assms(2) by (simp add: ServiceDecorator_def)
  from Decorator_Create_config [OF this c(1)] c(2) obtain i m where im: "UserIdentityFromContext ctx = Some i" "ui_Username i \<noteq> []"
    "ss_Create inner ctx' (req\<lparr>cr_State := Some m\<rparr>) st = (Inr s, st')" "map_of m StateKeyCreateConfig = Some (SVConfig (Some (decorator_config sc i)))"
    by auto
  have a: "audit' = audit @ (if auditor then [mk_event EventA2ATaskStarted [] (ui_Username i) []
      (Some [(''method'', ''message/send''), (''task_id'', taskID)])] else [])"
    using assms(1) im(1) by (auto simp: buildBeforeExecuteCallback_def task_user_def Let_def)
  show ?thesis using im a
    by (intro exI [of _ i] exI [of _ m] exI [of _ "decorator_config sc i"]) (simp add: decorator_config_def sc_def Let_def)
qed

text \<open>
  A session the runner creates while it executes an A2A task carries the id of that task and the
  authenticated user of the request, whatever the creation request asks for; without an
  authenticated user no session is created. The start of the task is in the audit trail with both.
\<close>
lemma a2a_task_session:
  assumes "buildBeforeExecuteCallback None True ctx (Some taskID) audit = (Inr ctx', audit')"
    and "ss_Create (ServiceDecorator inner) ctx' req st = (Inr s, st')"
  shows "\<exists>i m cfg. UserIdentityFromContext ctx = Some i \<and> ui_Username i \<noteq> [] \<and>
    ss_Create inner ctx' (req\<lparr>cr_State := Some m\<rparr>) st = (Inr s, st') \<and>
    map_of m StateKeyCreateConfig = Some (SVConfig (Some cfg)) \<and> cc_A2ATaskID cfg = taskID \<and>
    cc_UserIdentity cfg = \<lparr>su_Username = ui_Username i, su_Groups = ui_Groups i\<rparr> \<and>
    audit' = audit @ [mk_event EventA2ATaskStarted [] (ui_Username i) [] (Some [(''method'', ''message/send''), (''task_id'', taskID)])]"
  using task_session [OF assms] by simp

text \<open>A store that keeps the requests it got.\<close>

definition echo_store :: "(CreateRequest list, CreateRequest) session_service" where
  "echo_store = \<lparr>ss_Create = (\<lambda>ctx req st. (Inr req, st @ [req])), ss_Get = (\<lambda>ctx req st. (Inl (Errorf [] []), st)),
     ss_List = (\<lambda>ctx req st. (Inr st, st)), ss_Delete = (\<lambda>ctx req st. (None, st)), ss_AppendEvent = (\<lambda>ctx s e st. (None, st))\<rparr>"

lemma a2a_task_session_example:
  "\<exists>i m cfg. UserIdentityFromContext alice_task = Some i \<and> ui_Username i \<noteq> [] \<and>
     fst (ss_Create (ServiceDecorator echo_store) (WithCreateContext alice_task (Some \<lparr>cx_TaskID = ''t9'',
        cx_RemediationRef = \<lparr>or_Name = [], or_Namespace = []\<rparr>\<rparr>)) spoofed_s1 []) = Inr (spoofed_s1\<lparr>cr_State := Some m\<rparr>) \<and>
     map_of m StateKeyCreateConfig = Some (SVConfig (Some cfg)) \<and> cc_A2ATaskID cfg = ''t9''"
proof -
  let ?c = "WithCreateContext alice_task (Some \<lparr>cx_TaskID = ''t9'', cx_RemediationRef = \<lparr>or_Name = [], or_Namespace = []\<rparr>\<rparr>)"
  have b: "buildBeforeExecuteCallback None True alice_task (Some ''t9'') [] =
      (Inr ?c, [mk_event EventA2ATaskStarted [] (task_user alice_task) [] (Some [(''method'', ''message/send''), (''task_id'', ''t9'')])])"
    by (simp add: buildBeforeExecuteCallback_def Let_def)
  obtain r st' where e: "ss_Create (ServiceDecorator echo_store) ?c spoofed_s1 [] = (r, st')" by (rule prod.exhaust)
  moreover from e obtain s where "r = Inr s"
    by (auto simp: ServiceDecorator_def Decorator_Create_def CreateContextFromContext_def WithCreateContext_def WithUserIdentity_def
        UserIdentityFromContext_def alice_task_def echo_store_def Let_def)
  ultimately have e: "ss_Create (ServiceDecorator echo_store) ?c spoofed_s1 [] = (Inr s, st')" by simp
  from a2a_task_session [OF b e] e show ?thesis by (auto simp: echo_store_def)
qed

text \<open>After an execution one event is added, for failure exactly when there was an error, with a redacted text.\<close>

lemma after_audited:
  "\<exists>ev. buildAfterExecuteCallback render True ctx fin err audit = (None, audit @ [ev]) \<and>
     ev_Type ev = (if err = None then EventA2ATaskCompleted else EventA2ATaskFailed) \<and> ev_UserID ev = task_user ctx"
  by (cases err) (simp_all add: buildAfterExecuteCallback_def Let_def)

end
