(* ===== verification/PromClient.thy ===== *)
theory PromClient
  imports KaClient Triage AuthClaims
begin

text \<open>
  The HTTP client of \<open>internal/prometheus/client.go\<close>: the requests for alerts, rules and instant queries,
  and the reading of their answers. \<open>http.Client.Do\<close>, the check of a request URL, an error while reading
  a body, \<open>time.Parse\<close>, \<open>strconv.ParseFloat\<close> and the conversion of an out-of-range float to \<open>int64\<close> are
  parameters. The decoding of \<open>encoding/json\<close> into nested structs, maps and slices is written out, with what
  it does when a member occurs more than once: structs and maps are filled further, a slice is
  filled element by element and cut to the last length, \<open>null\<close> and an empty array start a slice anew.
\<close>

section \<open>Decoding\<close>

text \<open>Every decoder takes the occurrences of its value, in order.\<close>

definition obj_fields :: "jv \<Rightarrow> (string \<times> jv) list option" where
  "obj_fields v = (case v of JObj kvs \<Rightarrow> Some kvs | JNull \<Rightarrow> Some [] | _ \<Rightarrow> None)"

definition dec_struct :: "((string \<times> jv) list \<Rightarrow> 'a option) \<Rightarrow> jv list \<Rightarrow> 'a option" where
  "dec_struct f vs = (case those (map obj_fields vs) of None \<Rightarrow> None | Some os \<Rightarrow> f (concat os))"

fun str_entries :: "(string \<times> jv) list \<Rightarrow> (string \<times> string) list option" where
  "str_entries [] = Some []"
| "str_entries ((k, JStr s) # kvs) = map_option ((#) (k, s)) (str_entries kvs)"
| "str_entries ((k, JNull) # kvs) = map_option ((#) (k, [])) (str_entries kvs)"
| "str_entries ((k, v) # kvs) = None"

fun dec_strmap :: "jv list \<Rightarrow> (string \<times> string) list \<Rightarrow> (string \<times> string) list option" where
  "dec_strmap [] cur = Some cur"
| "dec_strmap (JObj kvs # vs) cur =
    (case str_entries kvs of None \<Rightarrow> None | Some m \<Rightarrow> dec_strmap vs (fold (\<lambda>(k, v). AList.update k v) m cur))"
| "dec_strmap (JNull # vs) cur = dec_strmap vs []"
| "dec_strmap (v # vs) cur = None"

fun dec_float :: "(string \<Rightarrow> f64 option) \<Rightarrow> jv list \<Rightarrow> f64 \<Rightarrow> f64 option" where
  "dec_float num [] cur = Some cur"
| "dec_float num (JFloat t # vs) cur = (case num t of None \<Rightarrow> None | Some x \<Rightarrow> dec_float num vs x)"
| "dec_float num (JNull # vs) cur = dec_float num vs cur"
| "dec_float num (v # vs) cur = None"

text \<open>The elements of the arrays \<open>acc\<close>, which were read one after the other into the same slice.\<close>

definition slice_elems :: "(jv list \<Rightarrow> 'a option) \<Rightarrow> jv list list \<Rightarrow> 'a list option" where
  "slice_elems f acc = those (map (\<lambda>i. f (map (\<lambda>xs. xs ! i) (filter (\<lambda>xs. i < length xs) acc))) [0..<fold max (map length acc) 0])"

fun dec_slice :: "(jv list \<Rightarrow> 'a option) \<Rightarrow> jv list \<Rightarrow> jv list list \<Rightarrow> 'a list option" where
  "dec_slice f [] acc = map_option (take (if acc = [] then 0 else length (last acc))) (slice_elems f acc)"
| "dec_slice f (JArr [] # vs) acc = (case slice_elems f acc of None \<Rightarrow> None | Some _ \<Rightarrow> dec_slice f vs [])"
| "dec_slice f (JNull # vs) acc = (case slice_elems f acc of None \<Rightarrow> None | Some _ \<Rightarrow> dec_slice f vs [])"
| "dec_slice f (JArr xs # vs) acc = dec_slice f vs (acc @ [xs])"
| "dec_slice f (v # vs) acc = None"

text \<open>A number anywhere in an untyped value must be in the range of \<open>float64\<close>.\<close>

fun nums_ok :: "(string \<Rightarrow> f64 option) \<Rightarrow> jv \<Rightarrow> bool" where
  "nums_ok num (JFloat t) = (num t \<noteq> None)"
| "nums_ok num (JArr vs) = (\<forall>v\<in>set vs. nums_ok num v)"
| "nums_ok num (JObj kvs) = (\<forall>kv\<in>set kvs. nums_ok num (snd kv))"
| "nums_ok num v = True"

definition dec_any :: "(string \<Rightarrow> f64 option) \<Rightarrow> jv list \<Rightarrow> jv option" where
  "dec_any num vs = (if list_all (nums_ok num) vs then Some (if vs = [] then JNull else last vs) else None)"

section \<open>The answers\<close>

record 'd api_response =
  ap_Status :: string
  ap_Data :: 'd
  ap_Error :: string

definition dec_response :: "(jv list \<Rightarrow> 'd option) \<Rightarrow> jv \<Rightarrow> 'd api_response option" where
  "dec_response dat = dec_object (\<lambda>obj.
     case (dec_string ''status'' obj, dat (members ''data'' obj), dec_string ''error'' obj) of
       (Some st, Some d, Some e) \<Rightarrow> Some \<lparr>ap_Status = st, ap_Data = d, ap_Error = e\<rparr> | _ \<Rightarrow> None)"

record apiAlert =
  aa_Labels :: "(string \<times> string) list"
  aa_Annotations :: "(string \<times> string) list"
  aa_State :: string
  aa_ActiveAt :: string

definition dec_alert :: "jv list \<Rightarrow> apiAlert option" where
  "dec_alert = dec_struct (\<lambda>obj.
     case (dec_strmap (members ''labels'' obj) [], dec_strmap (members ''annotations'' obj) [], dec_string ''state'' obj, dec_string ''activeAt'' obj) of
       (Some ls, Some as, Some st, Some act) \<Rightarrow> Some \<lparr>aa_Labels = ls, aa_Annotations = as, aa_State = st, aa_ActiveAt = act\<rparr> | _ \<Rightarrow> None)"

definition dec_alerts :: "jv list \<Rightarrow> apiAlert list option" where
  "dec_alerts = dec_struct (\<lambda>obj. dec_slice dec_alert (members ''alerts'' obj) [])"

text \<open>A rule is read from the members \<open>alert\<close> and \<open>expr\<close> into its name and its query.\<close>

definition dec_rule :: "(string \<Rightarrow> f64 option) \<Rightarrow> jv list \<Rightarrow> Rule option" where
  "dec_rule num = dec_struct (\<lambda>obj.
     case (dec_string ''alert'' obj, dec_string ''expr'' obj, dec_float num (members ''duration'' obj) (Fin 0),
           dec_strmap (members ''labels'' obj) [], dec_strmap (members ''annotations'' obj) [], dec_string ''state'' obj, dec_string ''type'' obj) of
       (Some al, Some ex, Some du, Some ls, Some as, Some st, Some ty) \<Rightarrow>
         Some \<lparr>ru_Name = al, ru_Query = ex, ru_Duration = du, ru_Labels = ls, ru_Annotations = as, ru_State = st, ru_Type = ty\<rparr>
     | _ \<Rightarrow> None)"

definition dec_group :: "(string \<Rightarrow> f64 option) \<Rightarrow> jv list \<Rightarrow> RuleGroup option" where
  "dec_group num = dec_struct (\<lambda>obj.
     case (dec_string ''name'' obj, dec_string ''file'' obj, dec_slice (dec_rule num) (members ''rules'' obj) []) of
       (Some n, Some f, Some rs) \<Rightarrow> Some \<lparr>rg_Name = n, rg_File = f, rg_Rules = rs\<rparr> | _ \<Rightarrow> None)"

definition dec_groups :: "(string \<Rightarrow> f64 option) \<Rightarrow> jv list \<Rightarrow> RuleGroup list option" where
  "dec_groups num = dec_struct (\<lambda>obj. dec_slice (dec_group num) (members ''groups'' obj) [])"

text \<open>The results of a query stay raw: of an element only its last occurrence.\<close>

definition dec_raw :: "jv list \<Rightarrow> jv option" where
  "dec_raw vs = Some (if vs = [] then JNull else last vs)"

definition dec_results :: "jv list \<Rightarrow> jv list option" where
  "dec_results = dec_struct (\<lambda>obj.
     case dec_string ''resultType'' obj of None \<Rightarrow> None | Some _ \<Rightarrow> dec_slice dec_raw (members ''result'' obj) [])"

definition dec_vector :: "(string \<Rightarrow> f64 option) \<Rightarrow> jv \<Rightarrow> ((string \<times> string) list \<times> jv list) option" where
  "dec_vector num v = dec_struct (\<lambda>obj.
     case (dec_strmap (members ''metric'' obj) [], dec_slice (dec_any num) (members ''value'' obj) []) of
       (Some m, Some xs) \<Rightarrow> Some (m, xs) | _ \<Rightarrow> None) [v]"

section \<open>The client\<close>

record 'n prom_io =
  pi_baseURL :: string
  pi_newreq :: "string \<Rightarrow> goerr option"
  pi_do :: "OutReq \<Rightarrow> 'n \<Rightarrow> (goerr + HttpResponse) \<times> 'n"
  pi_readerr :: "HttpResponse \<Rightarrow> goerr option"
  pi_text :: "goerr \<Rightarrow> string"
  pi_time :: "string \<Rightarrow> gotime option"
  pi_num :: "string \<Rightarrow> f64 option"
  pi_conv :: "f64 \<Rightarrow> int"

definition maxResponseBodyBytes :: nat where "maxResponseBodyBytes = 10 * 1024 * 1024"

definition redactErr :: "'n prom_io \<Rightarrow> goerr \<Rightarrow> goerr" where
  "redactErr io e = Errorf ''%s'' [RedactError (Some (pi_text io e))]"

text \<open>The steps the three operations share, from the URL to the data of a successful answer.\<close>

definition prom_get :: "'n prom_io \<Rightarrow> string \<Rightarrow> string \<Rightarrow> string \<Rightarrow> Ctx \<Rightarrow> string \<Rightarrow> 'n \<Rightarrow> (goerr + string) \<times> 'n" where
  "prom_get io creating querying reading ctx url n =
    (case pi_newreq io url of
       Some err \<Rightarrow> (Inl (redactErr io (Wrapf (creating @ '': %w'') [] err)), n)
     | None \<Rightarrow>
        (case pi_do io (out_request ''GET'' url ctx (\<lambda>_. []) None) n of
           (Inl err, n) \<Rightarrow> (Inl (redactErr io (Wrapf (querying @ '': %w'') [] err)), n)
         | (Inr resp, n) \<Rightarrow>
            (if rs_Status resp \<noteq> 200 then Inl (redactErr io (Errorf (querying @ '': HTTP %d'') [show_int (rs_Status resp)]))
             else (case pi_readerr io resp of
                 Some err \<Rightarrow> Inl (redactErr io (Wrapf (reading @ '': %w'') [] err))
               | None \<Rightarrow> Inr (take maxResponseBodyBytes (rs_Body resp))), n)))"

definition prom_data :: "'n prom_io \<Rightarrow> string \<Rightarrow> string \<Rightarrow> (jv list \<Rightarrow> 'd option) \<Rightarrow> string \<Rightarrow> goerr + 'd" where
  "prom_data io parsing api dat body =
    (case unmarshal_body (dec_response dat) body of
       Inl err \<Rightarrow> Inl (Wrapf (parsing @ '': %w'') [] err)
     | Inr r \<Rightarrow> if ap_Status r \<noteq> ''success'' then Inl (redactErr io (Errorf (api @ '': %s'') [ap_Error r])) else Inr (ap_Data r))"

definition zero_time :: gotime where "zero_time = - 62135596800 * ns_second"

definition to_alert :: "'n prom_io \<Rightarrow> apiAlert \<Rightarrow> Alert" where
  "to_alert io a = \<lparr>al_Labels = aa_Labels a, al_Annotations = aa_Annotations a, al_State = aa_State a,
     al_ActiveAt = (if aa_ActiveAt a \<noteq> [] then case pi_time io (aa_ActiveAt a) of Some t \<Rightarrow> t | None \<Rightarrow> zero_time else zero_time)\<rparr>"

definition GetAlerts :: "'n prom_io \<Rightarrow> Ctx \<Rightarrow> 'n \<Rightarrow> (goerr + Alert list) \<times> 'n" where
  "GetAlerts io ctx n =
    (case prom_get io ''creating alerts request'' ''querying alerts'' ''reading alerts response'' ctx (pi_baseURL io @ ''/api/v1/alerts'') n of
       (Inl e, n) \<Rightarrow> (Inl e, n)
     | (Inr body, n) \<Rightarrow> (case prom_data io ''parsing alerts response'' ''alerts API error'' dec_alerts body of
           Inl e \<Rightarrow> Inl e | Inr alerts \<Rightarrow> Inr (map (to_alert io) alerts), n))"

definition GetRules :: "'n prom_io \<Rightarrow> Ctx \<Rightarrow> 'n \<Rightarrow> (goerr + RuleGroup list) \<times> 'n" where
  "GetRules io ctx n =
    (case prom_get io ''creating rules request'' ''querying rules'' ''reading rules response'' ctx (pi_baseURL io @ ''/api/v1/rules'') n of
       (Inl e, n) \<Rightarrow> (Inl e, n)
     | (Inr body, n) \<Rightarrow> (prom_data io ''parsing rules response'' ''rules API error'' (dec_groups (pi_num io)) body, n))"

text \<open>\<open>url.QueryEscape\<close>, which \<open>Values.Encode\<close> applies to the value.\<close>

definition unreserved :: "char \<Rightarrow> bool" where
  "unreserved c \<longleftrightarrow> 65 \<le> byte c \<and> byte c \<le> 90 \<or> 97 \<le> byte c \<and> byte c \<le> 122 \<or> 48 \<le> byte c \<and> byte c \<le> 57 \<or> c \<in> set ''-_.~''"

definition upper_hex :: "nat \<Rightarrow> char" where
  "upper_hex n = (if n < 10 then char_of (48 + n) else char_of (55 + n))"

definition escape_char :: "char \<Rightarrow> string" where
  "escape_char c = (if unreserved c then [c] else if c = CHR '' '' then ''+''
     else [CHR ''%'', upper_hex (byte c div 16), upper_hex (byte c mod 16)])"

definition query_escape :: "string \<Rightarrow> string" where
  "query_escape s = concat (map escape_char s)"

definition sample_value :: "'n prom_io \<Rightarrow> jv \<Rightarrow> f64" where
  "sample_value io v = (case v of
     JStr s \<Rightarrow> (case pi_num io s of Some x \<Rightarrow> x | None \<Rightarrow> Fin 0)
   | JFloat t \<Rightarrow> (case pi_num io t of Some x \<Rightarrow> x | None \<Rightarrow> Fin 0)
   | _ \<Rightarrow> Fin 0)"

definition sample_time :: "'n prom_io \<Rightarrow> jv \<Rightarrow> gotime" where
  "sample_time io v = (case v of
     JFloat t \<Rightarrow> (case pi_num io t of Some x \<Rightarrow> unix_time (f64_to_int64 (pi_conv io) x) | None \<Rightarrow> zero_time) | _ \<Rightarrow> zero_time)"

definition to_sample :: "'n prom_io \<Rightarrow> (string \<times> string) list \<times> jv list \<Rightarrow> Sample" where
  "to_sample io vr = (case vr of (labels, value) \<Rightarrow>
     if length value = 2 then \<lparr>sm_Metric = labels, sm_Value = sample_value io (value ! 1), sm_Timestamp = sample_time io (value ! 0)\<rparr>
     else \<lparr>sm_Metric = labels, sm_Value = Fin 0, sm_Timestamp = zero_time\<rparr>)"

definition InstantQuery :: "'n prom_io \<Rightarrow> Ctx \<Rightarrow> string \<Rightarrow> 'n \<Rightarrow> (goerr + QueryResult) \<times> 'n" where
  "InstantQuery io ctx query n =
    (case prom_get io ''creating query request'' ''executing query'' ''reading query response'' ctx
        (pi_baseURL io @ ''/api/v1/query?query='' @ query_escape query) n of
       (Inl e, n) \<Rightarrow> (Inl e, n)
     | (Inr body, n) \<Rightarrow> (case prom_data io ''parsing query response'' ''query API error'' dec_results body of
           Inl e \<Rightarrow> Inl e
         | Inr raws \<Rightarrow> Inr \<lparr>qr_Samples = map (to_sample io) (List.map_filter (dec_vector (pi_num io)) raws)\<rparr>, n))"

section \<open>The query in the URL\<close>

text \<open>The two hexadecimal digits give the byte back.\<close>

definition from_hex :: "char \<Rightarrow> nat" where
  "from_hex c = (if byte c < 58 then byte c - 48 else byte c - 55)"

lemma from_upper_hex: "n < 16 \<Longrightarrow> from_hex (upper_hex n) = n"
  by (auto simp: from_hex_def upper_hex_def)

lemma upper_hex_unreserved: "n < 16 \<Longrightarrow> unreserved (upper_hex n)"
  by (auto simp: unreserved_def upper_hex_def)

lemma byte_parts: "byte c div 16 < 16 \<and> byte c mod 16 < 16"
proof -
  have "byte c < 256" by simp
  then have "byte c div 16 < 16" by (simp add: less_mult_imp_div_less)
  then show ?thesis by simp
qed

lemma special_reserved: "\<not> unreserved CHR ''%''" "\<not> unreserved CHR ''+''" "\<not> unreserved CHR '' ''" "\<not> unreserved CHR ''&''"
  by (simp_all add: unreserved_def)

lemma escape_char_prefix_free:
  assumes "escape_char c @ x = escape_char d @ y"
  shows "c = d \<and> x = y"
proof (cases "unreserved c \<or> c = CHR '' '' \<or> unreserved d \<or> d = CHR '' ''")
  case True
  then show ?thesis using assms special_reserved by (auto simp: escape_char_def split: if_splits)
next
  case False
  then have e: "upper_hex (byte c div 16) = upper_hex (byte d div 16)" "upper_hex (byte c mod 16) = upper_hex (byte d mod 16)" "x = y"
    using assms by (simp_all add: escape_char_def)
  have "byte c div 16 = byte d div 16" using arg_cong [OF e(1), of from_hex] byte_parts [of c] byte_parts [of d] by (simp add: from_upper_hex)
  moreover have "byte c mod 16 = byte d mod 16" using arg_cong [OF e(2), of from_hex] byte_parts [of c] byte_parts [of d] by (simp add: from_upper_hex)
  ultimately have "byte c = byte d" by (metis div_mult_mod_eq)
  then have "c = d" by simp
  with e(3) show ?thesis by simp
qed

lemma escape_char_nonempty: "escape_char c \<noteq> []"
  by (simp add: escape_char_def)

lemma query_escape_inj: "query_escape s = query_escape t \<Longrightarrow> s = t"
proof (induction s arbitrary: t)
  case Nil
  then show ?case by (cases t) (simp_all add: query_escape_def escape_char_nonempty)
next
  case (Cons c s)
  show ?case
  proof (cases t)
    case Nil
    with Cons.prems show ?thesis by (simp add: query_escape_def escape_char_nonempty)
  next
    case (Cons d t')
    with Cons.prems have "escape_char c @ query_escape s = escape_char d @ query_escape t'" by (simp add: query_escape_def)
    from escape_char_prefix_free [OF this] Cons.IH [of t'] Cons show ?thesis by simp
  qed
qed

lemma query_escape_chars: "x \<in> set (query_escape s) \<Longrightarrow> unreserved x \<or> x = CHR ''%'' \<or> x = CHR ''+''"
  using byte_parts upper_hex_unreserved by (fastforce simp: query_escape_def escape_char_def split: if_splits)

text \<open>The requests an operation makes: those of \<open>pi_do\<close>.\<close>

definition logging :: "'n prom_io \<Rightarrow> (OutReq list \<times> 'n) prom_io" where
  "logging io = \<lparr>pi_baseURL = pi_baseURL io, pi_newreq = pi_newreq io,
     pi_do = (\<lambda>q (qs, n). case pi_do io q n of (r, n') \<Rightarrow> (r, (qs @ [q], n'))), pi_readerr = pi_readerr io, pi_text = pi_text io,
     pi_time = pi_time io, pi_num = pi_num io, pi_conv = pi_conv io\<rparr>"

lemma prom_get_requests:
  "fst (snd (prom_get (logging io) creating querying reading ctx url (qs, n))) \<in> {qs, qs @ [out_request ''GET'' url ctx (\<lambda>_. []) None]}"
  by (simp add: prom_get_def logging_def split: option.split prod.split sum.split)


section \<open>Errors\<close>

definition redacted :: "goerr \<Rightarrow> bool" where
  "redacted e \<longleftrightarrow> (\<exists>t. e = Errorf ''%s'' [t] \<and> length t \<le> 259) \<or> (\<exists>f. e = Wrapf f [] ErrJson)"

lemma redactErr_redacted: "redacted (redactErr io e)"
  using RedactError_length by (auto simp: redacted_def redactErr_def)

lemma prom_get_error: "fst (prom_get io c q r ctx url n) = Inl e \<Longrightarrow> redacted e"
  using redactErr_redacted by (auto simp: prom_get_def split: option.splits prod.splits sum.splits if_splits)

lemma prom_data_error: "prom_data io p a dat body = Inl e \<Longrightarrow> redacted e"
  using redactErr_redacted unmarshal_body_Inl by (fastforce simp: prom_data_def redacted_def split: sum.splits if_splits)

lemma prom_op_error:
  assumes "fst (case prom_get io c q r ctx url n of (Inl e, n) \<Rightarrow> (Inl e, n) | (Inr body, n) \<Rightarrow> (g body, n)) = Inl e"
    and "\<And>body e. g body = Inl e \<Longrightarrow> redacted e"
  shows "redacted e"
proof (cases "prom_get io c q r ctx url n" rule: prod.exhaust)
  case (Pair x n')
  then show ?thesis using assms prom_get_error [of io c q r ctx url n] by (cases x) auto
qed

lemma prom_map_error: "(case prom_data io p a dat body of Inl e \<Rightarrow> Inl e | Inr x \<Rightarrow> Inr (f x)) = Inl e \<Longrightarrow> redacted e"
  using prom_data_error [of io p a dat body] by (auto split: sum.splits)

text \<open>
  No error of the Prometheus client carries more of an underlying error, or of the error text of
  the server, than its redacted form of at most 259 bytes; the one other error says that an answer
  is not the expected JSON.
\<close>
lemma prom_errors_redacted:
  "{e. fst (GetAlerts io ctx n) = Inl e} \<union> {e. fst (GetRules io ctx n) = Inl e} \<union> {e. fst (InstantQuery io ctx q n) = Inl e} \<subseteq> Collect redacted"
proof -
  have "redacted e" if "fst (GetAlerts io ctx n) = Inl e" for e
    using that prom_map_error unfolding GetAlerts_def by (rule prom_op_error)
  moreover have "redacted e" if "fst (GetRules io ctx n) = Inl e" for e
    using that prom_data_error unfolding GetRules_def by (rule prom_op_error)
  moreover have "redacted e" if "fst (InstantQuery io ctx q n) = Inl e" for e
    using that prom_map_error unfolding InstantQuery_def by (rule prom_op_error)
  ultimately show ?thesis by blast
qed

text \<open>
  A rule written with the members \<open>name\<close> and \<open>query\<close>, as the rules endpoint of Prometheus documents them, is
  read without a name and without a query.
\<close>

lemma rule_without_alert_expr:
  assumes "dec_rule num [JObj obj] = Some r" "members ''alert'' obj = []" "members ''expr'' obj = []"
  shows "ru_Name r = [] \<and> ru_Query r = []"
  using assms by (auto simp: dec_rule_def dec_struct_def obj_fields_def dec_string_def split: option.splits)

lemma documented_rule_unnamed:
  "members ''alert'' [(''name'', a), (''query'', b), (''duration'', c), (''labels'', d), (''annotations'', e), (''state'', f), (''type'', g)] = []"
  "members ''expr'' [(''name'', a), (''query'', b), (''duration'', c), (''labels'', d), (''annotations'', e), (''state'', f), (''type'', g)] = []"
  by (simp_all add: members_def same_name_def runes_ascii fold_rune_def)

end
