(* ===== verification/Backends.thy ===== *)
theory Backends
  imports Wiring AgentRoot Launcher PromClient
begin

text \<open>
  The clients and handlers \<open>cmd/apifrontend/main.go\<close> builds from the configuration: \<open>buildBackendDeps\<close> (data
  store, analysis service, Prometheus, cluster), \<open>buildA2AHandler\<close> with the agent and the session service,
  and \<open>buildSessionInfra\<close>. Transports are named by their CA file: \<open>be_ca\<close> is the construction and start of a
  reloadable transport for a file (\<open>Inr None\<close> for the empty name, which means the default transport), and
  \<open>be_net\<close> the network behind a transport. The manager of the controller library, the model client and the
  A2A libraries are parameters.
\<close>

section \<open>The service clients\<close>

record ('t, 'n) backend_env =
  be_ca :: "string \<Rightarrow> goerr + 't option"
  be_start :: "'t \<Rightarrow> goerr option"
  be_net :: "'t option \<Rightarrow> 'n net"
  be_token :: "string \<Rightarrow> 'n \<Rightarrow> goerr + string"

text \<open>One dependency: its transport, and its watcher started when it has one.\<close>

definition dep_transport :: "('t, 'n) backend_env \<Rightarrow> string \<Rightarrow> string \<Rightarrow> string \<Rightarrow> goerr + 't option" where
  "dep_transport be what watching caFile =
    (case be_ca be caFile of
       Inl e \<Rightarrow> Inl (Wrapf (what @ '': %w'') [] e)
     | Inr None \<Rightarrow> Inr None
     | Inr (Some t) \<Rightarrow> (case be_start be t of Some e \<Rightarrow> Inl (Wrapf (watching @ '': %w'') [] e) | None \<Rightarrow> Inr (Some t)))"

definition wire_ka :: "'t Config \<Rightarrow> ka_Config" where
  "wire_ka cfg = (let r = re_KA (cf_Resilience cfg) in
     \<lparr>kg_BaseURL = ag_KABaseURL (cf_Agent cfg), kg_MCPEndpoint = [], kg_Token = [], kg_Timeout = dc_RequestTimeout r,
      kg_CBMaxRequests = dc_CBMaxRequests r, kg_CBInterval = dc_CBInterval r, kg_CBTimeout = dc_CBTimeout r,
      kg_CBFailureThreshold = dc_CBFailureThreshold r, kg_RetryMax = dc_RetryMax r, kg_RetryInitBackoff = dc_RetryInitBackoff r,
      kg_RetryMaxBackoff = dc_RetryMaxBackoff r, kg_RetryableStatuses = dc_RetryableStatuses r\<rparr>)"

definition ka_metrics :: ClientMetrics where
  "ka_metrics = \<lparr>kq_StateGauge = True, kq_DurationHist = True, kq_RetryCounter = True\<rparr>"

text \<open>A transport that reads the token file anew for every request, over a transport with a breaker.\<close>

definition token_over ::
  "(('n \<Rightarrow> goerr + string)) option \<Rightarrow> (OutReq \<Rightarrow> 'b \<Rightarrow> 'n \<Rightarrow> (goerr + HttpResponse) \<times> 'b \<times> 'n) \<Rightarrow>
   OutReq \<Rightarrow> 'b \<Rightarrow> 'n \<Rightarrow> (goerr + HttpResponse) \<times> 'b \<times> 'n" where
  "token_over tokenFile base req b n =
    (case tokenFile of None \<Rightarrow> base req b n
     | Some f \<Rightarrow> bearerToken_RoundTrip (f n) (\<lambda>r (b, n). base (req\<lparr>oq_req := r\<rparr>) b n) (oq_req req) (b, n))"

text \<open>
  \<open>bk_Prom\<close> is the client of Prometheus (address, transport, token file) with the settings of the triager that
  uses it, when triage is enabled; \<open>bk_CAWatchers\<close> are the started watchers by name.
\<close>

record ('t, 'b, 'n, 'd) backendDeps =
  bk_DSTransport :: "OutReq \<Rightarrow> 'b \<Rightarrow> 'n \<Rightarrow> (goerr + HttpResponse) \<times> 'b \<times> 'n"
  bk_DSAvailable :: bool
  bk_KAClient :: "('b, 'n) ka_Client"
  bk_MCPEndpoint :: string
  bk_MCPBase :: "'t option"
  bk_Prom :: "(string \<times> 't option \<times> string option \<times> TriageConfig) option"
  bk_DynFactory :: 'd
  bk_CAWatchers :: "(string \<times> 't) list"

definition watcher_entry :: "string \<Rightarrow> 't option \<Rightarrow> (string \<times> 't) list" where
  "watcher_entry name t = (case t of None \<Rightarrow> [] | Some w \<Rightarrow> [(name, w)])"

definition buildBackendDeps ::
  "('t, 'n) backend_env \<Rightarrow> 'n cb_env \<Rightarrow> ('b, 'n, HttpResponse) breaker_ops \<Rightarrow> (string \<Rightarrow> duration \<Rightarrow> goerr + 'c) \<Rightarrow> 'd \<Rightarrow> 'x Config \<Rightarrow>
    goerr + ('t, 'b, 'n, 'd) backendDeps" where
  "buildBackendDeps be env ops mkOgen dyn cfg =
    (case dep_transport be ''DS TLS transport'' ''DS CA watcher start'' (ag_DSTLSCaFile (cf_Agent cfg)) of
       Inl e \<Rightarrow> Inl e
     | Inr dsT \<Rightarrow>
       (let resilient = buildResilientTransport env ops (be_net be dsT) (re_DS (cf_Resilience cfg)) ''ds'';
            tokenFile = ag_DSBearerTokenFile (cf_Agent cfg);
            dsAuth = token_over (if tokenFile \<noteq> [] then Some (be_token be tokenFile) else None) resilient;
            ds = NewOgenClient mkOgen (ag_DSBaseURL (cf_Agent cfg)) (dc_RequestTimeout (re_DS (cf_Resilience cfg)))
        in case dep_transport be ''KA TLS transport'' ''KA CA watcher start'' (ag_KATLSCaFile (cf_Agent cfg)) of
             Inl e \<Rightarrow> Inl e
           | Inr kaT \<Rightarrow>
             (let st = cf_SeverityTriage cfg in
              case (if sg_Enabled st
                    then dep_transport be ''prometheus TLS transport'' ''prometheus CA watcher start'' (sg_PrometheusTLSCaFile st) else Inr None) of
                Inl e \<Rightarrow> Inl e
              | Inr promT \<Rightarrow> Inr \<lparr>bk_DSTransport = dsAuth, bk_DSAvailable = (case ds of Inr _ \<Rightarrow> True | Inl _ \<Rightarrow> False),
                  bk_KAClient = ka_NewClient env ops (be_net be kaT) (wire_ka cfg) (Some ka_metrics),
                  bk_MCPEndpoint = ag_KAMCPEndpoint (cf_Agent cfg), bk_MCPBase = kaT,
                  bk_Prom = (if sg_Enabled st then Some (sg_PrometheusURL st, promT, opt_string (sg_PrometheusBearerTokenFile st), wire_severity st) else None),
                  bk_DynFactory = dyn,
                  bk_CAWatchers = watcher_entry ''ds-ca'' dsT @ watcher_entry ''ka-ca'' kaT @ watcher_entry ''prom-ca'' promT\<rparr>)))"

text \<open>\<open>depsReady\<close>, which \<open>buildMCPHandler\<close> gives to the readiness handler: both breakers must not be open.\<close>

definition depsReady :: "('b, 'n, HttpResponse) breaker_ops \<Rightarrow> 'b \<Rightarrow> 'b \<Rightarrow> 'n \<Rightarrow> bool" where
  "depsReady ops kaBreaker dsBreaker n \<longleftrightarrow> ka_Healthy ops kaBreaker n \<and> \<not> bo_open ops dsBreaker n"

section \<open>Sessions\<close>

record ('cl, 't) session_infra =
  si_client :: 'cl
  si_namespace :: string
  si_apiReader :: bool
  si_disconnectTTL :: duration
  si_retentionTTL :: duration
  si_managed :: bool

text \<open>
  \<open>get_config\<close>, \<open>new_manager\<close> and \<open>setup\<close> are the results of the controller library; the fake client keeps its
  objects in memory. What is left out is the priming of metric labels, the auditor and gauge both the service and the
  reconciler get in every case, and the goroutine the manager runs in.
\<close>

definition buildSessionInfra ::
  "goerr option \<Rightarrow> (goerr + 'cl) \<Rightarrow> goerr option \<Rightarrow> 'cl \<Rightarrow> 'x Config \<Rightarrow> ('cl, 't) session_infra" where
  "buildSessionInfra get_config new_manager setup fake cfg =
    (let infra = (\<lambda>cl managed. \<lparr>si_client = cl, si_namespace = se_Namespace (cf_Session cfg), si_apiReader = managed,
           si_disconnectTTL = se_DisconnectTTL (cf_Session cfg), si_retentionTTL = se_RetentionTTL (cf_Session cfg), si_managed = managed\<rparr>)
     in case get_config of
          Some e \<Rightarrow> infra fake False
        | None \<Rightarrow> (case new_manager of
            Inl e \<Rightarrow> infra fake False
          | Inr cl \<Rightarrow> (case setup of Some e \<Rightarrow> infra fake False | None \<Rightarrow> infra cl True)))"

section \<open>The A2A handler\<close>

text \<open>\<open>newModel\<close> is the model client, \<open>mem\<close> the session service of the library that keeps sessions in memory.\<close>

definition a2a_agent_config ::
  "string \<Rightarrow> 'm \<Rightarrow> 'w kube option \<Rightarrow> 'w ka_io option \<Rightarrow> 'w ds_Client option \<Rightarrow> 'w select_client option \<Rightarrow> (Ctx \<Rightarrow> goerr + 'w kube) \<Rightarrow>
    ('m, 'w) AgentConfig" where
  "a2a_agent_config prompt llm k8s kaC dsC mcpC dyn =
    (DefaultTestConfig prompt)\<lparr>ac_GCPProject := [], ac_GCPRegion := [], ac_KABaseURL := [], ac_KAMCPEndpoint := [], ac_DSBaseURL := [],
      ac_LLMModel := Some llm, ac_K8sClient := k8s, ac_KAClient := kaC, ac_DSClient := dsC, ac_MCPClient := mcpC,
      ac_ImpersonatingClientFactory := Some dyn, ac_Auditor := True, ac_ToolCallsTotal := True, ac_ToolCallDuration := True\<rparr>"

definition a2a_root ::
  "(string \<Rightarrow> goerr option) \<Rightarrow> (('m, 'w) agent_spec \<Rightarrow> goerr + 'a) \<Rightarrow> (goerr \<Rightarrow> string) \<Rightarrow> goerr + rbac_roles \<Rightarrow> 'w tool_world \<Rightarrow>
    ('m \<Rightarrow> ('m, 'w) AgentConfig) \<Rightarrow> 'm \<Rightarrow> goerr + 'a" where
  "a2a_root fe mka render parsed tw agentCfg llm =
    (case NewRootAgent fe mka render parsed tw (agentCfg llm) [] of Inl e \<Rightarrow> Inl e | Inr (a, _) \<Rightarrow> Inr a)"

definition a2a_sessions :: "('st, 's) session_service option \<Rightarrow> ('st, 's) session_service \<Rightarrow> ('st, 's) session_service" where
  "a2a_sessions crd mem = (case crd of Some svc \<Rightarrow> ServiceDecorator svc | None \<Rightarrow> mem)"

definition build_a2a ::
  "(goerr + 'm) \<Rightarrow> ('m \<Rightarrow> goerr + 'a) \<Rightarrow> (goerr \<Rightarrow> string) \<Rightarrow> (('a, ('st, 's) session_service) ExecutorConfig \<Rightarrow> 'h) \<Rightarrow>
    ('st, 's) session_service option \<Rightarrow> ('st, 's) session_service \<Rightarrow> goerr + 'h" where
  "build_a2a newModel rootAgent render mk crd mem =
    (case newModel of
       Inl e \<Rightarrow> Inl (Wrapf ''create LLM model: %w'' [] e)
     | Inr llm \<Rightarrow> (case rootAgent llm of
         Inl e \<Rightarrow> Inl (Wrapf ''create root agent: %w'' [] e)
       | Inr a \<Rightarrow> (case NewA2AHandler render mk \<lparr>la_Agent = Some a, la_SessionService = Some (a2a_sessions crd mem),
             la_AppName = ''kubernaut-apifrontend'', la_Auditor = True, la_BeforeExecute = None\<rparr> of
           Inl e \<Rightarrow> Inl (Wrapf ''create A2A handler: %w'' [] e)
         | Inr h \<Rightarrow> Inr h)))"

section \<open>Bounds of the wired clients\<close>

lemma buildBackendDeps_Inr:
  assumes "buildBackendDeps be env ops mkOgen dyn cfg = Inr deps"
  shows "\<exists>dsT kaT tok. bk_DSTransport deps = token_over tok (buildResilientTransport env ops (be_net be dsT) (re_DS (cf_Resilience cfg)) ''ds'') \<and>
    bk_KAClient deps = ka_NewClient env ops (be_net be kaT) (wire_ka cfg) (Some ka_metrics)"
proof -
  obtain dsT where ds: "dep_transport be ''DS TLS transport'' ''DS CA watcher start'' (ag_DSTLSCaFile (cf_Agent cfg)) = Inr dsT"
    using assms by (cases "dep_transport be ''DS TLS transport'' ''DS CA watcher start'' (ag_DSTLSCaFile (cf_Agent cfg))") (simp_all add: buildBackendDeps_def)
  obtain kaT where ka: "dep_transport be ''KA TLS transport'' ''KA CA watcher start'' (ag_KATLSCaFile (cf_Agent cfg)) = Inr kaT"
    using assms ds by (cases "dep_transport be ''KA TLS transport'' ''KA CA watcher start'' (ag_KATLSCaFile (cf_Agent cfg))")
      (simp_all add: buildBackendDeps_def Let_def)
  let ?p = "if sg_Enabled (cf_SeverityTriage cfg) then dep_transport be ''prometheus TLS transport'' ''prometheus CA watcher start''
      (sg_PrometheusTLSCaFile (cf_SeverityTriage cfg)) else Inr None"
  obtain promT where p: "?p = Inr promT" using assms ds ka by (cases ?p) (simp_all only: buildBackendDeps_def Let_def sum.case, blast)
  let ?tok = "if ag_DSBearerTokenFile (cf_Agent cfg) \<noteq> [] then Some (be_token be (ag_DSBearerTokenFile (cf_Agent cfg))) else None"
  have "bk_DSTransport deps = token_over ?tok (buildResilientTransport env ops (be_net be dsT) (re_DS (cf_Resilience cfg)) ''ds'')"
    "bk_KAClient deps = ka_NewClient env ops (be_net be kaT) (wire_ka cfg) (Some ka_metrics)"
    using assms by (auto simp only: buildBackendDeps_def Let_def ds ka p sum.case sum.inject backendDeps.simps)
  then show ?thesis by blast
qed

lemma token_over_calls:
  assumes "token_over tok base req b n = (r, b', n')" and "\<And>q r b' n'. base q b n = (r, b', n') \<Longrightarrow> calls n' \<le> calls n + (k :: nat)"
  shows "calls n' \<le> calls n + k"
proof (cases tok)
  case None
  with assms show ?thesis by (simp add: token_over_def)
next
  case (Some f)
  with assms show ?thesis by (cases "f n") (auto simp: token_over_def bearerToken_RoundTrip_def)
qed


definition demo_backends :: "(unit, nat \<times> duration list \<times> string list) backend_env" where
  "demo_backends = \<lparr>be_ca = (\<lambda>_. Inr None), be_start = (\<lambda>_. None), be_net = (\<lambda>_. flaky_net), be_token = (\<lambda>_ _. Inr ''t'')\<rparr>"


section \<open>The agent behind the A2A endpoint\<close>

text \<open>
  C15: what \<open>buildA2AHandler\<close> gives the libraries when it succeeds with the session resources available:
  an agent with all its tools behind the role guard with auditing, and an executor in which a session
  is created only for an authenticated user, with that user and the task recorded in it, whatever the
  creation request says.
\<close>
theorem a2a_stack_guarded:
  assumes "build_a2a newModel (a2a_root (\<lambda>_. None) Inr render parsed tw (\<lambda>llm. a2a_agent_config prompt llm k8s kaC dsC mcpC dyn)) render id (Some svc) mem = Inr x"
  shows "(\<exists>spec. xe_Agent x = Some spec \<and> as_Guard spec = newRBACGuard True parsed \<and> map tool_Name (as_Tools spec) = snd (hd embedded_roles)) \<and>
    (\<forall>ctx task audit ctx' audit' req st s st'.
       xe_Before x ctx (Some task) audit = (Inr ctx', audit') \<longrightarrow>
       ss_Create (the (xe_SessionService x)) ctx' req st = (Inr s, st') \<longrightarrow>
       (\<exists>i m cfg. UserIdentityFromContext ctx = Some i \<and> ui_Username i \<noteq> [] \<and> ss_Create svc ctx' (req\<lparr>cr_State := Some m\<rparr>) st = (Inr s, st') \<and>
          map_of m StateKeyCreateConfig = Some (SVConfig (Some cfg)) \<and> cc_A2ATaskID cfg = task \<and>
          cc_UserIdentity cfg = \<lparr>su_Username = ui_Username i, su_Groups = ui_Groups i\<rparr>))"
proof -
  from assms obtain llm spec where m: "a2a_root (\<lambda>_. None) Inr render parsed tw (\<lambda>llm. a2a_agent_config prompt llm k8s kaC dsC mcpC dyn) llm = Inr spec"
    and x: "x = \<lparr>xe_AppName = ''kubernaut-apifrontend'', xe_Agent = Some spec, xe_SessionService = Some (ServiceDecorator svc),
      xe_AutoCreateSession = True, xe_Before = buildBeforeExecuteCallback None True, xe_After = buildAfterExecuteCallback render True\<rparr>"
    by (auto simp: build_a2a_def NewA2AHandler_def A2AConfig_validate_def a2a_sessions_def split: sum.splits)
  obtain tools where n: "NewRootAgent (\<lambda>_. None) Inr render parsed tw (a2a_agent_config prompt llm k8s kaC dsC mcpC dyn) [] = Inr (spec, tools)"
    using m by (auto simp: a2a_root_def split: sum.splits)
  have g: "as_Guard spec = newRBACGuard True parsed \<and> as_Tools spec = tools" using n
    by (auto simp: NewRootAgent_def Apply_def a2a_agent_config_def Let_def split: if_splits sum.splits)
  have t: "map tool_Name tools = snd (hd embedded_roles)" using NewRootAgent_tools [OF n] by simp
  have s: "\<exists>i m cfg. UserIdentityFromContext ctx = Some i \<and> ui_Username i \<noteq> [] \<and> ss_Create svc ctx' (req\<lparr>cr_State := Some m\<rparr>) st = (Inr s, st') \<and>
      map_of m StateKeyCreateConfig = Some (SVConfig (Some cfg)) \<and> cc_A2ATaskID cfg = task \<and>
      cc_UserIdentity cfg = \<lparr>su_Username = ui_Username i, su_Groups = ui_Groups i\<rparr>"
    if "xe_Before x ctx (Some task) audit = (Inr ctx', audit')" "ss_Create (the (xe_SessionService x)) ctx' req st = (Inr s, st')"
    for ctx task audit ctx' audit' req st s st'
    using task_session [of True ctx task audit ctx' audit' svc req st s st'] that x by auto
  show ?thesis using g t s x by auto
qed

definition demo_tool_world :: "unit tool_world" where
  "demo_tool_world = \<lparr>tw_conf = \<lparr>kf_now = (\<lambda>_. 0), kf_format = (\<lambda>_. []), kf_render = (\<lambda>_. []), kf_lower = id, kf_upper = id,
       kf_label = (\<lambda>_. []), kf_subdomain = (\<lambda>_. []), kf_code = (\<lambda>_. 500), kf_sha256 = id\<rparr>,
     tw_watch = (\<lambda>_ _. Inr []), tw_wait = (\<lambda>_ w. (None, w))\<rparr>"

definition demo_a2a :: "goerr + ((unit, unit) agent_spec, (CreateRequest list, CreateRequest) session_service) ExecutorConfig" where
  "demo_a2a = build_a2a (Inr ()) (a2a_root (\<lambda>_. None) Inr (\<lambda>_. []) (Inr (map_of embedded_roles)) demo_tool_world
     (\<lambda>llm. a2a_agent_config ''triage'' llm None None None None (\<lambda>_. Inl ErrNotFound))) (\<lambda>_. []) id (Some echo_store) echo_store"

lemma NewRootAgent_built:
  assumes "ac_Instruction cfg \<noteq> []" "\<not> ac_SkipTools cfg" "\<And>n. fe n = None" "\<And>spec. mk spec = Inr (f spec)"
  shows "\<exists>r. NewRootAgent fe mk render parsed tw cfg [] = Inr r"
proof -
  have "collect_tools fe (toolConstructors tw cfg) = Inr (map snd (toolConstructors tw cfg))" using assms(3) by (rule collect_tools_all)
  moreover have "map snd (toolConstructors tw cfg) \<noteq> []" by (simp add: toolConstructors_def Let_def)
  ultimately obtain ts where ts: "buildToolList fe tw cfg = Inr ts" "ts \<noteq> []" using assms(2) by (simp add: buildToolList_def)
  show ?thesis
    unfolding NewRootAgent_def Apply_def fold.simps id_apply Let_def ts(1) sum.case assms(4)
    using assms(1) ts(2) by simp
qed

theorem a2a_stack_guarded_witness:
  "\<exists>x spec. demo_a2a = Inr x \<and> xe_Agent x = Some spec \<and> as_Guard spec = newRBACGuard True (Inr (map_of embedded_roles)) \<and>
     map tool_Name (as_Tools spec) = snd (hd embedded_roles)"
proof -
  let ?c = "a2a_agent_config ''triage'' () None None None None (\<lambda>_. Inl ErrNotFound) :: (unit, unit) AgentConfig"
  have t: "trim_space ''triage'' \<noteq> []" by (simp add: trim_space_def runes_ascii unicode_space_def)
  have i: "ac_Instruction ?c \<noteq> []" using t by (simp only: a2a_agent_config_def DefaultTestConfig_def defaultInstruction_def AgentConfig.simps) simp
  have k: "\<not> ac_SkipTools ?c" by (simp add: a2a_agent_config_def DefaultTestConfig_def)
  from NewRootAgent_built [OF i k, of "\<lambda>_. None" Inr "\<lambda>x. x" "\<lambda>_. []" "Inr (map_of embedded_roles)" demo_tool_world]
  obtain a ts where "NewRootAgent (\<lambda>_. None) Inr (\<lambda>_. []) (Inr (map_of embedded_roles)) demo_tool_world ?c [] = Inr (a, ts)" by auto
  then have "\<exists>x. demo_a2a = Inr x"
    by (simp only: demo_a2a_def build_a2a_def a2a_root_def NewA2AHandler_def A2AConfig_validate_def sum.case prod.case A2AConfig.simps) simp
  then obtain x where x: "demo_a2a = Inr x" by blast
  from a2a_stack_guarded [OF x [unfolded demo_a2a_def]] x show ?thesis by blast
qed

text \<open>The client of the analysis service is wired without a token, so it delegates no user to that service.\<close>

lemma ka_wired_without_delegation: "nt_next (ka_base (kg_Token (wire_ka cfg)) net) = lift_transport requestid_RoundTrip (nt_next net)"
  by (simp add: wire_ka_def ka_base_def Let_def)

text \<open>A manager that cannot be created or set up leaves the sessions in memory, also in a cluster.\<close>

lemma session_fallback:
  "new_manager = Inl e \<or> setup = Some e \<Longrightarrow> si_client (buildSessionInfra None new_manager setup fake cfg) = fake"
  by (auto simp: buildSessionInfra_def Let_def split: sum.split)

end
