(* ===== verification/Shutdown.thy ===== *)
theory Shutdown
  imports Wiring "HOL-Library.Sublist"
begin

text \<open>
  The end of \<open>run\<close> in \<open>cmd/apifrontend/main.go\<close>: from the moment the servers are started until the process
  exits. The main goroutine is the function \<open>main_step\<close>; it is interleaved with the requests the three
  servers have accepted, with the goroutines that outlive them, with the flush loop of the audit trail,
  with signals and with the clock. \<open>Shutdown\<close> of a server closes its listener at once and returns when no
  request is active or the context has expired. Shown are what has happened when the process exits, that
  it exits, and three ways in which audit events or streams miss the orderly end.
\<close>

datatype srv = SrvAPI | SrvHealth | SrvMetrics

text \<open>What \<open>ListenAndServe\<close> returns, and the exit code a server's goroutine then ends the process with.\<close>

datatype serve_error = ErrServerClosed | ServeError goerr

fun startServer :: "serve_error option \<Rightarrow> int option" where
  "startServer None = None"
| "startServer (Some ErrServerClosed) = None"
| "startServer (Some (ServeError err)) = Some 1"

datatype shut_pc = Serving | ToDrain | ToShutdown srv | WaitIdle srv | ToClose | Closing | StopIP | StopUser | Exited int

text \<open>
  \<open>ps_expired\<close>: \<open>shutCtx\<close> is done. \<open>ps_closed\<close>: the servers on which \<open>Shutdown\<close> was called; \<open>ps_active\<close>: the
  requests under way in each. The ghost lists \<open>ps_cancelled\<close> and \<open>ps_requested\<close> hold the streams \<open>DrainAll\<close>
  cancelled and the audit events the emitter accepted from requests.
\<close>

record process =
  ps_pc :: shut_pc
  ps_signalled :: bool
  ps_draining :: bool
  ps_expired :: bool
  ps_closed :: "srv list"
  ps_active :: "srv \<Rightarrow> nat"
  ps_tracker :: ConnectionTracker
  ps_emitter :: Emitter
  ps_ipStopped :: bool
  ps_userStopped :: bool
  ps_cancelled :: "nat list"
  ps_requested :: "Event list"

text \<open>The emitter is configured with a writer only, so that it takes its default sizes.\<close>

definition run_emitter :: Emitter where
  "run_emitter = Start (NewBufferedEmitter \<lparr>bc_BufferSize = 0, bc_FlushInterval = 0, bc_BatchSize = 0\<rparr> True)"

definition start_process :: "'t Config \<Rightarrow> process" where
  "start_process cfg = \<lparr>ps_pc = Serving, ps_signalled = False, ps_draining = False, ps_expired = False, ps_closed = [], ps_active = (\<lambda>_. 0),
     ps_tracker = buildSSETracker cfg, ps_emitter = run_emitter, ps_ipStopped = False, ps_userStopped = False,
     ps_cancelled = [], ps_requested = []\<rparr>"

definition shutdownServer :: "srv \<Rightarrow> process \<Rightarrow> bool" where
  "shutdownServer s p \<longleftrightarrow> ps_active p s = 0 \<or> ps_expired p"

fun after_server :: "srv \<Rightarrow> shut_pc" where
  "after_server SrvAPI = ToShutdown SrvHealth"
| "after_server SrvHealth = ToShutdown SrvMetrics"
| "after_server SrvMetrics = ToClose"

text \<open>
  The next step of the main goroutine, or none while it waits and after the exit. The drain is one
  step: a stream that comes while it waits is taken as one that comes after it.
\<close>

definition main_step :: "process \<Rightarrow> process option" where
  "main_step p = (case ps_pc p of
     Serving \<Rightarrow> if ps_signalled p then Some (p\<lparr>ps_draining := True, ps_pc := ToDrain\<rparr>) else None
   | ToDrain \<Rightarrow> (case DrainAll (ps_tracker p) of (n, effs, t) \<Rightarrow>
       Some (p\<lparr>ps_tracker := t, ps_cancelled := ps_cancelled p @ cancels effs, ps_pc := ToShutdown SrvAPI\<rparr>))
   | ToShutdown s \<Rightarrow> Some (p\<lparr>ps_closed := s # ps_closed p, ps_pc := WaitIdle s\<rparr>)
   | WaitIdle s \<Rightarrow> if shutdownServer s p then Some (p\<lparr>ps_pc := after_server s\<rparr>) else None
   | ToClose \<Rightarrow> Some (p\<lparr>ps_emitter := Close_emitter (ps_emitter p), ps_pc := Closing\<rparr>)
   | Closing \<Rightarrow> if be_loop (ps_emitter p) = Drained \<or> ps_expired p then Some (p\<lparr>ps_pc := StopIP\<rparr>) else None
   | StopIP \<Rightarrow> Some (p\<lparr>ps_ipStopped := True, ps_pc := StopUser\<rparr>)
   | StopUser \<Rightarrow> Some (p\<lparr>ps_userStopped := True, ps_pc := Exited 0\<rparr>)
   | Exited n \<Rightarrow> None)"

section \<open>Steps\<close>

inductive emit_call :: "(rune \<Rightarrow> rune) \<Rightarrow> Emitter \<Rightarrow> Emitter \<Rightarrow> bool" for lo where
  ec_emit: "emit_call lo e (Emit lo now rid ev e)"
| ec_block: "EmitBlocking lo now rid d ev e e' \<Longrightarrow> emit_call lo e e'"

inductive flush_step :: "Emitter \<Rightarrow> Emitter \<Rightarrow> bool" where
  fs_recv: "be_loop e = Running \<Longrightarrow> be_buffer e \<noteq> [] \<Longrightarrow> flush_step e (loop_recv ok e)"
| fs_tick: "be_loop e = Running \<Longrightarrow> flush_step e (loop_tick ok e)"
| fs_drain: "be_loop e = Running \<Longrightarrow> be_done e \<Longrightarrow> flush_step e (loop_drain ok e)"

definition alive :: "process \<Rightarrow> bool" where
  "alive p \<longleftrightarrow> (\<forall>n. ps_pc p \<noteq> Exited n)"

text \<open>The steps the process takes by itself: main goroutine, timeout of \<open>shutCtx\<close>, flush loop.\<close>

inductive own_step :: "process \<Rightarrow> process \<Rightarrow> bool" where
  main: "main_step p = Some p' \<Longrightarrow> own_step p p'"
| expire: "alive p \<Longrightarrow> ps_draining p \<Longrightarrow> own_step p (p\<lparr>ps_expired := True\<rparr>)"
| flush: "alive p \<Longrightarrow> flush_step (ps_emitter p) e \<Longrightarrow> own_step p (p\<lparr>ps_emitter := e\<rparr>)"

text \<open>
  The rest: a request emits and tracks streams only while it is active; the session controller and the
  other background goroutines emit at any time, their stop is deferred to the return of \<open>run\<close>.
\<close>

inductive process_step :: "(rune \<Rightarrow> rune) \<Rightarrow> process \<Rightarrow> process \<Rightarrow> bool" for lo where
  own: "own_step p p' \<Longrightarrow> process_step lo p p'"
| signal: "alive p \<Longrightarrow> process_step lo p (p\<lparr>ps_signalled := True\<rparr>)"
| accept: "alive p \<Longrightarrow> s \<notin> set (ps_closed p) \<Longrightarrow> process_step lo p (p\<lparr>ps_active := (ps_active p)(s := Suc (ps_active p s))\<rparr>)"
| finish: "alive p \<Longrightarrow> ps_active p s = Suc n \<Longrightarrow> process_step lo p (p\<lparr>ps_active := (ps_active p)(s := n)\<rparr>)"
| stream: "alive p \<Longrightarrow> ps_active p SrvAPI \<noteq> 0 \<Longrightarrow> process_step lo p (p\<lparr>ps_tracker := snd (tracker_Add conn (ps_tracker p))\<rparr>)"
| unstream: "alive p \<Longrightarrow> ps_active p SrvAPI \<noteq> 0 \<Longrightarrow> process_step lo p (p\<lparr>ps_tracker := tracker_Remove cid (ps_tracker p)\<rparr>)"
| request: "alive p \<Longrightarrow> ps_active p SrvAPI \<noteq> 0 \<Longrightarrow> emit_call lo (ps_emitter p) e \<Longrightarrow>
    process_step lo p (p\<lparr>ps_emitter := e, ps_requested := ps_requested p @ drop (length (be_accepted (ps_emitter p))) (be_accepted e)\<rparr>)"
| background: "alive p \<Longrightarrow> emit_call lo (ps_emitter p) e \<Longrightarrow> process_step lo p (p\<lparr>ps_emitter := e\<rparr>)"
| failure: "alive p \<Longrightarrow> s \<notin> set (ps_closed p) \<Longrightarrow> startServer err = Some code \<Longrightarrow> process_step lo p (p\<lparr>ps_pc := Exited code\<rparr>)"

inductive_cases own_stepE: "own_step p p'"

abbreviation "reaches lo cfg p \<equiv> (process_step lo)\<^sup>*\<^sup>* (start_process cfg) p"

section \<open>What every reachable state satisfies\<close>

lemma emit_call_keeps:
  assumes "emit_call lo e e'"
  shows "be_done e' = be_done e" "be_loop e' = be_loop e" "be_flushed e' = be_flushed e" "\<exists>xs. be_accepted e' = be_accepted e @ xs"
    and "emitter_inv e \<Longrightarrow> emitter_inv e'"
proof -
  have s: "emitter_step lo e e'" using assms by (auto elim!: emit_call.cases intro: es_emit es_block)
  show "emitter_inv e \<Longrightarrow> emitter_inv e'" using emitter_inv_step [OF s] .
  show "be_done e' = be_done e" "be_loop e' = be_loop e" "be_flushed e' = be_flushed e" "\<exists>xs. be_accepted e' = be_accepted e @ xs"
    using assms by (auto elim!: emit_call.cases EmitBlocking.cases simp: Emit_def send_def drop_event_def Let_def split: if_splits)
qed

lemma flushBatchBackground_sel [simp]:
  "be_loop (flushBatchBackground ok b e) = be_loop e" "be_done (flushBatchBackground ok b e) = be_done e"
  "be_accepted (flushBatchBackground ok b e) = be_accepted e" "be_flushed (flushBatchBackground ok b e) = be_flushed e @ b"
  by (simp_all add: flushBatchBackground_def Let_def)

lemma loop_sel [simp]:
  "be_loop (loop_recv ok e) = be_loop e" "be_done (loop_recv ok e) = be_done e" "be_accepted (loop_recv ok e) = be_accepted e"
  "be_loop (loop_tick ok e) = be_loop e" "be_done (loop_tick ok e) = be_done e" "be_accepted (loop_tick ok e) = be_accepted e"
  "be_loop (loop_drain ok e) = Drained" "be_done (loop_drain ok e) = be_done e" "be_accepted (loop_drain ok e) = be_accepted e"
  by (simp_all add: loop_recv_def loop_tick_def loop_drain_def Let_def split: list.split)

lemma drain_flushes: "emitter_inv e \<Longrightarrow> be_flushed (loop_drain ok e) = be_accepted e"
  by (simp add: emitter_inv_def loop_drain_def Let_def)

lemma flush_step_keeps:
  assumes "flush_step e e'" and "emitter_inv e"
  shows "emitter_inv e'" "be_done e' = be_done e" "be_accepted e' = be_accepted e" "be_loop e = Running"
    and "be_loop e' = Running \<or> be_loop e' = Drained \<and> be_done e \<and> be_flushed e' = be_accepted e"
  using assms by (auto elim!: flush_step.cases intro: inv_intros drain_flushes)

fun closed_by :: "shut_pc \<Rightarrow> srv list" where
  "closed_by Serving = []"
| "closed_by ToDrain = []"
| "closed_by (ToShutdown SrvAPI) = []"
| "closed_by (WaitIdle SrvAPI) = [SrvAPI]"
| "closed_by (ToShutdown SrvHealth) = [SrvAPI]"
| "closed_by (WaitIdle SrvHealth) = [SrvHealth, SrvAPI]"
| "closed_by (ToShutdown SrvMetrics) = [SrvHealth, SrvAPI]"
| "closed_by pc = [SrvMetrics, SrvHealth, SrvAPI]"

fun idle_by :: "shut_pc \<Rightarrow> srv list" where
  "idle_by (WaitIdle s) = tl (closed_by (WaitIdle s))"
| "idle_by pc = closed_by pc"

definition audit_closed :: "shut_pc \<Rightarrow> bool" where
  "audit_closed pc \<longleftrightarrow> pc \<in> {Closing, StopIP, StopUser, Exited 0}"

definition pc_inv :: "process \<Rightarrow> bool" where
  "pc_inv p \<longleftrightarrow> ps_closed p = closed_by (ps_pc p) \<and> (ps_pc p \<noteq> Serving \<longrightarrow> ps_draining p) \<and>
     (\<not> ps_expired p \<longrightarrow> (\<forall>s\<in>set (idle_by (ps_pc p)). ps_active p s = 0)) \<and>
     (be_done (ps_emitter p) \<longleftrightarrow> audit_closed (ps_pc p)) \<and>
     (\<not> ps_expired p \<and> audit_closed (ps_pc p) \<and> ps_pc p \<noteq> Closing \<longrightarrow> be_loop (ps_emitter p) = Drained) \<and>
     (ps_pc p \<in> {StopUser, Exited 0} \<longrightarrow> ps_ipStopped p) \<and> (ps_pc p = Exited 0 \<longrightarrow> ps_userStopped p)"

definition audit_inv :: "process \<Rightarrow> bool" where
  "audit_inv p \<longleftrightarrow> emitter_inv (ps_emitter p) \<and> be_loop (ps_emitter p) \<noteq> NotStarted \<and>
     subseq (ps_requested p) (be_accepted (ps_emitter p)) \<and>
     (be_loop (ps_emitter p) = Drained \<longrightarrow> be_done (ps_emitter p)) \<and>
     (be_loop (ps_emitter p) = Drained \<and> \<not> ps_expired p \<longrightarrow> subseq (ps_requested p) (be_flushed (ps_emitter p)))"

definition shut_inv :: "process \<Rightarrow> bool" where
  "shut_inv p \<longleftrightarrow> audit_inv p \<and> (pc_inv p \<or> (\<exists>code. ps_pc p = Exited code \<and> code \<noteq> 0))"

lemma idle_closed: "set (idle_by pc) \<subseteq> set (closed_by pc)"
proof (cases pc)
  case (WaitIdle s)
  then show ?thesis by (cases s) auto
qed simp_all

lemma shut_inv_start: "shut_inv (start_process cfg)"
  using emitter_inv_new
  by (auto simp: shut_inv_def audit_inv_def pc_inv_def audit_closed_def start_process_def run_emitter_def Start_def emitter_inv_def NewBufferedEmitter_def)

lemma Close_emitter_sel [simp]:
  "emitter_inv (Close_emitter e) = emitter_inv e" "be_done (Close_emitter e)" "be_loop (Close_emitter e) = be_loop e"
  "be_accepted (Close_emitter e) = be_accepted e" "be_flushed (Close_emitter e) = be_flushed e"
  by (simp_all add: Close_emitter_def emitter_inv_def)

lemmas inv_defs = audit_inv_def pc_inv_def audit_closed_def

lemma main_step_inv:
  assumes "main_step p = Some p'" "audit_inv p" "pc_inv p"
  shows "audit_inv p' \<and> pc_inv p'"
proof (cases "ps_pc p")
  case Serving
  then have "p' = p\<lparr>ps_draining := True, ps_pc := ToDrain\<rparr>" using assms(1) by (simp add: main_step_def split: if_splits)
  with Serving assms show ?thesis by (simp add: inv_defs)
next
  case ToDrain
  obtain n effs t where "DrainAll (ps_tracker p) = (n, effs, t)" by (rule prod_cases3)
  with ToDrain have "p' = p\<lparr>ps_tracker := t, ps_cancelled := ps_cancelled p @ cancels effs, ps_pc := ToShutdown SrvAPI\<rparr>"
    using assms(1) by (simp add: main_step_def)
  with ToDrain assms show ?thesis by (simp add: inv_defs)
next
  case (ToShutdown s)
  then have "p' = p\<lparr>ps_closed := s # ps_closed p, ps_pc := WaitIdle s\<rparr>" using assms(1) by (simp add: main_step_def)
  with ToShutdown assms show ?thesis by (cases s) (simp_all add: inv_defs)
next
  case (WaitIdle s)
  then have p: "p' = p\<lparr>ps_pc := after_server s\<rparr>" "shutdownServer s p" using assms(1) by (simp_all add: main_step_def split: if_splits)
  with WaitIdle assms show ?thesis by (cases s) (auto simp: inv_defs shutdownServer_def)
next
  case ToClose
  then have "p' = p\<lparr>ps_emitter := Close_emitter (ps_emitter p), ps_pc := Closing\<rparr>" using assms(1) by (simp add: main_step_def)
  with ToClose assms show ?thesis by (auto simp: inv_defs)
next
  case Closing
  then have "p' = p\<lparr>ps_pc := StopIP\<rparr>" "be_loop (ps_emitter p) = Drained \<or> ps_expired p"
    using assms(1) by (simp_all add: main_step_def split: if_splits)
  with Closing assms show ?thesis by (auto simp: inv_defs)
next
  case StopIP
  then have "p' = p\<lparr>ps_ipStopped := True, ps_pc := StopUser\<rparr>" using assms(1) by (simp add: main_step_def)
  with StopIP assms show ?thesis by (simp add: inv_defs)
next
  case StopUser
  then have "p' = p\<lparr>ps_userStopped := True, ps_pc := Exited 0\<rparr>" using assms(1) by (simp add: main_step_def)
  with StopUser assms show ?thesis by (simp add: inv_defs)
next
  case (Exited n)
  with assms(1) show ?thesis by (simp add: main_step_def)
qed

lemma alive_pc_inv: "shut_inv p \<Longrightarrow> alive p \<Longrightarrow> pc_inv p"
  by (auto simp: shut_inv_def alive_def)

lemma flush_inv:
  assumes "audit_inv p" "pc_inv p" "flush_step (ps_emitter p) e"
  shows "audit_inv (p\<lparr>ps_emitter := e\<rparr>) \<and> pc_inv (p\<lparr>ps_emitter := e\<rparr>)"
proof -
  have i: "emitter_inv (ps_emitter p)" using assms(1) by (simp add: audit_inv_def)
  note k = flush_step_keeps [OF assms(3) i]
  have a: "audit_inv (p\<lparr>ps_emitter := e\<rparr>)" using assms(1) k by (auto simp: audit_inv_def)
  have "pc_inv (p\<lparr>ps_emitter := e\<rparr>)" using assms(2) k(2,4) by (auto simp: pc_inv_def)
  with a show ?thesis ..
qed

text \<open>While requests are active and the timeout has not expired, the audit trail has not been closed.\<close>

lemma active_not_done: "pc_inv p \<Longrightarrow> ps_active p SrvAPI \<noteq> 0 \<Longrightarrow> \<not> ps_expired p \<Longrightarrow> \<not> be_done (ps_emitter p)"
  by (auto simp: pc_inv_def audit_closed_def)

lemma emit_inv:
  assumes "audit_inv p" "pc_inv p" "emit_call lo (ps_emitter p) e"
    and "r = ps_requested p \<or> ps_active p SrvAPI \<noteq> 0 \<and> r = ps_requested p @ drop (length (be_accepted (ps_emitter p))) (be_accepted e)"
  shows "audit_inv (p\<lparr>ps_emitter := e, ps_requested := r\<rparr>) \<and> pc_inv (p\<lparr>ps_emitter := e, ps_requested := r\<rparr>)"
proof -
  note k = emit_call_keeps [OF assms(3)]
  obtain xs where xs: "be_accepted e = be_accepted (ps_emitter p) @ xs" using k(4) by blast
  have "subseq r (be_accepted e)" using assms(1,4) xs by (auto simp: audit_inv_def intro: list_emb_append_mono subseq_rev_drop_many)
  moreover have "be_loop e = Drained \<and> \<not> ps_expired p \<longrightarrow> subseq r (be_flushed e)"
    using assms(1,4) active_not_done [OF assms(2)] k(2,3) by (auto simp: audit_inv_def)
  ultimately have "audit_inv (p\<lparr>ps_emitter := e, ps_requested := r\<rparr>)" using assms(1) k by (simp add: audit_inv_def)
  moreover have "pc_inv (p\<lparr>ps_emitter := e, ps_requested := r\<rparr>)" using assms(2) k(1,2) by (simp add: pc_inv_def)
  ultimately show ?thesis ..
qed

lemma own_step_inv:
  assumes "own_step p p'" "shut_inv p"
  shows "shut_inv p'"
  using assms(1)
proof cases
  case main
  have "pc_inv p" using main assms(2) by (auto simp: shut_inv_def main_step_def)
  with main_step_inv [OF main _ this] assms(2) show ?thesis by (simp add: shut_inv_def)
next
  case expire
  with alive_pc_inv [OF assms(2)] assms(2) show ?thesis by (auto simp: shut_inv_def inv_defs)
next
  case (flush e)
  with flush_inv [OF _ alive_pc_inv [OF assms(2)] flush(3)] assms(2) show ?thesis by (simp add: shut_inv_def)
qed

lemma active_inv: "pc_inv p \<Longrightarrow> (\<And>s. s \<in> set (idle_by (ps_pc p)) \<Longrightarrow> ps_active p s = 0 \<Longrightarrow> a s = 0) \<Longrightarrow> pc_inv (p\<lparr>ps_active := a\<rparr>)"
  by (simp add: pc_inv_def)

lemma process_step_inv:
  assumes "process_step lo p p'" "shut_inv p"
  shows "shut_inv p'"
  using assms(1)
proof cases
  case own
  then show ?thesis using own_step_inv assms(2) by blast
next
  case (accept s)
  have "s \<notin> set (idle_by (ps_pc p))" using accept alive_pc_inv [OF assms(2)] idle_closed by (auto simp: pc_inv_def)
  then have "pc_inv p'" unfolding accept(1) by (intro active_inv alive_pc_inv assms(2) accept(2)) auto
  with accept(1) assms(2) show ?thesis by (simp add: shut_inv_def audit_inv_def)
next
  case (finish s n)
  have "pc_inv p'" unfolding finish(1) by (intro active_inv alive_pc_inv assms(2) finish(2)) (use finish(3) in auto)
  with finish(1) assms(2) show ?thesis by (simp add: shut_inv_def audit_inv_def)
next
  case (request e)
  with emit_inv [OF _ alive_pc_inv [OF assms(2)] request(4)] assms(2) show ?thesis by (auto simp: shut_inv_def)
next
  case (background e)
  have "p\<lparr>ps_emitter := e, ps_requested := ps_requested p\<rparr> = p\<lparr>ps_emitter := e\<rparr>" by simp
  with background emit_inv [OF _ alive_pc_inv [OF assms(2)] background(3), of "ps_requested p"] assms(2) show ?thesis by (auto simp: shut_inv_def)
next
  case (failure s err code)
  then have "code \<noteq> 0" by (cases err rule: startServer.cases) auto
  with failure assms(2) show ?thesis by (auto simp: shut_inv_def audit_inv_def)
qed (use alive_pc_inv [OF assms(2)] assms(2) in \<open>auto simp: shut_inv_def audit_inv_def pc_inv_def\<close>)

lemma reaches_inv: "reaches lo cfg p \<Longrightarrow> shut_inv p"
  by (induction rule: rtranclp_induct) (auto intro: shut_inv_start process_step_inv)

section \<open>Progress\<close>

text \<open>Steps the main goroutine still has to take.\<close>

fun stage :: "shut_pc \<Rightarrow> nat" where
  "stage Serving = 12"
| "stage ToDrain = 11"
| "stage (ToShutdown SrvAPI) = 10"
| "stage (WaitIdle SrvAPI) = 9"
| "stage (ToShutdown SrvHealth) = 8"
| "stage (WaitIdle SrvHealth) = 7"
| "stage (ToShutdown SrvMetrics) = 6"
| "stage (WaitIdle SrvMetrics) = 5"
| "stage ToClose = 4"
| "stage Closing = 3"
| "stage StopIP = 2"
| "stage StopUser = 1"
| "stage (Exited n) = 0"

lemma main_step_stage:
  assumes "main_step p = Some p'"
  shows "stage (ps_pc p) = Suc (stage (ps_pc p'))" "ps_expired p' = ps_expired p" "ps_signalled p' = ps_signalled p"
    and "ps_draining p \<or> ps_pc p = Serving \<Longrightarrow> ps_draining p'" "ps_pc p' = Exited n \<Longrightarrow> n = 0"
proof -
  have "stage (ps_pc p) = Suc (stage (ps_pc p')) \<and> ps_expired p' = ps_expired p \<and> ps_signalled p' = ps_signalled p \<and>
      (ps_draining p \<or> ps_pc p = Serving \<longrightarrow> ps_draining p') \<and> (ps_pc p' = Exited n \<longrightarrow> n = 0)"
  proof (cases "ps_pc p")
    case (ToShutdown s)
    with assms show ?thesis by (cases s) (auto simp: main_step_def)
  next
    case (WaitIdle s)
    with assms show ?thesis by (cases s) (auto simp: main_step_def split: if_splits)
  qed (use assms in \<open>auto simp: main_step_def split: if_splits prod.splits\<close>)
  then show "stage (ps_pc p) = Suc (stage (ps_pc p'))" "ps_expired p' = ps_expired p" "ps_signalled p' = ps_signalled p"
    and "ps_draining p \<or> ps_pc p = Serving \<Longrightarrow> ps_draining p'" "ps_pc p' = Exited n \<Longrightarrow> n = 0" by auto
qed

lemma main_step_enabled:
  assumes "alive p" "ps_pc p = Serving \<and> ps_signalled p \<or> ps_pc p \<noteq> Serving \<and> ps_expired p"
  shows "\<exists>p'. main_step p = Some p'"
  using assms by (cases "ps_pc p") (auto simp: main_step_def alive_def shutdownServer_def split: prod.split)

text \<open>Once the timeout has expired the main goroutine runs to the exit without waiting for anything.\<close>

lemma expired_exits:
  assumes "stage (ps_pc p) = n" "ps_pc p \<noteq> Serving" "ps_expired p" "alive p \<or> ps_pc p = Exited 0"
  shows "\<exists>p'. own_step\<^sup>*\<^sup>* p p' \<and> ps_pc p' = Exited 0"
  using assms
proof (induction n arbitrary: p)
  case 0
  then have "ps_pc p = Exited 0" by (cases "ps_pc p" rule: stage.cases) (auto simp: alive_def)
  then show ?case by blast
next
  case (Suc n)
  then have "alive p" by (auto simp: alive_def)
  then obtain q where q: "main_step p = Some q" using main_step_enabled Suc.prems by blast
  note s = main_step_stage [OF q]
  have "ps_pc q \<noteq> Serving" using s(1) Suc.prems(2) by (cases "ps_pc p" rule: stage.cases) auto
  moreover have "alive q \<or> ps_pc q = Exited 0" using s(5) by (auto simp: alive_def)
  ultimately obtain r where "own_step\<^sup>*\<^sup>* q r" "ps_pc r = Exited 0" using Suc.IH [of q] Suc.prems(1,3) s(1,2) by auto
  then show ?case using own_step.main [OF q] by (meson converse_rtranclp_into_rtranclp)
qed

lemma draining_exits:
  assumes "alive p" "ps_draining p" "ps_pc p \<noteq> Serving"
  shows "\<exists>p'. own_step\<^sup>*\<^sup>* p p' \<and> ps_pc p' = Exited 0"
proof -
  have "own_step p (p\<lparr>ps_expired := True\<rparr>)" using assms(1,2) by (rule own_step.expire)
  moreover obtain p' where "own_step\<^sup>*\<^sup>* (p\<lparr>ps_expired := True\<rparr>) p'" "ps_pc p' = Exited 0"
    using expired_exits [OF refl, of "p\<lparr>ps_expired := True\<rparr>"] assms by (auto simp: alive_def)
  ultimately show ?thesis by (meson converse_rtranclp_into_rtranclp)
qed

lemma process_step_stage:
  assumes "process_step lo p p'"
  shows "stage (ps_pc p') \<le> stage (ps_pc p)"
  using assms
proof cases
  case own
  then show ?thesis by cases (auto dest: main_step_stage(1))
qed auto

section \<open>The orderly end\<close>

text \<open>
  C12: a process that exits with code 0 has announced that it drains, closed all three listeners, closed
  the audit trail and stopped both limiters; and when the shutdown timeout did not expire, every request
  was finished and every audit event accepted from a request was handed to the writer, in order,
  whatever requests, background goroutines, signals and the flush loop did meanwhile.
\<close>
theorem shutdown_hands_over:
  assumes "reaches lo cfg p" "ps_pc p = Exited 0"
  shows "ps_draining p \<and> set (ps_closed p) = UNIV \<and> ps_ipStopped p \<and> ps_userStopped p \<and> be_done (ps_emitter p) \<and>
    (\<not> ps_expired p \<longrightarrow> (\<forall>s. ps_active p s = 0) \<and> subseq (ps_requested p) (be_flushed (ps_emitter p)))"
proof -
  have u: "UNIV = {SrvMetrics, SrvHealth, SrvAPI}" by (auto intro: srv.exhaust)
  have s: "(\<forall>s. P s) \<longleftrightarrow> P SrvMetrics \<and> P SrvHealth \<and> P SrvAPI" for P by (metis srv.exhaust)
  have "audit_inv p" "pc_inv p" using reaches_inv [OF assms(1)] assms(2) by (auto simp: shut_inv_def)
  then show ?thesis using assms(2) by (auto simp: inv_defs u s)
qed


section \<open>Runs\<close>

fun main_iter :: "nat \<Rightarrow> process \<Rightarrow> process" where
  "main_iter 0 p = p"
| "main_iter (Suc n) p = (case main_step p of None \<Rightarrow> p | Some q \<Rightarrow> main_iter n q)"

lemma main_iter_steps: "(process_step lo)\<^sup>*\<^sup>* p (main_iter n p)"
proof (induction n p rule: main_iter.induct)
  case (2 n p)
  show ?case
  proof (cases "main_step p")
    case (Some q)
    have "process_step lo p q" using Some by (intro process_step.own own_step.main)
    with 2 [OF Some] Some show ?thesis by (simp add: converse_rtranclp_into_rtranclp)
  qed simp
qed simp

lemma main_iter_reaches: "reaches lo cfg p \<Longrightarrow> reaches lo cfg (main_iter n p)"
  by (rule rtranclp_trans [OF _ main_iter_steps])

lemma reaches_step: "reaches lo cfg p \<Longrightarrow> process_step lo p p' \<Longrightarrow> reaches lo cfg p'"
  by (rule rtranclp.rtrancl_into_rtrancl)

abbreviation "plain_start \<equiv> start_process (cfg_DefaultConfig ())"

lemma plain_start_drain: "DrainAll (ps_tracker plain_start) = (0, [], ps_tracker plain_start)"
  by (simp add: start_process_def buildSSETracker_def NewConnectionTracker_def DrainAll_def set_gauge_def Let_def)

lemma idle_to_closing:
  assumes "ps_pc p = Serving" "ps_signalled p" "\<And>s. ps_active p s = 0" "ps_closed p = []" "DrainAll (ps_tracker p) = (n, effs, t)"
  shows "main_iter 9 p = p\<lparr>ps_draining := True, ps_tracker := t, ps_cancelled := ps_cancelled p @ cancels effs,
    ps_closed := [SrvMetrics, SrvHealth, SrvAPI], ps_emitter := Close_emitter (ps_emitter p), ps_pc := Closing\<rparr>"
  using assms by (simp add: eval_nat_numeral main_step_def shutdownServer_def)

lemma closing_to_exit:
  assumes "ps_pc p = Closing" "be_loop (ps_emitter p) = Drained"
  shows "main_iter 3 p = p\<lparr>ps_ipStopped := True, ps_userStopped := True, ps_pc := Exited 0\<rparr>"
  using assms by (simp add: eval_nat_numeral main_step_def)

text \<open>One request that is audited, the signal, and the shutdown.\<close>

definition served :: process where
  "served = (let e = Emit id 5 [] sample_event run_emitter in
     plain_start\<lparr>ps_emitter := e, ps_requested := be_accepted e, ps_signalled := True\<rparr>)"

definition closing :: process where
  "closing = (let p = main_iter 9 served in p\<lparr>ps_emitter := loop_drain True (ps_emitter p)\<rparr>)"

lemma served_reaches: "reaches id (cfg_DefaultConfig ()) served"
proof -
  let ?p1 = "plain_start\<lparr>ps_active := (ps_active plain_start)(SrvAPI := Suc (ps_active plain_start SrvAPI))\<rparr>"
  let ?e = "Emit id 5 [] sample_event (ps_emitter ?p1)"
  let ?p2 = "?p1\<lparr>ps_emitter := ?e, ps_requested := ps_requested ?p1 @ drop (length (be_accepted (ps_emitter ?p1))) (be_accepted ?e)\<rparr>"
  let ?p3 = "?p2\<lparr>ps_active := (ps_active ?p2)(SrvAPI := 0)\<rparr>"
  have a: "alive plain_start" "alive ?p1" "alive ?p2" "alive ?p3" by (simp_all add: alive_def start_process_def)
  have "reaches id (cfg_DefaultConfig ()) ?p1"
    by (rule reaches_step [OF rtranclp.rtrancl_refl process_step.accept [OF a(1)]]) (simp add: start_process_def)
  then have "reaches id (cfg_DefaultConfig ()) ?p2"
    by (rule reaches_step [OF _ process_step.request [OF a(2) _ ec_emit]]) simp
  then have "reaches id (cfg_DefaultConfig ()) ?p3"
    by (rule reaches_step [OF _ process_step.finish [OF a(3)]]) (simp add: start_process_def)
  then have "reaches id (cfg_DefaultConfig ()) (?p3\<lparr>ps_signalled := True\<rparr>)"
    by (rule reaches_step [OF _ process_step.signal [OF a(4)]])
  moreover have "?p3\<lparr>ps_signalled := True\<rparr> = served"
    by (simp add: served_def start_process_def run_emitter_def Start_def NewBufferedEmitter_def fun_upd_idem Let_def)
  ultimately show ?thesis by simp
qed

lemma served_sel: "ps_pc served = Serving" "ps_signalled served" "ps_active served s = 0" "ps_closed served = []"
  "DrainAll (ps_tracker served) = (0, [], ps_tracker served)" "ps_expired served = False"
  "be_loop (ps_emitter served) = Running" "ps_requested served = be_accepted (ps_emitter served)"
  "be_accepted (ps_emitter served) = [prepare id 5 [] sample_event]"
  using plain_start_drain
  by (simp_all add: served_def start_process_def run_emitter_def Start_def NewBufferedEmitter_def Emit_def send_def has_room_def Let_def)

lemmas served_closing = idle_to_closing [OF served_sel(1-5)]

lemma closing_sel: "ps_pc closing = Closing" "be_loop (ps_emitter closing) = Drained" "\<not> ps_expired closing"
  "ps_requested closing = [prepare id 5 [] sample_event]" "be_cap (ps_emitter closing) = 4096" "be_buffer (ps_emitter closing) = []"
  by (simp_all add: closing_def served_closing served_sel Let_def)
    (simp_all add: served_def run_emitter_def Start_def NewBufferedEmitter_def emitter_ops has_room_def Let_def)

lemma closing_reaches: "reaches id (cfg_DefaultConfig ()) closing"
proof -
  let ?p = "main_iter 9 served"
  have r: "reaches id (cfg_DefaultConfig ()) ?p" using served_reaches by (rule main_iter_reaches)
  have f: "flush_step (ps_emitter ?p) (loop_drain True (ps_emitter ?p))"
    by (rule fs_drain) (simp_all add: served_closing served_sel)
  have "alive ?p" by (simp add: alive_def served_closing)
  then show ?thesis unfolding closing_def Let_def by (rule reaches_step [OF r process_step.own [OF own_step.flush [OF _ f]]])
qed

theorem shutdown_hands_over_witness:
  "ps_pc (main_iter 3 closing) = Exited 0 \<and> \<not> ps_expired (main_iter 3 closing) \<and>
   subseq [prepare id 5 [] sample_event] (be_flushed (ps_emitter (main_iter 3 closing)))"
proof -
  note e = closing_to_exit [OF closing_sel(1,2)]
  have "ps_pc (main_iter 3 closing) = Exited 0" by (simp add: e)
  from shutdown_hands_over [OF main_iter_reaches [OF closing_reaches] this] show ?thesis by (simp add: e closing_sel)
qed


section \<open>What misses the orderly end\<close>

text \<open>
  The session controller and the watchers are stopped only when \<open>run\<close> returns: an event they emit after
  the audit trail was drained is accepted and counted, and never written, in a shutdown without errors.
\<close>

lemma background_event_lost:
  "\<exists>p. reaches id (cfg_DefaultConfig ()) p \<and> ps_pc p = Exited 0 \<and> \<not> ps_expired p \<and> be_buffer (ps_emitter p) \<noteq> []"
proof -
  let ?q = "closing\<lparr>ps_emitter := Emit id 7 [] sample_event (ps_emitter closing)\<rparr>"
  have "alive closing" by (simp add: alive_def closing_sel)
  then have r: "reaches id (cfg_DefaultConfig ()) ?q" by (rule reaches_step [OF closing_reaches process_step.background [OF _ ec_emit]])
  have l: "be_loop (ps_emitter ?q) = Drained" "be_buffer (ps_emitter ?q) \<noteq> []"
    by (simp_all add: Emit_def send_def has_room_def closing_sel Let_def)
  have "main_iter 3 ?q = ?q\<lparr>ps_ipStopped := True, ps_userStopped := True, ps_pc := Exited 0\<rparr>"
    by (rule closing_to_exit) (simp_all add: closing_sel l(1) [simplified])
  with main_iter_reaches [OF r, of 3] l(2) closing_sel(3) show ?thesis by (intro exI [of _ "main_iter 3 ?q"]) simp
qed

text \<open>A listener that fails ends the process at once, with the audit events still in the buffer.\<close>

lemma failure_skips_flush:
  "\<exists>p. reaches id (cfg_DefaultConfig ()) p \<and> ps_pc p = Exited 1 \<and> be_flushed (ps_emitter p) = [] \<and> be_buffer (ps_emitter p) \<noteq> []"
proof -
  have "alive served" by (simp add: alive_def served_sel)
  then have "reaches id (cfg_DefaultConfig ()) (served\<lparr>ps_pc := Exited 1\<rparr>)"
    by (rule reaches_step [OF served_reaches process_step.failure [where err = "Some (ServeError ErrNotFound)"]])
      (simp_all add: served_sel)
  moreover have "be_flushed (ps_emitter served) = []" "be_buffer (ps_emitter served) \<noteq> []"
    by (simp_all add: served_def run_emitter_def Start_def NewBufferedEmitter_def Emit_def send_def has_room_def Let_def)
  ultimately show ?thesis by (intro exI [of _ "served\<lparr>ps_pc := Exited 1\<rparr>"]) simp
qed

text \<open>
  The listener stays open while \<open>DrainAll\<close> waits, and only readiness depends on the draining flag: a
  stream opened then is cancelled by nobody, and the main goroutine waits for it until the timeout.
\<close>

lemma late_stream_blocks:
  "\<exists>p. reaches id (cfg_DefaultConfig ()) p \<and> ps_pc p = WaitIdle SrvAPI \<and> main_step p = None \<and>
     tk_conns (ps_tracker p) \<noteq> [] \<and> ps_cancelled p = []"
proof -
  let ?p = "main_iter 2 served"
  have p: "?p = served\<lparr>ps_draining := True, ps_cancelled := ps_cancelled served, ps_pc := ToShutdown SrvAPI\<rparr>"
    by (simp add: eval_nat_numeral main_step_def served_sel)
  let ?a = "?p\<lparr>ps_active := (ps_active ?p)(SrvAPI := Suc (ps_active ?p SrvAPI))\<rparr>"
  let ?c = "\<lparr>tc_ID = ''late'', tc_ref = 9, tc_flusher = True\<rparr>"
  let ?s = "?a\<lparr>ps_tracker := snd (tracker_Add ?c (ps_tracker ?a))\<rparr>"
  have al: "alive ?p" "alive ?a" by (simp_all add: alive_def p)
  have "reaches id (cfg_DefaultConfig ()) ?p" using served_reaches by (rule main_iter_reaches)
  then have "reaches id (cfg_DefaultConfig ()) ?a"
    by (rule reaches_step [OF _ process_step.accept [OF al(1)]]) (simp add: p served_sel)
  then have "reaches id (cfg_DefaultConfig ()) ?s" by (rule reaches_step [OF _ process_step.stream [OF al(2)]]) simp
  then have "reaches id (cfg_DefaultConfig ()) (main_iter 1 ?s)" by (rule main_iter_reaches)
  moreover have m: "main_iter 1 ?s = ?s\<lparr>ps_closed := [SrvAPI], ps_pc := WaitIdle SrvAPI\<rparr>" by (simp add: p main_step_def served_sel)
  moreover have "main_step (main_iter 1 ?s) = None" unfolding m by (simp add: main_step_def shutdownServer_def p served_sel)
  moreover have "ps_tracker served = ps_tracker plain_start" "ps_cancelled served = []" by (simp_all add: served_def start_process_def Let_def)
  moreover from this have "tk_conns (ps_tracker ?s) \<noteq> []"
    by (simp add: p start_process_def buildSSETracker_def NewConnectionTracker_def tracker_Add_def set_gauge_def Let_def)
  ultimately show ?thesis by (intro exI [of _ "main_iter 1 ?s"]) (simp add: p)
qed

end
