(* ===== verification/Spec2Isabelle.thy ===== *)
theory Spec2Isabelle
  imports SessionTTL SessionDecorator Backends Shutdown
begin

text \<open>
  A verification library for the Kubernaut API Frontend (\<open>src/\<close>, a Go server between chat and tool
  clients and the Kubernaut remediation services).

  \<^bold>\<open>The program.\<close> \<open>cmd/apifrontend/main.go\<close> loads and validates a configuration, builds the clients of the
  other services and the handlers, and serves them. A request passes the request-id middleware, the
  per-address rate limiter, the bearer-token middleware and the per-user rate limiter, and reaches one
  of two handlers: the MCP bridge, which checks the caller's roles, limits and runs one of 19 tools, or
  the A2A endpoint, where an agent runs the same tools behind a role guard of its own. Tools read the
  cluster through clients that impersonate the user, manage remediation requests, and call the analysis
  service and the data store through a chain of circuit breaker, retries and token delegation. An agent
  conversation is a session: an \<open>InvestigationSession\<close> resource with a phase, kept by the session
  service, created through a decorator that adds the authenticated user, and cleaned up by a TTL
  controller. A signal without a severity goes through the triage pipeline, which asks Prometheus and a
  language model. Everything security relevant is written to an audit trail, which ends in the data
  store. Configuration, certificates and trust roots are reloaded when their files change.

  \<^bold>\<open>Theories and sources\<close> (paths below \<open>src/internal\<close> unless they start with \<open>cmd\<close> or \<open>api\<close>).
  \<^item> \<open>Prelude\<close>: Go errors, 64-bit durations, floating-point values, association lists. \<open>GoStrings\<close>,
    \<open>GoRegexp\<close>, \<open>GoPath\<close>, \<open>GoJson\<close>, \<open>JsonDecode\<close>: what the code uses of the standard library. Strings are
    bytes with UTF-8 decoding; JSON is written and read as \<open>encoding/json\<close> does it, with the lemma that
    what is written is read back.
  \<^item> \<open>Security\<close>: \<open>security/\<close>, \<open>validate/k8s.go\<close>. \<open>HttpUtil\<close>: \<open>httputil/\<close>, \<open>requestid/\<close>, the request context.
  \<^item> \<open>AuditTrail\<close>: \<open>audit/\<close>; the buffered emitter is a step relation whose steps are the calls of clients
    and the iterations of the flush loop.
  \<^item> \<open>SessionPhase\<close>, \<open>SessionEvents\<close>, \<open>SessionService\<close>, \<open>SessionLifecycle\<close>, \<open>SessionDecorator\<close>:
    \<open>api/apifrontend/v1alpha1\<close> and \<open>session/\<close>. The state of the service is the record
    \<open>CRDSessionService\<close> (its index of sessions); the cluster, the delegate store, the audit trail and
    the gauges are the record \<open>world\<close>. Every method takes and returns both. \<open>SessionTTL\<close>:
    \<open>controller/ttl.go\<close>.
  \<^item> \<open>AuthClaims\<close>, \<open>AuthJWT\<close>, \<open>AuthMiddleware\<close>: \<open>auth/\<close>; \<open>Breaker\<close> is the interface of the circuit
    breaker library. \<open>RateLimit\<close>: \<open>ratelimit/\<close>, with the compare-and-swap loops of the semaphore as
    interleaved steps. \<open>Resilience\<close>: \<open>resilience/\<close> and \<open>buildResilientTransport\<close>.
  \<^item> \<open>AppConfig\<close>, \<open>HotReload\<close>: \<open>config/\<close>; the watcher is a function of the notifications, timer ticks and
    cancellations its loop receives. \<open>TlsWiring\<close>: \<open>tlswiring/\<close>.
  \<^item> \<open>Streaming\<close>: \<open>streaming/\<close>. \<open>HttpRouter\<close>, \<open>McpBridge\<close>: \<open>handler/\<close>; a middleware transforms handlers on a
    connection with the state behind it.
  \<^item> \<open>Severity\<close>, \<open>Triage\<close>: \<open>severity/\<close>, \<open>prometheus/types.go\<close>, \<open>rules.go\<close>. \<open>PromClient\<close>: \<open>prometheus/client.go\<close>.
  \<^item> \<open>ToolsBase\<close>, \<open>CrdTools\<close>, \<open>ClusterTools\<close>, \<open>ServiceTools\<close>: \<open>tools/\<close>: the helpers, the tools on remediation
    resources, those that read the cluster, and those over the two services. \<open>KaClient\<close>: \<open>ka/\<close>;
    \<open>DsClient\<close>: \<open>ds/\<close>.
  \<^item> \<open>AgentRoot\<close>: \<open>agent/\<close>. \<open>Launcher\<close>: \<open>launcher/\<close>.
  \<^item> \<open>Wiring\<close>, \<open>Backends\<close>, \<open>Shutdown\<close>: \<open>cmd/apifrontend/main.go\<close>: start-up; the backends, the session
    infrastructure and the A2A stack; and the end of the process, where the main goroutine is a function
    interleaved with requests, background goroutines, the flush loop, signals and the timeout.

  \<^bold>\<open>How code becomes definitions.\<close> A struct is a record, a method a definition with the state passed
  and returned, an error a value of \<open>goerr\<close> (format and arguments, not rendered), a panic the error
  \<open>Panicked\<close>, a nil pointer or interface \<open>None\<close>, a map that is ranged over an association list with
  distinct keys in an arbitrary order. Times and durations are integers in nanoseconds with wrap-around
  and saturation written out. Log lines are left out. Code outside the repository (the Kubernetes
  client, the delegate store, the token bucket, the circuit breaker, JWS and CEL, the PromQL parser, the
  language model, the MCP and agent libraries, the generated data-store client, PEM and YAML parsing) is
  a parameter; what the code relies on is a named predicate (\<open>retry_law\<close>, \<open>keeps_identity\<close>,
  \<open>delete_removes\<close>, \<open>breaker_law\<close>, \<open>payload_law\<close>, \<open>counts_calls\<close>, \<open>keeps_calls\<close>, \<open>counts_prometheus\<close>,
  \<open>rr_store_law\<close>, \<open>logs_gets\<close>, \<open>poll_meters\<close>) with a concrete instance that satisfies it.

  \<^bold>\<open>Interfaces.\<close> Locales state what a client relies on and are interpreted on the model:
  \<open>phase_machine\<close> (transition table), \<open>session_store\<close> (the session service, plain and decorated),
  \<open>replay_guard\<close> (replay cache), \<open>header_transport\<close> (request-id, delegation and token-file transports),
  \<open>keyed_limiter\<close> (address, request, tool and fetch limiters), \<open>slot_pool\<close> (semaphore, session slots),
  \<open>llm_triager\<close> (both classifiers), \<open>reload_contract\<close> (the configuration watcher), \<open>gate\<close> (the middlewares
  before and after authentication, authentication in each of its modes), \<open>role_policy\<close> (the role checks
  of the MCP bridge and of the agent).

  \<^bold>\<open>What is shown.\<close>
  \<^item> Authentication: identities come only from verified tokens or a TokenReview, tokens are accepted once
    while their record lives, requests without a valid token reach no protected handler, cluster
    clients always impersonate, and a server that starts without insecure settings serves TLS 1.2 or
    later and authenticates.
  \<^item> Authorisation: a tool runs through the bridge or the agent only for a caller whose roles name it;
    the agent's guard is equivalent to its filter; the embedded roles give the changing tools to the
    groups meant for them only.
  \<^item> Sessions: phases follow the table and end, creation rolls back, retention never falls below the
    30 day minimum, label values are valid, the A2A endpoint creates sessions in the user's name only.
  \<^item> Remediation requests: creation keeps at most one live request per target, a finished one is not
    cancelled, a watch ends exactly at a terminal phase, closure or cancellation.
  \<^item> Limits and concurrency: clients do not influence each other; the semaphore is linearizable, a
    refinement of its sequential specification under every interleaving; streams are bounded; the
    shutdown ends, and without a timeout every audit event of a request has been handed over.
  \<^item> Bounds and termination: retries, requests per call, polls, owner chains, triage queries and the size
    of tool results are bounded, and the loops end.
  \<^item> Configuration: validation accepts exactly the specified configurations; what is active after any
    sequence of reloads was accepted; trust roots follow the last readable file.
  \<^item> Data: event streams and session states are read back as written, audit events are neither lost nor
    reordered nor altered on the way to the data store, error texts and prompts hide what they must.

  Several lemmas record places where the code does something else than its comments say.

  \<^bold>\<open>Bounds and fuel.\<close> No definition of the code uses fuel: loops are recursions on the attempts, rules,
  inputs or text left, or have a measure (\<open>owner_loop\<close>: the depth left of ten; \<open>poll_loop\<close>: the polls left;
  \<open>trim_loop\<close>: the length; \<open>jrun\<close>: the text left). Loops that wait for input take the list of inputs, and
  \<open>watch_loop\<close> gives \<open>None\<close> when it is used up, so that waiting and returning differ. Retries of
  \<open>RetryOnConflict\<close> are a parameter constrained by \<open>retry_law\<close>.

  \<^bold>\<open>Not modelled.\<close> Logger and metric registration (\<open>logging/\<close>, \<open>metrics/\<close>), generated code and scheme
  registration in \<open>api/\<close>, test doubles, the route of test builds that panics (\<open>handler/debug_e2e.go\<close>), and
  of \<open>main.go\<close> the settings of the listeners and the lazily created in-cluster client: they call libraries
  and decide nothing the model could state. The MCP protocol, the agent's
  conversation loop and the JSON-RPC transport are library code.
\<close>

end
